(* ===== verification/Prelude.thy ===== *)
theory Prelude
  imports Complex_Main "HOL-Library.AList"
begin

text \<open>
  Shared foundation of the development. It holds the exceptions of the modelled Python
  scripts, the pure result type and the state-and-exception monad in which a raise keeps
  every effect made before it, insertion-ordered dictionaries, JSON values with Python's
  truth value, equality and access operations, and the list and string helpers the
  components share. The collections \<open>prog_simps\<close> and \<open>res_simps\<close> unfold the two monads.
\<close>

named_theorems prog_simps "unfolding of the state-and-exception monad"
named_theorems ok_simps "when a program returns normally, and with what"
named_theorems res_simps "unfolding of the result type"

section \<open>Exceptions and results\<close>

datatype exc =
    RuntimeErr string
  | ValueErr string
  | KeyErr string
  | TypeErr string
  | AttributeErr string
  | IndexErr string
  | OSErr string
  | FileExistsErr string
  | SqliteErr string
  | TimeoutErr string
  | StopErr string
  | CalledErr string
  | AssertErr string
  | ExitErr string
  | ZeroDivErr

type_synonym 'a res = "exc + 'a"

definition rbind :: "'a res \<Rightarrow> ('a \<Rightarrow> 'b res) \<Rightarrow> 'b res" where
  "rbind m f = (case m of Inl e \<Rightarrow> Inl e | Inr x \<Rightarrow> f x)"

definition rcheck :: "bool \<Rightarrow> exc \<Rightarrow> unit res" where
  "rcheck b e = (if b then Inr () else Inl e)"

fun rmap :: "('a \<Rightarrow> 'b res) \<Rightarrow> 'a list \<Rightarrow> 'b list res" where
  "rmap f [] = Inr []"
| "rmap f (x # xs) = rbind (f x) (\<lambda>y. rbind (rmap f xs) (\<lambda>ys. Inr (y # ys)))"

fun rfold :: "('a \<Rightarrow> 'b \<Rightarrow> 'b res) \<Rightarrow> 'a list \<Rightarrow> 'b \<Rightarrow> 'b res" where
  "rfold f [] b = Inr b"
| "rfold f (x # xs) b = rbind (f x b) (rfold f xs)"

definition is_ok :: "'a res \<Rightarrow> bool" where
  "is_ok r = (case r of Inl _ \<Rightarrow> False | Inr _ \<Rightarrow> True)"

lemma is_ok_simps [simp]: "is_ok (Inr x)" "\<not> is_ok (Inl e)"
  by (simp_all add: is_ok_def)

lemma rbind_simps [simp, res_simps]:
  "rbind (Inl e) f = Inl e" "rbind (Inr x) f = f x"
  by (simp_all add: rbind_def)

lemma rcheck_simps [simp, res_simps]:
  "rcheck True e = Inr ()" "rcheck False e = Inl e"
  by (simp_all add: rcheck_def)

lemma rbind_Inr_iff: "rbind m f = Inr y \<longleftrightarrow> (\<exists>x. m = Inr x \<and> f x = Inr y)"
  by (cases m) auto

lemma rbind_InrE [elim!]:
  assumes "rbind m f = Inr y"
  obtains x where "m = Inr x" "f x = Inr y"
  using assms by (auto simp: rbind_Inr_iff)

lemma rcheck_Inr_iff [simp]: "rcheck b e = Inr u \<longleftrightarrow> b"
  by (cases b) auto

lemma rcheck_Inl_iff: "rcheck b e = Inl e' \<longleftrightarrow> \<not> b \<and> e' = e"
  by (cases b) auto

lemma rmap_Inr_length: "rmap f xs = Inr ys \<Longrightarrow> length ys = length xs"
  by (induction xs arbitrary: ys) auto

lemma rmap_Inr_iff: "rmap f xs = Inr ys \<longleftrightarrow> list_all2 (\<lambda>x y. f x = Inr y) xs ys"
  by (induction xs arbitrary: ys) (auto simp: list_all2_Cons1 rbind_Inr_iff)

lemma rmap_total: "(\<And>x. x \<in> set xs \<Longrightarrow> \<exists>y. f x = Inr y) \<Longrightarrow> \<exists>ys. rmap f xs = Inr ys"
  by (induction xs) (simp, fastforce)

lemma rmap_Inr_mem: "rmap f xs = Inr ys \<Longrightarrow> x \<in> set xs \<Longrightarrow> \<exists>y \<in> set ys. f x = Inr y"
  by (induction xs arbitrary: ys) auto

lemma rmap_map: "(\<And>x. x \<in> set xs \<Longrightarrow> f x = Inr (g x)) \<Longrightarrow> rmap f xs = Inr (map g xs)"
  by (induction xs) auto

lemma rfold_append: "rfold f (xs @ ys) b = rbind (rfold f xs b) (rfold f ys)"
proof (induction xs arbitrary: b)
  case (Cons x xs)
  then show ?case by (cases "f x b") auto
qed simp

lemma rfold_invariant:
  assumes "rfold f xs b = Inr c" and "P b"
    and "\<And>x b c. x \<in> set xs \<Longrightarrow> P b \<Longrightarrow> f x b = Inr c \<Longrightarrow> P c"
  shows "P c"
  using assms
proof (induction xs arbitrary: b)
  case (Cons x xs)
  from Cons.prems(1) obtain b' where "f x b = Inr b'" "rfold f xs b' = Inr c" by auto
  moreover have "P b'" using Cons.prems(2,3) \<open>f x b = Inr b'\<close> by auto
  ultimately show ?case using Cons.IH Cons.prems(3) by auto
qed auto

text \<open>\<open>any(p(x) for x in xs)\<close>, \<open>all(...)\<close>, \<open>next((x for x in xs if p(x)), None)\<close> and
  \<open>[x for x in xs if p(x)]\<close>: the first three stop at the first hit, so a later item that
  would raise is never looked at.\<close>

fun rany :: "('a \<Rightarrow> bool res) \<Rightarrow> 'a list \<Rightarrow> bool res" where
  "rany p [] = Inr False"
| "rany p (x # xs) = rbind (p x) (\<lambda>b. if b then Inr True else rany p xs)"

fun rall :: "('a \<Rightarrow> bool res) \<Rightarrow> 'a list \<Rightarrow> bool res" where
  "rall p [] = Inr True"
| "rall p (x # xs) = rbind (p x) (\<lambda>b. if b then rall p xs else Inr False)"

fun rfirst :: "('a \<Rightarrow> bool res) \<Rightarrow> 'a list \<Rightarrow> 'a option res" where
  "rfirst p [] = Inr None"
| "rfirst p (x # xs) = rbind (p x) (\<lambda>b. if b then Inr (Some x) else rfirst p xs)"

fun rfilter :: "('a \<Rightarrow> bool res) \<Rightarrow> 'a list \<Rightarrow> 'a list res" where
  "rfilter p [] = Inr []"
| "rfilter p (x # xs) =
     rbind (p x) (\<lambda>b. rbind (rfilter p xs) (\<lambda>ys. Inr (if b then x # ys else ys)))"

text \<open>\<open>a and b\<close> of two tests.\<close>

definition rand :: "bool res \<Rightarrow> bool res \<Rightarrow> bool res" where
  "rand a b = rbind a (\<lambda>x. if x then b else Inr False)"

lemma rand_Inr [simp]: "rand (Inr x) b = (if x then b else Inr False)"
  by (simp add: rand_def)

lemma rand_true_iff: "rand a b = Inr True \<longleftrightarrow> a = Inr True \<and> b = Inr True"
  by (cases a) (auto simp: rand_def)

lemma rany_true_iff: "rany p xs = Inr True \<Longrightarrow> \<exists>x \<in> set xs. p x = Inr True"
  by (induction xs) (auto split: if_splits)

lemma rall_true_iff: "rall p xs = Inr True \<longleftrightarrow> (\<forall>x \<in> set xs. p x = Inr True)"
  by (induction xs) (auto simp: rbind_Inr_iff)

lemma rfirst_Some: "rfirst p xs = Inr (Some x) \<Longrightarrow> x \<in> set xs \<and> p x = Inr True"
  by (induction xs) (auto split: if_splits)

text \<open>\<open>int(x)\<close> of a number rounds towards zero.\<close>

definition trunc :: "rat \<Rightarrow> int" where
  "trunc q = (if q < 0 then - \<lfloor>- q\<rfloor> else \<lfloor>q\<rfloor>)"

text \<open>\<open>xs[:n]\<close>: a negative bound counts from the end.\<close>

definition upto_index :: "int \<Rightarrow> 'a list \<Rightarrow> 'a list" where
  "upto_index n xs = (if n < 0 then take (length xs - nat (- n)) xs else take (nat n) xs)"

section \<open>Programs with state and exceptions\<close>

text \<open>A raise keeps the state reached so far: a script that fails half way leaves its files.\<close>

type_synonym ('s, 'a) prog = "'s \<Rightarrow> 'a res \<times> 's"

definition ret :: "'a \<Rightarrow> ('s, 'a) prog" where
  "ret x = (\<lambda>s. (Inr x, s))"

definition raise :: "exc \<Rightarrow> ('s, 'a) prog" where
  "raise e = (\<lambda>s. (Inl e, s))"

definition pbind :: "('s, 'a) prog \<Rightarrow> ('a \<Rightarrow> ('s, 'b) prog) \<Rightarrow> ('s, 'b) prog" where
  "pbind m f = (\<lambda>s. case m s of (Inl e, s') \<Rightarrow> (Inl e, s') | (Inr x, s') \<Rightarrow> f x s')"

definition lift :: "'a res \<Rightarrow> ('s, 'a) prog" where
  "lift r = (\<lambda>s. (r, s))"

definition reads :: "('s \<Rightarrow> 'a) \<Rightarrow> ('s, 'a) prog" where
  "reads f = (\<lambda>s. (Inr (f s), s))"

definition tries :: "('s \<Rightarrow> 'a res) \<Rightarrow> ('s, 'a) prog" where
  "tries f = (\<lambda>s. (f s, s))"

definition modify :: "('s \<Rightarrow> 's) \<Rightarrow> ('s, unit) prog" where
  "modify f = (\<lambda>s. (Inr (), f s))"

definition require :: "bool \<Rightarrow> exc \<Rightarrow> ('s, unit) prog" where
  "require b e = (if b then ret () else raise e)"

definition pseq :: "('s, unit) prog \<Rightarrow> ('s, 'b) prog \<Rightarrow> ('s, 'b) prog" where
  "pseq m k = pbind m (\<lambda>_. k)"

fun for_each :: "('a \<Rightarrow> ('s, unit) prog) \<Rightarrow> 'a list \<Rightarrow> ('s, unit) prog" where
  "for_each f [] = ret ()"
| "for_each f (x # xs) = pseq (f x) (for_each f xs)"

text \<open>\<open>try: body finally: cleanup\<close>: the cleanup runs on both outcomes.\<close>

definition finally_do :: "('s, 'a) prog \<Rightarrow> ('s \<Rightarrow> 's) \<Rightarrow> ('s, 'a) prog" where
  "finally_do m c = (\<lambda>s. case m s of (r, s') \<Rightarrow> (r, c s'))"

text \<open>\<open>try: body except BaseException as error: cleanup; raise\<close>.\<close>

definition on_raise :: "('s, 'a) prog \<Rightarrow> (exc \<Rightarrow> ('s, unit) prog) \<Rightarrow> ('s, 'a) prog" where
  "on_raise m c = (\<lambda>s. case m s of
       (Inl e, s') \<Rightarrow> (case c e s' of (Inl e', s'') \<Rightarrow> (Inl e', s'') | (Inr _, s'') \<Rightarrow> (Inl e, s''))
     | (Inr x, s') \<Rightarrow> (Inr x, s'))"

lemma on_raise_ok [ok_simps]: "on_raise m c s = (Inr x, s') \<longleftrightarrow> m s = (Inr x, s')"
  by (auto simp: on_raise_def split: prod.splits sum.splits)

lemma prog_run [prog_simps]:
  "ret x s = (Inr x, s)"
  "raise e s = (Inl e, s)"
  "lift r s = (r, s)"
  "reads h s = (Inr (h s), s)"
  "tries f s = (f s, s)"
  "modify g s = (Inr (), g s)"
  by (simp_all add: ret_def raise_def lift_def reads_def tries_def modify_def)

lemma pbind_run [prog_simps]:
  "pbind m f s = (case m s of (Inl e, s') \<Rightarrow> (Inl e, s') | (Inr x, s') \<Rightarrow> f x s')"
  by (simp add: pbind_def)

lemma require_run [prog_simps]:
  "require b e s = (if b then (Inr (), s) else (Inl e, s))"
  by (simp add: require_def ret_def raise_def)

lemma pseq_run [prog_simps]:
  "pseq m k s = (case m s of (Inl e, s') \<Rightarrow> (Inl e, s') | (Inr x, s') \<Rightarrow> k s')"
  by (simp add: pseq_def pbind_def)

text \<open>Evaluation runs a program on its state, never under the abstraction of one.\<close>

lemmas prog_code [code] = prog_run pbind_run require_run pseq_run

lemma finally_do_code [code]: "finally_do m c s = (case m s of (r, s') \<Rightarrow> (r, c s'))"
  by (simp add: finally_do_def)

lemma on_raise_code [code]: "on_raise m c s = (case m s of
       (Inl e, s') \<Rightarrow> (case c e s' of (Inl e', s'') \<Rightarrow> (Inl e', s'') | (Inr _, s'') \<Rightarrow> (Inl e, s''))
     | (Inr x, s') \<Rightarrow> (Inr x, s'))"
  by (simp add: on_raise_def)

lemma basic_ok [ok_simps]:
  "ret x s = (Inr y, t) \<longleftrightarrow> y = x \<and> t = s"
  "\<not> raise e s = (Inr y, t)"
  "lift r s = (Inr y, t) \<longleftrightarrow> r = Inr y \<and> t = s"
  "reads h s = (Inr z, t) \<longleftrightarrow> z = h s \<and> t = s"
  "tries g s = (Inr y, t) \<longleftrightarrow> g s = Inr y \<and> t = s"
  "modify k s = (Inr u, t) \<longleftrightarrow> t = k s"
  "require b e s = (Inr u, t) \<longleftrightarrow> b \<and> t = s"
  by (auto simp: prog_run require_run)

lemma pbind_ok [ok_simps]:
  "pbind m f s = (Inr y, t) \<longleftrightarrow> (\<exists>x u. m s = (Inr x, u) \<and> f x u = (Inr y, t))"
  by (auto simp: pbind_def split: prod.splits sum.splits)

lemma pbind_okE:
  assumes "pbind m f s = (Inr y, t)"
  obtains x u where "m s = (Inr x, u)" "f x u = (Inr y, t)"
  using assms by (auto simp: pbind_ok)

lemma pseq_ok [ok_simps]:
  "pseq m k s = (Inr y, t) \<longleftrightarrow> (\<exists>u. m s = (Inr (), u) \<and> k u = (Inr y, t))"
  by (auto simp: pseq_def pbind_ok)

lemma for_each_append: "for_each f (xs @ ys) = pseq (for_each f xs) (for_each f ys)"
proof (induction xs)
  case Nil
  show ?case by (rule ext) (simp add: pseq_run prog_run)
next
  case (Cons x xs)
  show ?case
    by (rule ext) (auto simp: Cons.IH pseq_run split: prod.splits sum.splits)
qed

text \<open>What a step establishes for its item, and no other step breaks, holds at the end of a loop.\<close>

lemma for_each_establishes:
  assumes "for_each f xs s = (Inr (), s')" and "I s"
    and "\<And>x s s'. x \<in> set xs \<Longrightarrow> I s \<Longrightarrow> f x s = (Inr (), s') \<Longrightarrow> I s' \<and> P x s'"
    and "\<And>x y s s'. x \<in> set xs \<Longrightarrow> y \<in> set xs \<Longrightarrow> x \<noteq> y \<Longrightarrow> I s \<Longrightarrow> P x s \<Longrightarrow> f y s = (Inr (), s') \<Longrightarrow> P x s'"
  shows "I s' \<and> (\<forall>x \<in> set xs. P x s')"
proof -
  have "I s' \<and> (\<forall>x \<in> D \<union> set ys. P x s')"
    if "for_each f ys s = (Inr (), s')" "I s" "\<forall>x \<in> D. P x s" "D \<subseteq> set xs" "set ys \<subseteq> set xs" for ys D s
    using that
  proof (induction ys arbitrary: s D)
    case Nil
    then show ?case by (simp add: ok_simps)
  next
    case (Cons y ys)
    from Cons.prems(1) obtain u where u: "f y s = (Inr (), u)" "for_each f ys u = (Inr (), s')"
      by (auto simp: ok_simps)
    have y: "y \<in> set xs" using Cons.prems(5) by simp
    have "I u" "P y u" using assms(3)[OF y Cons.prems(2) u(1)] by simp_all
    moreover have "P x u" if "x \<in> D" for x
      using that Cons.prems(2-4) assms(4)[OF _ y _ Cons.prems(2) _ u(1), of x] \<open>P y u\<close> by (cases "x = y") auto
    ultimately show ?case using Cons.IH[OF u(2), of "insert y D"] Cons.prems(4,5) by auto
  qed
  from this[OF assms(1,2), of "{}"] show ?thesis by simp
qed

text \<open>An invariant of every step is an invariant of the program, whatever its outcome.\<close>

definition keeps :: "('s \<Rightarrow> bool) \<Rightarrow> ('s, 'a) prog \<Rightarrow> bool" where
  "keeps P m \<longleftrightarrow> (\<forall>s. P s \<longrightarrow> P (snd (m s)))"

lemma keepsI: "(\<And>s. P s \<Longrightarrow> P (snd (m s))) \<Longrightarrow> keeps P m"
  by (simp add: keeps_def)

lemma keepsD: "keeps P m \<Longrightarrow> P s \<Longrightarrow> P (snd (m s))"
  by (simp add: keeps_def)

lemma keeps_basic [intro, simp]:
  "keeps P (ret x)" "keeps P (raise e)" "keeps P (lift r)" "keeps P (reads f)"
  "keeps P (tries g)" "keeps P (require b e)"
  by (simp_all add: keeps_def prog_simps)

lemma keeps_modify: "(\<And>s. P s \<Longrightarrow> P (f s)) \<Longrightarrow> keeps P (modify f)"
  by (simp add: keeps_def prog_simps)

lemma keeps_pbind [intro]: "keeps P m \<Longrightarrow> (\<And>x. keeps P (f x)) \<Longrightarrow> keeps P (pbind m f)"
  unfolding keeps_def pbind_def by (fastforce split: prod.splits sum.splits)

lemma keeps_pseq [intro]: "keeps P m \<Longrightarrow> keeps P k \<Longrightarrow> keeps P (pseq m k)"
  unfolding pseq_def by (rule keeps_pbind)

lemma keeps_for_each [intro]: "(\<And>x. x \<in> set xs \<Longrightarrow> keeps P (f x)) \<Longrightarrow> keeps P (for_each f xs)"
  by (induction xs) auto

lemma keeps_finally [intro]:
  "keeps P m \<Longrightarrow> (\<And>s. P s \<Longrightarrow> P (c s)) \<Longrightarrow> keeps P (finally_do m c)"
  unfolding keeps_def finally_do_def by (fastforce split: prod.splits)

end
