(* ===== verification/Json.thy ===== *)
theory Json
  imports Prelude
begin

text \<open>
  JSON values as Python's \<open>json\<close> module delivers them, and the operations the scripts apply
  to them: truth value, equality, \<open>dict.get\<close>, indexing, iteration, insertion and removal.
  A \<open>dict\<close> is an association list in insertion order, so \<open>AList.update\<close> (replace in place
  or append) is \<open>d[k] = v\<close>. Strings are UTF-8 byte sequences; \<open>code_points\<close> decodes
  them where a script counts or classifies characters. A finite float is carried as its
  exact rational value.
\<close>

datatype json =
    JNull
  | JBool bool
  | JInt int
  | JFloat rat
  | JStr string
  | JList "json list"
  | JObj "(string \<times> json) list"

section \<open>Truth value, equality, hashing\<close>

fun truthy :: "json \<Rightarrow> bool" where
  "truthy JNull = False"
| "truthy (JBool b) = b"
| "truthy (JInt i) = (i \<noteq> 0)"
| "truthy (JFloat r) = (r \<noteq> 0)"
| "truthy (JStr s) = (s \<noteq> [])"
| "truthy (JList xs) = (xs \<noteq> [])"
| "truthy (JObj kvs) = (kvs \<noteq> [])"

text \<open>\<open>True == 1 == 1.0\<close> in Python: the numeric value of a scalar, if it has one.\<close>

fun jnum :: "json \<Rightarrow> rat option" where
  "jnum (JBool b) = Some (if b then 1 else 0)"
| "jnum (JInt i) = Some (of_int i)"
| "jnum (JFloat r) = Some r"
| "jnum _ = None"

text \<open>Python's \<open>==\<close>: numbers by value, lists pointwise, dicts without regard to order.\<close>

fun jeq :: "json \<Rightarrow> json \<Rightarrow> bool"
  and jeq_list :: "json list \<Rightarrow> json list \<Rightarrow> bool"
  and jeq_fields :: "(string \<times> json) list \<Rightarrow> (string \<times> json) list \<Rightarrow> bool" where
  "jeq JNull b = (b = JNull)"
| "jeq (JStr s) b = (b = JStr s)"
| "jeq (JList xs) b = (case b of JList ys \<Rightarrow> jeq_list xs ys | _ \<Rightarrow> False)"
| "jeq (JObj xs) b =
     (case b of JObj ys \<Rightarrow> length xs = length ys \<and> jeq_fields xs ys | _ \<Rightarrow> False)"
| "jeq (JBool a) b = (jnum b = jnum (JBool a))"
| "jeq (JInt a) b = (jnum b = jnum (JInt a))"
| "jeq (JFloat a) b = (jnum b = jnum (JFloat a))"
| "jeq_list [] ys = (ys = [])"
| "jeq_list (x # xs) ys = (case ys of [] \<Rightarrow> False | y # ys' \<Rightarrow> jeq x y \<and> jeq_list xs ys')"
| "jeq_fields [] ys = True"
| "jeq_fields (f # fs) ys =
     ((case map_of ys (fst f) of None \<Rightarrow> False | Some w \<Rightarrow> jeq (snd f) w) \<and> jeq_fields fs ys)"

text \<open>A decoded document: no dict holds a key twice.\<close>

fun jwf :: "json \<Rightarrow> bool" where
  "jwf (JList xs) = list_all jwf xs"
| "jwf (JObj kvs) = (distinct (map fst kvs) \<and> list_all (\<lambda>f. jwf (snd f)) kvs)"
| "jwf _ = True"

definition hashable :: "json \<Rightarrow> bool" where
  "hashable j = (case j of JList _ \<Rightarrow> False | JObj _ \<Rightarrow> False | _ \<Rightarrow> True)"

definition is_dict :: "json \<Rightarrow> bool" where
  "is_dict j = (case j of JObj _ \<Rightarrow> True | _ \<Rightarrow> False)"

definition is_str :: "json \<Rightarrow> bool" where
  "is_str j = (case j of JStr _ \<Rightarrow> True | _ \<Rightarrow> False)"

definition is_list :: "json \<Rightarrow> bool" where
  "is_list j = (case j of JList _ \<Rightarrow> True | _ \<Rightarrow> False)"

text \<open>\<open>type(x) is int\<close>, which a bool is not.\<close>

definition is_int :: "json \<Rightarrow> bool" where
  "is_int j = (case j of JInt _ \<Rightarrow> True | _ \<Rightarrow> False)"

definition is_bool :: "json \<Rightarrow> bool" where
  "is_bool j = (case j of JBool _ \<Rightarrow> True | _ \<Rightarrow> False)"

lemmas json_kind_simps [simp] =
  hashable_def is_dict_def is_str_def is_list_def is_int_def is_bool_def

section \<open>Access\<close>

text \<open>\<open>d.get(k)\<close>, \<open>d.get(k, dflt)\<close>, \<open>d[k]\<close>, \<open>for x in d\<close>.\<close>

definition jget_or :: "json \<Rightarrow> string \<Rightarrow> json \<Rightarrow> json res" where
  "jget_or d k dflt =
     (case d of
        JObj kvs \<Rightarrow> Inr (case map_of kvs k of None \<Rightarrow> dflt | Some v \<Rightarrow> v)
      | _ \<Rightarrow> Inl (AttributeErr ''get''))"

definition jget :: "json \<Rightarrow> string \<Rightarrow> json res" where
  "jget d k = jget_or d k JNull"

definition jidx :: "json \<Rightarrow> string \<Rightarrow> json res" where
  "jidx d k =
     (case d of
        JObj kvs \<Rightarrow> (case map_of kvs k of None \<Rightarrow> Inl (KeyErr k) | Some v \<Rightarrow> Inr v)
      | _ \<Rightarrow> Inl (TypeErr ''indices''))"

definition jiter :: "json \<Rightarrow> json list res" where
  "jiter j =
     (case j of
        JList xs \<Rightarrow> Inr xs
      | JObj kvs \<Rightarrow> Inr (map (\<lambda>f. JStr (fst f)) kvs)
      | JStr s \<Rightarrow> Inr (map (\<lambda>c. JStr [c]) s)
      | _ \<Rightarrow> Inl (TypeErr ''not iterable''))"

definition jstr :: "json \<Rightarrow> string res" where
  "jstr j = (case j of JStr s \<Rightarrow> Inr s | _ \<Rightarrow> Inl (TypeErr ''str expected''))"

definition jint :: "json \<Rightarrow> int res" where
  "jint j = (case j of JInt i \<Rightarrow> Inr i | _ \<Rightarrow> Inl (TypeErr ''int expected''))"

definition jput :: "string \<Rightarrow> json \<Rightarrow> json \<Rightarrow> json" where
  "jput k v d = (case d of JObj kvs \<Rightarrow> JObj (AList.update k v kvs) | _ \<Rightarrow> d)"

definition jpop :: "string \<Rightarrow> json \<Rightarrow> json" where
  "jpop k d = (case d of JObj kvs \<Rightarrow> JObj (AList.delete k kvs) | _ \<Rightarrow> d)"

text \<open>\<open>value.get(k)\<close> of a dict as a total function, used once the value is known to be one.\<close>

definition field :: "json \<Rightarrow> string \<Rightarrow> json" where
  "field d k = (case d of JObj kvs \<Rightarrow> (case map_of kvs k of None \<Rightarrow> JNull | Some v \<Rightarrow> v) | _ \<Rightarrow> JNull)"

definition has_field :: "json \<Rightarrow> string \<Rightarrow> bool" where
  "has_field d k = (case d of JObj kvs \<Rightarrow> map_of kvs k \<noteq> None | _ \<Rightarrow> False)"

text \<open>\<open>a | b\<close> on dicts: the right operand wins, new keys go to the end.\<close>

fun dict_union :: "('k \<times> 'v) list \<Rightarrow> ('k \<times> 'v) list \<Rightarrow> ('k \<times> 'v) list" where
  "dict_union d [] = d"
| "dict_union d ((k, v) # kvs) = dict_union (AList.update k v d) kvs"

section \<open>Laws\<close>

lemma map_of_update: "map_of (AList.update k v d) = (map_of d)(k \<mapsto> v)"
  by (simp add: update_conv')

lemma map_of_delete: "map_of (AList.delete k d) = (map_of d)(k := None)"
  by (simp add: delete_conv')

lemma distinct_keys_update: "distinct (map fst d) \<Longrightarrow> distinct (map fst (AList.update k v d))"
  by (rule distinct_update)

lemma field_jput [simp]:
  "is_dict d \<Longrightarrow> field (jput k v d) k' = (if k' = k then v else field d k')"
  by (auto simp: field_def jput_def map_of_update split: json.splits option.splits)

lemma has_field_jput [simp]:
  "is_dict d \<Longrightarrow> has_field (jput k v d) k' = (k' = k \<or> has_field d k')"
  by (auto simp: has_field_def jput_def map_of_update split: json.splits)

lemma is_dict_jput: "is_dict (jput k v d) = is_dict d"
  by (auto simp: jput_def split: json.splits)

lemma jget_field: "is_dict d \<Longrightarrow> jget d k = Inr (field d k)"
  by (auto simp: jget_def jget_or_def field_def split: json.splits)

lemma jget_or_JObj [simp]:
  "jget_or (JObj kvs) k dflt = Inr (case map_of kvs k of None \<Rightarrow> dflt | Some v \<Rightarrow> v)"
  by (simp add: jget_or_def)

lemma map_of_dict_union: "map_of (dict_union d e) k = (case map_of (rev e) k of Some v \<Rightarrow> Some v | None \<Rightarrow> map_of d k)"
proof (induction d e rule: dict_union.induct)
  case (2 d k' v kvs)
  then show ?case
    by (auto simp: map_of_update map_add_def split: option.splits)
qed auto

lemma jeq_fields_refl_aux:
  assumes "\<And>f. f \<in> set fs \<Longrightarrow> jeq (snd f) (snd f)"
    and "\<And>f. f \<in> set fs \<Longrightarrow> map_of ys (fst f) = Some (snd f)"
  shows "jeq_fields fs ys"
  using assms by (induction fs) auto

lemma jeq_list_refl: "(\<And>x. x \<in> set xs \<Longrightarrow> jeq x x) \<Longrightarrow> jeq_list xs xs"
  by (induction xs) auto

lemma jeq_refl: "jwf j \<Longrightarrow> jeq j j"
proof (induction j rule: jwf.induct)
  case (1 xs)
  then show ?case by (auto intro!: jeq_list_refl simp: list_all_iff)
next
  case (2 kvs)
  then have "jeq_fields kvs kvs"
    by (intro jeq_fields_refl_aux) (auto simp: list_all_iff)
  then show ?case by simp
qed auto

section \<open>Characters\<close>

text \<open>
  Decoding of well-formed UTF-8: the lead byte gives the length, each continuation byte
  six more bits. A string of the model is well formed, as every Python string is when it
  is encoded.
\<close>

fun code_points :: "string \<Rightarrow> nat list" where
  "code_points [] = []"
| "code_points (c # cs) =
     (let b = (of_char c :: nat) in
      if b < 128 then b # code_points cs
      else if b < 224 then
        (case cs of c1 # cs1 \<Rightarrow> ((b - 192) * 64 + (of_char c1 - 128)) # code_points cs1 | _ \<Rightarrow> [b])
      else if b < 240 then
        (case cs of c1 # c2 # cs2 \<Rightarrow>
           ((b - 224) * 4096 + (of_char c1 - 128) * 64 + (of_char c2 - 128)) # code_points cs2
         | _ \<Rightarrow> [b])
      else
        (case cs of c1 # c2 # c3 # cs3 \<Rightarrow>
           ((b - 240) * 262144 + (of_char c1 - 128) * 4096 + (of_char c2 - 128) * 64
             + (of_char c3 - 128)) # code_points cs3
         | _ \<Rightarrow> [b]))"

text \<open>The code points Python's \<open>str.isspace\<close> accepts; \<open>strip()\<close> removes them at both ends.\<close>

definition py_space :: "nat \<Rightarrow> bool" where
  "py_space c \<longleftrightarrow> (9 \<le> c \<and> c \<le> 13) \<or> (28 \<le> c \<and> c \<le> 32) \<or> c = 133 \<or> c = 160 \<or> c = 5760
     \<or> (8192 \<le> c \<and> c \<le> 8202) \<or> c = 8232 \<or> c = 8233 \<or> c = 8239 \<or> c = 8287 \<or> c = 12288"

definition py_strip :: "nat list \<Rightarrow> nat list" where
  "py_strip cs = rev (dropWhile py_space (rev (dropWhile py_space cs)))"

lemma py_strip_fixed:
  "py_strip cs = cs \<longleftrightarrow> cs = [] \<or> (\<not> py_space (hd cs) \<and> \<not> py_space (last cs))"
proof
  assume fixed: "py_strip cs = cs"
  show "cs = [] \<or> (\<not> py_space (hd cs) \<and> \<not> py_space (last cs))"
  proof (cases cs)
    case (Cons a as)
    have "length (py_strip cs) \<le> length (dropWhile py_space cs)"
      unfolding py_strip_def
      by (metis length_dropWhile_le length_rev)
    then have "dropWhile py_space cs = cs"
      using fixed by (metis Cons dropWhile.simps(2) length_dropWhile_le le_imp_less_Suc
          length_Cons linorder_not_le)
    moreover from this fixed have "dropWhile py_space (rev cs) = rev cs"
      by (simp add: py_strip_def rev_swap)
    ultimately show ?thesis
      using Cons by (metis dropWhile_eq_self_iff hd_rev list.distinct(1) rev_is_Nil_conv)
  qed simp
next
  assume "cs = [] \<or> (\<not> py_space (hd cs) \<and> \<not> py_space (last cs))"
  then have "dropWhile py_space cs = cs" "dropWhile py_space (rev cs) = rev cs"
    by (auto simp: dropWhile_eq_self_iff hd_rev)
  then show "py_strip cs = cs"
    by (simp add: py_strip_def)
qed

end
