(* ===== verification/Files.thy ===== *)
theory Files
  imports Json
begin

text \<open>
  The file tree the scripts work on. A path is the list of its components below the root
  of the file system, so \<open>p / name\<close> appends one component and \<open>p.parent\<close> is \<open>butlast\<close>.
  What a file holds is represented by what the scripts read from it: a JSON document, text
  that is not JSON, bytes, or a SQLite database with the tables they use. Directories
  are nodes only where a script creates or tests one.
\<close>

type_synonym path = "string list"

text \<open>The rows of \<open>topics\<close> and \<open>sessions\<close> the migration reads and writes.\<close>

record topic_row =
  topic_id :: string
  topic_title :: string
  created_at_ms :: int

record session_row =
  sess_id :: string
  sess_title :: string
  title_source :: string
  title_revision :: int
  workspace_root :: string
  sess_state :: string

datatype node =
    Folder
  | Doc json
  | Text string
  | TopicDb "topic_row list"
  | SessionDb "session_row list"

type_synonym fs = "path \<Rightarrow> node option"

section \<open>Paths\<close>

definition child :: "path \<Rightarrow> string \<Rightarrow> path" where
  "child p s = p @ [s]"

definition parent :: "path \<Rightarrow> path" where
  "parent p = butlast p"

definition with_name :: "path \<Rightarrow> string \<Rightarrow> path" where
  "with_name p s = butlast p @ [s]"

text \<open>\<open>str(p)\<close> of an absolute path, and \<open>pathlib.Path(s)\<close>.\<close>

definition path_str :: "path \<Rightarrow> string" where
  "path_str p = (if p = [] then ''/'' else concat (map (\<lambda>s. CHR ''/'' # s) p))"

fun split_at_slash :: "string \<Rightarrow> string \<Rightarrow> string list" where
  "split_at_slash acc [] = [rev acc]"
| "split_at_slash acc (c # cs) =
     (if c = CHR ''/'' then rev acc # split_at_slash [] cs else split_at_slash (c # acc) cs)"

definition path_of :: "string \<Rightarrow> path" where
  "path_of s = filter (\<lambda>x. x \<noteq> [] \<and> x \<noteq> ''.'') (split_at_slash [] s)"

definition below :: "path \<Rightarrow> path \<Rightarrow> bool" where
  "below d p = (take (length d) p = d)"

lemma child_neq [simp]: "child p a = child q b \<longleftrightarrow> p = q \<and> a = b"
  by (simp add: child_def)

lemma parent_child [simp]: "parent (child p s) = p"
  by (simp add: parent_def child_def)

lemma with_name_child [simp]: "with_name (child p s) t = child p t"
  by (simp add: with_name_def child_def)

lemma child_not_self [simp]:
  "child p s \<noteq> p" "p \<noteq> child p s" "child (child p s) t \<noteq> p" "p \<noteq> child (child p s) t"
  by (simp_all add: child_def)

lemma child_not_parent [simp]:
  "child (child p s) t \<noteq> parent p" "parent p \<noteq> child (child p s) t"
  by (auto simp: child_def parent_def dest!: arg_cong[where f = length])

lemma length_child [simp]: "length (child p s) = Suc (length p)"
  by (simp add: child_def)

lemma butlast_child [simp]: "butlast (child p s) = p"
  by (simp add: child_def)

lemma below_child: "below d p \<Longrightarrow> below d (child p s)"
  by (simp add: below_def child_def) (metis append_Nil2 append_take_drop_id length_append
      diff_is_0_eq' le_add1 take_0 take_append length_take min.absorb2 nat_le_linear take_all_iff)

lemma below_refl [simp]: "below d d"
  by (simp add: below_def)

lemma below_trans: "below a b \<Longrightarrow> below b c \<Longrightarrow> below a c"
  unfolding below_def
  by (metis append.assoc append_eq_conv_conj append_take_drop_id)

section \<open>Reading and writing\<close>

definition is_file :: "fs \<Rightarrow> path \<Rightarrow> bool" where
  "is_file f p = (case f p of None \<Rightarrow> False | Some Folder \<Rightarrow> False | Some _ \<Rightarrow> True)"

text \<open>\<open>json.loads(p.read_text())\<close>: a missing file or a folder is an \<open>OSError\<close>, anything
  that is not JSON a \<open>ValueError\<close>.\<close>

definition load_json :: "fs \<Rightarrow> path \<Rightarrow> json res" where
  "load_json f p =
     (case f p of
        None \<Rightarrow> Inl (OSErr (path_str p))
      | Some Folder \<Rightarrow> Inl (OSErr (path_str p))
      | Some (Doc j) \<Rightarrow> Inr j
      | Some _ \<Rightarrow> Inl (ValueErr (path_str p)))"

definition open_sessions :: "fs \<Rightarrow> path \<Rightarrow> session_row list res" where
  "open_sessions f p =
     (case f p of Some (SessionDb rows) \<Rightarrow> Inr rows | _ \<Rightarrow> Inl (SqliteErr (path_str p)))"

definition open_topics :: "fs \<Rightarrow> path \<Rightarrow> topic_row list res" where
  "open_topics f p =
     (case f p of Some (TopicDb rows) \<Rightarrow> Inr rows | _ \<Rightarrow> Inl (SqliteErr (path_str p)))"

definition write_node :: "path \<Rightarrow> node \<Rightarrow> fs \<Rightarrow> fs" where
  "write_node p n f = f(p \<mapsto> n)"

text \<open>\<open>p.write_text(...)\<close>: a folder of that name is an \<open>OSError\<close>.\<close>

definition write_file :: "path \<Rightarrow> node \<Rightarrow> fs \<Rightarrow> fs res" where
  "write_file p n f = (if f p = Some Folder then Inl (OSErr (path_str p)) else Inr (f(p \<mapsto> n)))"

definition remove_node :: "path \<Rightarrow> fs \<Rightarrow> fs" where
  "remove_node p f = f(p := None)"

text \<open>\<open>shutil.copy2(src, dst)\<close> of a file.\<close>

definition copy_file :: "path \<Rightarrow> path \<Rightarrow> fs \<Rightarrow> fs res" where
  "copy_file src dst f =
     (case f src of None \<Rightarrow> Inl (OSErr (path_str src)) | Some n \<Rightarrow> Inr (f(dst \<mapsto> n)))"

text \<open>\<open>tmp.replace(p)\<close>: the temporary name is gone afterwards; a folder is not replaced.\<close>

definition rename_file :: "path \<Rightarrow> path \<Rightarrow> fs \<Rightarrow> fs res" where
  "rename_file tmp p f =
     (case f tmp of
        None \<Rightarrow> Inl (OSErr (path_str tmp))
      | Some n \<Rightarrow> if f p = Some Folder then Inl (OSErr (path_str p))
                  else Inr ((f(tmp := None))(p \<mapsto> n)))"

lemma is_file_Doc [simp]:
  "f p = Some (Doc j) \<Longrightarrow> is_file f p" "f p = Some (SessionDb r) \<Longrightarrow> is_file f p"
  "f p = None \<Longrightarrow> \<not> is_file f p" "f p = Some Folder \<Longrightarrow> \<not> is_file f p"
  by (simp_all add: is_file_def)

lemma load_json_Inr [simp]: "load_json f p = Inr j \<longleftrightarrow> f p = Some (Doc j)"
  by (auto simp: load_json_def split: option.splits node.splits)

lemma open_sessions_Inr [simp]: "open_sessions f p = Inr rows \<longleftrightarrow> f p = Some (SessionDb rows)"
  by (auto simp: open_sessions_def split: option.splits node.splits)

end
