(* ===== verification/TopicMigration.thy ===== *)
theory TopicMigration
  imports Files
begin

text \<open>
  \<open>scripts/preview_topic_migration.py\<close>: titles of the stable profile's topics are carried
  over to the sessions of an isolated Preview profile, with a backup, a journal and a
  compare-and-swap rollback. The definitions follow the script function by function; the
  SQLite transactions are \<open>run_tx\<close>, whose laws are proved in the locales
  \<open>cas_update\<close> and \<open>cas_pair\<close> and used through interpretations at the script's two
  UPDATE statements. The parameter \<open>iso_ms\<close> is the epoch millisecond reading of an ISO 8601
  text (\<open>datetime.fromisoformat\<close> under the machine's time zone), \<open>None\<close> where it raises
  \<open>ValueError\<close>; \<open>stamp\<close> is the UTC time stamp of a run.
\<close>

section \<open>State and data\<close>

record mworld =
  files :: fs
  printed :: "json list"

record topic =
  t_root :: json
  t_title :: string
  t_created :: int

type_synonym topics = "(string \<times> topic) list"

record change =
  c_session :: string
  c_topic :: string
  c_before :: string
  c_after :: string
  c_revision :: int

definition change_json :: "change \<Rightarrow> json" where
  "change_json c = JObj
     [(''sessionId'', JStr (c_session c)), (''topicId'', JStr (c_topic c)),
      (''before'', JStr (c_before c)), (''after'', JStr (c_after c)),
      (''revision'', JInt (c_revision c))]"

definition json_change :: "json \<Rightarrow> change res" where
  "json_change j =
     rbind (rbind (jidx j ''sessionId'') jstr) (\<lambda>s.
     rbind (rbind (jget_or j ''topicId'' (JStr [])) jstr) (\<lambda>t.
     rbind (rbind (jidx j ''before'') jstr) (\<lambda>b.
     rbind (rbind (jidx j ''after'') jstr) (\<lambda>a.
     rbind (rbind (jidx j ''revision'') jint) (\<lambda>r.
     Inr \<lparr>c_session = s, c_topic = t, c_before = b, c_after = a, c_revision = r\<rparr>)))))"

lemma json_change_json [simp]: "json_change (change_json c) = Inr c"
  by (simp add: json_change_def change_json_def jidx_def jstr_def jint_def)

lemma jwf_change_json [simp]: "jwf (change_json c)"
  by (simp add: change_json_def)

definition print_json :: "json \<Rightarrow> (mworld, unit) prog" where
  "print_json j = modify (\<lambda>w. w\<lparr>printed := printed w @ [j]\<rparr>)"

definition update_files :: "(fs \<Rightarrow> fs) \<Rightarrow> (mworld, unit) prog" where
  "update_files g = modify (\<lambda>w. w\<lparr>files := g (files w)\<rparr>)"

definition try_files :: "(fs \<Rightarrow> fs res) \<Rightarrow> (mworld, unit) prog" where
  "try_files g = (\<lambda>w. case g (files w) of Inl e \<Rightarrow> (Inl e, w) | Inr f \<Rightarrow> (Inr (), w\<lparr>files := f\<rparr>))"

definition on_files :: "(fs \<Rightarrow> 'a res) \<Rightarrow> (mworld, 'a) prog" where
  "on_files g = tries (\<lambda>w. g (files w))"

lemma mworld_ops [prog_simps]:
  "print_json j w = (Inr (), w\<lparr>printed := printed w @ [j]\<rparr>)"
  "update_files h w = (Inr (), w\<lparr>files := h (files w)\<rparr>)"
  "on_files g w = (g (files w), w)"
  "try_files k w = (case k (files w) of Inl e \<Rightarrow> (Inl e, w) | Inr f \<Rightarrow> (Inr (), w\<lparr>files := f\<rparr>))"
  by (simp_all add: print_json_def update_files_def on_files_def try_files_def prog_simps)

lemma mworld_ok [ok_simps]:
  "print_json j w = (Inr u, w') \<longleftrightarrow> w' = w\<lparr>printed := printed w @ [j]\<rparr>"
  "update_files h w = (Inr u, w') \<longleftrightarrow> w' = w\<lparr>files := h (files w)\<rparr>"
  "on_files g w = (Inr x, w') \<longleftrightarrow> g (files w) = Inr x \<and> w' = w"
  "try_files k w = (Inr u, w') \<longleftrightarrow> (\<exists>f. k (files w) = Inr f \<and> w' = w\<lparr>files := f\<rparr>)"
  by (auto simp: mworld_ops split: sum.splits)

section \<open>Stable topics\<close>

definition slash_to_dash :: "string \<Rightarrow> string" where
  "slash_to_dash = map (\<lambda>c. if c = CHR ''/'' then CHR ''-'' else c)"

definition topic_db :: "path \<Rightarrow> json \<Rightarrow> path res" where
  "topic_db stable_dir wroot =
     (if \<not> truthy wroot
      then Inr (child (child stable_dir ''desktop'') ''topic-state-v1.sqlite'')
      else case wroot of
        JStr r \<Rightarrow> Inr (child (child (child (child stable_dir ''projects'') (slash_to_dash r))
                         ''desktop'') ''topic-state-v1.sqlite'')
      | _ \<Rightarrow> Inl (AttributeErr ''replace''))"

definition sql_text :: "json \<Rightarrow> string res" where
  "sql_text j = (case j of JStr s \<Rightarrow> Inr s | _ \<Rightarrow> Inl (SqliteErr ''binding''))"

definition add_topic :: "fs \<Rightarrow> path \<Rightarrow> json \<Rightarrow> json \<Rightarrow> topics \<Rightarrow> topics res" where
  "add_topic f db wroot j d =
     rbind (open_topics f db) (\<lambda>rows.
     rbind (sql_text j) (\<lambda>tid.
     Inr (case find (\<lambda>r. topic_id r = tid) rows of
            None \<Rightarrow> d
          | Some r \<Rightarrow> AList.update tid
              \<lparr>t_root = wroot, t_title = topic_title r, t_created = created_at_ms r\<rparr> d)))"

definition add_group :: "fs \<Rightarrow> path \<Rightarrow> json \<times> json \<Rightarrow> topics \<Rightarrow> topics res" where
  "add_group f stable_dir g d =
     rbind (topic_db stable_dir (fst g)) (\<lambda>db.
     if \<not> is_file f db then Inr d
     else rbind (jiter (snd g)) (\<lambda>ids. rfold (add_topic f db (fst g)) ids d))"

definition project_group :: "json \<Rightarrow> (json \<times> json) res" where
  "project_group project =
     rbind (jidx project ''root'') (\<lambda>r.
     rbind (jget_or project ''topics'' (JList [])) (\<lambda>ts. Inr (r, ts)))"

definition topic_records :: "path \<Rightarrow> fs \<Rightarrow> (json \<times> topics) res" where
  "topic_records stable_dir f =
     rbind (load_json f (child stable_dir ''desktop-projects.json'')) (\<lambda>projects.
     rbind (jget_or projects ''globalTopics'' (JList [])) (\<lambda>globals.
     rbind (rbind (jget_or projects ''projects'' (JList [])) jiter) (\<lambda>items.
     rbind (rmap project_group items) (\<lambda>groups.
     rbind (rfold (add_group f stable_dir) ((JStr [], globals) # groups) []) (\<lambda>topics.
     Inr (projects, topics))))))"

text \<open>\<open>valid_title\<close>: the column is text, so the \<open>isinstance\<close> test always holds.\<close>

definition valid_title :: "string \<Rightarrow> bool" where
  "valid_title title =
     (let cs = code_points title in
      0 < length cs \<and> length cs \<le> 120 \<and> py_strip cs = cs
      \<and> \<not> list_ex (\<lambda>c. c < 32 \<or> c = 127) cs)"

section \<open>Matching a session to a topic\<close>

definition same_root :: "path \<Rightarrow> topic \<Rightarrow> string \<Rightarrow> bool" where
  "same_root stable_dir topic wroot \<longleftrightarrow>
     jeq (t_root topic) (JStr wroot)
     \<or> \<not> truthy (t_root topic) \<and> wroot = path_str (child stable_dir ''global-workspace'')"

definition sidecar_topic :: "fs \<Rightarrow> path \<Rightarrow> string \<Rightarrow> topics \<Rightarrow> path \<Rightarrow> string option res" where
  "sidecar_topic f stable_dir wroot topics sidecar =
     (if \<not> is_file f sidecar then Inr None
      else case load_json f sidecar of
        Inl (OSErr _) \<Rightarrow> Inr None
      | Inl (ValueErr _) \<Rightarrow> Inr None
      | Inl e \<Rightarrow> Inl e
      | Inr d \<Rightarrow>
          rbind (jget_or d ''topic_id'' (JStr [])) (\<lambda>tid.
          rbind (rcheck (hashable tid) (TypeErr ''unhashable'')) (\<lambda>_.
          Inr (case tid of
                 JStr s \<Rightarrow>
                   (case map_of topics s of
                      Some t \<Rightarrow> if same_root stable_dir t wroot then Some s else None
                    | None \<Rightarrow> None)
               | _ \<Rightarrow> None))))"

definition utc_suffix :: "string \<Rightarrow> string" where
  "utc_suffix s = concat (map (\<lambda>c. if c = CHR ''Z'' then ''+00:00'' else [c]) s)"

definition created_matches :: "path \<Rightarrow> string \<Rightarrow> topics \<Rightarrow> int \<Rightarrow> string list" where
  "created_matches stable_dir wroot topics ms =
     map fst (filter (\<lambda>(tid, t). same_root stable_dir t wroot \<and> \<bar>t_created t - ms\<bar> \<le> 2000) topics)"

definition created_topic ::
    "(string \<Rightarrow> int option) \<Rightarrow> path \<Rightarrow> string \<Rightarrow> topics \<Rightarrow> json \<Rightarrow> string option res" where
  "created_topic iso_ms stable_dir wroot topics created =
     (if \<not> truthy created then Inr None
      else case created of
        JStr s \<Rightarrow>
          (case iso_ms (utc_suffix s) of
             None \<Rightarrow> Inr None
           | Some ms \<Rightarrow>
               Inr (case created_matches stable_dir wroot topics ms of [tid] \<Rightarrow> Some tid | _ \<Rightarrow> None))
      | _ \<Rightarrow> Inl (AttributeErr ''replace''))"

definition manifest_path :: "path \<Rightarrow> string \<Rightarrow> path" where
  "manifest_path stable_dir sid =
     child (child (child (child stable_dir ''desktop-sessions-v5'') ''by-id'') sid) ''manifest.json''"

definition mapped_topic ::
    "(string \<Rightarrow> int option) \<Rightarrow> fs \<Rightarrow> path \<Rightarrow> string \<Rightarrow> string \<Rightarrow> topics \<Rightarrow> string option res" where
  "mapped_topic iso_ms f stable_dir sid wroot topics =
     (if \<not> is_file f (manifest_path stable_dir sid) then Inr None
      else
        rbind (load_json f (manifest_path stable_dir sid)) (\<lambda>data.
        rbind (jget data ''source'') (\<lambda>src.
        let source = (if truthy src then src else JObj []) in
        rbind (if is_dict source then jget_or source ''path'' (JStr []) else Inr (JStr [])) (\<lambda>sp.
        if truthy sp
        then rbind (jstr sp) (\<lambda>s. sidecar_topic f stable_dir wroot topics (path_of (s @ ''.meta'')))
        else rbind (jget data ''createdAt'') (created_topic iso_ms stable_dir wroot topics)))))"

section \<open>Project folders\<close>

definition folder :: "json \<Rightarrow> json \<Rightarrow> json" where
  "folder wroot title = JObj [(''root'', wroot), (''title'', title)]"

definition project_folder :: "json \<Rightarrow> json res" where
  "project_folder project =
     rbind (jidx project ''root'') (\<lambda>r.
     rbind (jget_or project ''title'' (JStr [])) (\<lambda>t. Inr (folder r t)))"

text \<open>One turn of the loop over the Preview's own projects: the list and the set \<open>seen\<close>.\<close>

definition add_folder :: "json \<Rightarrow> json list \<times> json list \<Rightarrow> (json list \<times> json list) res" where
  "add_folder item st =
     (if \<not> is_dict item \<or> \<not> truthy (field item ''root'') then Inr st
      else rbind (rcheck (hashable (field item ''root'')) (TypeErr ''unhashable'')) (\<lambda>_.
           if list_ex (jeq (field item ''root'')) (snd st) then Inr st
           else rbind (jget_or item ''title'' (JStr [])) (\<lambda>t.
                Inr (fst st @ [folder (field item ''root'') t],
                     field item ''root'' # snd st))))"

definition proposed_folders :: "json \<Rightarrow> path \<Rightarrow> json \<Rightarrow> json res" where
  "proposed_folders projects stable_dir current =
     rbind (rbind (jget_or projects ''projects'' (JList [])) jiter) (\<lambda>items.
     rbind (rmap project_folder items) (\<lambda>own.
     let desired = folder (JStr (path_str (child stable_dir ''global-workspace''))) (JStr ''Global'') # own;
         seen = map (\<lambda>d. field d ''root'') desired in
     rbind (rcheck (list_all hashable seen) (TypeErr ''unhashable'')) (\<lambda>_.
     rbind (rbind (jget_or current ''projects'' (JList [])) jiter) (\<lambda>others.
     rbind (rfold add_folder others (desired, seen)) (\<lambda>st.
     Inr (JObj [(''projects'', JList (fst st))]))))))"

end
