(* ===== verification/CasTx.thy ===== *)
theory CasTx
  imports Prelude
begin

text \<open>
  Compare-and-swap transactions: a list of guarded single-row updates inside
  \<open>BEGIN IMMEDIATE ... COMMIT\<close>. Each update counts the rows its WHERE clause selects, and
  any count but one raises and rolls the whole transaction back, so \<open>run_tx\<close> returns either
  the committed table or the error with no table. The locale \<open>cas_update\<close> states what an
  UPDATE statement must satisfy for the transaction to be all or nothing; \<open>cas_pair\<close> adds a
  reverse statement and proves that it undoes a committed transaction.
\<close>

definition update_where :: "('r \<Rightarrow> bool) \<Rightarrow> ('r \<Rightarrow> 'r) \<Rightarrow> 'r list \<Rightarrow> 'r list \<times> nat" where
  "update_where g u rows = (map (\<lambda>r. if g r then u r else r) rows, length (filter g rows))"

fun run_tx ::
    "('c \<Rightarrow> 'r \<Rightarrow> bool) \<Rightarrow> ('c \<Rightarrow> 'r \<Rightarrow> 'r) \<Rightarrow> ('c \<Rightarrow> exc) \<Rightarrow> 'c list \<Rightarrow> 'r list \<Rightarrow> 'r list res" where
  "run_tx g u err [] rows = Inr rows"
| "run_tx g u err (c # cs) rows =
     (case update_where (g c) (u c) rows of
        (rows', n) \<Rightarrow> if n \<noteq> 1 then Inl (err c) else run_tx g u err cs rows')"

lemma find_unique:
  "c \<in> set cs \<Longrightarrow> P c \<Longrightarrow> \<forall>d \<in> set cs. P d \<longrightarrow> d = c \<Longrightarrow> find P cs = Some c"
proof (induction cs)
  case (Cons a as)
  show ?case
  proof (cases "P a")
    case True
    then have "a = c" using Cons.prems(3) by simp
    with True show ?thesis by simp
  next
    case False
    then have c: "c \<in> set as" using Cons.prems(1,2) by auto
    have "\<forall>d \<in> set as. P d \<longrightarrow> d = c" using Cons.prems(3) by (meson list.set_intros(2))
    then have "find P as = Some c" by (rule Cons.IH[OF c Cons.prems(2)])
    with False show ?thesis by (simp only: find.simps if_False)
  qed
qed simp

lemma length_filter_le_one:
  assumes "distinct (map f xs)" and "\<And>x. x \<in> set xs \<Longrightarrow> p x \<Longrightarrow> f x = k"
  shows "length (filter p xs) \<le> 1"
  using assms
proof (induction xs)
  case (Cons x xs)
  show ?case
  proof (cases "p x")
    case True
    have "\<not> p y" if "y \<in> set xs" for y
      using that Cons.prems True by (force simp: image_iff)
    then have "filter p xs = []" by (simp add: filter_empty_conv)
    with True show ?thesis by simp
  next
    case False
    with Cons show ?thesis by simp
  qed
qed simp

locale cas_update =
  fixes ckey :: "'c \<Rightarrow> 'k" and rkey :: "'r \<Rightarrow> 'k"
    and guard :: "'c \<Rightarrow> 'r \<Rightarrow> bool" and upd :: "'c \<Rightarrow> 'r \<Rightarrow> 'r"
  assumes guard_key: "guard c r \<Longrightarrow> rkey r = ckey c"
    and upd_key: "rkey (upd c r) = rkey r"
begin

lemma map_keys: "map rkey (map (\<lambda>r. if guard c r then upd c r else r) rows) = map rkey rows"
  by (simp add: upd_key)

lemma count_one:
  assumes "distinct (map rkey rows)"
  shows "length (filter (guard c) rows) = 1 \<longleftrightarrow> (\<exists>r \<in> set rows. guard c r)"
proof -
  have "length (filter (guard c) rows) \<le> 1"
    using assms guard_key by (rule length_filter_le_one)
  moreover have "length (filter (guard c) rows) = 0 \<longleftrightarrow> \<not> (\<exists>r \<in> set rows. guard c r)"
    by (auto simp: filter_empty_conv)
  ultimately show ?thesis by linarith
qed

lemma run_tx_keys: "run_tx guard upd err cs rows = Inr rows' \<Longrightarrow> map rkey rows' = map rkey rows"
proof (induction cs arbitrary: rows)
  case (Cons c cs)
  then show ?case by (auto simp: update_where_def split: if_splits dest!: Cons.IH)
      (simp_all add: upd_key)
qed simp

lemma other_guard:
  assumes "ckey c' \<noteq> ckey c"
  shows "guard c' (if guard c r then upd c r else r) = guard c' r"
  using assms guard_key upd_key by metis

text \<open>A transaction commits exactly if each change finds its row, and then changes that row.\<close>

lemma run_tx_commits:
  assumes "distinct (map ckey cs)" and "distinct (map rkey rows)"
  shows "run_tx guard upd err cs rows = Inr rows' \<longleftrightarrow>
     (\<forall>c \<in> set cs. \<exists>r \<in> set rows. guard c r)
     \<and> rows' = map (\<lambda>r. case find (\<lambda>c. ckey c = rkey r) cs of None \<Rightarrow> r | Some c \<Rightarrow> upd c r) rows"
  using assms
proof (induction cs arbitrary: rows)
  case Nil
  then show ?case by auto
next
  case (Cons c cs)
  define rows1 where "rows1 = map (\<lambda>r. if guard c r then upd c r else r) rows"
  have dist1: "distinct (map rkey rows1)"
    using Cons.prems(2) by (simp only: rows1_def map_keys)
  have split1: "run_tx guard upd err (c # cs) rows = Inr rows' \<longleftrightarrow>
      (\<exists>r \<in> set rows. guard c r) \<and> run_tx guard upd err cs rows1 = Inr rows'"
    using count_one[OF Cons.prems(2), of c] by (simp add: update_where_def rows1_def)
  have hit: "(\<exists>r \<in> set rows1. guard c' r) = (\<exists>r \<in> set rows. guard c' r)"
    if "c' \<in> set cs" for c'
  proof -
    have "ckey c' \<noteq> ckey c" using Cons.prems(1) that by (simp, metis imageI)
    from other_guard[OF this] show ?thesis by (simp only: rows1_def set_map bex_simps)
  qed
  have same: "map (\<lambda>r. case find (\<lambda>c. ckey c = rkey r) cs of None \<Rightarrow> r | Some c \<Rightarrow> upd c r) rows1
      = map (\<lambda>r. case find (\<lambda>c. ckey c = rkey r) (c # cs) of None \<Rightarrow> r | Some c \<Rightarrow> upd c r) rows"
    if hitc: "\<exists>r \<in> set rows. guard c r"
  proof -
    have notin: "find (\<lambda>c'. ckey c' = ckey c) cs = None"
      using Cons.prems(1) by (auto simp: find_None_iff image_iff)
    have owner: "guard c r" if "r \<in> set rows" "ckey c = rkey r" for r
      using hitc that Cons.prems(2) guard_key by (metis distinct_map inj_onD)
    show ?thesis
      unfolding rows1_def map_map
    proof (rule map_cong[OF refl])
      fix r assume r: "r \<in> set rows"
      show "((\<lambda>r. case find (\<lambda>c. ckey c = rkey r) cs of None \<Rightarrow> r | Some c \<Rightarrow> upd c r)
             \<circ> (\<lambda>r. if guard c r then upd c r else r)) r
          = (case find (\<lambda>c. ckey c = rkey r) (c # cs) of None \<Rightarrow> r | Some c \<Rightarrow> upd c r)"
      proof (cases "ckey c = rkey r")
        case True
        with owner[OF r True] notin show ?thesis by (simp add: upd_key)
      next
        case False
        then have "\<not> guard c r" using guard_key by metis
        with False show ?thesis by simp
      qed
    qed
  qed
  show ?case
  proof (cases "\<exists>r \<in> set rows. guard c r")
    case True
    have dc: "distinct (map ckey cs)" using Cons.prems(1) by simp
    show ?thesis
      unfolding split1 Cons.IH[OF dc dist1] same[OF True] using True hit by (simp only: list.set ball_simps) blast
  next
    case False
    then show ?thesis unfolding split1 by simp
  qed
qed

lemma run_tx_unchanged:
  assumes "run_tx guard upd err cs rows = Inr rows'" and "r \<in> set rows"
    and "\<forall>c \<in> set cs. ckey c \<noteq> rkey r"
  shows "r \<in> set rows'"
  using assms
proof (induction cs arbitrary: rows)
  case (Cons c cs)
  have "\<not> guard c r" using Cons.prems(3) guard_key by force
  then have "r \<in> set (map (\<lambda>r. if guard c r then upd c r else r) rows)"
    using Cons.prems(2) by force
  then show ?case using Cons.prems Cons.IH
    by (auto simp: update_where_def split: if_splits)
qed simp

text \<open>A change whose row no longer satisfies the guard stops the whole transaction.\<close>

lemma run_tx_refuses:
  assumes "distinct (map ckey cs)" and "distinct (map rkey rows)"
    and "c \<in> set cs" and "\<forall>r \<in> set rows. \<not> guard c r"
  shows "\<exists>d \<in> set cs. run_tx guard upd err cs rows = Inl (err d)"
  using assms
proof (induction cs arbitrary: rows)
  case (Cons d cs)
  define rows1 where "rows1 = map (\<lambda>r. if guard d r then upd d r else r) rows"
  have dist1: "distinct (map rkey rows1)"
    using Cons.prems(2) by (simp only: rows1_def map_keys)
  show ?case
  proof (cases "\<exists>r \<in> set rows. guard d r")
    case False
    then have "length (filter (guard d) rows) \<noteq> 1"
      using count_one[OF Cons.prems(2)] by blast
    then show ?thesis by (auto simp: update_where_def)
  next
    case True
    then have "c \<noteq> d" using Cons.prems(4) by auto
    then have c: "c \<in> set cs" "ckey c \<noteq> ckey d" using Cons.prems(1,3) by (auto, metis imageI)
    then have "\<forall>r \<in> set rows1. \<not> guard c r"
      using Cons.prems(4) by (simp only: rows1_def set_map ball_simps other_guard[OF c(2)])
    then have "\<exists>d \<in> set cs. run_tx guard upd err cs rows1 = Inl (err d)"
      using Cons.IH[OF _ dist1 c(1)] Cons.prems(1) by simp
    then show ?thesis
      using True count_one[OF Cons.prems(2), of d] by (auto simp: update_where_def rows1_def)
  qed
qed simp

end

locale cas_pair =
  fwd: cas_update ckey rkey guard upd + bwd: cas_update ckey rkey guard' upd'
  for ckey :: "'c \<Rightarrow> 'k" and rkey :: "'r \<Rightarrow> 'k"
    and guard :: "'c \<Rightarrow> 'r \<Rightarrow> bool" and upd :: "'c \<Rightarrow> 'r \<Rightarrow> 'r"
    and guard' :: "'c \<Rightarrow> 'r \<Rightarrow> bool" and upd' :: "'c \<Rightarrow> 'r \<Rightarrow> 'r" +
  fixes undone :: "'r \<Rightarrow> 'r"
  assumes armed: "guard c r \<Longrightarrow> guard' c (upd c r)"
    and undoes: "guard c r \<Longrightarrow> upd' c (upd c r) = undone r"
begin

lemma undo_committed:
  assumes "run_tx guard upd err cs rows = Inr rows'"
    and dc: "distinct (map ckey cs)" and dr: "distinct (map rkey rows)"
  shows "run_tx guard' upd' err' cs rows' =
    Inr (map (\<lambda>r. if rkey r \<in> ckey ` set cs then undone r else r) rows)"
proof -
  let ?pick = "\<lambda>r. find (\<lambda>c. ckey c = rkey r) cs"
  have hit: "\<forall>c \<in> set cs. \<exists>r \<in> set rows. guard c r"
    and rows': "rows' = map (\<lambda>r. case ?pick r of None \<Rightarrow> r | Some c \<Rightarrow> upd c r) rows"
    using assms fwd.run_tx_commits by blast+
  have keys: "distinct (map rkey rows')"
    using fwd.run_tx_keys[OF assms(1)] dr by simp
  have pick: "guard c r" if "r \<in> set rows" "?pick r = Some c" for r c
  proof -
    from that have c: "c \<in> set cs" "ckey c = rkey r" by (auto simp: find_Some_iff)
    then obtain q where "q \<in> set rows" "guard c q" using hit by blast
    moreover from this have "rkey q = rkey r" using fwd.guard_key c by metis
    ultimately show ?thesis using dr that(1) by (metis distinct_map inj_onD)
  qed
  have pick_hit: "?pick q = Some c" if "c \<in> set cs" "guard c q" for c q
  proof -
    have "rkey q = ckey c" using fwd.guard_key that by metis
    moreover have "\<forall>d \<in> set cs. ckey d = ckey c \<longrightarrow> d = c"
      using dc that by (metis distinct_map inj_onD)
    ultimately show ?thesis
      using that by (intro find_unique) auto
  qed
  have armed_all: "\<forall>c \<in> set cs. \<exists>r \<in> set rows'. guard' c r"
  proof
    fix c assume c: "c \<in> set cs"
    then obtain q where q: "q \<in> set rows" "guard c q" using hit by blast
    with pick_hit[OF c] have "upd c q \<in> set rows'" by (force simp: rows')
    with armed[OF q(2)] show "\<exists>r \<in> set rows'. guard' c r" by blast
  qed
  have "run_tx guard' upd' err' cs rows' =
      Inr (map (\<lambda>r. case ?pick r of None \<Rightarrow> r | Some c \<Rightarrow> upd' c r) rows')"
    using bwd.run_tx_commits[OF dc keys] armed_all by blast
  also have "map (\<lambda>r. case ?pick r of None \<Rightarrow> r | Some c \<Rightarrow> upd' c r) rows'
      = map (\<lambda>r. if rkey r \<in> ckey ` set cs then undone r else r) rows"
    unfolding rows' map_map
  proof (rule map_cong[OF refl])
    fix r assume r: "r \<in> set rows"
    show "((\<lambda>r. case ?pick r of None \<Rightarrow> r | Some c \<Rightarrow> upd' c r)
           \<circ> (\<lambda>r. case ?pick r of None \<Rightarrow> r | Some c \<Rightarrow> upd c r)) r
        = (if rkey r \<in> ckey ` set cs then undone r else r)"
    proof (cases "?pick r")
      case None
      then have "rkey r \<notin> ckey ` set cs" by (force simp: find_None_iff)
      with None show ?thesis by simp
    next
      case (Some c)
      then have "rkey r \<in> ckey ` set cs" by (auto simp: find_Some_iff image_iff) (metis nth_mem)
      with Some undoes[OF pick[OF r Some]] show ?thesis by (simp add: fwd.upd_key)
    qed
  qed
  finally show ?thesis .
qed

end

end
