(* ===== verification/MigrationRun.thy ===== *)
theory MigrationRun
  imports TopicMigration CasTx
begin

text \<open>
  The effects of \<open>scripts/preview_topic_migration.py\<close>: the scan of the Preview sessions,
  the backup, the two compare-and-swap transactions, the host catalog, \<open>apply\<close>,
  \<open>rollback\<close> and the command line. Interpretations of \<open>cas_update\<close> and \<open>cas_pair\<close> at
  the script's UPDATE statements give the laws of the transactions.
\<close>

section \<open>Places\<close>

definition session_db :: "path \<Rightarrow> path" where
  "session_db preview = child (child preview ''desktop'') ''session-state-v1.sqlite''"

definition project_file :: "path \<Rightarrow> path" where
  "project_file preview = child preview ''desktop-projects.json''"

definition host_catalog :: "path \<Rightarrow> path" where
  "host_catalog preview = child (parent preview) ''workbench-sessions.json''"

definition backup_at :: "path \<Rightarrow> string \<Rightarrow> path" where
  "backup_at preview stamp = child (child preview ''backups'') (''topic-migration-'' @ stamp)"

lemmas place_defs = session_db_def project_file_def host_catalog_def backup_at_def

section \<open>Scan\<close>

definition scan_row ::
    "(string \<Rightarrow> int option) \<Rightarrow> fs \<Rightarrow> path \<Rightarrow> topics \<Rightarrow> session_row
     \<Rightarrow> change list \<times> (string \<times> string) list \<Rightarrow> (change list \<times> (string \<times> string) list) res" where
  "scan_row iso_ms f stable_dir topics r st =
     (if sess_state r \<noteq> ''ready'' then Inr st
      else
        rbind (mapped_topic iso_ms f stable_dir (sess_id r) (workspace_root r) topics) (\<lambda>m.
        case m of
          None \<Rightarrow> Inr st
        | Some tid \<Rightarrow>
            if tid = [] then Inr st
            else
              (case map_of topics tid of
                 None \<Rightarrow> Inl (KeyErr tid)
               | Some t \<Rightarrow>
                   Inr (if title_source r = ''fallback'' \<and> valid_title (t_title t)
                           \<and> sess_title r \<noteq> t_title t
                        then fst st @ [\<lparr>c_session = sess_id r, c_topic = tid,
                                        c_before = sess_title r, c_after = t_title t,
                                        c_revision = title_revision r\<rparr>]
                        else fst st,
                        snd st @ [(sess_id r, tid)]))))"

definition scan_rows ::
    "(string \<Rightarrow> int option) \<Rightarrow> fs \<Rightarrow> path \<Rightarrow> topics \<Rightarrow> session_row list
     \<Rightarrow> (change list \<times> (string \<times> string) list) res" where
  "scan_rows iso_ms f stable_dir topics rows =
     rfold (scan_row iso_ms f stable_dir topics) rows ([], [])"

section \<open>The two UPDATE statements\<close>

definition migrate_guard :: "change \<Rightarrow> session_row \<Rightarrow> bool" where
  "migrate_guard c r \<longleftrightarrow> sess_id r = c_session c \<and> sess_state r = ''ready''
     \<and> title_source r = ''fallback'' \<and> title_revision r = c_revision c
     \<and> sess_title r = c_before c"

definition migrate_set :: "change \<Rightarrow> session_row \<Rightarrow> session_row" where
  "migrate_set c r = r\<lparr>sess_title := c_after c, title_source := ''legacy_unknown'',
     title_revision := title_revision r + 1\<rparr>"

definition migrate_error :: "change \<Rightarrow> exc" where
  "migrate_error c = RuntimeErr (''session changed during migration: '' @ c_session c)"

definition rollback_guard :: "change \<Rightarrow> session_row \<Rightarrow> bool" where
  "rollback_guard c r \<longleftrightarrow> sess_id r = c_session c \<and> sess_title r = c_after c
     \<and> title_source r = ''legacy_unknown'' \<and> title_revision r = c_revision c + 1"

definition rollback_set :: "change \<Rightarrow> session_row \<Rightarrow> session_row" where
  "rollback_set c r = r\<lparr>sess_title := c_before c, title_source := ''fallback'',
     title_revision := title_revision r + 1\<rparr>"

definition rollback_error :: "change \<Rightarrow> exc" where
  "rollback_error c = RuntimeErr
     (''session changed since migration: '' @ c_session c @ ''; rollback stopped'')"

text \<open>What a migrated and rolled back session differs in: two revisions.\<close>

definition twice_revised :: "session_row \<Rightarrow> session_row" where
  "twice_revised r = r\<lparr>title_revision := title_revision r + 2\<rparr>"

interpretation mig: cas_update c_session sess_id migrate_guard migrate_set
  by unfold_locales (simp_all add: migrate_guard_def migrate_set_def)

interpretation mig_undo:
  cas_pair c_session sess_id migrate_guard migrate_set rollback_guard rollback_set twice_revised
  by unfold_locales
    (simp_all add: migrate_guard_def migrate_set_def rollback_guard_def rollback_set_def
      twice_revised_def)

definition session_tx ::
    "(change \<Rightarrow> session_row \<Rightarrow> bool) \<Rightarrow> (change \<Rightarrow> session_row \<Rightarrow> session_row) \<Rightarrow> (change \<Rightarrow> exc)
     \<Rightarrow> change list \<Rightarrow> path \<Rightarrow> fs \<Rightarrow> fs res" where
  "session_tx g u err cs db f =
     rbind (open_sessions f db) (\<lambda>rows.
     rbind (run_tx g u err cs rows) (\<lambda>rows'.
     Inr (write_node db (SessionDb rows') f)))"

section \<open>Backup\<close>

text \<open>\<open>temporary.write_text(...); temporary.replace(path)\<close>.\<close>

definition publish :: "path \<Rightarrow> path \<Rightarrow> node \<Rightarrow> (mworld, unit) prog" where
  "publish tmp p n = pseq (try_files (write_file tmp n)) (try_files (rename_file tmp p))"

definition backup_preview :: "path \<Rightarrow> path \<Rightarrow> path \<Rightarrow> (mworld, unit) prog" where
  "backup_preview preview destination project_path =
     pseq (try_files (\<lambda>f. case f destination of
                            Some _ \<Rightarrow> Inl (OSErr (path_str destination))
                          | None \<Rightarrow> Inr (write_node destination Folder f)))
    (pseq (try_files (\<lambda>f. rbind (open_sessions f (session_db preview)) (\<lambda>rows.
                          Inr (write_node (child destination ''session-state-v1.sqlite'')
                                 (SessionDb rows) f))))
    (try_files (\<lambda>f. if is_file f project_path
                    then copy_file project_path (child destination ''desktop-projects.json'') f
                    else Inr f)))"

section \<open>Host catalog\<close>

definition host_change :: "json \<Rightarrow> json \<Rightarrow> json \<Rightarrow> json" where
  "host_change sid before after =
     JObj [(''sessionId'', sid), (''before'', before), (''after'', after)]"

definition ready_titles :: "session_row list \<Rightarrow> (string \<times> string) list" where
  "ready_titles rows =
     map (\<lambda>r. (sess_id r, sess_title r)) (filter (\<lambda>r. sess_state r = ''ready'') rows)"

text \<open>One turn of the loop over the catalog: the item as it is left, and the new host change.\<close>

definition sync_item ::
    "change list \<Rightarrow> string list \<Rightarrow> (string \<times> string) list \<Rightarrow> json \<Rightarrow> (json \<times> json list) res" where
  "sync_item changes already titles item =
     (if \<not> is_dict item then Inr (item, [])
      else
        let sid = field item ''sessionId'' in
        rbind (rcheck (hashable sid) (TypeErr ''unhashable'')) (\<lambda>_.
        let s = (case sid of JStr s \<Rightarrow> Some s | _ \<Rightarrow> None);
            known = (case s of None \<Rightarrow> False | Some x \<Rightarrow> x \<in> set already);
            change = (case s of None \<Rightarrow> None | Some x \<Rightarrow> find (\<lambda>c. c_session c = x) (rev changes));
            identity = (case s of None \<Rightarrow> [] | Some x \<Rightarrow>
                          (case map_of (rev titles) x of None \<Rightarrow> [] | Some t \<Rightarrow> t));
            title = field item ''title'';
            shown = (if has_field item ''title'' then title else JStr []) in
        Inr (if known then (item, [])
             else case change of
               Some c \<Rightarrow>
                 if shown = JStr [] \<or> shown = JStr (c_before c)
                 then (jput ''title'' (JStr (c_after c)) item,
                       [host_change (JStr (c_session c)) title (JStr (c_after c))])
                 else if \<not> truthy title \<and> identity \<noteq> []
                 then (jput ''title'' (JStr identity) item,
                       [host_change sid title (JStr identity)])
                 else (item, [])
             | None \<Rightarrow>
                 if \<not> truthy title \<and> identity \<noteq> []
                 then (jput ''title'' (JStr identity) item,
                       [host_change sid title (JStr identity)])
                 else (item, []))))"

definition journal_changes :: "json \<Rightarrow> change list res" where
  "journal_changes journal = rbind (rbind (jidx journal ''changes'') jiter) (rmap json_change)"

definition session_id_of :: "json \<Rightarrow> string res" where
  "session_id_of item = rbind (jidx item ''sessionId'') jstr"

text \<open>From the reading of the catalog to its publication.\<close>

definition sync_catalog :: "path \<Rightarrow> path \<Rightarrow> json \<Rightarrow> (mworld, unit) prog" where
  "sync_catalog preview backup_dir journal =
     pbind (on_files (\<lambda>f. load_json f (host_catalog preview))) (\<lambda>catalog.
     case catalog of
       JList items \<Rightarrow>
         pbind (lift (journal_changes journal)) (\<lambda>changes.
         pbind (lift (rbind (jget_or journal ''hostCatalogChanges'' (JList [])) jiter)) (\<lambda>host.
         pbind (lift (rmap session_id_of host)) (\<lambda>already.
         pbind (on_files (\<lambda>f. open_sessions f (session_db preview))) (\<lambda>rows.
         pbind (lift (rmap (sync_item changes already (ready_titles rows)) items)) (\<lambda>synced.
         let host' = host @ concat (map snd synced);
             journal' = jput ''hostCatalogChanges'' (JList host') journal in
         pseq (try_files (write_file (child backup_dir ''journal.json'') (Doc journal')))
        (pseq (publish
                 (with_name (host_catalog preview) ''.workbench-sessions.topic-migration.tmp'')
                 (host_catalog preview) (Doc (JList (map fst synced))))
        (print_json (JInt (int (length host'))))))))))
     | _ \<Rightarrow> raise (ValueErr ''Preview host catalog must be a list''))"

definition sync_host_catalog :: "path \<Rightarrow> path \<Rightarrow> (mworld, unit) prog" where
  "sync_host_catalog preview backup_dir =
     pbind (on_files (\<lambda>f. load_json f (child backup_dir ''journal.json''))) (\<lambda>journal.
     pbind (reads (\<lambda>w. is_file (files w) (host_catalog preview))) (\<lambda>present.
     if \<not> present then ret ()
     else
       pseq (try_files (\<lambda>f. if is_file f (child backup_dir ''workbench-sessions.json'') then Inr f
                            else copy_file (host_catalog preview)
                                   (child backup_dir ''workbench-sessions.json'') f))
       (sync_catalog preview backup_dir journal)))"

section \<open>Apply\<close>

definition summary_json :: "topics \<Rightarrow> change list \<Rightarrow> (string \<times> string) list \<Rightarrow> json \<Rightarrow> session_row list \<Rightarrow> json" where
  "summary_json topics changes matched folders rows = JObj
     [(''stableTopics'', JInt (int (length topics))),
      (''matchedReadySessions'', JInt (int (length matched))),
      (''titleChanges'', JInt (int (length changes))),
      (''projectFolders'', JInt (case field folders ''projects'' of JList xs \<Rightarrow> int (length xs) | _ \<Rightarrow> 0)),
      (''unmatchedReadySessions'',
       JInt (int (length (filter (\<lambda>r. sess_state r = ''ready'') rows)) - int (length matched)))]"

definition journal_json :: "change list \<Rightarrow> bool \<Rightarrow> json \<Rightarrow> json" where
  "journal_json changes existed folders = JObj
     [(''changes'', JList (map change_json changes)), (''projectFileExisted'', JBool existed),
      (''foldersAfter'', folders)]"

text \<open>The part of \<open>apply\<close> after \<open>if not write: return\<close>.\<close>

definition apply_write :: "path \<Rightarrow> string \<Rightarrow> change list \<Rightarrow> json \<Rightarrow> (mworld, unit) prog" where
  "apply_write preview stamp changes folders =
     (let bdir = backup_at preview stamp; project = project_file preview in
      pseq (backup_preview preview bdir project)
     (pbind (reads (\<lambda>w. is_file (files w) project)) (\<lambda>existed.
      pseq (try_files (write_file (child bdir ''journal.json'')
              (Doc (journal_json changes existed folders))))
     (pseq (try_files (session_tx migrate_guard migrate_set migrate_error changes (session_db preview)))
     (pseq (publish (with_name project ''.desktop-projects.topic-migration.tmp'')
              project (Doc folders))
     (pseq (sync_host_catalog preview bdir)
     (print_json (JStr (path_str bdir)))))))))"

definition apply_migration ::
    "(string \<Rightarrow> int option) \<Rightarrow> string \<Rightarrow> path \<Rightarrow> path \<Rightarrow> bool \<Rightarrow> (mworld, unit) prog" where
  "apply_migration iso_ms stamp stable_dir preview write =
     pbind (on_files (topic_records stable_dir)) (\<lambda>pt.
     pbind (on_files (\<lambda>f. open_sessions f (session_db preview))) (\<lambda>rows.
     pbind (on_files (\<lambda>f. scan_rows iso_ms f stable_dir (snd pt) rows)) (\<lambda>cm.
     pbind (on_files (\<lambda>f. if is_file f (project_file preview)
                          then load_json f (project_file preview) else Inr (JObj []))) (\<lambda>current.
     pbind (lift (proposed_folders (fst pt) stable_dir current)) (\<lambda>folders.
     pseq (print_json (summary_json (snd pt) (fst cm) (snd cm) folders rows))
     (if \<not> write then ret () else apply_write preview stamp (fst cm) folders))))))"

section \<open>Rollback\<close>

definition restore_projects :: "path \<Rightarrow> path \<Rightarrow> json \<Rightarrow> fs \<Rightarrow> fs res" where
  "restore_projects preview backup_dir journal f =
     (if \<not> is_file f (project_file preview) then Inr f
      else
        rbind (load_json f (project_file preview)) (\<lambda>current.
        rbind (jidx journal ''foldersAfter'') (\<lambda>after.
        if \<not> jeq current after then Inr f
        else
          rbind (jidx journal ''projectFileExisted'') (\<lambda>existed.
          if truthy existed
          then copy_file (child backup_dir ''desktop-projects.json'') (project_file preview) f
          else Inr (remove_node (project_file preview) f)))))"

definition restore_item :: "(string \<times> json) list \<Rightarrow> json \<Rightarrow> json res" where
  "restore_item befores item =
     (if \<not> is_dict item then Inr item
      else
        rbind (rcheck (hashable (field item ''sessionId'')) (TypeErr ''unhashable'')) (\<lambda>_.
        case (case field item ''sessionId'' of JStr s \<Rightarrow> map_of (rev befores) s | _ \<Rightarrow> None) of
          None \<Rightarrow> Inr item
        | Some change \<Rightarrow>
            rbind (jidx change ''after'') (\<lambda>after.
            if \<not> jeq (field item ''title'') after then Inr item
            else
              rbind (jidx change ''before'') (\<lambda>before.
              Inr (if before = JNull then jpop ''title'' item else jput ''title'' before item)))))"

definition keyed_change :: "json \<Rightarrow> (string \<times> json) res" where
  "keyed_change item = rbind (session_id_of item) (\<lambda>s. Inr (s, item))"

definition restored_catalog :: "json \<Rightarrow> fs \<Rightarrow> path \<Rightarrow> json res" where
  "restored_catalog host f catalog_path =
     rbind (load_json f catalog_path) (\<lambda>catalog.
     rbind (rbind (jiter host) (rmap keyed_change)) (\<lambda>befores.
     rbind (jiter catalog) (\<lambda>items.
     rbind (rmap (restore_item befores) items) (\<lambda>restored.
     Inr (case catalog of JList _ \<Rightarrow> JList restored | _ \<Rightarrow> catalog)))))"

definition restore_host :: "path \<Rightarrow> json \<Rightarrow> (mworld, unit) prog" where
  "restore_host preview journal =
     pbind (reads (\<lambda>w. is_file (files w) (host_catalog preview))) (\<lambda>present.
     if \<not> present then ret ()
     else
       pbind (lift (jget journal ''hostCatalogChanges'')) (\<lambda>host.
       if \<not> truthy host then ret ()
       else
         pbind (on_files (\<lambda>f. restored_catalog host f (host_catalog preview))) (\<lambda>catalog.
         publish (with_name (host_catalog preview) ''.workbench-sessions.topic-rollback.tmp'')
           (host_catalog preview) (Doc catalog))))"

definition rollback :: "path \<Rightarrow> path \<Rightarrow> (mworld, unit) prog" where
  "rollback preview backup_dir =
     pbind (on_files (\<lambda>f. load_json f (child backup_dir ''journal.json''))) (\<lambda>journal.
     pbind (lift (journal_changes journal)) (\<lambda>changes.
     pseq (try_files (session_tx rollback_guard rollback_set rollback_error changes (session_db preview)))
    (pseq (try_files (restore_projects preview backup_dir journal))
    (pseq (restore_host preview journal)
    (print_json (JStr ''Rolled back matching titles and unchanged project folders.''))))))"

section \<open>Command line\<close>

datatype command = Rollback path | SyncHost path | Run bool

datatype outcome = Exit int | Traceback exc

text \<open>\<open>except (OSError, ValueError, sqlite3.Error, RuntimeError)\<close>: exit status 1.\<close>

definition handled :: "exc \<Rightarrow> bool" where
  "handled e = (case e of OSErr _ \<Rightarrow> True | ValueErr _ \<Rightarrow> True | SqliteErr _ \<Rightarrow> True
                | RuntimeErr _ \<Rightarrow> True | _ \<Rightarrow> False)"

definition run_command ::
    "(string \<Rightarrow> int option) \<Rightarrow> string \<Rightarrow> path \<Rightarrow> path \<Rightarrow> command \<Rightarrow> mworld \<Rightarrow> outcome \<times> mworld" where
  "run_command iso_ms stamp stable_dir preview cmd w =
     (case (case cmd of
              Rollback bdir \<Rightarrow> rollback preview bdir w
            | SyncHost bdir \<Rightarrow> sync_host_catalog preview bdir w
            | Run write \<Rightarrow> apply_migration iso_ms stamp stable_dir preview write w) of
        (Inr _, w') \<Rightarrow> (Exit 0, w')
      | (Inl e, w') \<Rightarrow> if handled e then (Exit 1, w') else (Traceback e, w'))"

end
