(* ===== verification/MigrationFacts.thy ===== *)
theory MigrationFacts
  imports MigrationRun
begin

text \<open>
  Facts about the topic migration that its properties rest on: what the scan proposes,
  which paths each step can touch, and how the host catalog's item updates are undone.
\<close>

section \<open>The scan proposes only admissible changes\<close>

lemma scan_row_cases:
  assumes "scan_row iso_ms f stable_dir topics r st = Inr st'"
  shows "fst st' = fst st \<or>
    (\<exists>c. fst st' = fst st @ [c] \<and> c_session c = sess_id r \<and> migrate_guard c r
         \<and> valid_title (c_after c) \<and> c_after c \<noteq> c_before c)"
proof -
  let ?c = "\<lambda>tid t. \<lparr>c_session = sess_id r, c_topic = tid, c_before = sess_title r,
    c_after = t, c_revision = title_revision r\<rparr>"
  from assms consider "fst st' = fst st"
    | tid t where "fst st' = fst st @ [?c tid t]" "sess_state r = ''ready''"
        "title_source r = ''fallback''" "valid_title t" "sess_title r \<noteq> t"
    unfolding scan_row_def by (auto split: if_splits option.splits)
  then show ?thesis
  proof cases
    case (2 tid t)
    then show ?thesis
      by (intro disjI2 exI[of _ "?c tid t"]) (simp add: migrate_guard_def)
  qed simp
qed

lemma scan_fold_changes:
  assumes "rfold (scan_row iso_ms f stable_dir topics) rows st = Inr st'"
  shows "\<exists>cs. fst st' = fst st @ cs
     \<and> set (map c_session cs) \<subseteq> set (map sess_id rows)
     \<and> (distinct (map sess_id rows) \<longrightarrow> distinct (map c_session cs))
     \<and> (\<forall>c \<in> set cs. valid_title (c_after c) \<and> c_after c \<noteq> c_before c
          \<and> (\<exists>r \<in> set rows. migrate_guard c r))"
  using assms
proof (induction rows arbitrary: st)
  case (Cons r rows)
  then obtain st1 where s1: "scan_row iso_ms f stable_dir topics r st = Inr st1"
    and s2: "rfold (scan_row iso_ms f stable_dir topics) rows st1 = Inr st'" by auto
  from Cons.IH[OF s2] obtain cs where cs: "fst st' = fst st1 @ cs"
    "set (map c_session cs) \<subseteq> set (map sess_id rows)"
    "distinct (map sess_id rows) \<longrightarrow> distinct (map c_session cs)"
    "\<forall>c \<in> set cs. valid_title (c_after c) \<and> c_after c \<noteq> c_before c
       \<and> (\<exists>r \<in> set rows. migrate_guard c r)"
    by blast
  from scan_row_cases[OF s1] show ?case
  proof
    assume "fst st1 = fst st"
    with cs show ?case by (intro exI[of _ cs]) auto
  next
    assume "\<exists>c. fst st1 = fst st @ [c] \<and> c_session c = sess_id r \<and> migrate_guard c r
         \<and> valid_title (c_after c) \<and> c_after c \<noteq> c_before c"
    then obtain c where c: "fst st1 = fst st @ [c]" "c_session c = sess_id r" "migrate_guard c r"
      "valid_title (c_after c)" "c_after c \<noteq> c_before c" by blast
    have "c_session c \<notin> c_session ` set cs" if "distinct (map sess_id (r # rows))"
      using that c(2) cs(2) by auto
    with c cs show ?case by (intro exI[of _ "c # cs"]) auto
  qed
qed auto

lemma scan_changes:
  assumes "scan_rows iso_ms f stable_dir topics rows = Inr (changes, matched)"
  shows "set (map c_session changes) \<subseteq> set (map sess_id rows)"
    and "distinct (map sess_id rows) \<Longrightarrow> distinct (map c_session changes)"
    and "\<And>c. c \<in> set changes \<Longrightarrow> valid_title (c_after c) \<and> c_after c \<noteq> c_before c
          \<and> (\<exists>r \<in> set rows. migrate_guard c r)"
  using scan_fold_changes[OF assms[unfolded scan_rows_def]] by auto

section \<open>Which paths a step can touch\<close>

text \<open>A program touches at most the paths satisfying \<open>T\<close>, whatever its outcome.\<close>

definition touches :: "(path \<Rightarrow> bool) \<Rightarrow> (mworld, 'a) prog \<Rightarrow> bool" where
  "touches T m \<longleftrightarrow> (\<forall>w p. \<not> T p \<longrightarrow> files (snd (m w)) p = files w p)"

named_theorems touch_rules "rules for the footprint of a program"

lemma touchesD: "touches T m \<Longrightarrow> \<not> T p \<Longrightarrow> files (snd (m w)) p = files w p"
  by (simp add: touches_def)

lemma touches_weaken: "touches S m \<Longrightarrow> (\<And>p. S p \<Longrightarrow> T p) \<Longrightarrow> touches T m"
  by (auto simp: touches_def)

lemma touches_pure [touch_rules]:
  "touches T (ret x)" "touches T (raise e)" "touches T (lift r)" "touches T (reads g)"
  "touches T (on_files h)" "touches T (print_json j)"
  by (simp_all add: touches_def prog_simps)

lemma touches_pbind [touch_rules]:
  "touches T m \<Longrightarrow> (\<And>x. touches T (k x)) \<Longrightarrow> touches T (pbind m k)"
  unfolding touches_def pbind_run
  by (intro allI impI) (auto split: prod.splits sum.splits, (metis snd_conv)+)

lemma touches_pseq [touch_rules]: "touches T m \<Longrightarrow> touches T k \<Longrightarrow> touches T (pseq m k)"
  unfolding pseq_def by (rule touches_pbind)

lemma touches_if [touch_rules]:
  "(b \<Longrightarrow> touches T m) \<Longrightarrow> (\<not> b \<Longrightarrow> touches T k) \<Longrightarrow> touches T (if b then m else k)"
  by simp

lemma touches_try [touch_rules]:
  "(\<And>f f' p. g f = Inr f' \<Longrightarrow> \<not> T p \<Longrightarrow> f' p = f p) \<Longrightarrow> touches T (try_files g)"
  by (auto simp: touches_def prog_simps split: sum.splits)

lemma write_file_frame: "write_file q n f = Inr f' \<Longrightarrow> p \<noteq> q \<Longrightarrow> f' p = f p"
  by (auto simp: write_file_def split: if_splits)

lemma rename_file_frame: "rename_file t q f = Inr f' \<Longrightarrow> p \<noteq> q \<Longrightarrow> p \<noteq> t \<Longrightarrow> f' p = f p"
  by (auto simp: rename_file_def split: if_splits option.splits)

lemma copy_file_frame: "copy_file s q f = Inr f' \<Longrightarrow> p \<noteq> q \<Longrightarrow> f' p = f p"
  by (auto simp: copy_file_def split: option.splits)

lemma session_tx_frame: "session_tx g u err cs db f = Inr f' \<Longrightarrow> p \<noteq> db \<Longrightarrow> f' p = f p"
  by (auto simp: session_tx_def write_node_def)

lemma touches_publish [touch_rules]: "T t \<Longrightarrow> T q \<Longrightarrow> touches T (publish t q n)"
  unfolding publish_def
  by (intro touch_rules) (metis write_file_frame rename_file_frame)+

lemma touches_write [touch_rules]: "T q \<Longrightarrow> touches T (try_files (write_file q n))"
  by (intro touches_try) (metis write_file_frame)

lemma touches_tx [touch_rules]: "T db \<Longrightarrow> touches T (try_files (session_tx g u err cs db))"
  by (intro touches_try) (metis session_tx_frame)

lemma touches_backup [touch_rules]:
  assumes "T dst" and "T (child dst ''session-state-v1.sqlite'')" and "T (child dst ''desktop-projects.json'')"
  shows "touches T (backup_preview preview dst pp)"
  unfolding backup_preview_def using assms
  by (intro touch_rules) (auto simp: write_node_def copy_file_def split: option.splits if_splits)

lemma touches_sync:
  assumes "T (host_catalog preview)" and "T (child b ''journal.json'')"
    and "T (child b ''workbench-sessions.json'')"
    and "T (child (parent preview) ''.workbench-sessions.topic-migration.tmp'')"
  shows "touches T (sync_host_catalog preview b)"
  unfolding sync_host_catalog_def
proof (intro touch_rules, goal_cases)
  case (1 journal present f f' p)
  then show ?case using assms by (auto simp: copy_file_def split: if_splits option.splits)
next
  case (2 journal present)
  show ?case unfolding sync_catalog_def
    by (intro touch_rules, rename_tac catalog, case_tac catalog)
      (use assms in \<open>auto simp: Let_def host_catalog_def intro!: touch_rules\<close>)
qed

lemma apply_write_touches:
  "touches (\<lambda>p. below preview p \<or> p = host_catalog preview
       \<or> p = child (parent preview) ''.workbench-sessions.topic-migration.tmp'')
     (apply_write preview stamp changes folders)"
  unfolding apply_write_def Let_def
  by (intro touch_rules touches_sync) (simp_all add: place_defs below_child)

section \<open>Host catalog items are restored\<close>

lemma delete_update_new: "map_of kvs k = None \<Longrightarrow> AList.delete k (AList.update k v kvs) = kvs"
  by (induction kvs) (auto simp: AList.delete_eq split: if_splits)

lemma update_back: "map_of kvs k = Some v \<Longrightarrow> AList.update k v (AList.update k v' kvs) = kvs"
  by (induction kvs) (auto split: if_splits)

lemma update_same: "map_of kvs k = Some v \<Longrightarrow> AList.update k v kvs = kvs"
  by (induction kvs) (auto split: if_splits)

lemma jpop_jput: "is_dict d \<Longrightarrow> \<not> has_field d k \<Longrightarrow> jpop k (jput k v d) = d"
  by (auto simp: jpop_def jput_def has_field_def delete_update_new split: json.splits)

lemma jput_back: "is_dict d \<Longrightarrow> has_field d k \<Longrightarrow> jput k (field d k) (jput k v d) = d"
  by (auto simp: jput_def has_field_def field_def update_back update_same split: json.splits)

lemma no_field_null: "\<not> has_field d k \<Longrightarrow> field d k = JNull"
  by (auto simp: has_field_def field_def split: json.splits)

lemma sync_item_cases:
  assumes "sync_item changes [] titles item = Inr sy"
  shows "sy = (item, []) \<or>
    (\<exists>s t. is_dict item \<and> field item ''sessionId'' = JStr s
       \<and> sy = (jput ''title'' (JStr t) item, [host_change (JStr s) (field item ''title'') (JStr t)]))"
proof (cases "is_dict item")
  case False
  with assms show ?thesis by (simp add: sync_item_def del: json_kind_simps)
next
  case True
  have found: "c_session c = s" if "find (\<lambda>c. c_session c = s) cs = Some c" for c s cs
    using that by (auto simp: find_Some_iff)
  show ?thesis
  proof (cases "field item ''sessionId''")
    case (JStr s)
    with True assms show ?thesis
      by (auto simp: sync_item_def Let_def simp del: json_kind_simps dest!: found
          split: if_splits option.splits)
  qed (use True assms in \<open>auto simp: sync_item_def Let_def simp del: is_dict_def split: if_splits\<close>)
qed

lemma restore_synced_item:
  assumes "sync_item changes [] titles item = Inr sy"
    and nonull: "is_dict item \<Longrightarrow> field item ''title'' = JNull \<Longrightarrow> \<not> has_field item ''title''"
    and hit: "\<And>s h. snd sy = [h] \<Longrightarrow> field item ''sessionId'' = JStr s \<Longrightarrow> map_of (rev befores) s = Some h"
    and miss: "\<And>s. is_dict item \<Longrightarrow> snd sy = [] \<Longrightarrow> field item ''sessionId'' = JStr s
                 \<Longrightarrow> map_of (rev befores) s = None"
  shows "restore_item befores (fst sy) = Inr item"
  using sync_item_cases[OF assms(1)]
proof
  assume same: "sy = (item, [])"
  show ?thesis
  proof (cases "is_dict item")
    case True
    have "hashable (field item ''sessionId'')"
      using assms(1) True
      by (auto simp: sync_item_def Let_def rbind_Inr_iff simp del: json_kind_simps)
    with same True miss show ?thesis
      by (auto simp: restore_item_def simp del: json_kind_simps split: json.splits)
  next
    case False
    with same show ?thesis by (simp add: restore_item_def del: json_kind_simps)
  qed
next
  assume "\<exists>s t. is_dict item \<and> field item ''sessionId'' = JStr s
       \<and> sy = (jput ''title'' (JStr t) item, [host_change (JStr s) (field item ''title'') (JStr t)])"
  then obtain s t where d: "is_dict item" "field item ''sessionId'' = JStr s"
    "sy = (jput ''title'' (JStr t) item, [host_change (JStr s) (field item ''title'') (JStr t)])"
    by blast
  then have look: "map_of (rev befores) s = Some (host_change (JStr s) (field item ''title'') (JStr t))"
    using hit by simp
  have dict: "is_dict (jput ''title'' (JStr t) item)" using d(1) by (simp only: is_dict_jput)
  show ?thesis
  proof (cases "field item ''title'' = JNull")
    case True
    then have "\<not> has_field item ''title''" using nonull d(1) by blast
    with d look True dict show ?thesis
      by (simp add: restore_item_def host_change_def jidx_def jpop_jput del: is_dict_def)
  next
    case False
    then have "has_field item ''title''" using no_field_null by blast
    with d look False dict show ?thesis
      by (simp add: restore_item_def host_change_def jidx_def jput_back del: is_dict_def)
  qed
qed

lemma keyed_host_change [simp]:
  "keyed_change (host_change (JStr s) b a) = Inr (s, host_change (JStr s) b a)"
  by (simp add: keyed_change_def session_id_of_def host_change_def jidx_def jstr_def)

definition item_ids :: "json list \<Rightarrow> json list" where
  "item_ids items = map (\<lambda>i. field i ''sessionId'') (filter is_dict items)"

text \<open>The host changes of a pass over the catalog, keyed as the rollback keys them.\<close>

lemma sync_keys:
  assumes "rmap (sync_item changes [] titles) items = Inr synced" and "distinct (item_ids items)"
  shows "\<exists>B. rmap keyed_change (concat (map snd synced)) = Inr B
    \<and> (\<forall>s \<in> fst ` set B. JStr s \<in> set (item_ids items)) \<and> distinct (map fst B)
    \<and> list_all2 (\<lambda>i sy. \<forall>s. is_dict i \<and> field i ''sessionId'' = JStr s \<longrightarrow>
         (case snd sy of [] \<Rightarrow> s \<notin> fst ` set B | h # _ \<Rightarrow> (s, h) \<in> set B)) items synced"
  using assms
proof (induction items arbitrary: synced)
  case (Cons i items)
  then obtain sy sys where sy: "sync_item changes [] titles i = Inr sy"
    and sys: "rmap (sync_item changes [] titles) items = Inr sys" and synced: "synced = sy # sys" by auto
  have dist: "distinct (item_ids items)"
    using Cons.prems(2) by (auto simp: item_ids_def simp del: is_dict_def split: if_splits)
  have fresh: "field i ''sessionId'' \<notin> set (item_ids items)" if "is_dict i"
    using Cons.prems(2) that by (simp add: item_ids_def del: is_dict_def)
  have mem: "field j ''sessionId'' \<in> set (item_ids items)" if "is_dict j" "j \<in> set items" for j
    using that by (simp add: item_ids_def del: is_dict_def)
  from Cons.IH[OF sys dist] obtain B where B: "rmap keyed_change (concat (map snd sys)) = Inr B"
    "\<forall>s \<in> fst ` set B. JStr s \<in> set (item_ids items)" "distinct (map fst B)"
    "list_all2 (\<lambda>i sy. \<forall>s. is_dict i \<and> field i ''sessionId'' = JStr s \<longrightarrow>
         (case snd sy of [] \<Rightarrow> s \<notin> fst ` set B | h # _ \<Rightarrow> (s, h) \<in> set B)) items sys"
    by blast
  from sync_item_cases[OF sy] show ?case
  proof
    assume "sy = (i, [])"
    with B synced fresh show ?case
      by (intro exI[of _ B]) (auto simp: item_ids_def simp del: is_dict_def)
  next
    assume "\<exists>s t. is_dict i \<and> field i ''sessionId'' = JStr s
       \<and> sy = (jput ''title'' (JStr t) i, [host_change (JStr s) (field i ''title'') (JStr t)])"
    then obtain s h where s: "is_dict i" "field i ''sessionId'' = JStr s" "snd sy = [h]"
      "keyed_change h = Inr (s, h)" by fastforce
    have new: "s \<notin> fst ` set B" using B(2) fresh[OF s(1)] s(2) by auto
    have "list_all2 (\<lambda>i sy. \<forall>s'. is_dict i \<and> field i ''sessionId'' = JStr s' \<longrightarrow>
         (case snd sy of [] \<Rightarrow> s' \<notin> fst ` set ((s, h) # B) | h' # _ \<Rightarrow> (s', h') \<in> set ((s, h) # B))) items sys"
      using B(4)
    proof (rule list.rel_mono_strong)
      fix j y assume "j \<in> set items" "y \<in> set sys"
        and old: "\<forall>s. is_dict j \<and> field j ''sessionId'' = JStr s \<longrightarrow>
         (case snd y of [] \<Rightarrow> s \<notin> fst ` set B | h # _ \<Rightarrow> (s, h) \<in> set B)"
      then have "JStr s \<noteq> field j ''sessionId''" if "is_dict j"
        using fresh[OF s(1)] mem[OF that] s(2) by auto
      with old show "\<forall>s'. is_dict j \<and> field j ''sessionId'' = JStr s' \<longrightarrow>
         (case snd y of [] \<Rightarrow> s' \<notin> fst ` set ((s, h) # B) | h' # _ \<Rightarrow> (s', h') \<in> set ((s, h) # B))"
        by (auto simp del: is_dict_def split: list.splits)
    qed
    with B s synced new show ?case
      by (intro exI[of _ "(s, h) # B"]) (auto simp: item_ids_def simp del: is_dict_def)
  qed
qed (simp add: item_ids_def)

text \<open>The rollback of a synchronised catalog returns every item to what it was.\<close>

definition catalog_ok :: "json list \<Rightarrow> bool" where
  "catalog_ok items \<longleftrightarrow> distinct (item_ids items)
     \<and> list_all (\<lambda>i. is_dict i \<longrightarrow> field i ''title'' = JNull \<longrightarrow> \<not> has_field i ''title'') items"

lemma restore_synced:
  assumes "rmap (sync_item changes [] titles) items = Inr synced" and "catalog_ok items"
  shows "\<exists>B. rmap keyed_change (concat (map snd synced)) = Inr B
    \<and> rmap (restore_item B) (map fst synced) = Inr items"
proof -
  from sync_keys[OF assms(1)] assms(2) obtain B where
    B: "rmap keyed_change (concat (map snd synced)) = Inr B" "distinct (map fst B)"
    and keyed: "list_all2 (\<lambda>i sy. \<forall>s. is_dict i \<and> field i ''sessionId'' = JStr s \<longrightarrow>
         (case snd sy of [] \<Rightarrow> s \<notin> fst ` set B | h # _ \<Rightarrow> (s, h) \<in> set B)) items synced"
    unfolding catalog_ok_def by blast
  have dist: "distinct (map fst (rev B))" using B(2) by (simp add: rev_map [symmetric])
  have step: "list_all2 (\<lambda>i sy. sync_item changes [] titles i = Inr sy) items synced"
    using assms(1) by (simp add: rmap_Inr_iff)
  have "list_all2 (\<lambda>i sy. restore_item B (fst sy) = Inr i) items synced"
    unfolding list_all2_conv_all_nth
  proof (intro conjI allI impI)
    show len: "length items = length synced" using step by (rule list_all2_lengthD)
    fix k assume k: "k < length items"
    let ?i = "items ! k" let ?sy = "synced ! k"
    have sy: "sync_item changes [] titles ?i = Inr ?sy"
      using step k by (simp add: list_all2_conv_all_nth)
    have key: "\<forall>s. is_dict ?i \<and> field ?i ''sessionId'' = JStr s \<longrightarrow>
         (case snd ?sy of [] \<Rightarrow> s \<notin> fst ` set B | h # _ \<Rightarrow> (s, h) \<in> set B)"
      using keyed k by (simp add: list_all2_conv_all_nth del: is_dict_def)
    have dict: "is_dict ?i" if "snd ?sy \<noteq> []"
      using sync_item_cases[OF sy] that by auto
    show "restore_item B (fst ?sy) = Inr ?i"
    proof (rule restore_synced_item[OF sy])
      show "\<not> has_field ?i ''title''" if "is_dict ?i" "field ?i ''title'' = JNull"
        using assms(2) k that by (simp add: catalog_ok_def list_all_iff del: is_dict_def)
      show "map_of (rev B) s = Some h" if "snd ?sy = [h]" "field ?i ''sessionId'' = JStr s" for s h
        using key that dict dist by (simp add: map_of_eq_Some_iff del: is_dict_def)
      show "map_of (rev B) s = None"
        if "is_dict ?i" "snd ?sy = []" "field ?i ''sessionId'' = JStr s" for s
        using key that by (simp add: map_of_eq_None_iff del: is_dict_def)
    qed
  qed
  then have "rmap (restore_item B) (map fst synced) = Inr items"
    by (simp add: rmap_Inr_iff list_all2_conv_all_nth)
  with B(1) show ?thesis by blast
qed

section \<open>Effects of the steps on success\<close>

lemma write_file_ok: "write_file p n f = Inr f' \<longleftrightarrow> f p \<noteq> Some Folder \<and> f' = f(p \<mapsto> n)"
  by (auto simp: write_file_def)

lemma rename_file_ok:
  "rename_file t p f = Inr f' \<longleftrightarrow>
     f p \<noteq> Some Folder \<and> (\<exists>n. f t = Some n \<and> f' = (f(t := None))(p \<mapsto> n))"
  by (auto simp: rename_file_def split: option.splits)

lemma publish_ok:
  assumes "t \<noteq> p"
  shows "publish t p n w = (Inr u, w') \<longleftrightarrow>
     files w t \<noteq> Some Folder \<and> files w p \<noteq> Some Folder
     \<and> w' = w\<lparr>files := ((files w)(t := None))(p \<mapsto> n)\<rparr>"
  using assms
  by (auto simp: publish_def ok_simps write_file_ok rename_file_ok fun_upd_twist)

lemma session_tx_ok:
  "session_tx g u err cs db f = Inr f' \<longleftrightarrow>
     (\<exists>rows rows'. f db = Some (SessionDb rows) \<and> run_tx g u err cs rows = Inr rows'
        \<and> f' = f(db \<mapsto> SessionDb rows'))"
  by (auto simp: session_tx_def write_node_def rbind_Inr_iff)

lemma host_tmp: "with_name (host_catalog preview) t = child (parent preview) t"
  by (simp add: host_catalog_def)

lemma host_catalog_child: "host_catalog preview = child (parent preview) ''workbench-sessions.json''"
  by (simp add: host_catalog_def)

lemma sync_absent:
  assumes "sync_host_catalog preview b w = (Inr u, w')" and "\<not> is_file (files w) (host_catalog preview)"
  shows "files w' = files w"
  using assms by (auto simp: sync_host_catalog_def ok_simps)

lemma sync_present:
  assumes "sync_host_catalog preview b w = (Inr u, w')"
    and present: "is_file (files w) (host_catalog preview)"
    and J: "files w (child b ''journal.json'') = Some (Doc J)"
    and apart: "b \<noteq> parent preview"
  shows "\<exists>items host changes already rows synced.
      files w (host_catalog preview) = Some (Doc (JList items))
    \<and> journal_changes J = Inr changes
    \<and> rbind (jget_or J ''hostCatalogChanges'' (JList [])) jiter = Inr host
    \<and> rmap session_id_of host = Inr already
    \<and> rmap (sync_item changes already (ready_titles rows)) items = Inr synced
    \<and> files w' (host_catalog preview) = Some (Doc (JList (map fst synced)))
    \<and> files w' (child b ''journal.json'') =
        Some (Doc (jput ''hostCatalogChanges'' (JList (host @ concat (map snd synced))) J))"
proof -
  obtain w1 where w1: "w1 = w \<or> w1 = w\<lparr>files := (files w)(child b ''workbench-sessions.json'' :=
        files w (host_catalog preview))\<rparr>"
    and run: "sync_catalog preview b J w1 = (Inr u, w')"
    using assms(1) present J
    by (auto simp: sync_host_catalog_def ok_simps copy_file_def split: if_splits option.splits)
  have other: "host_catalog preview \<noteq> child b ''workbench-sessions.json''"
    using apart by (auto simp: host_catalog_def)
  with w1 have host1: "files w1 (host_catalog preview) = files w (host_catalog preview)" by auto
  from run obtain j where "files w1 (host_catalog preview) = Some (Doc j)"
    by (auto simp: sync_catalog_def ok_simps)
  with run host1 show ?thesis
    by (cases j)
      (auto simp: sync_catalog_def ok_simps write_file_ok publish_ok host_tmp Let_def
        host_catalog_child, blast)
qed

end
