(* ===== verification/MigrationEffects.thy ===== *)
theory MigrationEffects
  imports MigrationFacts
begin

text \<open>
  What a successful \<open>apply\<close> of the topic migration leaves behind, place by place, and the
  facts that its journal is a decoded document.
\<close>

section \<open>The places are distinct\<close>

lemma places_apart:
  "backup_at preview stamp \<noteq> session_db preview"
  "backup_at preview stamp \<noteq> project_file preview"
  "backup_at preview stamp \<noteq> host_catalog preview"
  "child (backup_at preview stamp) x \<noteq> session_db preview"
  "child (backup_at preview stamp) x \<noteq> project_file preview"
  "child (backup_at preview stamp) x \<noteq> host_catalog preview"
  "child (backup_at preview stamp) x \<noteq> child preview y"
  "child (backup_at preview stamp) x \<noteq> child (parent preview) y"
  "child preview y \<noteq> session_db preview"
  "child preview ''.desktop-projects.topic-migration.tmp'' \<noteq> project_file preview"
  "child preview ''.desktop-projects.topic-migration.tmp'' \<noteq> host_catalog preview"
  "session_db preview \<noteq> project_file preview"
  "session_db preview \<noteq> host_catalog preview"
  "session_db preview \<noteq> child (parent preview) y"
  "project_file preview \<noteq> host_catalog preview"
  "backup_at preview stamp \<noteq> parent preview"
  "project_file preview \<noteq> child (parent preview) ''.workbench-sessions.topic-migration.tmp''"
  "project_file preview \<noteq> child (parent preview) ''.workbench-sessions.topic-rollback.tmp''"
  by (auto simp: place_defs child_def parent_def butlast_append dest!: arg_cong [where f = length])

lemmas places [simp] = places_apart places_apart [symmetric]

lemma project_tmp [simp]: "with_name (project_file preview) t = child preview t"
  by (simp add: project_file_def)

lemma project_file_child: "project_file preview = child preview ''desktop-projects.json''"
  by (simp add: project_file_def)

section \<open>Backup and write\<close>

lemma backup_ok:
  assumes "backup_preview preview (backup_at preview stamp) (project_file preview) w = (Inr u, w')"
  shows "files w' (session_db preview) = files w (session_db preview)"
    and "files w' (project_file preview) = files w (project_file preview)"
    and "files w' (host_catalog preview) = files w (host_catalog preview)"
    and "is_file (files w) (project_file preview) \<Longrightarrow>
           files w' (child (backup_at preview stamp) ''desktop-projects.json'')
             = files w (project_file preview)"
proof -
  let ?b = "backup_at preview stamp"
  let ?f = "\<lambda>rows. (files w)(?b \<mapsto> Folder, child ?b ''session-state-v1.sqlite'' \<mapsto> SessionDb rows)"
  obtain f rows where f: "f = ?f rows"
    and w3: "(if is_file f (project_file preview)
              then copy_file (project_file preview) (child ?b ''desktop-projects.json'') f
              else Inr f) = Inr (files w')"
    using assms
    by (auto simp: backup_preview_def pseq_ok mworld_ok write_node_def rbind_Inr_iff
        cong del: if_weak_cong split: option.splits)
  have same: "f (project_file preview) = files w (project_file preview)"
    using f by auto
  have rest: "files w' p = f p" if "p \<noteq> child ?b ''desktop-projects.json''" for p
    using w3 that by (auto dest: copy_file_frame split: if_splits)
  show "files w' (session_db preview) = files w (session_db preview)"
    "files w' (project_file preview) = files w (project_file preview)"
    "files w' (host_catalog preview) = files w (host_catalog preview)"
    by (simp_all add: rest f)
  show "files w' (child ?b ''desktop-projects.json'') = files w (project_file preview)"
    if "is_file (files w) (project_file preview)"
    using that w3 same
    by (auto simp: copy_file_def is_file_def split: if_splits option.splits dest!: sym [of _ "files w'"])
qed

lemma apply_write_ok:
  assumes "apply_write preview stamp changes folders w = (Inr u, w1)"
  obtains rows rows' w4 w5 where
    "files w (session_db preview) = Some (SessionDb rows)"
    and "run_tx migrate_guard migrate_set migrate_error changes rows = Inr rows'"
    and "files w4 (session_db preview) = Some (SessionDb rows')"
    and "files w (project_file preview) \<noteq> Some Folder"
    and "files w4 (project_file preview) = Some (Doc folders)"
    and "is_file (files w) (project_file preview) \<Longrightarrow>
           files w4 (child (backup_at preview stamp) ''desktop-projects.json'')
             = files w (project_file preview)"
    and "files w4 (host_catalog preview) = files w (host_catalog preview)"
    and "files w4 (child (backup_at preview stamp) ''journal.json'') =
           Some (Doc (journal_json changes (is_file (files w) (project_file preview)) folders))"
    and "sync_host_catalog preview (backup_at preview stamp) w4 = (Inr (), w5)"
    and "files w1 = files w5"
proof -
  let ?b = "backup_at preview stamp"
  from assms obtain v v1 v2 w4 w5 where
    v: "backup_preview preview ?b (project_file preview) w = (Inr (), v)"
    and s1: "try_files (write_file (child ?b ''journal.json'')
      (Doc (journal_json changes (is_file (files v) (project_file preview)) folders))) v = (Inr (), v1)"
    and s2: "try_files (session_tx migrate_guard migrate_set migrate_error changes (session_db preview)) v1
      = (Inr (), v2)"
    and s3: "publish (child preview ''.desktop-projects.topic-migration.tmp'') (project_file preview)
      (Doc folders) v2 = (Inr (), w4)"
    and s4: "sync_host_catalog preview ?b w4 = (Inr (), w5)"
    and s5: "print_json (JStr (path_str ?b)) w5 = (Inr u, w1)"
    unfolding apply_write_def Let_def by (auto simp: pseq_ok pbind_ok basic_ok)
  note saved = backup_ok[OF v]
  have isf: "is_file (files v) (project_file preview) = is_file (files w) (project_file preview)"
    by (simp add: is_file_def saved(2))
  from s1 have f1: "files v1 = (files v)(child ?b ''journal.json'' \<mapsto>
      Doc (journal_json changes (is_file (files w) (project_file preview)) folders))"
    by (auto simp: mworld_ok write_file_ok isf)
  from s2 obtain rows rows' where f2: "files v1 (session_db preview) = Some (SessionDb rows)"
    "run_tx migrate_guard migrate_set migrate_error changes rows = Inr rows'"
    "files v2 = (files v1)(session_db preview \<mapsto> SessionDb rows')"
    by (auto simp: mworld_ok session_tx_ok)
  from s3 have f3: "files v2 (project_file preview) \<noteq> Some Folder"
    "files w4 = ((files v2)(child preview ''.desktop-projects.topic-migration.tmp'' := None))
       (project_file preview \<mapsto> Doc folders)"
    by (auto simp: publish_ok)
  from s5 have f5: "files w1 = files w5" by (auto simp: mworld_ok)
  show ?thesis
    by (rule that[of rows rows' w4 w5])
      (use f1 f2 f3 f5 s4 saved in \<open>simp_all\<close>)
qed

lemma apply_write_session_rows:
  assumes "sync_host_catalog preview (backup_at preview stamp) w4 = (Inr (), w5)"
  shows "files w5 (session_db preview) = files w4 (session_db preview)"
    and "files w5 (project_file preview) = files w4 (project_file preview)"
    and "files w5 (child (backup_at preview stamp) ''desktop-projects.json'')
           = files w4 (child (backup_at preview stamp) ''desktop-projects.json'')"
proof -
  let ?b = "backup_at preview stamp"
  have t: "touches (\<lambda>p. p \<in> {host_catalog preview, child ?b ''journal.json'',
      child ?b ''workbench-sessions.json'', child (parent preview) ''.workbench-sessions.topic-migration.tmp''})
    (sync_host_catalog preview ?b)"
    by (rule touches_sync) simp_all
  have w5: "w5 = snd (sync_host_catalog preview ?b w4)" using assms by simp
  show "files w5 (session_db preview) = files w4 (session_db preview)"
    unfolding w5 by (rule touchesD[OF t]) simp
  show "files w5 (project_file preview) = files w4 (project_file preview)"
    unfolding w5 by (rule touchesD[OF t]) simp
  show "files w5 (child ?b ''desktop-projects.json'') = files w4 (child ?b ''desktop-projects.json'')"
    unfolding w5 by (rule touchesD[OF t]) simp
qed

section \<open>Decoded documents give a decoded journal\<close>

lemma jwf_assoc: "map_of kvs k = Some v \<Longrightarrow> list_all (\<lambda>f. jwf (snd f)) kvs \<Longrightarrow> jwf v"
  by (force simp: list_all_iff dest: map_of_SomeD)

lemma jwf_mem: "(k, v) \<in> set kvs \<Longrightarrow> list_all (\<lambda>f. jwf (snd f)) kvs \<Longrightarrow> jwf v"
  by (force simp: list_all_iff)

lemma jwf_field: "jwf d \<Longrightarrow> jwf (field d k)"
  by (auto simp: field_def intro: jwf_assoc jwf_mem split: json.splits option.splits)

lemma jwf_jget_or: "jget_or d k dflt = Inr v \<Longrightarrow> jwf d \<Longrightarrow> jwf dflt \<Longrightarrow> jwf v"
  by (auto simp: jget_or_def intro: jwf_assoc jwf_mem split: json.splits option.splits)

lemma jwf_get_str: "jget_or d k (JStr []) = Inr v \<Longrightarrow> jwf d \<Longrightarrow> jwf v"
  by (auto dest: jwf_jget_or)

lemma jwf_jidx: "jidx d k = Inr v \<Longrightarrow> jwf d \<Longrightarrow> jwf v"
  by (auto simp: jidx_def intro: jwf_assoc jwf_mem split: json.splits option.splits)

lemma jwf_jiter: "jiter d = Inr xs \<Longrightarrow> jwf d \<Longrightarrow> list_all jwf xs"
  by (auto simp: jiter_def list_all_iff split: json.splits)

lemma jwf_folder: "jwf r \<Longrightarrow> jwf t \<Longrightarrow> jwf (folder r t)"
  by (simp add: folder_def)

lemma rmap_project_folder:
  "rmap project_folder items = Inr own \<Longrightarrow> list_all jwf items \<Longrightarrow> list_all jwf own"
  by (induction items arbitrary: own)
    (auto simp: project_folder_def intro!: jwf_folder intro: jwf_jidx jwf_get_str)

lemma add_folder_jwf:
  "add_folder item st = Inr st' \<Longrightarrow> jwf item \<Longrightarrow> list_all jwf (fst st) \<Longrightarrow> list_all jwf (fst st')"
  unfolding add_folder_def
  by (auto simp: rbind_Inr_iff simp del: json_kind_simps split: if_splits intro!: jwf_folder jwf_field
      intro: jwf_get_str)

lemma proposed_folders_jwf:
  assumes "proposed_folders projects stable_dir current = Inr folders" and "jwf projects" "jwf current"
  shows "jwf folders"
proof -
  from assms(1) obtain ps items own cs others st where
    ps: "jget_or projects ''projects'' (JList []) = Inr ps" "jiter ps = Inr items"
    and own: "rmap project_folder items = Inr own"
    and cs: "jget_or current ''projects'' (JList []) = Inr cs" "jiter cs = Inr others"
    and st: "rfold add_folder others
      (folder (JStr (path_str (child stable_dir ''global-workspace''))) (JStr ''Global'') # own,
       map (\<lambda>d. field d ''root'')
        (folder (JStr (path_str (child stable_dir ''global-workspace''))) (JStr ''Global'') # own)) = Inr st"
    and folders: "folders = JObj [(''projects'', JList (fst st))]"
    unfolding proposed_folders_def Let_def by (auto simp: rbind_Inr_iff)
  have items: "list_all jwf items"
    using jwf_jiter[OF ps(2)] jwf_jget_or[OF ps(1) assms(2)] by simp
  have others: "list_all jwf others"
    using jwf_jiter[OF cs(2)] jwf_jget_or[OF cs(1) assms(3)] by simp
  have "list_all jwf (fst st)"
  proof (rule rfold_invariant[OF st])
    show "list_all jwf (fst
      (folder (JStr (path_str (child stable_dir ''global-workspace''))) (JStr ''Global'') # own,
       map (\<lambda>d. field d ''root'')
        (folder (JStr (path_str (child stable_dir ''global-workspace''))) (JStr ''Global'') # own)))"
      using rmap_project_folder[OF own items] by (simp add: jwf_folder)
    fix item st st' assume "item \<in> set others" "list_all jwf (fst st)" "add_folder item st = Inr st'"
    with others show "list_all jwf (fst st')"
      by (auto simp: list_all_iff intro: add_folder_jwf[unfolded list_all_iff, rule_format])
  qed
  then show ?thesis by (simp add: folders)
qed

end
