(* ===== verification/MigrationProps.thy ===== *)
theory MigrationProps
  imports MigrationEffects
begin

text \<open>
  The properties of \<open>scripts/preview_topic_migration.py\<close>: a dry run and a lost race leave
  the Preview as it was, the stable profile is never written, a rollback undoes a
  migration and refuses to overwrite later edits, and a session is matched to one topic
  of its own workspace or to none.
\<close>

section \<open>Rolling back\<close>

lemma rollback_tx:
  assumes "run_tx migrate_guard migrate_set migrate_error changes rows = Inr rows'"
    and "distinct (map c_session changes)" and "distinct (map sess_id rows)"
  shows "run_tx rollback_guard rollback_set rollback_error changes rows' =
    Inr (map (\<lambda>r. if sess_id r \<in> c_session ` set changes then twice_revised r else r) rows)"
  using assms by (rule mig_undo.undo_committed)

lemma journal_changes_json:
  "journal_changes (journal_json changes existed folders) = Inr changes"
proof -
  have "rmap json_change (map change_json changes) = Inr changes"
    by (induction changes) auto
  then show ?thesis by (simp add: journal_changes_def journal_json_def jidx_def jiter_def)
qed

lemma journal_fields:
  "jidx (jput ''hostCatalogChanges'' h (journal_json changes existed folders)) ''foldersAfter'' = Inr folders"
  "jidx (jput ''hostCatalogChanges'' h (journal_json changes existed folders)) ''projectFileExisted''
     = Inr (JBool existed)"
  "jget (jput ''hostCatalogChanges'' h (journal_json changes existed folders)) ''hostCatalogChanges'' = Inr h"
  "journal_changes (jput ''hostCatalogChanges'' h (journal_json changes existed folders)) = Inr changes"
  "jidx (journal_json changes existed folders) ''foldersAfter'' = Inr folders"
  "jidx (journal_json changes existed folders) ''projectFileExisted'' = Inr (JBool existed)"
  "jget (journal_json changes existed folders) ''hostCatalogChanges'' = Inr JNull"
  "jget_or (journal_json changes existed folders) ''hostCatalogChanges'' d = Inr d"
  using journal_changes_json[of changes existed folders]
  by (simp_all add: journal_json_def jput_def jidx_def jget_def jget_or_def journal_changes_def)

text \<open>The project file of the rollback: the copy where there was one, gone where there was none.\<close>

lemma restore_projects_undoes:
  assumes "f (project_file preview) = Some (Doc folders)" and "jwf folders"
    and "jidx J ''foldersAfter'' = Inr folders" and "jidx J ''projectFileExisted'' = Inr (JBool existed)"
    and "existed \<Longrightarrow> f (child b ''desktop-projects.json'') = Some n"
  shows "restore_projects preview b J f =
    Inr (f(project_file preview := if existed then Some n else None))"
  using assms jeq_refl[OF assms(2)]
  by (auto simp: restore_projects_def copy_file_def remove_node_def load_json_def)

text \<open>The host catalog of the rollback, after a synchronisation that started from an empty record.\<close>

lemma restore_host_undoes:
  assumes "files w (host_catalog preview) = Some (Doc (JList (map fst synced)))"
    and "jget J ''hostCatalogChanges'' = Inr (JList (concat (map snd synced)))"
    and "rmap (sync_item changes [] titles) items = Inr synced" and "catalog_ok items"
    and "files w (child (parent preview) ''.workbench-sessions.topic-rollback.tmp'') \<noteq> Some Folder"
  shows "\<exists>w'. restore_host preview J w = (Inr (), w')
     \<and> files w' (host_catalog preview) = Some (Doc (JList items))
     \<and> (\<forall>p. p \<noteq> host_catalog preview \<longrightarrow>
          p \<noteq> child (parent preview) ''.workbench-sessions.topic-rollback.tmp'' \<longrightarrow> files w' p = files w p)"
proof (cases "concat (map snd synced) = []")
  case True
  from restore_synced[OF assms(3,4)] True have "rmap (restore_item []) (map fst synced) = Inr items"
    by simp
  moreover have "rmap (restore_item []) xs = Inr ys \<Longrightarrow> ys = xs" for xs ys
    by (induction xs arbitrary: ys)
      (auto simp: restore_item_def rbind_Inr_iff simp del: json_kind_simps split: if_splits json.splits)
  ultimately have "items = map fst synced" by blast
  with True assms show ?thesis
    by (intro exI[of _ w]) (simp add: restore_host_def prog_simps)
next
  case False
  from restore_synced[OF assms(3,4)] obtain B where
    B: "rmap keyed_change (concat (map snd synced)) = Inr B"
    "rmap (restore_item B) (map fst synced) = Inr items" by blast
  have "restored_catalog (JList (concat (map snd synced))) (files w) (host_catalog preview) = Inr (JList items)"
    using assms(1) B by (simp add: restored_catalog_def load_json_def jiter_def)
  moreover have "publish t (host_catalog preview) n w = (Inr (),
      w\<lparr>files := ((files w)(t := None))(host_catalog preview \<mapsto> n)\<rparr>)"
    if "t \<noteq> host_catalog preview" "files w t \<noteq> Some Folder" for t n
    using that assms(1) by (simp add: publish_ok)
  ultimately show ?thesis
    using False assms(1,2,5)
    by (auto simp: restore_host_def prog_simps host_tmp host_catalog_child)
qed

lemma apply_migration_ok:
  assumes "apply_migration iso_ms stamp stable_dir preview True w = (Inr u, w1)"
  obtains projects topics rows changes matched current folders v where
    "topic_records stable_dir (files w) = Inr (projects, topics)"
    and "files w (session_db preview) = Some (SessionDb rows)"
    and "scan_rows iso_ms (files w) stable_dir topics rows = Inr (changes, matched)"
    and "current = JObj [] \<or> files w (project_file preview) = Some (Doc current)"
    and "proposed_folders projects stable_dir current = Inr folders"
    and "apply_write preview stamp changes folders v = (Inr (), w1)" and "files v = files w"
proof -
  from assms obtain pt rows cm current folders where
    a: "topic_records stable_dir (files w) = Inr pt"
    "files w (session_db preview) = Some (SessionDb rows)"
    "scan_rows iso_ms (files w) stable_dir (snd pt) rows = Inr cm"
    "(if is_file (files w) (project_file preview)
      then load_json (files w) (project_file preview) else Inr (JObj [])) = Inr current"
    "proposed_folders (fst pt) stable_dir current = Inr folders"
    "apply_write preview stamp (fst cm) folders
      (w\<lparr>printed := printed w @ [summary_json (snd pt) (fst cm) (snd cm) folders rows]\<rparr>) = (Inr u, w1)"
    by (auto simp: apply_migration_def ok_simps simp del: json_kind_simps)
  then show ?thesis
    by (intro that[of "fst pt" "snd pt" rows "fst cm" "snd cm" current folders
        "w\<lparr>printed := printed w @ [summary_json (snd pt) (fst cm) (snd cm) folders rows]\<rparr>"]) (auto split: if_splits)
qed

lemma rollback_of_write:
  assumes w1: "apply_write preview stamp changes folders w = (Inr u, w1)"
    and db: "files w (session_db preview) = Some (SessionDb rows)"
    and dr: "distinct (map sess_id rows)" and dc: "distinct (map c_session changes)"
    and folders: "jwf folders"
    and cat: "\<forall>items. files w (host_catalog preview) = Some (Doc (JList items)) \<longrightarrow> catalog_ok items"
    and tmp: "files w1 (child (parent preview) ''.workbench-sessions.topic-rollback.tmp'') \<noteq> Some Folder"
  shows "\<exists>w2. rollback preview (backup_at preview stamp) w1 = (Inr (), w2)
    \<and> files w2 (session_db preview) = Some (SessionDb
        (map (\<lambda>r. if sess_id r \<in> c_session ` set changes then twice_revised r else r) rows))
    \<and> files w2 (project_file preview) = files w (project_file preview)
    \<and> files w2 (host_catalog preview) = files w (host_catalog preview)"
proof -
  let ?b = "backup_at preview stamp" and ?ex = "is_file (files w) (project_file preview)"
  let ?undone = "map (\<lambda>r. if sess_id r \<in> c_session ` set changes then twice_revised r else r) rows"
  let ?J = "journal_json changes ?ex folders"
  from w1 db obtain rows' w4 w5 where
    tx: "run_tx migrate_guard migrate_set migrate_error changes rows = Inr rows'"
    and w4: "files w4 (session_db preview) = Some (SessionDb rows')"
      "files w (project_file preview) \<noteq> Some Folder"
      "files w4 (project_file preview) = Some (Doc folders)"
      "?ex \<Longrightarrow> files w4 (child ?b ''desktop-projects.json'') = files w (project_file preview)"
      "files w4 (host_catalog preview) = files w (host_catalog preview)"
      "files w4 (child ?b ''journal.json'') = Some (Doc ?J)"
    and sync: "sync_host_catalog preview ?b w4 = (Inr (), w5)" and w5: "files w1 = files w5"
    by (elim apply_write_ok) auto
  note kept = apply_write_session_rows[OF sync]
  define p0 where "p0 = (if ?ex then files w (project_file preview) else None)"
  have p0: "p0 = files w (project_file preview)"
    using w4(2) by (auto simp: p0_def is_file_def split: option.splits node.splits)
  have undo: "run_tx rollback_guard rollback_set rollback_error changes rows' = Inr ?undone"
    by (rule rollback_tx[OF tx dc dr])
  define f1 where "f1 = (files w1)(session_db preview \<mapsto> SessionDb ?undone)"
  define f2 where "f2 = f1(project_file preview := p0)"
  have step1: "try_files (session_tx rollback_guard rollback_set rollback_error changes (session_db preview)) w1
      = (Inr (), w1\<lparr>files := f1\<rparr>)"
    using undo kept(1) w4(1) w5 by (simp add: mworld_ok session_tx_ok f1_def)
  have step2: "restore_projects preview ?b J f1 = Inr f2"
    if "jidx J ''foldersAfter'' = Inr folders" "jidx J ''projectFileExisted'' = Inr (JBool ?ex)" for J
  proof -
    define n where "n = the (files w (project_file preview))"
    have n: "?ex \<Longrightarrow> files w (project_file preview) = Some n"
      by (cases "files w (project_file preview)") (simp_all add: is_file_def n_def)
    have "restore_projects preview ?b J f1 = Inr (f1(project_file preview := if ?ex then Some n else None))"
    proof (rule restore_projects_undoes[OF _ folders that])
      show "f1 (project_file preview) = Some (Doc folders)"
        using kept(2) w4(3) w5 by (simp add: f1_def)
      assume ex: ?ex
      show "f1 (child ?b ''desktop-projects.json'') = Some n"
        using kept(3) w4(4)[OF ex] n[OF ex] w5 by (simp add: f1_def)
    qed
    moreover have "(if ?ex then Some n else None) = p0" 
      by (cases ?ex) (simp_all only: p0_def n if_True if_False)
    ultimately show ?thesis by (simp only: f2_def)
  qed
  have host: "\<exists>J w2. files w1 (child ?b ''journal.json'') = Some (Doc J) \<and> journal_changes J = Inr changes
      \<and> jidx J ''foldersAfter'' = Inr folders \<and> jidx J ''projectFileExisted'' = Inr (JBool ?ex)
      \<and> restore_host preview J (w1\<lparr>files := f2\<rparr>) = (Inr (), w2)
      \<and> files w2 (host_catalog preview) = files w (host_catalog preview)
      \<and> files w2 (session_db preview) = f2 (session_db preview)
      \<and> files w2 (project_file preview) = f2 (project_file preview)"
  proof (cases "is_file (files w4) (host_catalog preview)")
    case False
    then have same: "files w5 = files w4" by (rule sync_absent[OF sync])
    then have "\<not> is_file f2 (host_catalog preview)"
      using False w5 by (simp add: f2_def f1_def is_file_def)
    then show ?thesis
      using same w5 w4 journal_fields journal_changes_json
      by (intro exI[of _ ?J] exI[of _ "w1\<lparr>files := f2\<rparr>"])
        (simp add: restore_host_def prog_simps f2_def f1_def)
  next
    case True
    from sync_present[OF sync True w4(6)] obtain items synced titles where
      items: "files w4 (host_catalog preview) = Some (Doc (JList items))"
      and synced: "rmap (sync_item changes [] titles) items = Inr synced"
      and after: "files w5 (host_catalog preview) = Some (Doc (JList (map fst synced)))"
        "files w5 (child ?b ''journal.json'') =
           Some (Doc (jput ''hostCatalogChanges'' (JList (concat (map snd synced))) ?J))"
      by (auto simp: journal_fields journal_changes_json jiter_def)
    let ?J' = "jput ''hostCatalogChanges'' (JList (concat (map snd synced))) ?J"
    have "\<exists>w2. restore_host preview ?J' (w1\<lparr>files := f2\<rparr>) = (Inr (), w2)
       \<and> files w2 (host_catalog preview) = Some (Doc (JList items))
       \<and> (\<forall>p. p \<noteq> host_catalog preview \<longrightarrow>
          p \<noteq> child (parent preview) ''.workbench-sessions.topic-rollback.tmp'' \<longrightarrow>
          files w2 p = files (w1\<lparr>files := f2\<rparr>) p)"
      by (rule restore_host_undoes[OF _ _ synced])
        (use after items w4(5) w5 cat tmp in \<open>simp_all add: f2_def f1_def journal_fields\<close>)
    then obtain w2 where w2: "restore_host preview ?J' (w1\<lparr>files := f2\<rparr>) = (Inr (), w2)"
      "files w2 (host_catalog preview) = Some (Doc (JList items))"
      "files w2 (session_db preview) = f2 (session_db preview)"
      "files w2 (project_file preview) = f2 (project_file preview)" by auto
    then show ?thesis
      using after items w4(5) w5 by (intro exI[of _ ?J'] exI[of _ w2]) (simp add: journal_fields)
  qed
  then obtain J w2 where J: "files w1 (child ?b ''journal.json'') = Some (Doc J)"
    "journal_changes J = Inr changes" "restore_projects preview ?b J f1 = Inr f2"
    and w2: "restore_host preview J (w1\<lparr>files := f2\<rparr>) = (Inr (), w2)"
      "files w2 (host_catalog preview) = files w (host_catalog preview)"
      "files w2 (session_db preview) = f2 (session_db preview)"
      "files w2 (project_file preview) = f2 (project_file preview)"
    using step2 by blast
  have "rollback preview ?b w1 = (Inr (), w2\<lparr>printed := printed w2 @
      [JStr ''Rolled back matching titles and unchanged project folders.'']\<rparr>)"
  proof -
    have load: "load_json (files w1) (child ?b ''journal.json'') = Inr J" using J(1) by simp
    have step2': "try_files (restore_projects preview ?b J) (w1\<lparr>files := f1\<rparr>) = (Inr (), w1\<lparr>files := f2\<rparr>)"
      using J(3) by (simp add: mworld_ok)
    show ?thesis
      by (simp add: rollback_def pbind_run pseq_run mworld_ops(1,3) prog_run(3) load J(2) step1 step2' w2(1))
  qed
  then show ?thesis
    using w2 p0 by (simp add: f2_def f1_def)
qed

section \<open>Who raises a RuntimeError\<close>

text \<open>A result or program that never raises \<open>RuntimeError\<close>: only the transactions do.\<close>

definition no_rt :: "'a res \<Rightarrow> bool" where
  "no_rt r \<longleftrightarrow> (\<forall>m. r \<noteq> Inl (RuntimeErr m))"

definition never_rt :: "('s, 'a) prog \<Rightarrow> bool" where
  "never_rt m \<longleftrightarrow> (\<forall>w. no_rt (fst (m w)))"

named_theorems rt_rules "results and programs that never raise RuntimeError"

lemma no_rt_basic [rt_rules, simp]:
  "no_rt (Inr x)" "no_rt (rcheck b (TypeErr m))" "no_rt (Inl (OSErr m))" "no_rt (Inl (ValueErr m))"
  "no_rt (Inl (SqliteErr m))" "no_rt (Inl (TypeErr m))" "no_rt (Inl (KeyErr m))" "no_rt (Inl (AttributeErr m))"
  by (auto simp: no_rt_def rcheck_Inl_iff)

lemma no_rt_rbind [rt_rules]: "no_rt m \<Longrightarrow> (\<And>x. no_rt (f x)) \<Longrightarrow> no_rt (rbind m f)"
  by (cases m) (auto simp: no_rt_def)

lemma no_rt_rmap [rt_rules]: "(\<And>x. no_rt (f x)) \<Longrightarrow> no_rt (rmap f xs)"
  by (induction xs) (auto intro!: rt_rules)

lemma no_rt_json [rt_rules, simp]:
  "no_rt (load_json f p)" "no_rt (jget_or d k v)" "no_rt (jget d k)" "no_rt (jidx d k)"
  "no_rt (jiter d)" "no_rt (jstr d)" "no_rt (jint d)" "no_rt (open_sessions f p)" "no_rt (open_topics f p)"
  "no_rt (write_file p n f)" "no_rt (rename_file t p f)" "no_rt (copy_file p t f)"
  by (auto simp: load_json_def jget_or_def jget_def jidx_def jiter_def jstr_def jint_def
      open_sessions_def open_topics_def write_file_def rename_file_def copy_file_def
      split: option.splits node.splits json.splits if_splits)

lemma no_rt_journal [rt_rules]: "no_rt (journal_changes J)" "no_rt (session_id_of i)"
  unfolding journal_changes_def json_change_def session_id_of_def by (intro rt_rules)+

lemma no_rt_sync_item [rt_rules]: "no_rt (sync_item ch al ti i)"
proof (cases "is_dict i")
  case True
  show ?thesis
    unfolding sync_item_def Let_def if_not_P[OF iffD2[OF not_not True]] by (intro rt_rules)
next
  case False
  then show ?thesis by (simp add: sync_item_def)
qed

lemma never_rt_basic [rt_rules]:
  "never_rt (ret x)" "never_rt (reads g)" "never_rt (print_json j)"
  "no_rt r \<Longrightarrow> never_rt (lift r)" "no_rt (Inl e :: unit res) \<Longrightarrow> never_rt (raise e :: ('s, 'a) prog)"
  "(\<And>f. no_rt (h f)) \<Longrightarrow> never_rt (on_files h)" "(\<And>f. no_rt (k f)) \<Longrightarrow> never_rt (try_files k)"
  by (auto simp: never_rt_def no_rt_def prog_simps split: sum.splits)

lemma never_rt_pbind [rt_rules]: "never_rt m \<Longrightarrow> (\<And>x. never_rt (k x)) \<Longrightarrow> never_rt (pbind m k)"
  unfolding never_rt_def no_rt_def pbind_run
  by (auto split: prod.splits sum.splits) (metis fst_conv)+

lemma never_rt_pseq [rt_rules]: "never_rt m \<Longrightarrow> never_rt k \<Longrightarrow> never_rt (pseq m k)"
  unfolding pseq_def by (intro never_rt_pbind)

lemma never_rt_publish [rt_rules]: "never_rt (publish t p n)"
  unfolding publish_def by (intro rt_rules)

lemma never_rt_backup [rt_rules]: "never_rt (backup_preview preview b p)"
  unfolding backup_preview_def by (intro rt_rules) (auto intro: rt_rules split: option.splits)

lemma never_rt_sync [rt_rules]: "never_rt (sync_host_catalog preview b)"
proof -
  have "never_rt (sync_catalog preview b J)" for J
    unfolding sync_catalog_def
    by (intro rt_rules, rename_tac catalog, case_tac catalog) (auto simp: Let_def intro!: rt_rules)
  then show ?thesis
    unfolding sync_host_catalog_def
    by (intro rt_rules) (auto intro!: rt_rules)
qed

text \<open>C1. A rollback that follows a successful migration with nothing in between returns every
  session to its title and title source (two revisions later), and the project file and
  the host catalog to exactly what they were. The documents are decoded JSON (no key
  twice), and the catalog lists no session twice and no explicit null title.\<close>

theorem apply_then_rollback:
  assumes "apply_migration iso_ms stamp stable_dir preview True w = (Inr (), w1)"
    and "files w (session_db preview) = Some (SessionDb rows)" and "distinct (map sess_id rows)"
    and "\<And>p j. files w p = Some (Doc j) \<Longrightarrow> jwf j"
    and "\<And>items. files w (host_catalog preview) = Some (Doc (JList items)) \<Longrightarrow> catalog_ok items"
    and "files w1 (child (parent preview) ''.workbench-sessions.topic-rollback.tmp'') \<noteq> Some Folder"
  shows "\<exists>changed w2. rollback preview (backup_at preview stamp) w1 = (Inr (), w2)
    \<and> (\<forall>s \<in> changed. \<exists>r \<in> set rows. sess_id r = s \<and> sess_state r = ''ready'' \<and> title_source r = ''fallback'')
    \<and> files w2 (session_db preview) = Some (SessionDb
        (map (\<lambda>r. if sess_id r \<in> changed then twice_revised r else r) rows))
    \<and> files w2 (project_file preview) = files w (project_file preview)
    \<and> files w2 (host_catalog preview) = files w (host_catalog preview)"
proof -
  from assms(1) obtain projects topics rows0 changes matched current folders v where
    t: "topic_records stable_dir (files w) = Inr (projects, topics)"
    and r0: "files w (session_db preview) = Some (SessionDb rows0)"
    and scan: "scan_rows iso_ms (files w) stable_dir topics rows0 = Inr (changes, matched)"
    and cur: "current = JObj [] \<or> files w (project_file preview) = Some (Doc current)"
    and folders: "proposed_folders projects stable_dir current = Inr folders"
    and run: "apply_write preview stamp changes folders v = (Inr (), w1)" and v: "files v = files w"
    by (rule apply_migration_ok)
  have rows: "rows0 = rows" using r0 assms(2) by simp
  have "files w (child stable_dir ''desktop-projects.json'') = Some (Doc projects)"
    using t by (auto simp: topic_records_def)
  then have jwf: "jwf folders"
    using proposed_folders_jwf[OF folders] assms(4) cur by auto
  have "\<exists>w2. rollback preview (backup_at preview stamp) w1 = (Inr (), w2)
    \<and> files w2 (session_db preview) = Some (SessionDb
        (map (\<lambda>r. if sess_id r \<in> c_session ` set changes then twice_revised r else r) rows))
    \<and> files w2 (project_file preview) = files v (project_file preview)
    \<and> files w2 (host_catalog preview) = files v (host_catalog preview)"
    by (rule rollback_of_write[OF run _ assms(3) _ jwf])
      (use v assms(2,5,6) scan_changes(2)[OF scan] assms(3) rows in auto)
  moreover have "\<forall>s \<in> c_session ` set changes. \<exists>r \<in> set rows. sess_id r = s
      \<and> sess_state r = ''ready'' \<and> title_source r = ''fallback''"
    using scan_changes(3)[OF scan] rows by (fastforce simp: migrate_guard_def)
  ultimately show ?thesis unfolding v by blast
qed

text \<open>C2. Without \<open>--apply\<close> nothing is written, whatever the outcome.\<close>

theorem dry_run_writes_nothing:
  "files (snd (apply_migration iso_ms stamp stable_dir preview False w)) = files w"
proof -
  have "touches (\<lambda>p. False) (apply_migration iso_ms stamp stable_dir preview False)"
    unfolding apply_migration_def by (intro touch_rules) simp
  then show ?thesis by (auto simp: touches_def)
qed

text \<open>C3. The stable profile is opened read-only: a run changes nothing outside the Preview
  directory but the host catalog beside it and the temporary name it is published through,
  whatever the outcome.\<close>

theorem apply_stays_in_preview:
  assumes "\<not> below preview p" and "p \<noteq> host_catalog preview"
    and "p \<noteq> child (parent preview) ''.workbench-sessions.topic-migration.tmp''"
  shows "files (snd (apply_migration iso_ms stamp stable_dir preview write w)) p = files w p"
proof -
  have "touches (\<lambda>p. below preview p \<or> p = host_catalog preview
       \<or> p = child (parent preview) ''.workbench-sessions.topic-migration.tmp'')
     (apply_migration iso_ms stamp stable_dir preview write)"
    unfolding apply_migration_def by (intro touch_rules apply_write_touches)
  then show ?thesis using assms by (auto intro: touchesD)
qed

end
