(* ===== verification/MigrationGuards.thy ===== *)
theory MigrationGuards
  imports MigrationProps
begin

text \<open>
  The guarded paths of \<open>scripts/preview_topic_migration.py\<close>: what a lost race and a refused
  rollback leave behind, what a committed migration made of the session table, and that
  a session is matched to a topic of its own workspace or to none.
\<close>

section \<open>Lost races\<close>

lemma try_files_fails: "try_files g w = (Inl e, w') \<Longrightarrow> w' = w"
  by (auto simp: mworld_ops split: sum.splits)

lemma pseq_fails_left:
  assumes "pseq m k w = (Inl (RuntimeErr e), w')" and "never_rt k"
  shows "m w = (Inl (RuntimeErr e), w')"
  using assms unfolding pseq_run never_rt_def no_rt_def
  by (auto split: prod.splits sum.splits) (metis fst_conv)+

lemma pseq_fails_right:
  assumes "pseq m k w = (Inl (RuntimeErr e), w')" and "never_rt m"
  obtains v where "m w = (Inr (), v)" "k v = (Inl (RuntimeErr e), w')"
  using assms unfolding pseq_run never_rt_def no_rt_def
  by (auto split: prod.splits sum.splits) (metis fst_conv)+

text \<open>The steps up to the transaction write below the backup directory only.\<close>

lemma apply_write_runtime:
  assumes run: "apply_write preview stamp changes folders w = (Inl (RuntimeErr m), w')"
  shows "try_files (session_tx migrate_guard migrate_set migrate_error changes (session_db preview)) w'
       = (Inl (RuntimeErr m), w')"
    and "\<not> below (backup_at preview stamp) p \<Longrightarrow> files w' p = files w p"
proof -
  let ?b = "backup_at preview stamp"
  let ?tx = "try_files (session_tx migrate_guard migrate_set migrate_error changes (session_db preview))"
  let ?journal = "\<lambda>v. try_files (write_file (child ?b ''journal.json'') (Doc (journal_json changes
        (is_file (files v) (project_file preview)) folders)))"
  let ?rest = "pseq (publish (with_name (project_file preview) ''.desktop-projects.topic-migration.tmp'')
        (project_file preview) (Doc folders))
      (pseq (sync_host_catalog preview ?b) (print_json (JStr (path_str ?b))))"
  have rest: "never_rt ?rest" by (intro rt_rules)
  from run obtain v where v: "backup_preview preview ?b (project_file preview) w = (Inr (), v)"
    and v': "pseq (?journal v) (pseq ?tx ?rest) v = (Inl (RuntimeErr m), w')"
    unfolding apply_write_def Let_def
    by (rule pseq_fails_right[OF _ never_rt_backup]) (simp add: pbind_run prog_run)
  have "never_rt (?journal v)" by (intro rt_rules)
  from pseq_fails_right[OF v' this] obtain v1 where v1: "?journal v v = (Inr (), v1)"
    and v1': "pseq ?tx ?rest v1 = (Inl (RuntimeErr m), w')" by blast
  have tx: "?tx v1 = (Inl (RuntimeErr m), w')" by (rule pseq_fails_left[OF v1' rest])
  have same: "w' = v1" by (rule try_files_fails[OF tx])
  show "?tx w' = (Inl (RuntimeErr m), w')" using tx unfolding same .
  show "files w' p = files w p" if outside: "\<not> below ?b p"
  proof -
    have "touches (below ?b) (backup_preview preview ?b (project_file preview))"
      by (intro touch_rules) (simp_all add: below_child)
    from touchesD[OF this outside, of w] v have "files v p = files w p" by simp
    moreover have "files v1 p = files v p"
      using v1 outside by (auto simp: mworld_ok write_file_ok below_child)
    ultimately show ?thesis by (simp add: same)
  qed
qed


section \<open>A refused rollback\<close>

text \<open>C5. A session edited after the migration stops the rollback before it writes anything:
  no later edit is overwritten, in this session or in any other.\<close>

theorem rollback_refuses_edited:
  assumes "files w (child backup_dir ''journal.json'') = Some (Doc journal)"
    and "journal_changes journal = Inr changes"
    and "files w (session_db preview) = Some (SessionDb rows)"
    and "distinct (map c_session changes)" and "distinct (map sess_id rows)"
    and "c \<in> set changes" and "\<forall>r \<in> set rows. \<not> rollback_guard c r"
  shows "\<exists>d \<in> set changes. rollback preview backup_dir w = (Inl (rollback_error d), w)"
proof -
  obtain d where d: "d \<in> set changes"
    and tx: "run_tx rollback_guard rollback_set rollback_error changes rows = Inl (rollback_error d)"
    using mig_undo.bwd.run_tx_refuses[OF assms(4-7)] by blast
  have load: "load_json (files w) (child backup_dir ''journal.json'') = Inr journal"
    "open_sessions (files w) (session_db preview) = Inr rows"
    using assms(1,3) by simp_all
  have "rollback preview backup_dir w = (Inl (rollback_error d), w)"
    by (simp add: rollback_def prog_simps session_tx_def load assms(2) tx)
  with d show ?thesis by blast
qed

section \<open>No race without a race\<close>

lemma no_rt_rfold [rt_rules]: "(\<And>x b. no_rt (g x b)) \<Longrightarrow> no_rt (rfold g xs b)"
  by (induction xs arbitrary: b) (auto intro: rt_rules)

lemma no_rt_if [rt_rules]: "no_rt a \<Longrightarrow> no_rt b \<Longrightarrow> no_rt (if c then a else b)"
  by simp

lemma no_rt_reading [rt_rules]:
  "no_rt (project_group p)" "no_rt (project_folder p)" "no_rt (topic_db stable_dir r)"
  "no_rt (add_topic f db r j d)"
  unfolding project_group_def project_folder_def topic_db_def add_topic_def sql_text_def
  by (intro rt_rules, auto split: json.splits intro!: rt_rules)+

lemma no_rt_group [rt_rules]: "no_rt (add_group f stable_dir g d)"
  unfolding add_group_def by (intro rt_rules)

lemma no_rt_topics [rt_rules]: "no_rt (topic_records stable_dir f)"
  unfolding topic_records_def by (intro rt_rules)

lemma no_rt_sidecar [rt_rules]: "no_rt (sidecar_topic f stable_dir r topics p)"
  using no_rt_json(1)[of f p] unfolding sidecar_topic_def
  by (auto simp: no_rt_def rbind_def jget_or_def rcheck_def split: sum.splits exc.splits json.splits if_splits option.splits)

lemma no_rt_mapped [rt_rules]: "no_rt (mapped_topic iso_ms f stable_dir sid r topics)"
proof -
  have "no_rt (created_topic iso_ms stable_dir r topics c)" for c
    unfolding created_topic_def by (auto split: json.splits option.splits)
  then show ?thesis
    unfolding mapped_topic_def Let_def by (intro rt_rules)
qed

lemma no_rt_scan [rt_rules]: "no_rt (scan_rows iso_ms f stable_dir topics rows)"
proof -
  have "no_rt (scan_row iso_ms f stable_dir topics r st)" for r st
    unfolding scan_row_def
    by (intro rt_rules) (auto split: option.splits)
  then show ?thesis unfolding scan_rows_def by (intro rt_rules)
qed

lemma no_rt_folders [rt_rules]: "no_rt (proposed_folders projects stable_dir current)"
proof -
  have "no_rt (add_folder i st)" for i st
    unfolding add_folder_def by (intro rt_rules)
  then show ?thesis unfolding proposed_folders_def Let_def by (intro rt_rules)
qed

lemma pbind_fails_right:
  assumes "pbind m k w = (Inl (RuntimeErr e), w')" and "never_rt m"
  obtains x v where "m w = (Inr x, v)" "k x v = (Inl (RuntimeErr e), w')"
  using assms unfolding pbind_run never_rt_def no_rt_def
  by (auto split: prod.splits sum.splits) (metis fst_conv)+

lemma apply_migration_runtime:
  assumes "apply_migration iso_ms stamp stable_dir preview write w = (Inl (RuntimeErr m), w')"
  obtains topics rows changes matched folders v where
    "files w (session_db preview) = Some (SessionDb rows)"
    and "scan_rows iso_ms (files w) stable_dir topics rows = Inr (changes, matched)"
    and "apply_write preview stamp changes folders v = (Inl (RuntimeErr m), w')" and "files v = files w"
proof -
  from assms obtain pt rows cm folders where rows: "files w (session_db preview) = Some (SessionDb rows)"
    and cm: "scan_rows iso_ms (files w) stable_dir (snd pt) rows = Inr cm"
    and "pseq (print_json (summary_json (snd pt) (fst cm) (snd cm) folders rows))
     (if \<not> write then ret () else apply_write preview stamp (fst cm) folders) w
     = (Inl (RuntimeErr m), w')"
    unfolding apply_migration_def
    by (elim pbind_fails_right)
      (auto simp: mworld_ok basic_ok intro!: rt_rules simp del: split_paired_Ex)
  then have "apply_write preview stamp (fst cm) folders
      (w\<lparr>printed := printed w @ [summary_json (snd pt) (fst cm) (snd cm) folders rows]\<rparr>)
      = (Inl (RuntimeErr m), w')"
    by (simp add: pseq_run mworld_ops prog_run split: if_splits)
  then show ?thesis
    by (intro that[of rows "snd pt" "fst cm" "snd cm" folders
        "w\<lparr>printed := printed w @ [summary_json (snd pt) (fst cm) (snd cm) folders rows]\<rparr>"])
      (simp_all add: rows cm)
qed

text \<open>C6. The compare-and-swap never stops a migration by itself: when no other process
  writes between the scan and the transaction (a run of the model), every guard holds.\<close>

theorem no_spurious_conflict:
  assumes "files w (session_db preview) = Some (SessionDb rows)" and "distinct (map sess_id rows)"
  shows "fst (apply_migration iso_ms stamp stable_dir preview write w) \<noteq> Inl (RuntimeErr m)"
proof
  assume "fst (apply_migration iso_ms stamp stable_dir preview write w) = Inl (RuntimeErr m)"
  then obtain w' where "apply_migration iso_ms stamp stable_dir preview write w = (Inl (RuntimeErr m), w')"
    by (cases "apply_migration iso_ms stamp stable_dir preview write w") auto
  then obtain topics rows0 changes matched folders v where
    r0: "files w (session_db preview) = Some (SessionDb rows0)"
    and scan: "scan_rows iso_ms (files w) stable_dir topics rows0 = Inr (changes, matched)"
    and run: "apply_write preview stamp changes folders v = (Inl (RuntimeErr m), w')"
    and v: "files v = files w"
    by (rule apply_migration_runtime)
  have rows: "rows0 = rows" using r0 assms(1) by simp
  have "\<not> below (backup_at preview stamp) (session_db preview)"
    by (simp add: below_def place_defs child_def)
  then have db: "files w' (session_db preview) = Some (SessionDb rows)"
    using apply_write_runtime(2)[OF run] v assms(1) by simp
  have "\<exists>rows'. run_tx migrate_guard migrate_set migrate_error changes rows = Inr rows'"
    using mig.run_tx_commits[OF scan_changes(2)[OF scan] assms(2)] scan_changes(3)[OF scan] assms(2) rows
    by blast
  then have "\<exists>f. session_tx migrate_guard migrate_set migrate_error changes (session_db preview) (files w') = Inr f"
    using db by (auto simp: session_tx_ok)
  then show False
    using apply_write_runtime(1)[OF run] by (auto simp: mworld_ops)
qed

section \<open>What a committed migration made of the sessions\<close>

text \<open>The specification of one session: the title its topic carries over, and the row after it.\<close>

definition carried_title ::
    "(string \<Rightarrow> int option) \<Rightarrow> fs \<Rightarrow> path \<Rightarrow> topics \<Rightarrow> session_row \<Rightarrow> string option" where
  "carried_title iso_ms f stable_dir topics r =
     (if sess_state r = ''ready'' \<and> title_source r = ''fallback''
      then case mapped_topic iso_ms f stable_dir (sess_id r) (workspace_root r) topics of
             Inr (Some tid) \<Rightarrow>
               (case map_of topics tid of
                  Some t \<Rightarrow> if tid \<noteq> [] \<and> valid_title (t_title t) \<and> sess_title r \<noteq> t_title t
                            then Some (t_title t) else None
                | None \<Rightarrow> None)
           | _ \<Rightarrow> None
      else None)"

definition migrated_row ::
    "(string \<Rightarrow> int option) \<Rightarrow> fs \<Rightarrow> path \<Rightarrow> topics \<Rightarrow> session_row \<Rightarrow> session_row" where
  "migrated_row iso_ms f stable_dir topics r =
     (case carried_title iso_ms f stable_dir topics r of
        None \<Rightarrow> r
      | Some t \<Rightarrow> r\<lparr>sess_title := t, title_source := ''legacy_unknown'',
                   title_revision := title_revision r + 1\<rparr>)"

lemma scan_row_carried:
  assumes "scan_row iso_ms f stable_dir topics r st = Inr st'"
  shows "map (\<lambda>c. (c_session c, c_after c)) (fst st') = map (\<lambda>c. (c_session c, c_after c)) (fst st)
    @ (case carried_title iso_ms f stable_dir topics r of None \<Rightarrow> [] | Some t \<Rightarrow> [(sess_id r, t)])"
  using assms unfolding scan_row_def carried_title_def
  by (auto split: if_splits option.splits)

lemma scan_carried:
  assumes "rfold (scan_row iso_ms f stable_dir topics) rows st = Inr st'"
  shows "map (\<lambda>c. (c_session c, c_after c)) (fst st') = map (\<lambda>c. (c_session c, c_after c)) (fst st)
    @ concat (map (\<lambda>r. case carried_title iso_ms f stable_dir topics r of
        None \<Rightarrow> [] | Some t \<Rightarrow> [(sess_id r, t)]) rows)"
  using assms
proof (induction rows arbitrary: st)
  case (Cons r rows)
  then obtain st1 where "scan_row iso_ms f stable_dir topics r st = Inr st1"
    "rfold (scan_row iso_ms f stable_dir topics) rows st1 = Inr st'" by auto
  with Cons.IH scan_row_carried show ?case by simp
qed simp

lemma find_as_map_of: "map_option v (find (\<lambda>c. k c = x) cs) = map_of (map (\<lambda>c. (k c, v c)) cs) x"
  by (induction cs) auto

lemma map_of_concat_keyed:
  assumes "distinct (map key rows)" and "r \<in> set rows"
  shows "map_of (concat (map (\<lambda>r. case g r of None \<Rightarrow> [] | Some t \<Rightarrow> [(key r, t)]) rows)) (key r) = g r"
  using assms
proof (induction rows)
  case (Cons q rows)
  let ?L = "concat (map (\<lambda>r. case g r of None \<Rightarrow> [] | Some t \<Rightarrow> [(key r, t)]) rows)"
  have "fst ` set ?L \<subseteq> key ` set rows" by (auto split: option.splits)
  then have "map_of ?L (key q) = None" using Cons.prems(1) by (auto simp: map_of_eq_None_iff)
  then show ?case
  proof (cases "r = q")
    case True
    with \<open>map_of ?L (key q) = None\<close> show ?thesis by (auto split: option.splits)
  next
    case False
    then have "key r \<noteq> key q" "r \<in> set rows" using Cons.prems by (auto simp: image_iff)
    with Cons show ?thesis by (auto split: option.splits)
  qed
qed simp

text \<open>C7. After a successful migration every session row is exactly what the specification
  of one row says, computed from the stable profile as it was before the run.\<close>

theorem apply_migrates_each_row:
  assumes "apply_migration iso_ms stamp stable_dir preview True w = (Inr (), w1)"
    and "files w (session_db preview) = Some (SessionDb rows)" and "distinct (map sess_id rows)"
  shows "\<exists>projects topics. topic_records stable_dir (files w) = Inr (projects, topics)
    \<and> files w1 (session_db preview)
        = Some (SessionDb (map (migrated_row iso_ms (files w) stable_dir topics) rows))"
proof -
  from assms(1) obtain projects topics rows0 changes matched folders v where
    t: "topic_records stable_dir (files w) = Inr (projects, topics)"
    and r0: "files w (session_db preview) = Some (SessionDb rows0)"
    and scan: "scan_rows iso_ms (files w) stable_dir topics rows0 = Inr (changes, matched)"
    and run: "apply_write preview stamp changes folders v = (Inr (), w1)" and v: "files v = files w"
    by (rule apply_migration_ok)
  have rows: "rows0 = rows" using r0 assms(2) by simp
  obtain rows' w4 w5 where
    tx: "run_tx migrate_guard migrate_set migrate_error changes rows = Inr rows'"
    and w4: "files w4 (session_db preview) = Some (SessionDb rows')"
    and sync: "sync_host_catalog preview (backup_at preview stamp) w4 = (Inr (), w5)"
    and w5: "files w1 = files w5"
    by (rule apply_write_ok[OF run]) (use v assms(2) in auto)
  have pairs: "map (\<lambda>c. (c_session c, c_after c)) changes = concat (map (\<lambda>r.
      case carried_title iso_ms (files w) stable_dir topics r of
        None \<Rightarrow> [] | Some t \<Rightarrow> [(sess_id r, t)]) rows)"
    using scan_carried[OF scan[unfolded scan_rows_def]] rows by simp
  have "rows' = map (\<lambda>r. case find (\<lambda>c. c_session c = sess_id r) changes of
      None \<Rightarrow> r | Some c \<Rightarrow> migrate_set c r) rows"
    using mig.run_tx_commits[of changes rows] scan_changes(2)[OF scan] assms(3) rows tx by blast
  also have "\<dots> = map (migrated_row iso_ms (files w) stable_dir topics) rows"
  proof (rule map_cong[OF refl])
    fix r assume "r \<in> set rows"
    then have "map_option c_after (find (\<lambda>c. c_session c = sess_id r) changes)
        = carried_title iso_ms (files w) stable_dir topics r"
      unfolding find_as_map_of pairs by (rule map_of_concat_keyed[OF assms(3)])
    then show "(case find (\<lambda>c. c_session c = sess_id r) changes of None \<Rightarrow> r | Some c \<Rightarrow> migrate_set c r)
        = migrated_row iso_ms (files w) stable_dir topics r"
      by (auto simp: migrated_row_def migrate_set_def split: option.splits)
  qed
  finally have "files w1 (session_db preview)
      = Some (SessionDb (map (migrated_row iso_ms (files w) stable_dir topics) rows))"
    using w4 w5 apply_write_session_rows(1)[OF sync] by simp
  with t show ?thesis by blast
qed

section \<open>Matching\<close>

lemma created_matches_iff:
  "tid \<in> set (created_matches stable_dir wroot topics ms) \<longleftrightarrow>
     (\<exists>t. (tid, t) \<in> set topics \<and> same_root stable_dir t wroot \<and> \<bar>t_created t - ms\<bar> \<le> 2000)"
  by (auto simp: created_matches_def image_iff Bex_def)

text \<open>A session is matched to a known topic of its own workspace: one its sidecar names,
  or the only one created within two seconds of it.\<close>

lemma matched_topic_is_own:
  assumes "mapped_topic iso_ms f stable_dir sid wroot topics = Inr (Some tid)"
    and "distinct (map fst topics)"
  shows "\<exists>t. map_of topics tid = Some t \<and> same_root stable_dir t wroot
    \<and> ((\<exists>sidecar. is_file f sidecar \<and> (\<exists>d. load_json f sidecar = Inr d
        \<and> jget_or d ''topic_id'' (JStr []) = Inr (JStr tid)))
      \<or> (\<exists>created ms. iso_ms (utc_suffix created) = Some ms \<and> \<bar>t_created t - ms\<bar> \<le> 2000
          \<and> (\<forall>(tid', t') \<in> set topics. same_root stable_dir t' wroot \<and> \<bar>t_created t' - ms\<bar> \<le> 2000
               \<longrightarrow> tid' = tid)))"
proof -
  have side: "\<exists>t. map_of topics tid = Some t \<and> same_root stable_dir t wroot \<and> is_file f p
      \<and> (\<exists>d. load_json f p = Inr d \<and> jget_or d ''topic_id'' (JStr []) = Inr (JStr tid))"
    if "sidecar_topic f stable_dir wroot topics p = Inr (Some tid)" for p
    using that unfolding sidecar_topic_def
    by (auto simp: rbind_Inr_iff split: if_splits sum.splits exc.splits json.splits option.splits)
  have near: "\<exists>t ms created. map_of topics tid = Some t \<and> same_root stable_dir t wroot
      \<and> iso_ms (utc_suffix created) = Some ms \<and> \<bar>t_created t - ms\<bar> \<le> 2000
      \<and> (\<forall>(tid', t') \<in> set topics. same_root stable_dir t' wroot \<and> \<bar>t_created t' - ms\<bar> \<le> 2000 \<longrightarrow> tid' = tid)"
    if c: "created_topic iso_ms stable_dir wroot topics c = Inr (Some tid)" for c
  proof -
    from c obtain s ms where ms: "iso_ms (utc_suffix s) = Some ms"
      and only: "created_matches stable_dir wroot topics ms = [tid]"
      unfolding created_topic_def by (auto split: if_splits json.splits option.splits list.splits)
    have iff: "tid' = tid \<longleftrightarrow>
        (\<exists>t. (tid', t) \<in> set topics \<and> same_root stable_dir t wroot \<and> \<bar>t_created t - ms\<bar> \<le> 2000)" for tid'
      using created_matches_iff[of tid' stable_dir wroot topics ms] by (simp only: only list.set insert_iff empty_iff simp_thms)
    then have all: "\<forall>(tid', t') \<in> set topics.
        same_root stable_dir t' wroot \<and> \<bar>t_created t' - ms\<bar> \<le> 2000 \<longrightarrow> tid' = tid" by blast
    from iff obtain t where "(tid, t) \<in> set topics" "same_root stable_dir t wroot"
      "\<bar>t_created t - ms\<bar> \<le> 2000" by blast
    then have "map_of topics tid = Some t" using assms(2) by simp
    with ms all \<open>same_root stable_dir t wroot\<close> \<open>\<bar>t_created t - ms\<bar> \<le> 2000\<close>
    show ?thesis by blast
  qed
  from assms(1) consider p where "sidecar_topic f stable_dir wroot topics p = Inr (Some tid)"
    | c where "created_topic iso_ms stable_dir wroot topics c = Inr (Some tid)"
    unfolding mapped_topic_def Let_def
    by (auto simp: rbind_Inr_iff simp del: json_kind_simps split: if_splits)
  then show ?thesis
  proof cases
    case 1
    from side[OF this] show ?thesis by blast
  next
    case 2
    from near[OF this] show ?thesis by blast
  qed
qed

end
