(* ===== verification/MigrationWitnesses.thy ===== *)
theory MigrationWitnesses
  imports MigrationGuards
begin

text \<open>
  A concrete profile on which the properties of the topic migration are applied: one global
  topic, one ready session whose sidecar names it, and a host catalog with that session.
\<close>

definition demo_stable :: path where
  "demo_stable = [''s'']"

definition demo_preview :: path where
  "demo_preview = [''p'', ''core'']"

definition demo_row :: session_row where
  "demo_row = \<lparr>sess_id = ''S'', sess_title = ''x'', title_source = ''fallback'', title_revision = 1,
     workspace_root = ''/s/global-workspace'', sess_state = ''ready''\<rparr>"

definition demo_topics :: topics where
  "demo_topics = [(''t1'', \<lparr>t_root = JStr [], t_title = ''Alpha'', t_created = 5\<rparr>)]"

definition demo_files :: fs where
  "demo_files = map_of
     [([''s'', ''desktop-projects.json''], Doc (JObj [(''globalTopics'', JList [JStr ''t1''])])),
      ([''s'', ''desktop'', ''topic-state-v1.sqlite''],
        TopicDb [\<lparr>topic_id = ''t1'', topic_title = ''Alpha'', created_at_ms = 5\<rparr>]),
      ([''s'', ''desktop-sessions-v5'', ''by-id'', ''S'', ''manifest.json''],
        Doc (JObj [(''source'', JObj [(''path'', JStr ''/c'')])])),
      ([''c.meta''], Doc (JObj [(''topic_id'', JStr ''t1'')])),
      ([''p'', ''core'', ''desktop'', ''session-state-v1.sqlite''], SessionDb [demo_row]),
      ([''p'', ''workbench-sessions.json''], Doc (JList [JObj [(''sessionId'', JStr ''S'')]]))]"

definition demo_world :: mworld where
  "demo_world = \<lparr>files = demo_files, printed = []\<rparr>"

definition no_iso :: "string \<Rightarrow> int option" where
  "no_iso s = None"

lemma demo_topic_records:
  "topic_records demo_stable demo_files
     = Inr (JObj [(''globalTopics'', JList [JStr ''t1''])], demo_topics)"
  by code_simp

lemma demo_run:
  "fst (apply_migration no_iso ''T'' demo_stable demo_preview True demo_world) = Inr ()"
  by code_simp

definition demo_after :: mworld where
  "demo_after = snd (apply_migration no_iso ''T'' demo_stable demo_preview True demo_world)"

lemma demo_applied:
  "apply_migration no_iso ''T'' demo_stable demo_preview True demo_world = (Inr (), demo_after)"
  using demo_run by (simp add: demo_after_def prod_eq_iff)

lemma demo_places:
  "files demo_world (session_db demo_preview) = Some (SessionDb [demo_row])"
  "files demo_world (host_catalog demo_preview) = Some (Doc (JList [JObj [(''sessionId'', JStr ''S'')]]))"
  by code_simp+

lemma demo_docs_jwf: "files demo_world p = Some (Doc j) \<Longrightarrow> jwf j"
  by (auto simp: demo_world_def demo_files_def split: if_splits)

lemma demo_no_tmp:
  "files demo_after (child (parent demo_preview) ''.workbench-sessions.topic-rollback.tmp'') \<noteq> Some Folder"
  unfolding demo_after_def by code_simp

lemma demo_catalog: "catalog_ok [JObj [(''sessionId'', JStr ''S'')]]"
  by code_simp

theorem apply_then_rollback_witness:
  "\<exists>changed w2. rollback demo_preview (backup_at demo_preview ''T'') demo_after = (Inr (), w2)
    \<and> (\<forall>s \<in> changed. \<exists>r \<in> set [demo_row]. sess_id r = s \<and> sess_state r = ''ready'' \<and> title_source r = ''fallback'')
    \<and> files w2 (session_db demo_preview) = Some (SessionDb
        (map (\<lambda>r. if sess_id r \<in> changed then twice_revised r else r) [demo_row]))
    \<and> files w2 (project_file demo_preview) = files demo_world (project_file demo_preview)
    \<and> files w2 (host_catalog demo_preview) = files demo_world (host_catalog demo_preview)"
proof (rule apply_then_rollback[OF demo_applied demo_places(1) _ demo_docs_jwf _ demo_no_tmp])
  show "distinct (map sess_id [demo_row])" by simp
  show "catalog_ok items" if "files demo_world (host_catalog demo_preview) = Some (Doc (JList items))" for items
    using that demo_places(2) demo_catalog by simp
qed

theorem apply_stays_in_preview_witness:
  "files demo_after [''s'', ''desktop-projects.json'']
     = Some (Doc (JObj [(''globalTopics'', JList [JStr ''t1''])]))"
proof -
  have "files demo_after [''s'', ''desktop-projects.json''] = files demo_world [''s'', ''desktop-projects.json'']"
    unfolding demo_after_def by (rule apply_stays_in_preview; code_simp)
  then show ?thesis by (simp add: demo_world_def demo_files_def)
qed

text \<open>The session was renamed since the scan: the change still names the old title.\<close>

definition demo_change :: change where
  "demo_change = \<lparr>c_session = ''S'', c_topic = ''t1'', c_before = ''old'', c_after = ''Alpha'', c_revision = 1\<rparr>"

definition demo_lost :: "unit res \<times> mworld" where
  "demo_lost = apply_write demo_preview ''T'' [demo_change] (JObj []) demo_world"


definition demo_edited :: mworld where
  "demo_edited = \<lparr>files = demo_files([''b'', ''journal.json'']
     \<mapsto> Doc (journal_json [demo_change] False (JObj []))), printed = []\<rparr>"

theorem rollback_refuses_edited_witness:
  "rollback demo_preview [''b''] demo_edited = (Inl (rollback_error demo_change), demo_edited)"
proof -
  have "\<exists>d \<in> set [demo_change]. rollback demo_preview [''b''] demo_edited = (Inl (rollback_error d), demo_edited)"
  proof (rule rollback_refuses_edited)
    show "files demo_edited (child [''b''] ''journal.json'') = Some (Doc (journal_json [demo_change] False (JObj [])))"
      by (simp add: demo_edited_def child_def)
    show "journal_changes (journal_json [demo_change] False (JObj [])) = Inr [demo_change]"
      by (rule journal_changes_json)
    show "files demo_edited (session_db demo_preview) = Some (SessionDb [demo_row])" by code_simp
    show "\<forall>r \<in> set [demo_row]. \<not> rollback_guard demo_change r"
      by (simp add: rollback_guard_def demo_row_def demo_change_def)
  qed simp_all
  then show ?thesis by simp
qed

theorem no_spurious_conflict_witness:
  "fst (apply_migration no_iso ''T'' demo_stable demo_preview True demo_world) \<noteq> Inl (RuntimeErr ''x'')"
  by (rule no_spurious_conflict[OF demo_places(1)]) simp

theorem apply_migrates_each_row_witness:
  "\<exists>projects topics. topic_records demo_stable (files demo_world) = Inr (projects, topics)
    \<and> files demo_after (session_db demo_preview)
        = Some (SessionDb (map (migrated_row no_iso (files demo_world) demo_stable topics) [demo_row]))"
  by (rule apply_migrates_each_row[OF demo_applied demo_places(1)]) simp

lemma matched_topic_is_own_example:
  "\<exists>t. map_of demo_topics ''t1'' = Some t \<and> same_root demo_stable t ''/s/global-workspace''"
proof -
  have "mapped_topic no_iso demo_files demo_stable ''S'' ''/s/global-workspace'' demo_topics = Inr (Some ''t1'')"
    by code_simp
  moreover have "distinct (map fst demo_topics)" by (simp add: demo_topics_def)
  ultimately show ?thesis using matched_topic_is_own by blast
qed

end
