(* ===== verification/Texts.thy ===== *)
theory Texts
  imports Prelude
begin

text \<open>
  Python's string operations the scripts use, on character lists: prefixes, non-overlapping
  counting and replacement of a substring, splitting on a character, joining, ASCII
  stripping and lower case, and the decimal text of an integer.
\<close>

definition starts_with :: "string \<Rightarrow> string \<Rightarrow> bool" where
  "starts_with p s = (take (length p) s = p)"

definition ends_with :: "string \<Rightarrow> string \<Rightarrow> bool" where
  "ends_with p s = (drop (length s - length p) s = p \<and> length p \<le> length s)"

text \<open>\<open>needle in s\<close>.\<close>

fun has_sub :: "string \<Rightarrow> string \<Rightarrow> bool" where
  "has_sub p [] = (p = [])"
| "has_sub p (c # s) = (starts_with p (c # s) \<or> has_sub p s)"

text \<open>\<open>s.count(p)\<close> and \<open>s.replace(p, q)\<close> of a non-empty \<open>p\<close>: occurrences are consumed from the
  left and never overlap.\<close>

function count_sub :: "string \<Rightarrow> string \<Rightarrow> nat" where
  "count_sub p [] = 0"
| "count_sub p (c # s) =
     (if p \<noteq> [] \<and> starts_with p (c # s) then Suc (count_sub p (drop (length p) (c # s)))
      else count_sub p s)"
  by pat_completeness auto
termination
  by (relation "measure (\<lambda>(p, s). length s)") (auto simp: neq_Nil_conv)

function replace_sub :: "string \<Rightarrow> string \<Rightarrow> string \<Rightarrow> string" where
  "replace_sub p q [] = []"
| "replace_sub p q (c # s) =
     (if p \<noteq> [] \<and> starts_with p (c # s) then q @ replace_sub p q (drop (length p) (c # s))
      else c # replace_sub p q s)"
  by pat_completeness auto
termination
  by (relation "measure (\<lambda>(p, q, s). length s)") (auto simp: neq_Nil_conv)

text \<open>\<open>s.replace(p, q, 1)\<close>.\<close>

fun replace_once :: "string \<Rightarrow> string \<Rightarrow> string \<Rightarrow> string" where
  "replace_once p q [] = []"
| "replace_once p q (c # s) =
     (if starts_with p (c # s) then q @ drop (length p) (c # s) else c # replace_once p q s)"

fun split_char :: "char \<Rightarrow> string \<Rightarrow> string list" where
  "split_char d [] = [[]]"
| "split_char d (c # s) =
     (if c = d then [] # split_char d s
      else case split_char d s of [] \<Rightarrow> [[c]] | w # ws \<Rightarrow> (c # w) # ws)"

definition join_with :: "string \<Rightarrow> string list \<Rightarrow> string" where
  "join_with sep ws = (case ws of [] \<Rightarrow> [] | w # r \<Rightarrow> w @ concat (map ((@) sep) r))"

definition nl :: string where
  "nl = [CHR 0x0A]"

definition quoted :: "string \<Rightarrow> string" where
  "quoted s = [CHR 0x22] @ s @ [CHR 0x22]"

text \<open>\<open>s.splitlines()\<close> of text whose line ends are single ASCII characters.\<close>

fun split_lines :: "string \<Rightarrow> string list" where
  "split_lines [] = []"
| "split_lines (c # s) =
     (if of_char c \<in> {10, 11, 12, 13, 28, 29, 30 :: nat} then [] # split_lines s
      else case split_lines s of
             [] \<Rightarrow> [[c]]
           | w # ws \<Rightarrow> (c # w) # ws)"

definition ascii_space :: "char \<Rightarrow> bool" where
  "ascii_space c = (c = CHR '' '' \<or> of_char c \<in> {9, 10, 11, 12, 13, 28, 29, 30, 31 :: nat})"

text \<open>The same test on the bits of a byte, which evaluates without arithmetic.\<close>

lemma ascii_space_code [code]:
  "ascii_space (Char b0 b1 b2 b3 b4 b5 b6 b7) \<longleftrightarrow> \<not> b7 \<and> \<not> b6
     \<and> (if b5 then \<not> b4 \<and> \<not> b3 \<and> \<not> b2 \<and> \<not> b1 \<and> \<not> b0
        else if b4 then b3 \<and> b2 else b3 \<and> (b0 \<or> b1 \<or> b2) \<and> \<not> (b1 \<and> b2))"
  by (cases b0; cases b1; cases b2; cases b3; cases b4; cases b5; cases b6; cases b7) (simp_all add: ascii_space_def)

definition strip :: "string \<Rightarrow> string" where
  "strip s = rev (dropWhile ascii_space (rev (dropWhile ascii_space s)))"

definition lower :: "string \<Rightarrow> string" where
  "lower = map (\<lambda>c. let n = of_char c :: nat in if 65 \<le> n \<and> n \<le> 90 then char_of (n + 32) else c)"

fun digits :: "nat \<Rightarrow> string" where
  "digits n = (if n < 10 then [char_of (n + 48)] else digits (n div 10) @ [char_of (n mod 10 + 48)])"

declare digits.simps [simp del]

definition int_text :: "int \<Rightarrow> string" where
  "int_text i = (if i < 0 then CHR ''-'' # digits (nat (- i)) else digits (nat i))"

lemma starts_with_append: "starts_with p (p @ s)"
  by (simp add: starts_with_def)

lemma starts_with_iff: "starts_with p s \<longleftrightarrow> (\<exists>r. s = p @ r)"
  by (metis append_eq_conv_conj append_take_drop_id starts_with_def)

lemma has_sub_iff: "has_sub p s \<longleftrightarrow> (\<exists>a b. s = a @ p @ b)"
proof (induction s)
  case (Cons c s)
  show ?case
  proof
    assume "has_sub p (c # s)"
    then consider "starts_with p (c # s)" | "has_sub p s" by auto
    then show "\<exists>a b. c # s = a @ p @ b"
    proof cases
      case 1
      then show ?thesis by (metis append_Nil starts_with_iff)
    next
      case 2
      then show ?thesis by (metis Cons.IH append_Cons)
    qed
  next
    assume "\<exists>a b. c # s = a @ p @ b"
    then obtain a b where ab: "c # s = a @ p @ b" by blast
    show "has_sub p (c # s)"
    proof (cases a)
      case Nil
      then have "starts_with p (c # s)" using ab by (simp add: starts_with_append)
      then show ?thesis by simp
    next
      case (Cons x a')
      with ab have "s = a' @ p @ b" by simp
      with Cons.IH show ?thesis by auto
    qed
  qed
qed auto

lemma count_sub_zero: "p \<noteq> [] \<Longrightarrow> count_sub p s = 0 \<longleftrightarrow> \<not> has_sub p s"
  by (induction p s rule: count_sub.induct) auto

lemma replace_sub_absent: "p \<noteq> [] \<Longrightarrow> \<not> has_sub p s \<Longrightarrow> replace_sub p q s = s"
  by (induction p q s rule: replace_sub.induct) auto

lemma length_replace_sub:
  "p \<noteq> [] \<Longrightarrow> int (length (replace_sub p q s))
     = int (length s) + int (count_sub p s) * (int (length q) - int (length p))"
proof (induction p q s rule: replace_sub.induct)
  case (2 p q c s)
  show ?case
  proof (cases "starts_with p (c # s)")
    case True
    then have "length p \<le> length (c # s)"
      by (metis length_take linorder_linear min.cobounded1 starts_with_def)
    with True 2 show ?thesis by (simp add: of_nat_diff algebra_simps)
  qed (use 2 in simp)
qed simp

lemma join_split: "join_with [d] (split_char d s) = s"
proof -
  have "(@) [d] = (#) d" by (rule ext) simp
  then show ?thesis by (induction s) (auto simp: join_with_def split: list.splits)
qed

lemma split_char_nonempty [simp]: "split_char d s \<noteq> []"
  by (cases s) (auto split: list.splits)

lemma split_char_clean: "w \<in> set (split_char d s) \<Longrightarrow> d \<notin> set w"
  by (induction s arbitrary: w) (auto split: if_splits list.splits)

end
