(* ===== verification/Dirs.thy ===== *)
theory Dirs
  imports Files Texts
begin

text \<open>
  A directory tree whose files hold bytes, as the build scripts see it: an association list
  from paths to folders and files, in which listing, \<open>glob\<close>, \<open>rmtree\<close> and \<open>copytree\<close> are
  computed. Paths are kept resolved: \<open>path_at p s\<close> is \<open>(p / s).resolve()\<close> in a tree without
  symbolic links, where an absolute \<open>s\<close> replaces \<open>p\<close> and \<open>..\<close> leaves a folder.
\<close>

datatype entry = Dir | File (bytes: string)

type_synonym dirs = "(path \<times> entry) list"

definition climb :: "path \<Rightarrow> string \<Rightarrow> path" where
  "climb p s = (if s = ''..'' then butlast p else p @ [s])"

definition path_at :: "path \<Rightarrow> string \<Rightarrow> path" where
  "path_at p s = fold (\<lambda>s q. climb q s) (path_of s) (if starts_with ''/'' s then [] else p)"

definition exists_at :: "dirs \<Rightarrow> path \<Rightarrow> bool" where
  "exists_at t p = (p = [] \<or> map_of t p \<noteq> None)"

definition file_at :: "dirs \<Rightarrow> path \<Rightarrow> bool" where
  "file_at t p = (case map_of t p of Some (File _) \<Rightarrow> True | _ \<Rightarrow> False)"

definition dir_at :: "dirs \<Rightarrow> path \<Rightarrow> bool" where
  "dir_at t p = (p = [] \<or> map_of t p = Some Dir)"

definition read_bytes :: "dirs \<Rightarrow> path \<Rightarrow> string res" where
  "read_bytes t p = (case map_of t p of Some (File b) \<Rightarrow> Inr b | _ \<Rightarrow> Inl (OSErr (path_str p)))"

definition write_bytes :: "path \<Rightarrow> string \<Rightarrow> dirs \<Rightarrow> dirs res" where
  "write_bytes p b t =
     (if p = [] \<or> map_of t p = Some Dir \<or> \<not> dir_at t (butlast p) then Inl (OSErr (path_str p))
      else Inr (AList.update p (File b) t))"

text \<open>\<open>p.mkdir(parents=True, exist_ok=True)\<close>.\<close>

definition make_dirs :: "path \<Rightarrow> dirs \<Rightarrow> dirs res" where
  "make_dirs p t =
     rfold (\<lambda>k t. case map_of t (take k p) of
                    None \<Rightarrow> Inr (AList.update (take k p) Dir t)
                  | Some Dir \<Rightarrow> Inr t
                  | Some (File _) \<Rightarrow> Inl (OSErr (path_str (take k p)))) [1..<Suc (length p)] t"

text \<open>\<open>shutil.rmtree\<close>, and the removal of a temporary directory.\<close>

definition drop_tree :: "path \<Rightarrow> dirs \<Rightarrow> dirs" where
  "drop_tree p t = filter (\<lambda>e. \<not> below p (fst e)) t"

definition remove_tree :: "path \<Rightarrow> dirs \<Rightarrow> dirs res" where
  "remove_tree p t = (if dir_at t p then Inr (drop_tree p t) else Inl (OSErr (path_str p)))"

definition copy_tree :: "path \<Rightarrow> path \<Rightarrow> dirs \<Rightarrow> dirs res" where
  "copy_tree src dst t =
     (if \<not> dir_at t src \<or> exists_at t dst then Inl (OSErr (path_str dst))
      else rbind (make_dirs (butlast dst) t) (\<lambda>t'.
           Inr (t' @ map (\<lambda>e. (dst @ drop (length src) (fst e), snd e)) (filter (\<lambda>e. below src (fst e)) t))))"

definition copy_bytes :: "path \<Rightarrow> path \<Rightarrow> dirs \<Rightarrow> dirs res" where
  "copy_bytes src dst t = rbind (read_bytes t src) (\<lambda>b. write_bytes dst b t)"

text \<open>The files of a folder, in the order of the tree.\<close>

definition files_in :: "dirs \<Rightarrow> path \<Rightarrow> path list" where
  "files_in t p = map fst (filter (\<lambda>e. butlast (fst e) = p \<and> fst e \<noteq> [] \<and> snd e \<noteq> Dir) t)"

section \<open>Frames and effects\<close>

lemma map_of_drop_tree [simp]: "map_of (drop_tree p t) q = (if below p q then None else map_of t q)"
  by (induction t) (auto simp: drop_tree_def)

lemma read_bytes_Inr [simp]: "read_bytes t p = Inr b \<longleftrightarrow> map_of t p = Some (File b)"
  by (auto simp: read_bytes_def split: option.splits entry.splits)

text \<open>An operation on the files as a step of a program.\<close>

definition edit_files :: "(dirs \<Rightarrow> dirs res) \<Rightarrow> (dirs, unit) prog" where
  "edit_files g = (\<lambda>t. case g t of Inl e \<Rightarrow> (Inl e, t) | Inr t' \<Rightarrow> (Inr (), t'))"

lemma edit_files_ok [ok_simps]: "edit_files g t = (Inr u, t') \<longleftrightarrow> g t = Inr t'"
  by (auto simp: edit_files_def split: sum.splits)

lemma edit_files_run [prog_simps]: "edit_files g t = (case g t of Inl e \<Rightarrow> (Inl e, t) | Inr t' \<Rightarrow> (Inr (), t'))"
  by (simp add: edit_files_def)

lemma write_bytes_Inr:
  "write_bytes p b t = Inr t' \<Longrightarrow> map_of t' = (map_of t)(p \<mapsto> File b)"
  by (auto simp: write_bytes_def update_conv' split: if_splits)

lemma copy_bytes_Inr:
  assumes "copy_bytes s d t = Inr t'"
  obtains b where "map_of t s = Some (File b)" "map_of t' = (map_of t)(d \<mapsto> File b)"
  using assms by (auto simp: copy_bytes_def dest: write_bytes_Inr)

text \<open>Making folders changes no file and removes nothing.\<close>

lemma make_dirs_grows:
  assumes "make_dirs p t = Inr t'"
  shows "map_of t' q = map_of t q \<or> map_of t q = None \<and> map_of t' q = Some Dir \<and> below q p"
proof (rule rfold_invariant[OF assms[unfolded make_dirs_def]])
  fix k :: nat and u v
  assume u: "map_of u q = map_of t q \<or> map_of t q = None \<and> map_of u q = Some Dir \<and> below q p"
    and step: "(case map_of u (take k p) of None \<Rightarrow> Inr (AList.update (take k p) Dir u)
       | Some Dir \<Rightarrow> Inr u | Some (File _) \<Rightarrow> Inl (OSErr (path_str (take k p)))) = Inr v"
  from step have "v = u \<or> map_of u (take k p) = None \<and> v = AList.update (take k p) Dir u"
    by (auto split: option.splits entry.splits)
  then show "map_of v q = map_of t q \<or> map_of t q = None \<and> map_of v q = Some Dir \<and> below q p"
  proof
    assume v: "map_of u (take k p) = None \<and> v = AList.update (take k p) Dir u"
    have "below (take k p) p" by (simp add: below_def min_def)
    with u v show ?thesis by (cases "q = take k p") (auto simp: update_conv')
  qed (use u in simp)
qed simp

lemma make_dirs_keeps:
  assumes "make_dirs p t = Inr t'"
  shows "map_of t q = Some n \<Longrightarrow> map_of t' q = Some n"
    and "map_of t' q = Some (File b) \<Longrightarrow> map_of t q = Some (File b)"
    and "\<not> below q p \<Longrightarrow> map_of t' q = map_of t q"
  using make_dirs_grows[OF assms, of q] by auto

text \<open>An edit that only adds folders and puts files below one path.\<close>

definition only_below :: "path \<Rightarrow> dirs \<Rightarrow> dirs \<Rightarrow> bool" where
  "only_below d t t' \<longleftrightarrow> (\<forall>p b. \<not> below d p \<longrightarrow> (map_of t' p = Some (File b)) = (map_of t p = Some (File b)))"

lemma only_below_trans: "only_below d t u \<Longrightarrow> only_below d u v \<Longrightarrow> only_below d t v"
  by (simp add: only_below_def)

lemma only_below_refl [simp]: "only_below d t t"
  by (simp add: only_below_def)

lemma only_below_weaken: "only_below d t t' \<Longrightarrow> below e d \<Longrightarrow> only_below e t t'"
  unfolding only_below_def by (meson below_trans)

lemma only_below_dirs: "make_dirs p t = Inr t' \<Longrightarrow> only_below d t t'"
  unfolding only_below_def by (metis make_dirs_keeps(1,2))

lemma only_below_write: "map_of t' = (map_of t)(p \<mapsto> File b) \<Longrightarrow> below d p \<Longrightarrow> only_below d t t'"
  by (auto simp: only_below_def)

lemma only_below_file:
  "only_below d t t' \<Longrightarrow> \<not> below d p \<Longrightarrow> map_of t p = Some (File b) \<Longrightarrow> map_of t' p = Some (File b)"
  by (simp add: only_below_def)

end
