(* ===== verification/CuaBuild.thy ===== *)
theory CuaBuild
  imports Dirs "HOL-Library.List_Lexorder" "HOL-Library.Char_ord" "HOL-Library.Product_Lexorder"
begin

text \<open>
  \<open>desktop/cua-runtime/scripts/build.py\<close>: the owned source cache, the counted source
  patches, the reviewed backports, the dependency notices and the build itself. What the
  script runs outside itself is the record \<open>host\<close>: the commands (\<open>git\<close>, \<open>cargo\<close>,
  \<open>rustc\<close>, \<open>node\<close>) with the tree they leave, SHA-256, the name of a fresh temporary
  directory, the members of a tar archive, and the texts of the JSON and TOML formats.
\<close>

section \<open>Host and state\<close>

record package =
  p_name :: string
  p_version :: string
  p_license :: "string option"
  p_repository :: "string option"
  p_source :: "string option"
  p_manifest :: path
  p_license_file :: "string option"

record host =
  run_tool :: "string list \<Rightarrow> path \<Rightarrow> dirs \<Rightarrow> (string \<times> dirs) res"
  sha256 :: "string \<Rightarrow> string"
  temp_name :: "string \<Rightarrow> dirs \<Rightarrow> path"
  tar_members :: "string \<Rightarrow> (path \<times> entry) list res"
  dumps :: "json \<Rightarrow> string"
  cargo_packages :: "string \<Rightarrow> package list res"
  lock_checksums :: "string \<Rightarrow> ((string \<times> string) \<times> string option) list res"

record build =
  tree :: dirs
  ran :: "string list list"
  told :: "string list"

text \<open>The pin file \<open>upstream.json\<close>.\<close>

datatype origin = Upstream string | LocalFix string string

record audited =
  a_file :: string
  a_original :: "string option"
  a_patched :: string

record backport =
  b_patch :: string
  b_sha256 :: string
  b_files :: "audited list"
  b_reason :: string
  b_origin :: origin

record pin =
  repository :: string
  revision :: string
  scope :: string
  more_scopes :: "string list"
  backports :: "backport list"
  local_fixes :: "backport list"
  pin_json :: json

definition runtime_dir :: "path \<Rightarrow> path" where
  "runtime_dir repo = path_at repo ''desktop/cua-runtime''"

definition cache_dir :: "path \<Rightarrow> path" where
  "cache_dir repo = path_at repo ''desktop/cua-source''"

definition on_tree :: "(dirs \<Rightarrow> 'a res) \<Rightarrow> (build, 'a) prog" where
  "on_tree g = tries (\<lambda>s. g (tree s))"

definition edit_tree :: "(dirs \<Rightarrow> dirs res) \<Rightarrow> (build, unit) prog" where
  "edit_tree g = (\<lambda>s. case g (tree s) of Inl e \<Rightarrow> (Inl e, s) | Inr t \<Rightarrow> (Inr (), s\<lparr>tree := t\<rparr>))"

text \<open>\<open>run(args)\<close> raises \<open>CalledProcessError\<close> when the command fails; \<open>output(args)\<close> also
  returns its stripped text.\<close>

definition run_cmd :: "host \<Rightarrow> string list \<Rightarrow> path \<Rightarrow> (build, string) prog" where
  "run_cmd h args cwd = (\<lambda>s. case run_tool h args cwd (tree s) of
       Inl e \<Rightarrow> (Inl (CalledErr (hd (args @ [[]]))), s\<lparr>ran := ran s @ [args]\<rparr>)
     | Inr (text, t) \<Rightarrow> (Inr text, s\<lparr>tree := t, ran := ran s @ [args]\<rparr>))"

definition runs :: "host \<Rightarrow> string list \<Rightarrow> path \<Rightarrow> (build, unit) prog" where
  "runs h args cwd = pbind (run_cmd h args cwd) (\<lambda>_. ret ())"

definition tool_output :: "host \<Rightarrow> string list \<Rightarrow> path \<Rightarrow> (build, string) prog" where
  "tool_output h args cwd = pbind (run_cmd h args cwd) (\<lambda>text. ret (strip text))"

text \<open>\<open>with tempfile.TemporaryDirectory(prefix=...)\<close>: removed on every exit.\<close>

definition with_temp :: "host \<Rightarrow> string \<Rightarrow> (path \<Rightarrow> (build, 'a) prog) \<Rightarrow> (build, 'a) prog" where
  "with_temp h prefix body = (\<lambda>s.
     let p = temp_name h prefix (tree s) in
     finally_do (body p) (\<lambda>s. s\<lparr>tree := drop_tree p (tree s)\<rparr>) (s\<lparr>tree := AList.update p Dir (tree s)\<rparr>))"

lemma build_ops [prog_simps]:
  "on_tree g s = (g (tree s), s)"
  "edit_tree k s = (case k (tree s) of Inl e \<Rightarrow> (Inl e, s) | Inr t \<Rightarrow> (Inr (), s\<lparr>tree := t\<rparr>))"
  by (simp_all add: on_tree_def edit_tree_def prog_simps)

lemma build_ok [ok_simps]:
  "on_tree g s = (Inr x, s') \<longleftrightarrow> g (tree s) = Inr x \<and> s' = s"
  "edit_tree k s = (Inr u, s') \<longleftrightarrow> (\<exists>t. k (tree s) = Inr t \<and> s' = s\<lparr>tree := t\<rparr>)"
  "run_cmd h args cwd s = (Inr text, s') \<longleftrightarrow>
     (\<exists>t. run_tool h args cwd (tree s) = Inr (text, t) \<and> s' = s\<lparr>tree := t, ran := ran s @ [args]\<rparr>)"
  by (auto simp: on_tree_def edit_tree_def run_cmd_def prog_simps split: sum.splits prod.splits)

section \<open>Reviewed backports\<close>

definition reviewed_patches :: "pin \<Rightarrow> backport list" where
  "reviewed_patches pn = backports pn @ local_fixes pn"

definition check_source :: "host \<Rightarrow> path \<Rightarrow> pin \<Rightarrow> audited \<Rightarrow> (build, unit) prog" where
  "check_source h repo pn e =
     (let source = path_at (cache_dir repo) (a_file e) in
      pseq (require (below (path_at (cache_dir repo) (scope pn)) source)
              (RuntimeErr ''Backport source is outside the pinned MIT scope''))
      (case a_original e of
         None \<Rightarrow>
           pbind (reads (\<lambda>s. exists_at (tree s) source)) (\<lambda>present.
           require (\<not> present) (RuntimeErr (''Backport new source already exists: '' @ a_file e)))
       | Some digest \<Rightarrow>
           pbind (on_tree (\<lambda>t. read_bytes t source)) (\<lambda>b.
           require (sha256 h b = digest)
             (RuntimeErr (''Backport source differs from the reviewed input: '' @ a_file e)))))"

text \<open>\<open>line.split('\t', 2)[-1]\<close>.\<close>

definition numstat_path :: "string \<Rightarrow> string" where
  "numstat_path line =
     (case split_char (char_of (9 :: nat)) line of
        a # b # c # rest \<Rightarrow> join_with [char_of (9 :: nat)] (c # rest)
      | ws \<Rightarrow> last ws)"

definition numstat_paths :: "string \<Rightarrow> string list" where
  "numstat_paths text = map numstat_path (filter (\<lambda>l. l \<noteq> []) (split_char (char_of (0 :: nat)) text))"

text \<open>\<open>sorted(xs) == sorted(ys)\<close>.\<close>

definition same_items :: "string list \<Rightarrow> string list \<Rightarrow> bool" where
  "same_items xs ys = list_all (\<lambda>x. count_list xs x = count_list ys x) (xs @ ys)"

definition stage_source :: "path \<Rightarrow> path \<Rightarrow> audited \<Rightarrow> (build, unit) prog" where
  "stage_source repo export e =
     pseq (edit_tree (make_dirs (butlast (path_at export (a_file e)))))
     (if a_original e \<noteq> None
      then edit_tree (copy_bytes (path_at (cache_dir repo) (a_file e)) (path_at export (a_file e)))
      else ret ())"

definition check_result :: "host \<Rightarrow> path \<Rightarrow> audited \<Rightarrow> (build, unit) prog" where
  "check_result h export e =
     pbind (on_tree (\<lambda>t. read_bytes t (path_at export (a_file e)))) (\<lambda>b.
     require (sha256 h b = a_patched e)
       (RuntimeErr (''Backport output differs from the reviewed result: '' @ a_file e)))"

definition install_result :: "path \<Rightarrow> path \<Rightarrow> audited \<Rightarrow> (build, unit) prog" where
  "install_result repo export e =
     pseq (edit_tree (make_dirs (butlast (path_at (cache_dir repo) (a_file e)))))
     (edit_tree (copy_bytes (path_at export (a_file e)) (path_at (cache_dir repo) (a_file e))))"

definition json_opt :: "string option \<Rightarrow> json" where
  "json_opt v = (case v of None \<Rightarrow> JNull | Some s \<Rightarrow> JStr s)"

definition backport_record :: "backport \<Rightarrow> audited \<Rightarrow> json" where
  "backport_record bp e = JObj
     ([(''file'', JStr (a_file e)), (''original_sha256'', json_opt (a_original e)),
       (''patched_sha256'', JStr (a_patched e)), (''reason'', JStr (b_reason bp))]
      @ (case b_origin bp of
           Upstream r \<Rightarrow> [(''upstream_revision'', JStr r)]
         | LocalFix i u \<Rightarrow> [(''local_fix'', JStr i), (''source_url'', JStr u)]))"

text \<open>One turn of the loop over the reviewed patches.\<close>

definition apply_backport :: "host \<Rightarrow> path \<Rightarrow> pin \<Rightarrow> backport \<Rightarrow> (build, json list) prog" where
  "apply_backport h repo pn bp =
     (let patch = path_at (runtime_dir repo) (b_patch bp); expected = map a_file (b_files bp) in
      pseq (require (below (path_at (runtime_dir repo) ''patches'') patch)
              (RuntimeErr ''Backport patch is outside the reviewed patch directory''))
     (pbind (on_tree (\<lambda>t. read_bytes t patch)) (\<lambda>b.
      pseq (require (sha256 h b = b_sha256 bp) (RuntimeErr ''Backport patch checksum mismatch''))
     (pseq (for_each (check_source h repo pn) (b_files bp))
     (with_temp h ''reasonix-cua-backport-'' (\<lambda>export.
        pbind (tool_output h [''git'', ''apply'', ''--numstat'', ''-z'', path_str patch] export) (\<lambda>text.
        pseq (require (distinct expected \<and> same_items (numstat_paths text) expected)
                (RuntimeErr ''Backport patch files differ from the reviewed manifest''))
       (pseq (for_each (stage_source repo export) (b_files bp))
       (pseq (runs h [''git'', ''apply'', ''--check'', path_str patch] export)
       (pseq (runs h [''git'', ''apply'', path_str patch] export)
       (pseq (for_each (check_result h export) (b_files bp))
       (pseq (for_each (install_result repo export) (b_files bp))
       (ret (map (backport_record bp) (b_files bp)))))))))))))))"

fun backport_all :: "host \<Rightarrow> path \<Rightarrow> pin \<Rightarrow> backport list \<Rightarrow> (build, json list) prog" where
  "backport_all h repo pn [] = ret []"
| "backport_all h repo pn (bp # bps) =
     pbind (apply_backport h repo pn bp) (\<lambda>r. pbind (backport_all h repo pn bps) (\<lambda>rs. ret (r @ rs)))"

definition apply_backports :: "host \<Rightarrow> path \<Rightarrow> pin \<Rightarrow> (build, json list) prog" where
  "apply_backports h repo pn = backport_all h repo pn (reviewed_patches pn)"

section \<open>The source cache\<close>

definition owner_marker :: string where
  "owner_marker = ''Source cache managed by desktop/cua-runtime/scripts/build.py'' @ nl"

definition scopes :: "pin \<Rightarrow> string list" where
  "scopes pn = scope pn # more_scopes pn"

definition clone_checkout :: "host \<Rightarrow> path \<Rightarrow> pin \<Rightarrow> path \<Rightarrow> (build, unit) prog" where
  "clone_checkout h repo pn checkout =
     pseq (runs h [''git'', ''clone'', ''--filter=blob:none'', ''--no-checkout'', repository pn,
             path_str checkout] repo)
    (pseq (runs h ([''git'', ''-C'', path_str checkout, ''sparse-checkout'', ''set''] @ scopes pn) repo)
    (runs h [''git'', ''-C'', path_str checkout, ''checkout'', ''--detach'', revision pn] repo))"

text \<open>\<open>contents.extractall(folder)\<close>, member by member.\<close>

definition extract_member :: "path \<Rightarrow> path \<times> entry \<Rightarrow> dirs \<Rightarrow> dirs res" where
  "extract_member folder m t =
     (case snd m of
        Dir \<Rightarrow> make_dirs (folder @ fst m) t
      | File b \<Rightarrow> rbind (make_dirs (butlast (folder @ fst m)) t) (write_bytes (folder @ fst m) b))"

definition copy_scope :: "path \<Rightarrow> path \<Rightarrow> string \<Rightarrow> dirs \<Rightarrow> dirs res" where
  "copy_scope repo extracted sc t =
     (let destination = path_at (cache_dir repo) sc in
      rbind (if exists_at t destination then remove_tree destination t else Inr t) (\<lambda>t.
      rbind (make_dirs (butlast destination) t) (\<lambda>t.
      copy_tree (path_at extracted sc) destination t)))"

definition export_sources :: "host \<Rightarrow> path \<Rightarrow> pin \<Rightarrow> path \<Rightarrow> (build, unit) prog" where
  "export_sources h repo pn checkout =
     with_temp h ''reasonix-cua-source-'' (\<lambda>temp.
       let archive = child temp ''source.tar''; extracted = child temp ''extracted'' in
       pseq (runs h ([''git'', ''-C'', path_str checkout, ''archive'', ''--format=tar'',
               ''--output='' @ path_str archive, revision pn] @ scopes pn @ [''LICENSE.md'']) repo)
      (pbind (on_tree (\<lambda>t. rbind (read_bytes t archive) (tar_members h))) (\<lambda>members.
       pseq (edit_tree (\<lambda>t. rbind (make_dirs extracted t) (rfold (extract_member extracted) members)))
      (pseq (for_each (\<lambda>sc. edit_tree (copy_scope repo extracted sc)) (scopes pn))
      (edit_tree (copy_bytes (child extracted ''LICENSE.md'') (child (cache_dir repo) ''LICENSE.md'')))))))"

text \<open>The workspace of every crate of the pinned scope.\<close>

definition crate_manifests :: "path \<Rightarrow> dirs \<Rightarrow> path list" where
  "crate_manifests base t =
     filter (\<lambda>p. length p = length base + 3 \<and> below base p \<and> p ! length base = ''crates''
                \<and> last p = ''Cargo.toml'') (map fst t)"

definition own_workspace :: "path \<Rightarrow> dirs \<Rightarrow> dirs res" where
  "own_workspace manifest t =
     rbind (read_bytes t manifest) (\<lambda>content.
     write_bytes manifest (replace_once ''[package]''
       (''[package]'' @ nl @ ''workspace = '' @ quoted ''../..'') content) t)"

type_synonym replacement = "string \<times> string \<times> nat"

definition linux_patches :: "(string \<times> string \<times> replacement list) list" where
  "linux_patches =
     [(''src/input/targeted.rs'', ''Rust 1.93 compatible qualified module imports; no behavior change'',
        [(''use super as input;'', ''use crate::input;'', 2)]),
      (''src/atspi/native.rs'', ''AT-SPI InsertText requires UTF-8 byte length; prevents truncating non-ASCII input'',
        [(''let len = text.chars().count() as i32;'', ''let len = text.len() as i32;'', 1),
         (''let len = value.chars().count() as i32;'', ''let len = value.len() as i32;'', 1)])]"

definition replace_counted :: "string \<Rightarrow> replacement \<Rightarrow> string \<Rightarrow> string res" where
  "replace_counted relative r content =
     (case r of (before, after, n) \<Rightarrow>
        rbind (rcheck (count_sub before content = n)
                 (RuntimeErr (''Pinned Linux patch no longer matches: '' @ relative))) (\<lambda>_.
        Inr (replace_sub before after content)))"

definition patch_source :: "host \<Rightarrow> path \<Rightarrow> pin \<Rightarrow> string \<times> string \<times> replacement list
     \<Rightarrow> (build, json) prog" where
  "patch_source h repo pn p =
     (case p of (file, reason, replacements) \<Rightarrow>
        let relative = scope pn @ ''/crates/platform-linux/'' @ file;
            source = path_at (cache_dir repo) relative in
        pbind (on_tree (\<lambda>t. read_bytes t source)) (\<lambda>original.
        pbind (lift (rfold (replace_counted relative) replacements original)) (\<lambda>patched.
        pseq (edit_tree (write_bytes source patched))
        (ret (JObj [(''file'', JStr relative), (''reason'', JStr reason),
                    (''original_sha256'', JStr (sha256 h original)),
                    (''patched_sha256'', JStr (sha256 h patched))])))))"

fun patch_all :: "host \<Rightarrow> path \<Rightarrow> pin \<Rightarrow> (string \<times> string \<times> replacement list) list
     \<Rightarrow> (build, json list) prog" where
  "patch_all h repo pn [] = ret []"
| "patch_all h repo pn (p # ps) =
     pbind (patch_source h repo pn p) (\<lambda>r. pbind (patch_all h repo pn ps) (\<lambda>rs. ret (r # rs)))"

text \<open>Everything of \<open>prepare\<close> after the ownership test.\<close>

definition refresh_cache :: "host \<Rightarrow> path \<Rightarrow> pin \<Rightarrow> path option \<Rightarrow> (build, unit) prog" where
  "refresh_cache h repo pn source =
     (let cache = cache_dir repo;
          checkout = (case source of Some p \<Rightarrow> p | None \<Rightarrow> child cache ''.checkout'') in
      pseq (edit_tree (make_dirs cache))
     (pseq (edit_tree (write_bytes (child cache ''.reasonix-owned'') owner_marker))
     (pbind (reads (\<lambda>s. exists_at (tree s) checkout)) (\<lambda>present.
      pseq (if \<not> present then clone_checkout h repo pn checkout else ret ())
     (pbind (tool_output h [''git'', ''-C'', path_str checkout, ''rev-parse'', ''HEAD''] repo) (\<lambda>head.
      pseq (require (head = revision pn)
              (RuntimeErr ''Upstream source revision differs from upstream.json''))
     (pbind (tool_output h [''git'', ''-C'', path_str checkout, ''status'', ''--porcelain'',
               ''--untracked-files=no''] repo) (\<lambda>status.
      pseq (require (status = []) (RuntimeErr ''Upstream checkout contains tracked modifications''))
     (pseq (export_sources h repo pn checkout)
     (pbind (reads (\<lambda>s. crate_manifests (path_at cache (scope pn)) (tree s))) (\<lambda>manifests.
      pseq (for_each (\<lambda>m. edit_tree (own_workspace m)) manifests)
     (pbind (patch_all h repo pn linux_patches) (\<lambda>linux.
      pbind (apply_backports h repo pn) (\<lambda>reviewed.
      pseq (edit_tree (write_bytes (child cache ''reasonix-source-patches.json'')
              (dumps h (JList (linux @ reviewed)) @ nl)))
     (pseq (edit_tree (write_bytes (child cache ''reasonix-source.json'') (dumps h (pin_json pn) @ nl)))
     (pbind (on_tree (\<lambda>t. read_bytes t (child cache ''LICENSE.md''))) (\<lambda>mine.
      pbind (on_tree (\<lambda>t. read_bytes t (path_at (runtime_dir repo) ''licenses/Cua-MIT.txt''))) (\<lambda>shipped.
      require (mine = shipped) (RuntimeErr ''Pinned Cua MIT notice differs from shipped notice'')))))))))))))))))))"

definition prepare :: "host \<Rightarrow> path \<Rightarrow> pin \<Rightarrow> path option \<Rightarrow> (build, unit) prog" where
  "prepare h repo pn source =
     pbind (reads (\<lambda>s. exists_at (tree s) (cache_dir repo)
                      \<and> \<not> exists_at (tree s) (child (cache_dir repo) ''.reasonix-owned''))) (\<lambda>foreign.
     if foreign then raise (RuntimeErr (''Refusing to overwrite unowned source cache: '' @ path_str (cache_dir repo)))
     else refresh_cache h repo pn source)"

section \<open>Notices\<close>

text \<open>\<open>re.match(r'([^ ]+) v([^ |]+)', line)\<close>: the name and version groups.\<close>

definition tree_key :: "string \<Rightarrow> (string \<times> string) option" where
  "tree_key line =
     (let n = takeWhile (\<lambda>c. c \<noteq> CHR '' '') line; r = drop (length n) line;
          v = takeWhile (\<lambda>c. c \<noteq> CHR '' '' \<and> c \<noteq> CHR ''|'') (drop 2 r) in
      if n \<noteq> [] \<and> starts_with '' v'' r \<and> v \<noteq> [] then Some (n, v) else None)"

definition selected_keys :: "string \<Rightarrow> (string \<times> string) list" where
  "selected_keys text = List.map_filter tree_key (split_lines text)"

definition forbidden_license :: "string \<Rightarrow> bool" where
  "forbidden_license l = list_ex (\<lambda>p. has_sub p l) [''AGPL'', ''GPL'', ''FSL'', ''BUSL'']"

record notice =
  n_key :: "string \<times> string"
  n_license :: string
  n_repository :: "string option"
  n_files :: "string list"
  n_archive :: "(string \<times> string) option"

definition is_notice_name :: "string \<Rightarrow> bool" where
  "is_notice_name name = list_ex (\<lambda>p. starts_with p (lower name))
     [''license'', ''licence'', ''copying'', ''notice'', ''copyright'']"

definition notice_files :: "package \<Rightarrow> dirs \<Rightarrow> path list res" where
  "notice_files p t =
     (let source = butlast (p_manifest p);
          own = filter (\<lambda>q. is_notice_name (last q)) (files_in t source);
          named = (case p_license_file p of None \<Rightarrow> [] | Some f \<Rightarrow> if f = [] then [] else [path_at source f]) in
      if \<not> dir_at t source then Inl (OSErr (path_str source)) else Inr (sort (remdups (own @ named))))"

text \<open>The copies of a package's own notices.\<close>

fun copy_notices :: "path \<Rightarrow> string \<times> string \<Rightarrow> path list \<Rightarrow> (build, string list) prog" where
  "copy_notices folder key [] = ret []"
| "copy_notices folder key (f # fs) =
     pbind (reads (\<lambda>s. file_at (tree s) f)) (\<lambda>present.
     if \<not> present then copy_notices folder key fs
     else
       let name = ''crates/'' @ fst key @ ''-'' @ snd key @ ''/'' @ last f; dest = path_at folder name in
       pseq (edit_tree (make_dirs (butlast dest)))
      (pseq (edit_tree (copy_bytes f dest))
      (pbind (copy_notices folder key fs) (\<lambda>names. ret (name # names)))))"

definition copy_archive ::
    "host \<Rightarrow> path \<Rightarrow> ((string \<times> string) \<times> string option) list \<Rightarrow> package
     \<Rightarrow> (build, (string \<times> string) option) prog" where
  "copy_archive h folder checksums p =
     (let key = (p_name p, p_version p); source = butlast (p_manifest p);
          name = fst key @ ''-'' @ snd key @ ''.crate'';
          archive = child (child (child (butlast (butlast (butlast source))) ''cache'') (last (butlast source))) name;
          dest = child (child folder ''corresponding-source'') name in
      pseq (require (3 \<le> length source) (IndexErr ''parents''))
     (pbind (on_tree (\<lambda>t. read_bytes t archive)) (\<lambda>b.
      pbind (lift (case map_of checksums key of None \<Rightarrow> Inl (KeyErr (fst key)) | Some c \<Rightarrow> Inr c)) (\<lambda>c.
      pseq (require (Some (sha256 h b) = c) (RuntimeErr (''Crate source checksum mismatch: '' @ fst key)))
     (pseq (edit_tree (make_dirs (butlast dest)))
     (pseq (edit_tree (copy_bytes archive dest))
     (ret (Some (path_str (drop (length folder) dest), sha256 h b)))))))))"

definition opt_text :: "string option \<Rightarrow> string" where
  "opt_text v = (case v of None \<Rightarrow> [] | Some s \<Rightarrow> s)"

text \<open>One selected package: the body of the loop after \<open>continue\<close>.\<close>

definition package_notice ::
    "host \<Rightarrow> path \<Rightarrow> ((string \<times> string) \<times> string option) list \<Rightarrow> package \<Rightarrow> (build, notice) prog" where
  "package_notice h folder checksums p =
     (let key = (p_name p, p_version p); license = opt_text (p_license p) in
      pseq (require (license \<noteq> [] \<and> \<not> forbidden_license license)
              (RuntimeErr (''Dependency needs a separate license review: '' @ fst key)))
      (if starts_with ''registry+'' (opt_text (p_source p))
       then
         pbind (on_tree (notice_files p)) (\<lambda>fs.
         pbind (copy_notices folder key fs) (\<lambda>names.
         pbind (if has_sub ''MPL-2.0'' license \<or> names = [] then copy_archive h folder checksums p
                else ret None) (\<lambda>archive.
         ret \<lparr>n_key = key, n_license = license, n_repository = p_repository p, n_files = names,
              n_archive = archive\<rparr>)))
       else
         ret \<lparr>n_key = key, n_license = license, n_repository = p_repository p,
              n_files = (if fst key \<noteq> ''reasonix-cua-runtime'' then [''Cua-MIT.txt''] else []),
              n_archive = None\<rparr>))"

fun notice_index ::
    "host \<Rightarrow> path \<Rightarrow> ((string \<times> string) \<times> string option) list \<Rightarrow> (string \<times> string) list
     \<Rightarrow> package list \<Rightarrow> (build, notice list) prog" where
  "notice_index h folder checksums selected [] = ret []"
| "notice_index h folder checksums selected (p # ps) =
     (if (p_name p, p_version p) \<notin> set selected then notice_index h folder checksums selected ps
      else pbind (package_notice h folder checksums p) (\<lambda>n.
           pbind (notice_index h folder checksums selected ps) (\<lambda>ns. ret (n # ns))))"

definition notice_json :: "notice \<Rightarrow> json" where
  "notice_json n = JObj
     ([(''name'', JStr (fst (n_key n))), (''version'', JStr (snd (n_key n))),
       (''license'', JStr (n_license n)), (''repository'', json_opt (n_repository n)),
       (''files'', JList (map JStr (n_files n)))]
      @ (case n_archive n of None \<Rightarrow> []
         | Some (a, d) \<Rightarrow> [(''source_archive'', JStr a), (''sha256'', JStr d)]))"

definition notices_readme :: "pin \<Rightarrow> string" where
  "notices_readme pn = ''Reasonix Cua edition third-party notices'' @ nl @ nl
     @ ''Cua Driver/SDK source: '' @ repository pn @ nl @ ''Commit: '' @ revision pn @ nl @ nl
     @ ''Cua MIT and upstream notices are retained. Inter is SIL OFL.'' @ nl
     @ ''UniFFI components are MPL-2.0: corresponding unmodified source archives'' @ nl
     @ ''are supplied in corresponding-source/ with Cargo.lock checksums in the index.'' @ nl
     @ ''Other compiled dependencies and their notices are listed in dependency-index.json.'' @ nl
     @ ''Reasonix wrapper changes do not modify these MPL source files.'' @ nl"

definition start_folder :: "path \<Rightarrow> pin \<Rightarrow> path \<Rightarrow> dirs \<Rightarrow> dirs res" where
  "start_folder repo pn folder t =
     rbind (if exists_at t folder then remove_tree folder t else Inr t) (\<lambda>t.
     rbind (copy_tree (child (runtime_dir repo) ''licenses'') folder t) (\<lambda>t.
     rbind (copy_bytes (child (cache_dir repo) ''reasonix-source-patches.json'')
              (child folder ''reasonix-source-patches.json'') t) (\<lambda>t.
     rbind (copy_bytes (child (cache_dir repo) ''reasonix-source.json'')
              (child folder ''reasonix-source.json'') t) (\<lambda>t.
     rfold (\<lambda>bp t. rbind (make_dirs (butlast (path_at folder (b_patch bp))) t)
              (copy_bytes (path_at (runtime_dir repo) (b_patch bp)) (path_at folder (b_patch bp))))
       (reviewed_patches pn) t))))"

definition cargo_args :: "path \<Rightarrow> string list" where
  "cargo_args repo = [''--manifest-path'', path_str (child (runtime_dir repo) ''Cargo.toml''),
     ''--locked'', ''--offline'']"

definition notices :: "host \<Rightarrow> path \<Rightarrow> pin \<Rightarrow> string \<Rightarrow> (build, notice list) prog" where
  "notices h repo pn target =
     (let folder = child (runtime_dir repo) ''generated-notices'' in
      pbind (tool_output h ([''cargo'', ''metadata''] @ cargo_args repo
               @ [''--format-version=1'', ''--filter-platform'', target]) repo) (\<lambda>metadata.
      pbind (lift (cargo_packages h metadata)) (\<lambda>packages.
      pbind (tool_output h ([''cargo'', ''tree''] @ cargo_args repo @ [''--target'', target, ''--edges'',
               ''normal,build'', ''--prefix'', ''none'', ''--format'', ''{p}|{l}'']) repo) (\<lambda>text.
      let selected = selected_keys text in
      pseq (edit_tree (start_folder repo pn folder))
     (pbind (on_tree (\<lambda>t. rbind (read_bytes t (child (runtime_dir repo) ''Cargo.lock'')) (lock_checksums h)))
        (\<lambda>checksums.
      pbind (notice_index h folder checksums selected
               (sort_key (\<lambda>p. (p_name p, p_version p)) packages)) (\<lambda>index.
      pseq (require (set (map n_key index) = set selected)
              (RuntimeErr ''Dependency notice inventory is incomplete''))
     (pseq (edit_tree (write_bytes (child folder ''dependency-index.json'')
              (dumps h (JObj [(''upstream'', pin_json pn), (''target'', JStr target),
                              (''dependencies'', JList (map notice_json index))]) @ nl)))
     (pseq (edit_tree (write_bytes (child folder ''README.txt'') (notices_readme pn)))
     (ret index))))))))))"

section \<open>The build\<close>

definition linux_targets :: "string list" where
  "linux_targets = [''x86_64-unknown-linux-gnu'', ''aarch64-unknown-linux-gnu'']"

definition mac_targets :: "string list" where
  "mac_targets = [''x86_64-apple-darwin'', ''aarch64-apple-darwin'']"

definition go_const :: "string \<Rightarrow> string \<Rightarrow> string" where
  "go_const name v = ''const '' @ name @ '' = '' @ quoted v"

text \<open>The tests of \<open>main\<close> before anything is written: the target, and the two pins of the Go host.\<close>

definition check_pins :: "host \<Rightarrow> path \<Rightarrow> pin \<Rightarrow> string \<Rightarrow> (build, unit) prog" where
  "check_pins h repo pn target =
     (let go_file = path_at repo ''internal/computeruse/cua_runtime.go'' in
      pseq (require (target \<in> set linux_targets \<or> target \<in> set mac_targets)
              (RuntimeErr ''Cua desktop packages require a native macOS or x64/ARM64 GNU Linux build host''))
     (pbind (on_tree (\<lambda>t. read_bytes t go_file)) (\<lambda>go.
      pseq (require (has_sub (go_const ''cuaSourceRevision'' (revision pn)) go)
              (RuntimeErr ''Go host and Rust runtime source pins differ''))
     (pbind (on_tree (\<lambda>t. read_bytes t (child (runtime_dir repo) ''upstream.json''))) (\<lambda>pin_bytes.
      require (has_sub (go_const ''cuaSourceFingerprint'' (sha256 h pin_bytes)) go)
        (RuntimeErr ''Go host and Rust runtime patch fingerprints differ''))))))"

definition bundle_args :: "string \<Rightarrow> string \<Rightarrow> string list" where
  "bundle_args target bundles =
     (if target \<in> set linux_targets
      then [''--config'', ''tauri.cua.linux.conf.json'', ''--target'', target, ''--bundles'', bundles]
      else [''--config'', ''tauri.cua.conf.json''])"

definition build_main :: "host \<Rightarrow> path \<Rightarrow> pin \<Rightarrow> path option \<Rightarrow> string option \<Rightarrow> (build, unit) prog" where
  "build_main h repo pn source bundle =
     pbind (tool_output h [''rustc'', ''--print'', ''host-tuple''] repo) (\<lambda>target.
     pseq (check_pins h repo pn target)
    (pseq (prepare h repo pn source)
    (pseq (runs h [''cargo'', ''build'', ''--manifest-path'', path_str (child (runtime_dir repo) ''Cargo.toml''),
             ''--target-dir'', path_str (child (runtime_dir repo) ''target''), ''--release'', ''--locked''] repo)
    (pbind (notices h repo pn target) (\<lambda>_.
     let destination = path_at repo (''desktop/tauri/binaries/reasonix-cua-runtime-'' @ target) in
     pseq (edit_tree (make_dirs (butlast destination)))
    (pseq (edit_tree (copy_bytes (path_at (runtime_dir repo) ''target/release/reasonix-cua-runtime'') destination))
    (pseq (modify (\<lambda>s. s\<lparr>told := told s @ [''Cua '' @ revision pn @ '': '' @ path_str destination]\<rparr>))
    (case bundle of
       None \<Rightarrow> ret ()
     | Some bundles \<Rightarrow>
         runs h ([''node'', path_str (path_at repo ''desktop/frontend/scripts/tauri-build.mjs'')]
                 @ bundle_args target bundles) (path_at repo ''desktop/frontend'')))))))))"

end
