(* ===== verification/CuaProps.thy ===== *)
theory CuaProps
  imports CuaBuild
begin

text \<open>
  Properties of the Cua build script: an unowned cache is refused untouched, the reviewed
  backports change nothing outside the pinned scope and install exactly the reviewed
  bytes, the notices cover every selected package, and a build whose pins differ stops
  before it writes.
\<close>

section \<open>Footprints\<close>

text \<open>\<open>t'\<close> differs from \<open>t\<close> in the paths of \<open>A\<close> and in newly made folders at most.\<close>

definition changed_only :: "(path \<Rightarrow> bool) \<Rightarrow> dirs \<Rightarrow> dirs \<Rightarrow> bool" where
  "changed_only A t t' \<longleftrightarrow> (\<forall>p. \<not> A p \<longrightarrow>
     map_of t' p = map_of t p \<or> map_of t p = None \<and> map_of t' p = Some Dir)"

definition edits :: "(path \<Rightarrow> bool) \<Rightarrow> (build, 'a) prog \<Rightarrow> bool" where
  "edits A m \<longleftrightarrow> (\<forall>s. changed_only A (tree s) (tree (snd (m s))))"

named_theorems edit_rules "footprints of build programs"

lemma changed_only_refl [simp]: "changed_only A t t"
  by (simp add: changed_only_def)

lemma changed_only_trans: "changed_only A t u \<Longrightarrow> changed_only A u v \<Longrightarrow> changed_only A t v"
  unfolding changed_only_def by metis

lemma editsD: "edits A m \<Longrightarrow> m s = (r, s') \<Longrightarrow> changed_only A (tree s) (tree s')"
  unfolding edits_def by (metis snd_conv)

lemma changed_file:
  "changed_only A t t' \<Longrightarrow> \<not> A p \<Longrightarrow> map_of t p = Some (File b) \<Longrightarrow> map_of t' p = Some (File b)"
  unfolding changed_only_def by force

lemma edits_pure [edit_rules]:
  "edits A (ret x)" "edits A (raise e)" "edits A (lift r)" "edits A (reads g)" "edits A (on_tree h)"
  "edits A (require b e)"
  by (simp_all add: edits_def prog_simps)

lemma edits_pbind [edit_rules]:
  assumes "edits A m" and "\<And>x. edits A (k x)"
  shows "edits A (pbind m k)"
  unfolding edits_def
proof
  fix s
  obtain r s1 where m: "m s = (r, s1)" by (cases "m s")
  show "changed_only A (tree s) (tree (snd (pbind m k s)))"
  proof (cases r)
    case (Inl e)
    then show ?thesis using editsD[OF assms(1) m] m by (simp add: pbind_run)
  next
    case (Inr x)
    have "changed_only A (tree s1) (tree (snd (k x s1)))" using assms(2) by (simp add: edits_def)
    then show ?thesis using editsD[OF assms(1) m] m Inr changed_only_trans by (simp add: pbind_run)
  qed
qed

lemma edits_pseq [edit_rules]: "edits A m \<Longrightarrow> edits A k \<Longrightarrow> edits A (pseq m k)"
  unfolding pseq_def by (rule edits_pbind)

lemma edits_if [edit_rules]:
  "(b \<Longrightarrow> edits A m) \<Longrightarrow> (\<not> b \<Longrightarrow> edits A k) \<Longrightarrow> edits A (if b then m else k)"
  by simp

lemma edits_for_each [edit_rules]: "(\<And>x. x \<in> set xs \<Longrightarrow> edits A (f x)) \<Longrightarrow> edits A (for_each f xs)"
  by (induction xs) (auto intro!: edit_rules)

lemma edits_edit_tree [edit_rules]:
  "(\<And>t t'. g t = Inr t' \<Longrightarrow> changed_only A t t') \<Longrightarrow> edits A (edit_tree g)"
  by (auto simp: edits_def prog_simps split: sum.splits)

lemma changed_make_dirs [edit_rules]: "make_dirs p t = Inr t' \<Longrightarrow> changed_only A t t'"
  unfolding changed_only_def using make_dirs_grows by blast

lemma changed_copy [edit_rules]: "copy_bytes s d t = Inr t' \<Longrightarrow> A d \<Longrightarrow> changed_only A t t'"
  by (auto simp: changed_only_def elim!: copy_bytes_Inr split: if_splits)

text \<open>Documented behaviour of the tools a backport runs: they write below their working
  directory only. A temporary directory lies apart from the repository.\<close>

definition tools_stay :: "host \<Rightarrow> bool" where
  "tools_stay h \<longleftrightarrow> (\<forall>rest cwd t text t'. run_tool h (''git'' # ''apply'' # rest) cwd t = Inr (text, t') \<longrightarrow>
     changed_only (below cwd) t t')"

definition temp_apart :: "host \<Rightarrow> path \<Rightarrow> bool" where
  "temp_apart h repo \<longleftrightarrow> (\<forall>prefix t. \<not> below repo (temp_name h prefix t) \<and> \<not> below (temp_name h prefix t) repo)"

lemma changed_weaken: "changed_only A t t' \<Longrightarrow> (\<And>p. A p \<Longrightarrow> B p) \<Longrightarrow> changed_only B t t'"
  by (auto simp: changed_only_def)

lemma edits_run [edit_rules]:
  assumes "tools_stay h" and "\<And>p. below cwd p \<Longrightarrow> A p"
  shows "edits A (run_cmd h (''git'' # ''apply'' # rest) cwd)"
    and "edits A (runs h (''git'' # ''apply'' # rest) cwd)"
    and "edits A (tool_output h (''git'' # ''apply'' # rest) cwd)"
proof -
  have "changed_only A t t'" if "run_tool h (''git'' # ''apply'' # rest) cwd t = Inr (out, t')" for t out t'
    using assms that unfolding tools_stay_def by (blast intro: changed_weaken)
  then show run: "edits A (run_cmd h (''git'' # ''apply'' # rest) cwd)"
    by (auto simp: edits_def run_cmd_def split: sum.splits prod.splits)
  show "edits A (runs h (''git'' # ''apply'' # rest) cwd)"
    "edits A (tool_output h (''git'' # ''apply'' # rest) cwd)"
    unfolding runs_def tool_output_def by (intro edit_rules run)+
qed

lemma edits_with_temp [edit_rules]:
  assumes "\<And>t p. below (temp_name h prefix t) p \<Longrightarrow> A p"
    and "\<And>t. edits A (body (temp_name h prefix t))"
  shows "edits A (with_temp h prefix body)"
  unfolding edits_def
proof
  fix s :: build
  let ?p = "temp_name h prefix (tree s)"
  let ?s = "s\<lparr>tree := AList.update ?p Dir (tree s)\<rparr>"
  obtain r s1 where b: "body ?p ?s = (r, s1)" by (cases "body ?p ?s")
  have 1: "changed_only A (tree s) (tree ?s)"
    using assms(1)[of "tree s" ?p] by (auto simp: changed_only_def update_conv')
  have 2: "changed_only A (tree ?s) (tree s1)" by (rule editsD[OF assms(2) b])
  have 3: "changed_only A (tree s1) (drop_tree ?p (tree s1))"
    using assms(1)[of "tree s"] by (auto simp: changed_only_def)
  from changed_only_trans[OF 1 changed_only_trans[OF 2 3]]
  show "changed_only A (tree s) (tree (snd (with_temp h prefix body s)))"
    by (simp add: with_temp_def finally_do_def Let_def b)
qed

section \<open>Backports stay in the pinned scope\<close>

definition plain :: "string \<Rightarrow> bool" where
  "plain f \<longleftrightarrow> ''..'' \<notin> set (path_of f) \<and> \<not> starts_with ''/'' f"

lemma path_at_plain: "plain f \<Longrightarrow> path_at p f = p @ path_of f"
proof -
  have "fold (\<lambda>s q. climb q s) xs q = q @ xs" if "''..'' \<notin> set xs" for xs q
    using that by (induction xs arbitrary: q) (auto simp: climb_def)
  then show "plain f \<Longrightarrow> path_at p f = p @ path_of f" by (simp add: plain_def path_at_def)
qed

lemma below_append [simp]: "below p (p @ q)"
  by (simp add: below_def)

lemma edits_check_source [edit_rules]: "edits A (check_source h repo pn e)"
  unfolding check_source_def Let_def
  by (cases "a_original e") (auto intro!: edit_rules)

lemma edits_stage [edit_rules]:
  "plain (a_file e) \<Longrightarrow> (\<And>p. below export p \<Longrightarrow> A p) \<Longrightarrow> edits A (stage_source repo export e)"
  unfolding stage_source_def by (intro edit_rules) (auto intro!: edit_rules simp: path_at_plain)

lemma edits_check_result [edit_rules]: "edits A (check_result h export e)"
  unfolding check_result_def by (intro edit_rules)

lemma edits_install [edit_rules]:
  "A (path_at (cache_dir repo) (a_file e)) \<Longrightarrow> edits A (install_result repo export e)"
  unfolding install_result_def by (intro edit_rules) (auto intro!: edit_rules)

text \<open>A program in front of which a test fails does not run.\<close>

lemma edits_guarded:
  assumes "edits A m" and "\<And>s. is_ok (fst (m s)) \<Longrightarrow> edits A k"
  shows "edits A (pseq m k)"
  unfolding edits_def
proof
  fix s
  obtain r s1 where m: "m s = (r, s1)" by (cases "m s")
  show "changed_only A (tree s) (tree (snd (pseq m k s)))"
  proof (cases r)
    case (Inl e)
    then show ?thesis using editsD[OF assms(1) m] m by (simp add: pseq_run)
  next
    case (Inr x)
    then have "edits A k" using assms(2)[of s] m by simp
    then have "changed_only A (tree s1) (tree (snd (k s1)))" by (simp add: edits_def)
    then show ?thesis using editsD[OF assms(1) m] m Inr changed_only_trans by (simp add: pseq_run)
  qed
qed

lemma for_each_check_source:
  "is_ok (fst (for_each (check_source h repo pn) es s)) \<Longrightarrow> e \<in> set es \<Longrightarrow>
     below (path_at (cache_dir repo) (scope pn)) (path_at (cache_dir repo) (a_file e))"
proof (induction es arbitrary: s)
  case (Cons a es)
  obtain r s1 where a: "check_source h repo pn a s = (r, s1)" by (cases "check_source h repo pn a s")
  with Cons.prems(1) have r: "r = Inr ()" by (auto simp: pseq_run is_ok_def split: sum.splits)
  have "below (path_at (cache_dir repo) (scope pn)) (path_at (cache_dir repo) (a_file a))"
    using a r by (auto simp: check_source_def Let_def pseq_ok basic_ok)
  moreover have "is_ok (fst (for_each (check_source h repo pn) es s1))"
    using Cons.prems(1) a r by (simp add: pseq_run)
  ultimately show ?case using Cons by auto
qed simp

lemma edits_backport:
  assumes "tools_stay h" and "temp_apart h repo" and "list_all (\<lambda>e. plain (a_file e)) (b_files bp)"
  shows "edits (\<lambda>p. below (path_at (cache_dir repo) (scope pn)) p \<or> \<not> below repo p) (apply_backport h repo pn bp)"
proof -
  have outside: "\<not> below repo p" if "below (temp_name h prefix t) p" for prefix t p
    using assms(2) that unfolding temp_apart_def below_def
    by (metis min.absorb_iff2 min.commute nat_le_linear take_take)
  show ?thesis
    unfolding apply_backport_def Let_def
    by (intro edits_guarded[where m = "for_each _ _"] edit_rules)
      (use assms outside for_each_check_source in \<open>auto simp: list_all_iff\<close>)
qed

section \<open>Backports install the reviewed bytes\<close>

lemma cache_dir_eq: "cache_dir repo = repo @ [''desktop'', ''cua-source'']"
proof -
  have "path_of ''desktop/cua-source'' = [''desktop'', ''cua-source'']" by (simp add: path_of_def)
  moreover have "plain ''desktop/cua-source''" by (simp add: plain_def path_of_def starts_with_def)
  ultimately show ?thesis by (simp add: cache_dir_def path_at_plain)
qed

lemma below_either: "below a p \<Longrightarrow> below b p \<Longrightarrow> below a b \<or> below b a"
  unfolding below_def by (metis min.absorb_iff2 min.commute nat_le_linear take_take)

lemma checked_sources:
  "for_each (check_source h repo pn) es s = (Inr (), s') \<Longrightarrow> s' = s \<and> (\<forall>e \<in> set es.
     (case a_original e of
        None \<Rightarrow> \<not> exists_at (tree s) (path_at (cache_dir repo) (a_file e))
      | Some d \<Rightarrow> \<exists>b. map_of (tree s) (path_at (cache_dir repo) (a_file e)) = Some (File b) \<and> sha256 h b = d))"
proof (induction es arbitrary: s)
  case (Cons e es)
  then obtain s1 where "check_source h repo pn e s = (Inr (), s1)"
    and rest: "for_each (check_source h repo pn) es s1 = (Inr (), s')" by (auto simp: pseq_ok)
  then have "s1 = s" "(case a_original e of
        None \<Rightarrow> \<not> exists_at (tree s) (path_at (cache_dir repo) (a_file e))
      | Some d \<Rightarrow> \<exists>b. map_of (tree s) (path_at (cache_dir repo) (a_file e)) = Some (File b) \<and> sha256 h b = d)"
    by (auto simp: check_source_def Let_def ok_simps split: option.splits)
  with Cons.IH[OF rest[unfolded \<open>s1 = s\<close>]] show ?case by simp
qed (simp add: basic_ok)

lemma checked_results:
  "for_each (check_result h export) es s = (Inr (), s') \<Longrightarrow> s' = s \<and> (\<forall>e \<in> set es.
     \<exists>b. map_of (tree s) (path_at export (a_file e)) = Some (File b) \<and> sha256 h b = a_patched e)"
proof (induction es arbitrary: s)
  case (Cons e es)
  then obtain s1 where "check_result h export e s = (Inr (), s1)"
    and rest: "for_each (check_result h export) es s1 = (Inr (), s')" by (auto simp: pseq_ok)
  then have "s1 = s" "\<exists>b. map_of (tree s) (path_at export (a_file e)) = Some (File b) \<and> sha256 h b = a_patched e"
    by (auto simp: check_result_def ok_simps)
  with Cons.IH[OF rest] show ?case by simp
qed (simp add: basic_ok)

lemma installed_results:
  assumes "for_each (install_result repo export) es s = (Inr (), s')"
    and "list_all (\<lambda>e. plain (a_file e)) es"
    and "\<not> below export (cache_dir repo)" and "\<not> below (cache_dir repo) export"
  shows "\<forall>e \<in> set es. \<exists>b. map_of (tree s) (path_at export (a_file e)) = Some (File b)
    \<and> map_of (tree s') (path_at (cache_dir repo) (a_file e)) = Some (File b)"
  using assms(1,2)
proof (induction es arbitrary: s)
  case (Cons a es)
  let ?src = "\<lambda>e. path_at export (a_file e)" and ?dst = "\<lambda>e. path_at (cache_dir repo) (a_file e)"
  from Cons.prems obtain s1 where s1: "install_result repo export a s = (Inr (), s1)"
    and rest: "for_each (install_result repo export) es s1 = (Inr (), s')" by (auto simp: pseq_ok)
  have paths: "?src e = export @ path_of (a_file e)" "?dst e = cache_dir repo @ path_of (a_file e)"
    if "e \<in> set (a # es)" for e
    using Cons.prems(2) that by (auto simp: list_all_iff intro: path_at_plain)
  have apart: "?src e \<noteq> ?dst e'" if "e \<in> set (a # es)" "e' \<in> set (a # es)" for e e'
    using paths(1)[OF that(1)] paths(2)[OF that(2)] below_either[of export "?src e" "cache_dir repo"] assms(3,4)
    by (metis below_append)
  from s1 obtain t b where t: "make_dirs (butlast (?dst a)) (tree s) = Inr t"
    and b: "map_of t (?src a) = Some (File b)" "map_of (tree s1) = (map_of t)(?dst a \<mapsto> File b)"
    by (auto simp: install_result_def ok_simps elim!: copy_bytes_Inr)
  have was: "map_of (tree s) (?src e) = Some (File c)"
    if "map_of (tree s1) (?src e) = Some (File c)" "e \<in> set (a # es)" for e c
    using that apart[of e a] b(2) make_dirs_keeps(2)[OF t] by (auto split: if_splits)
  have src_a: "map_of (tree s) (?src a) = Some (File b)" using make_dirs_keeps(2)[OF t b(1)] .
  have IH: "\<forall>e \<in> set es. \<exists>b. map_of (tree s1) (?src e) = Some (File b) \<and> map_of (tree s') (?dst e) = Some (File b)"
    using Cons.IH[OF rest] Cons.prems(2) by simp
  have foot: "changed_only (\<lambda>p. p \<in> ?dst ` set es) (tree s1) (tree s')"
    by (rule editsD[where m = "for_each (install_result repo export) es", OF _ rest]) (intro edit_rules, auto)
  have "map_of (tree s') (?dst a) = Some (File b)"
  proof (cases "?dst a \<in> ?dst ` set es")
    case False
    then show ?thesis using changed_file[OF foot] b(2) by simp
  next
    case True
    then obtain e where e: "e \<in> set es" "?dst e = ?dst a" by auto
    then have "?src e = ?src a" using paths by simp
    with IH e was src_a show ?thesis by fastforce
  qed
  with IH was src_a show ?case by fastforce
qed simp

lemma with_temp_okE:
  assumes "with_temp h prefix body s = (Inr x, s')"
  obtains s1 where "body (temp_name h prefix (tree s))
      (s\<lparr>tree := AList.update (temp_name h prefix (tree s)) Dir (tree s)\<rparr>) = (Inr x, s1)"
    and "s' = s1\<lparr>tree := drop_tree (temp_name h prefix (tree s)) (tree s1)\<rparr>"
  using assms by (auto simp: with_temp_def finally_do_def Let_def split: prod.splits)

text \<open>C8. A backport that returns has found every reviewed input as reviewed, and has left
  in the source cache, for every audited file, bytes with the reviewed digest.\<close>

theorem backport_installs_reviewed:
  assumes "temp_apart h repo" and "list_all (\<lambda>e. plain (a_file e)) (b_files bp)"
    and "apply_backport h repo pn bp s = (Inr records, s')" and "e \<in> set (b_files bp)"
  shows "(\<exists>b. map_of (tree s') (path_at (cache_dir repo) (a_file e)) = Some (File b) \<and> sha256 h b = a_patched e)
    \<and> (case a_original e of
         None \<Rightarrow> \<not> exists_at (tree s) (path_at (cache_dir repo) (a_file e))
       | Some d \<Rightarrow> \<exists>b. map_of (tree s) (path_at (cache_dir repo) (a_file e)) = Some (File b) \<and> sha256 h b = d)"
proof -
  let ?T = "temp_name h ''reasonix-cua-backport-'' (tree s)" and ?dst = "path_at (cache_dir repo) (a_file e)"
  have "below repo (cache_dir repo)" by (simp add: cache_dir_eq)
  moreover have "\<not> below repo ?T" "\<not> below ?T repo" using assms(1) by (auto simp: temp_apart_def)
  ultimately have apart: "\<not> below ?T (cache_dir repo)" "\<not> below (cache_dir repo) ?T"
    by (meson below_either below_trans)+
  note run = assms(3)[unfolded apply_backport_def Let_def pseq_ok pbind_ok basic_ok build_ok]
  from run obtain s1 where s1: "for_each (check_source h repo pn) (b_files bp) s = (Inr (), s1)"
    and body: "with_temp h ''reasonix-cua-backport-'' (\<lambda>export.
        pbind (tool_output h [''git'', ''apply'', ''--numstat'', ''-z'',
            path_str (path_at (runtime_dir repo) (b_patch bp))] export) (\<lambda>text.
        pseq (require (distinct (map a_file (b_files bp)) \<and> same_items (numstat_paths text) (map a_file (b_files bp)))
                (RuntimeErr ''Backport patch files differ from the reviewed manifest''))
       (pseq (for_each (stage_source repo export) (b_files bp))
       (pseq (runs h [''git'', ''apply'', ''--check'', path_str (path_at (runtime_dir repo) (b_patch bp))] export)
       (pseq (runs h [''git'', ''apply'', path_str (path_at (runtime_dir repo) (b_patch bp))] export)
       (pseq (for_each (check_result h export) (b_files bp))
       (pseq (for_each (install_result repo export) (b_files bp))
       (ret (map (backport_record bp) (b_files bp)))))))))) s1 = (Inr records, s')"
    by blast
  have s1s: "s1 = s" using checked_sources[OF s1] by simp
  obtain s2 where s': "s' = s2\<lparr>tree := drop_tree ?T (tree s2)\<rparr>"
    and inner: "\<exists>u v. for_each (check_result h ?T) (b_files bp) u = (Inr (), v)
      \<and> for_each (install_result repo ?T) (b_files bp) v = (Inr (), s2)"
    by (rule with_temp_okE[OF body[unfolded s1s]]) (unfold pbind_ok pseq_ok basic_ok, blast)
  then obtain u v where u: "for_each (check_result h ?T) (b_files bp) u = (Inr (), v)"
    and v: "for_each (install_result repo ?T) (b_files bp) v = (Inr (), s2)" by blast
  from checked_results[OF u] assms(4) obtain b where b: "map_of (tree v) (path_at ?T (a_file e)) = Some (File b)"
    "sha256 h b = a_patched e" by auto
  have dst: "map_of (tree s2) ?dst = Some (File b)"
    using installed_results[OF v assms(2) apart] assms(4) b(1) by fastforce
  have "?dst = cache_dir repo @ path_of (a_file e)"
    using assms(2,4) by (auto simp: list_all_iff intro: path_at_plain)
  then have "\<not> below ?T ?dst" using apart below_either[of ?T ?dst "cache_dir repo"] by (metis below_append)
  then have "map_of (tree s') ?dst = Some (File b)" using dst s' by simp
  moreover have "(case a_original e of
         None \<Rightarrow> \<not> exists_at (tree s) ?dst
       | Some d \<Rightarrow> \<exists>b. map_of (tree s) ?dst = Some (File b) \<and> sha256 h b = d)"
    using checked_sources[OF s1] assms(4) by blast
  ultimately show ?thesis using b(2) by blast
qed

text \<open>C9. Whatever the outcome, applying the reviewed patches changes nothing of the repository
  outside the pinned scope of the source cache but folders newly made.\<close>

theorem backports_stay_in_scope:
  assumes "tools_stay h" and "temp_apart h repo"
    and "\<forall>bp \<in> set (reviewed_patches pn). list_all (\<lambda>e. plain (a_file e)) (b_files bp)"
    and "below repo p" and "\<not> below (path_at (cache_dir repo) (scope pn)) p"
  shows "map_of (tree (snd (apply_backports h repo pn s))) p = map_of (tree s) p
    \<or> map_of (tree s) p = None \<and> map_of (tree (snd (apply_backports h repo pn s))) p = Some Dir"
proof -
  let ?A = "\<lambda>p. below (path_at (cache_dir repo) (scope pn)) p \<or> \<not> below repo p"
  have "edits ?A (backport_all h repo pn bps)" if "set bps \<subseteq> set (reviewed_patches pn)" for bps
    using that by (induction bps) (auto intro!: edit_rules edits_backport assms(1-2) simp: assms(3))
  then have "edits ?A (apply_backports h repo pn)" by (simp add: apply_backports_def)
  then show ?thesis using assms(4,5) unfolding edits_def changed_only_def by blast
qed

text \<open>C10. A source cache without the script's marker is refused before anything is touched or run.\<close>

theorem unowned_cache_refused:
  assumes "exists_at (tree s) (cache_dir repo)"
    and "\<not> exists_at (tree s) (child (cache_dir repo) ''.reasonix-owned'')"
  shows "prepare h repo pn source s
    = (Inl (RuntimeErr (''Refusing to overwrite unowned source cache: '' @ path_str (cache_dir repo))), s)"
  using assms by (simp add: prepare_def prog_simps)

section \<open>Notices\<close>

text \<open>What the index promises of one package.\<close>

definition notice_of :: "host \<Rightarrow> ((string \<times> string) \<times> string option) list \<Rightarrow> package \<Rightarrow> notice \<Rightarrow> bool" where
  "notice_of h checksums p n \<longleftrightarrow>
     n_key n = (p_name p, p_version p) \<and> p_license p = Some (n_license n)
     \<and> n_license n \<noteq> [] \<and> \<not> forbidden_license (n_license n)
     \<and> (starts_with ''registry+'' (opt_text (p_source p)) \<longrightarrow>
          has_sub ''MPL-2.0'' (n_license n) \<or> n_files n = [] \<longrightarrow>
          (\<exists>a digest. n_archive n = Some (a, digest) \<and> map_of checksums (n_key n) = Some (Some digest)))"

lemma copy_archive_ok:
  assumes "copy_archive h folder checksums p s = (Inr a, s')"
  shows "\<exists>name digest. a = Some (name, digest) \<and> map_of checksums (p_name p, p_version p) = Some (Some digest)"
  using assms unfolding copy_archive_def Let_def by (auto simp: ok_simps split: option.splits)

lemma package_notice_ok:
  assumes "package_notice h folder checksums p s = (Inr n, s')"
  shows "notice_of h checksums p n"
proof -
  let ?license = "opt_text (p_license p)"
  have l: "?license \<noteq> [] \<and> \<not> forbidden_license ?license"
    using assms unfolding package_notice_def Let_def by (auto simp: ok_simps)
  then have some: "p_license p = Some ?license" by (cases "p_license p") (auto simp: opt_text_def)
  show ?thesis
  proof (cases "starts_with ''registry+'' (opt_text (p_source p))")
    case True
    then show ?thesis
      using assms l some unfolding package_notice_def Let_def notice_of_def
      by (auto simp: ok_simps split: if_splits dest!: copy_archive_ok)
  next
    case False
    then show ?thesis
      using assms l some unfolding package_notice_def Let_def notice_of_def by (auto simp: ok_simps)
  qed
qed

text \<open>The notice index lists exactly the selected packages, in the order given, each under a
  licence that needs no review, and supplies the source archive of every MPL package and of
  every registry package without notices of its own, with the digest Cargo.lock names.\<close>

lemma notice_index_reviewed:
  assumes "notice_index h folder checksums selected ps s = (Inr index, s')"
  shows "list_all2 (notice_of h checksums)
    (filter (\<lambda>p. (p_name p, p_version p) \<in> set selected) ps) index"
  using assms
proof (induction ps arbitrary: s index)
  case (Cons p ps)
  then show ?case
    by (cases "(p_name p, p_version p) \<in> set selected") (auto simp: ok_simps dest: package_notice_ok)
qed (simp add: basic_ok)

lemma check_pins_reads:
  "tree s = tree s' \<Longrightarrow> check_pins h repo pn target s = (fst (check_pins h repo pn target s'), s)"
  unfolding check_pins_def Let_def
  by (simp add: prog_simps del: read_bytes_Inr split: sum.splits)

text \<open>When the target is not supported or a pin of the Go host differs, the build stops with
  that error having run \<open>rustc\<close> only, and changed no file itself.\<close>

lemma build_checks_pins_first:
  assumes "run_tool h [''rustc'', ''--print'', ''host-tuple''] repo (tree s) = Inr (out, t)"
    and "fst (check_pins h repo pn (strip out) (s\<lparr>tree := t\<rparr>)) = Inl e"
  shows "\<exists>s'. build_main h repo pn source bundle s = (Inl e, s') \<and> tree s' = t
    \<and> ran s' = ran s @ [[''rustc'', ''--print'', ''host-tuple'']] \<and> told s' = told s"
proof -
  let ?s = "s\<lparr>tree := t, ran := ran s @ [[''rustc'', ''--print'', ''host-tuple'']]\<rparr>"
  have "check_pins h repo pn (strip out) ?s = (Inl e, ?s)"
    using check_pins_reads[of ?s "s\<lparr>tree := t\<rparr>"] assms(2) by simp
  then have "build_main h repo pn source bundle s = (Inl e, ?s)"
    unfolding build_main_def by (simp add: tool_output_def run_cmd_def assms(1) prog_simps)
  then show ?thesis by simp
qed

end
