(* ===== verification/CuaWitnesses.thy ===== *)
theory CuaWitnesses
  imports CuaProps
begin

text \<open>
  A concrete host and repository for the properties of the Cua build script: the digest is
  the content itself, \<open>git apply\<close> writes the patched file into its working directory, and
  the temporary directory lies outside the repository.
\<close>

definition demo_repo :: path where
  "demo_repo = [''r'']"

definition demo_audited :: audited where
  "demo_audited = \<lparr>a_file = ''libs/a.rs'', a_original = Some ''old'', a_patched = ''new''\<rparr>"

definition demo_backport :: backport where
  "demo_backport = \<lparr>b_patch = ''patches/p'', b_sha256 = ''P'', b_files = [demo_audited],
     b_reason = ''why'', b_origin = Upstream ''abc''\<rparr>"

definition demo_pin :: pin where
  "demo_pin = \<lparr>repository = ''url'', revision = ''abc'', scope = ''libs'', more_scopes = [],
     backports = [demo_backport], local_fixes = [], pin_json = JObj []\<rparr>"

definition demo_tool :: "string list \<Rightarrow> path \<Rightarrow> dirs \<Rightarrow> (string \<times> dirs) res" where
  "demo_tool args cwd t =
     (if args \<noteq> [] \<and> hd args = ''git'' \<and> length args = 3
      then Inr ([], AList.update (cwd @ [''libs'', ''a.rs'']) (File ''new'') t)
      else if args \<noteq> [] \<and> hd args = ''git'' \<and> length args = 5
      then Inr (''1'' @ [CHR 0x09] @ ''1'' @ [CHR 0x09] @ ''libs/a.rs'' @ [CHR 0x00], t)
      else Inr (''riscv'', t))"

definition demo_host :: host where
  "demo_host = \<lparr>run_tool = demo_tool, sha256 = (\<lambda>s. s), temp_name = (\<lambda>prefix t. [''tmp'', prefix]),
     tar_members = (\<lambda>b. Inr []), dumps = (\<lambda>j. []), cargo_packages = (\<lambda>s. Inr []),
     lock_checksums = (\<lambda>s. Inr [])\<rparr>"

definition demo_tree :: dirs where
  "demo_tree =
     [([''r''], Dir), ([''r'', ''desktop''], Dir), ([''r'', ''desktop'', ''cua-runtime''], Dir),
      ([''r'', ''desktop'', ''cua-runtime'', ''patches''], Dir),
      ([''r'', ''desktop'', ''cua-runtime'', ''patches'', ''p''], File ''P''),
      ([''r'', ''desktop'', ''cua-source''], Dir), ([''r'', ''desktop'', ''cua-source'', ''libs''], Dir),
      ([''r'', ''desktop'', ''cua-source'', ''libs'', ''a.rs''], File ''old'')]"

definition demo_build :: build where
  "demo_build = \<lparr>tree = demo_tree, ran = [], told = []\<rparr>"

lemma demo_tools_stay: "tools_stay demo_host"
  by (auto simp: tools_stay_def demo_host_def demo_tool_def changed_only_def update_conv' split: if_splits)

lemma demo_temp_apart: "temp_apart demo_host demo_repo"
  by (simp add: temp_apart_def demo_host_def demo_repo_def below_def)

lemma demo_plain: "list_all (\<lambda>e. plain (a_file e)) (b_files demo_backport)"
  by (simp add: demo_backport_def demo_audited_def plain_def path_of_def starts_with_def)

definition demo_backported :: "json list res \<times> build" where
  "demo_backported = apply_backport demo_host demo_repo demo_pin demo_backport demo_build"

lemma demo_backported_ok: "is_ok (fst demo_backported)"
  by code_simp

theorem backport_installs_reviewed_witness:
  "\<exists>b. map_of (tree (snd demo_backported)) (path_at (cache_dir demo_repo) ''libs/a.rs'') = Some (File b)
     \<and> sha256 demo_host b = ''new''"
proof -
  obtain records where "fst demo_backported = Inr records"
    using demo_backported_ok by (auto simp: is_ok_def split: sum.splits)
  then have run: "apply_backport demo_host demo_repo demo_pin demo_backport demo_build
      = (Inr records, snd demo_backported)"
    by (simp add: demo_backported_def prod_eq_iff)
  have "demo_audited \<in> set (b_files demo_backport)" by (simp add: demo_backport_def)
  from backport_installs_reviewed[OF demo_temp_apart demo_plain run this]
  show ?thesis by (simp add: demo_audited_def)
qed

theorem backports_stay_in_scope_witness:
  "map_of (tree (snd (apply_backports demo_host demo_repo demo_pin demo_build)))
     [''r'', ''desktop'', ''cua-runtime'', ''patches'', ''p''] = Some (File ''P'')"
proof -
  let ?p = "[''r'', ''desktop'', ''cua-runtime'', ''patches'', ''p'']"
  have patches: "\<forall>bp \<in> set (reviewed_patches demo_pin). list_all (\<lambda>e. plain (a_file e)) (b_files bp)"
    using demo_plain by (simp add: reviewed_patches_def demo_pin_def)
  have place: "below demo_repo ?p" "\<not> below (path_at (cache_dir demo_repo) (scope demo_pin)) ?p"
    by code_simp+
  have "map_of (tree demo_build) ?p = Some (File ''P'')" by code_simp
  then show ?thesis
    using backports_stay_in_scope[OF demo_tools_stay demo_temp_apart patches place, of demo_build]
    by (simp only: option.distinct simp_thms)
qed

theorem unowned_cache_refused_witness:
  "snd (prepare demo_host demo_repo demo_pin None demo_build) = demo_build"
proof -
  have "exists_at (tree demo_build) (cache_dir demo_repo)"
    "\<not> exists_at (tree demo_build) (child (cache_dir demo_repo) ''.reasonix-owned'')" by code_simp+
  from unowned_cache_refused[OF this] show ?thesis by simp
qed

definition demo_package :: package where
  "demo_package = \<lparr>p_name = ''own'', p_version = ''1'', p_license = Some ''MIT'', p_repository = None,
     p_source = None, p_manifest = [''r'', ''Cargo.toml''], p_license_file = None\<rparr>"

lemma notice_index_reviewed_example:
  "\<exists>index. fst (notice_index demo_host [''f''] [] [(''own'', ''1'')] [demo_package] demo_build) = Inr index
     \<and> list_all2 (notice_of demo_host []) [demo_package] index"
proof -
  let ?r = "notice_index demo_host [''f''] [] [(''own'', ''1'')] [demo_package] demo_build"
  have "is_ok (fst ?r)" by code_simp
  then obtain index where index: "fst ?r = Inr index" by (auto simp: is_ok_def split: sum.splits)
  then have "?r = (Inr index, snd ?r)" by (simp add: prod_eq_iff)
  from notice_index_reviewed[OF this] index show ?thesis by (simp add: demo_package_def)
qed

lemma build_checks_pins_first_example:
  "\<exists>e s'. build_main demo_host demo_repo demo_pin None None demo_build = (Inl e, s') \<and> tree s' = demo_tree"
proof -
  have run: "run_tool demo_host [''rustc'', ''--print'', ''host-tuple''] demo_repo (tree demo_build)
      = Inr (''riscv'', demo_tree)" by code_simp
  have "fst (check_pins demo_host demo_repo demo_pin (strip ''riscv'') (demo_build\<lparr>tree := demo_tree\<rparr>))
      = Inl (RuntimeErr ''Cua desktop packages require a native macOS or x64/ARM64 GNU Linux build host'')"
    by code_simp
  from build_checks_pins_first[OF run this] show ?thesis by blast
qed

end
