(* ===== verification/FixtureModel.thy ===== *)
theory FixtureModel
  imports Json Texts
begin

text \<open>
  The deterministic acceptance model of \<open>desktop/qa/computeruse/provider.py\<close>: a script of
  nineteen actions, replayed against the state the tool reports, with a bounded number of
  retries when the window changed and of waits for its button. \<open>decode\<close> is
  \<open>json.JSONDecoder().raw_decode\<close> at an opening brace, \<open>None\<close> where it raises
  \<open>ValueError\<close>; \<open>fixture\<close> is what reading \<open>fixture-state.json\<close> gives at that moment.
  JSON numbers with a fraction are exact rationals.
\<close>

record qa_model =
  qa_step :: int
  qa_stale :: int
  qa_waits :: int
  qa_log :: "json list"

definition new_model :: qa_model where
  "new_model = \<lparr>qa_step = 0, qa_stale = 0, qa_waits = 0, qa_log = []\<rparr>"

definition qa_actions :: "string list" where
  "qa_actions = [''status'', ''apps'', ''observe'', ''activate'', ''observe'',
     ''click_button'', ''observe'', ''click_button_coordinate'', ''observe'', ''click_field'', ''observe'',
     ''type'', ''observe'', ''select_all'', ''observe'', ''replace'',
     ''observe'', ''scroll'', ''observe'']"

text \<open>\<open>self.actions[i]\<close>, where a negative index counts from the end.\<close>

definition action_at :: "int \<Rightarrow> string res" where
  "action_at i =
     (let n = int (length qa_actions); j = (if i < 0 then i + n else i) in
      if 0 \<le> j \<and> j < n then Inr (qa_actions ! nat j) else Inl (IndexErr ''list index out of range''))"

definition unicode_text :: string where
  "unicode_text = ''Reasonix '' @ [CHR 0xE9, CHR 0xAA, CHR 0x8C, CHR 0xE6, CHR 0x94, CHR 0xB6]
     @ '' '' @ [CHR 0xF0, CHR 0x9F, CHR 0xA7, CHR 0xAA]"

definition passed_text :: string where
  "passed_text = ''Desktop acceptance passed '' @ [CHR 0xE2, CHR 0x9C, CHR 0x85]"

text \<open>A reply: a text message, or a tool call with these arguments.\<close>

datatype answer = Say string | Call json

definition call_json :: "string \<Rightarrow> (json \<Rightarrow> string) \<Rightarrow> json \<Rightarrow> json" where
  "call_json stamp dumps args = JObj
     [(''role'', JStr ''assistant''), (''content'', JNull), (''tool_calls'', JList [JObj
       [(''id'', JStr (''qa_'' @ stamp)), (''type'', JStr ''function''),
        (''function'', JObj [(''name'', JStr ''use_capability''),
           (''arguments'', JStr (dumps (JObj [(''action'', JStr ''call''),
              (''capability_id'', JStr ''tool:computer_use''), (''arguments'', args)])))])]])]"

definition answer_json :: "string \<Rightarrow> (json \<Rightarrow> string) \<Rightarrow> answer \<Rightarrow> json" where
  "answer_json stamp dumps a =
     (case a of
        Say s \<Rightarrow> JObj [(''role'', JStr ''assistant''), (''content'', JStr s)]
      | Call args \<Rightarrow> call_json stamp dumps args)"

section \<open>Reading a request\<close>

definition tool_names :: "json \<Rightarrow> json list res" where
  "tool_names request =
     rbind (rbind (jget_or request ''tools'' (JList [])) jiter)
       (rmap (\<lambda>t. rbind (jget_or t ''function'' (JObj [])) (\<lambda>f. jget f ''name'')))"

definition is_tool_message :: "json \<Rightarrow> bool res" where
  "is_tool_message m = rbind (jidx m ''role'') (\<lambda>r. Inr (jeq r (JStr ''tool'')))"

definition recent_tool :: "json \<Rightarrow> json option res" where
  "recent_tool request =
     rbind (rbind (jget_or request ''messages'' (JList [])) jiter) (\<lambda>ms. rfirst is_tool_message (rev ms))"

text \<open>\<open>raw_decode(content[content.index('{'):])[0]\<close>; \<open>None\<close> stands for the caught
  \<open>ValueError\<close> or \<open>TypeError\<close>, and a value without \<open>index\<close> raises.\<close>

definition decode_result :: "(string \<Rightarrow> (string \<times> json) list option) \<Rightarrow> json \<Rightarrow> json option res" where
  "decode_result decode content =
     (case content of
        JStr s \<Rightarrow>
          (if CHR ''{'' \<in> set s
           then Inr (map_option JObj (decode (dropWhile (\<lambda>c. c \<noteq> CHR ''{'') s)))
           else Inr None)
      | JList _ \<Rightarrow> Inr None
      | _ \<Rightarrow> Inl (AttributeErr ''index''))"

definition request_images :: "json \<Rightarrow> json list res" where
  "request_images request =
     rbind (rbind (jget_or request ''messages'' (JList [])) jiter) (\<lambda>ms.
     rbind (rmap (\<lambda>m. rbind (jget m ''content'') (\<lambda>c. Inr (case c of JList ps \<Rightarrow> ps | _ \<Rightarrow> []))) ms) (\<lambda>pss.
     rfilter (\<lambda>p. rbind (jget p ''type'') (\<lambda>t. Inr (jeq t (JStr ''image_url'')))) (concat pss)))"

section \<open>The settling of the previous action\<close>

definition append_log :: "json \<Rightarrow> (qa_model, unit) prog" where
  "append_log content = modify (\<lambda>q. q\<lparr>qa_log := qa_log q
     @ [JObj [(''step'', JInt (qa_step q)), (''content'', content)]]\<rparr>)"

definition repeat_step :: "(qa_model, unit) prog" where
  "repeat_step = modify (\<lambda>q. q\<lparr>qa_step := qa_step q - 1, qa_stale := qa_stale q + 1\<rparr>)"

definition settled :: "(qa_model, unit) prog" where
  "settled = modify (\<lambda>q. q\<lparr>qa_stale := 0\<rparr>)"

text \<open>The block \<open>if recent:\<close>: an early answer, or the result of the last tool call.\<close>

definition settle ::
    "(string \<Rightarrow> (string \<times> json) list option) \<Rightarrow> json option \<Rightarrow> (qa_model, answer + json) prog" where
  "settle decode recent =
     (case recent of
        None \<Rightarrow> ret (Inr (JObj []))
      | Some message \<Rightarrow>
          pbind (lift (jget_or message ''content'' (JStr []))) (\<lambda>content.
          pseq (append_log content)
         (pbind (lift (decode_result decode content)) (\<lambda>decoded.
          case decoded of
            None \<Rightarrow> ret (Inl (Say ''QA stopped: malformed or blocked tool result.''))
          | Some prior \<Rightarrow>
              pbind (reads qa_stale) (\<lambda>stale.
              if truthy (field prior ''state_changed'')
              then if 4 \<le> stale
                   then ret (Inl (Say ''QA stopped: fixture did not settle after fresh observations.''))
                   else pseq repeat_step (ret (Inr prior))
              else
                pbind (lift (jstr content)) (\<lambda>text.
                if starts_with ''error:'' text
                then if has_sub ''app state changed; no input sent'' text \<and> stale < 4
                     then pseq repeat_step (ret (Inr prior))
                     else ret (Inl (Say ''QA stopped: inspect the saved tool error.''))
                else pseq settled (ret (Inr prior))))))))"

section \<open>The next action\<close>

definition number :: "json \<Rightarrow> rat res" where
  "number j = (case jnum j of Some r \<Rightarrow> Inr r | None \<Rightarrow> Inl (TypeErr ''number expected''))"

text \<open>\<open>b[origin] - w[origin] + b[extent] / 2\<close>.\<close>

definition middle :: "json \<Rightarrow> json \<Rightarrow> string \<Rightarrow> string \<Rightarrow> json res" where
  "middle b w origin extent =
     rbind (rbind (jidx b origin) number) (\<lambda>p.
     rbind (rbind (jidx w origin) number) (\<lambda>q.
     rbind (rbind (jidx b extent) number) (\<lambda>e. Inr (JFloat (p - q + e / 2)))))"

definition click_middle :: "json \<Rightarrow> json \<Rightarrow> json \<Rightarrow> json res" where
  "click_middle element state args =
     rbind (jidx element ''bounds'') (\<lambda>b.
     rbind (jidx state ''bounds'') (\<lambda>w.
     rbind (middle b w ''x'' ''width'') (\<lambda>x.
     rbind (middle b w ''y'' ''height'') (\<lambda>y.
     Inr (jput ''y'' y (jput ''x'' x (jput ''action'' (JStr ''click'') args)))))))"

text \<open>\<open>'Increment test counter' in (e.get('title', '') + e.get('description', ''))\<close>.\<close>

definition names_button :: "json \<Rightarrow> bool res" where
  "names_button e =
     rbind (jget_or e ''title'' (JStr [])) (\<lambda>t.
     rbind (jget_or e ''description'' (JStr [])) (\<lambda>d.
     case (t, d) of
       (JStr a, JStr b) \<Rightarrow> Inr (has_sub ''Increment test counter'' (a @ b))
     | (JList a, JList b) \<Rightarrow> Inr (JStr ''Increment test counter'' \<in> set (a @ b))
     | _ \<Rightarrow> Inl (TypeErr ''unsupported operand'')))"

definition names_field :: "json \<Rightarrow> bool res" where
  "names_field e = rbind (jget e ''role'') (\<lambda>r. Inr (jeq r (JStr ''AXTextField'')))"

text \<open>The arguments of an action other than status, apps and observe: an early answer, or the
  arguments; \<open>Inr None\<close> is a wait for the button.\<close>

definition button_args :: "string \<Rightarrow> json \<Rightarrow> json \<Rightarrow> json \<Rightarrow> int \<Rightarrow> (answer + json option) res" where
  "button_args action args state elements waits =
     rbind (rbind (jiter elements) (rfirst names_button)) (\<lambda>button.
     case button of
       None \<Rightarrow> Inr (if waits < 4 then Inr None else Inl (Say ''QA stopped: fixture button unavailable.''))
     | Some b \<Rightarrow>
         if action = ''click_button''
         then rbind (jidx b ''element'') (\<lambda>e.
              Inr (Inr (Some (jput ''element'' e (jput ''action'' (JStr ''click'') args)))))
         else rbind (click_middle b state args) (\<lambda>a. Inr (Inr (Some a))))"

definition field_args :: "json \<Rightarrow> json \<Rightarrow> json \<Rightarrow> (answer + json option) res" where
  "field_args args state elements =
     rbind (rbind (jiter elements) (rfirst names_field)) (\<lambda>text_field.
     case text_field of
       None \<Rightarrow> Inr (Inl (Say ''QA stopped: fixture text field unavailable.''))
     | Some f \<Rightarrow> rbind (click_middle f state args) (\<lambda>a. Inr (Inr (Some a))))"

definition plain_args :: "string \<Rightarrow> json \<Rightarrow> json" where
  "plain_args action args =
     (if action = ''type'' then jput ''text'' (JStr unicode_text) args
      else if action = ''select_all''
      then jput ''modifiers'' (JList [JStr ''command''])
             (jput ''key'' (JStr ''a'') (jput ''action'' (JStr ''key'') args))
      else if action = ''replace''
      then jput ''text'' (JStr passed_text) (jput ''action'' (JStr ''type'') args)
      else if action = ''scroll'' then jput ''delta'' (JInt (- 8)) args
      else args)"

definition action_args :: "string \<Rightarrow> json \<Rightarrow> json \<Rightarrow> json \<Rightarrow> int \<Rightarrow> (answer + json option) res" where
  "action_args action args prior state waits =
     rbind (jget_or prior ''observation'' (JStr [])) (\<lambda>observation.
     let args = jput ''observation'' observation args in
     rbind (jget_or state ''elements'' (JList [])) (\<lambda>elements.
     if action = ''click_button'' \<or> action = ''click_button_coordinate''
     then button_args action args state elements waits
     else if action = ''click_field'' then field_args args state elements
     else Inr (Inr (Some (plain_args action args)))))"

definition in_catalog :: "json \<Rightarrow> json \<Rightarrow> bool res" where
  "in_catalog fixture a =
     rbind (jidx a ''pid'') (\<lambda>p. rbind (jidx fixture ''pid'') (\<lambda>q.
     rand (Inr (jeq p q))
       (rbind (jidx a ''bundle_id'') (\<lambda>b. Inr (jeq b (JStr ''io.reasonix.control.fixture''))))))"

text \<open>The preconditions of a step, in the order of the source: the answer that stops the run, if any.\<close>

definition precondition :: "json \<Rightarrow> json \<Rightarrow> string \<Rightarrow> int \<Rightarrow> json \<Rightarrow> string option res" where
  "precondition fixture request action step state =
     rbind (jget state ''capture_available'') (\<lambda>capture.
     rbind (if truthy capture then rbind (request_images request) (\<lambda>is. Inr (is = [])) else Inr False) (\<lambda>blind.
     if blind then Inr (Some ''QA stopped: screenshot did not reach the vision model.'')
     else rbind (if step = 1
                 then rbind (jget state ''accessibility'') (\<lambda>a. rbind (jget state ''screen_recording'') (\<lambda>r.
                      Inr (\<not> (truthy a \<and> truthy r))))
                 else Inr False) (\<lambda>denied.
     if denied then Inr (Some ''QA stopped: grant the packaged app Accessibility and Screen Recording.'')
     else rbind (if step = 2
                 then rbind (rbind (rbind (jget_or state ''apps'' (JList [])) jiter) (rany (in_catalog fixture)))
                        (\<lambda>found. Inr (\<not> found))
                 else Inr False) (\<lambda>absent.
     if absent then Inr (Some ''QA stopped: fixture identity not in real app catalog.'')
     else rbind (if action = ''select_all''
                 then rbind (jidx fixture ''text'') (\<lambda>t. Inr (\<not> jeq t (JStr unicode_text)))
                 else Inr False) (\<lambda>garbled.
     if garbled then Inr (Some ''QA stopped: Unicode input postcondition failed.'')
     else rbind (if action = ''click_field''
                 then rbind (jidx fixture ''clicks'') (\<lambda>c. Inr (\<not> jeq c (JInt 2)))
                 else Inr False) (\<lambda>missed.
     Inr (if missed then Some ''QA stopped: independent coordinate-button click postcondition failed.''
          else None)))))))"

text \<open>The rest of \<open>reply\<close> once the previous action is settled.\<close>

definition next_action :: "json res \<Rightarrow> json \<Rightarrow> json \<Rightarrow> (qa_model, answer) prog" where
  "next_action fixture_file request prior =
     pbind (lift fixture_file) (\<lambda>fixture.
     pbind (reads qa_step) (\<lambda>step.
     if int (length qa_actions) \<le> step
     then ret (Say ''QA complete; independently verify fixture postconditions.'')
     else
       pbind (lift (action_at step)) (\<lambda>action.
       let state = (if truthy (field prior ''state'') then field prior ''state'' else JObj []) in
       pbind (lift (precondition fixture request action step state)) (\<lambda>stop.
       case stop of
         Some reason \<Rightarrow> ret (Say reason)
       | None \<Rightarrow>
           pbind (lift (jidx fixture ''pid'')) (\<lambda>pid.
           let args = JObj [(''action'', JStr action), (''pid'', pid)] in
           if action = ''status'' \<or> action = ''apps''
           then pseq (modify (\<lambda>q. q\<lparr>qa_step := qa_step q + 1\<rparr>)) (ret (Call (JObj [(''action'', JStr action)])))
           else if action = ''observe''
           then pseq (modify (\<lambda>q. q\<lparr>qa_step := qa_step q + 1\<rparr>)) (ret (Call args))
           else
             pbind (reads qa_waits) (\<lambda>waits.
             pbind (lift (action_args action args prior state waits)) (\<lambda>r.
             case r of
               Inl a \<Rightarrow> ret a
             | Inr None \<Rightarrow>
                 pseq (modify (\<lambda>q. q\<lparr>qa_waits := qa_waits q + 1\<rparr>))
                   (ret (Call (JObj [(''action'', JStr ''observe''), (''pid'', pid)])))
             | Inr (Some a) \<Rightarrow>
                 pseq (modify (\<lambda>q. q\<lparr>qa_step := qa_step q + 1\<rparr>)) (ret (Call a))))))))) "

definition reply ::
    "(string \<Rightarrow> (string \<times> json) list option) \<Rightarrow> json res \<Rightarrow> json \<Rightarrow> (qa_model, answer) prog" where
  "reply decode fixture_file request =
     pbind (lift (tool_names request)) (\<lambda>tools.
     if \<not> list_ex (jeq (JStr ''use_capability'')) tools
     then ret (Say ''QA blocked: capability router unavailable.'')
     else
       pbind (lift (recent_tool request)) (\<lambda>recent.
       pbind (settle decode recent) (\<lambda>s.
       case s of Inl a \<Rightarrow> ret a | Inr prior \<Rightarrow> next_action fixture_file request prior)))"

section \<open>The HTTP responses\<close>

definition finish_reason :: "json \<Rightarrow> json" where
  "finish_reason r = JStr (if has_field r ''tool_calls'' then ''tool_calls'' else ''stop'')"

fun number_calls :: "int \<Rightarrow> json list \<Rightarrow> json list" where
  "number_calls i [] = []"
| "number_calls i (c # cs) = jput ''index'' (JInt i) c # number_calls (i + 1) cs"

definition index_calls :: "json \<Rightarrow> json" where
  "index_calls r =
     (case field r ''tool_calls'' of JList cs \<Rightarrow> jput ''tool_calls'' (JList (number_calls 0 cs)) r | _ \<Rightarrow> r)"

definition qa_chunk :: "json \<Rightarrow> json \<Rightarrow> json" where
  "qa_chunk delta reason = JObj
     [(''id'', JStr ''qa''), (''object'', JStr ''chat.completion.chunk''), (''model'', JStr ''desktop-qa''),
      (''choices'', JList [JObj [(''index'', JInt 0), (''delta'', delta), (''finish_reason'', reason)]])]"

definition stream_chunks :: "json \<Rightarrow> json list" where
  "stream_chunks r = [qa_chunk (index_calls r) JNull, qa_chunk (JObj []) (finish_reason r)]"

definition full_response :: "json \<Rightarrow> json" where
  "full_response r = JObj
     [(''id'', JStr ''qa''), (''object'', JStr ''chat.completion''), (''model'', JStr ''desktop-qa''),
      (''choices'', JList [JObj [(''index'', JInt 0), (''message'', r), (''finish_reason'', finish_reason r)]])]"

text \<open>\<open>do_GET\<close> and \<open>do_POST\<close>: the documents of the response body, the final marker apart.\<close>

definition model_list :: json where
  "model_list = JObj [(''object'', JStr ''list''),
     (''data'', JList [JObj [(''id'', JStr ''desktop-qa''), (''object'', JStr ''model'')]])]"

definition post_response ::
    "(string \<Rightarrow> (string \<times> json) list option) \<Rightarrow> (json \<Rightarrow> string) \<Rightarrow> string \<Rightarrow> json res \<Rightarrow> json
     \<Rightarrow> (qa_model, bool \<times> json list) prog" where
  "post_response decode dumps stamp fixture_file request =
     pbind (reply decode fixture_file request) (\<lambda>a.
     let r = answer_json stamp dumps a in
     pbind (lift (jget request ''stream'')) (\<lambda>stream.
     ret (if truthy stream then (True, stream_chunks r) else (False, [full_response r]))))"

section \<open>Properties\<close>

text \<open>The states a run of the model can be in, over any requests and fixture files.\<close>

inductive qa_reach :: "(string \<Rightarrow> (string \<times> json) list option) \<Rightarrow> qa_model \<Rightarrow> bool"
  for decode where
  start: "qa_reach decode new_model"
| reply: "qa_reach decode q \<Longrightarrow> qa_reach decode (snd (reply decode fixture_file request q))"

definition qa_bounded :: "qa_model \<Rightarrow> bool" where
  "qa_bounded q \<longleftrightarrow> qa_step q \<le> int (length qa_actions) \<and> 0 \<le> qa_stale q \<and> qa_stale q \<le> 4
     \<and> 0 \<le> qa_waits q \<and> qa_waits q \<le> 4"

lemma settle_run:
  assumes "settle decode recent q = (r, q')"
  shows "qa_waits q' = qa_waits q"
    and "qa_step q' = qa_step q \<and> (qa_stale q' = qa_stale q \<or> qa_stale q' = 0)
       \<or> qa_step q' = qa_step q - 1 \<and> qa_stale q' = qa_stale q + 1 \<and> qa_stale q < 4"
  using assms unfolding settle_def append_log_def repeat_step_def settled_def
  by (auto simp: prog_simps not_le split: option.splits sum.splits if_splits)

lemma settle_early: "settle decode recent q = (Inr (Inl a), q') \<Longrightarrow> \<exists>m. a = Say m"
  unfolding settle_def append_log_def repeat_step_def settled_def
  by (auto simp: prog_simps split: option.splits sum.splits if_splits)

lemma button_args_cases:
  assumes "button_args action args state elements waits = Inr r"
  shows "r = Inr None \<and> waits < 4 \<or> (\<exists>m. r = Inl (Say m)) \<or> (\<exists>a. r = Inr (Some a)
     \<and> (is_dict args \<longrightarrow> field a ''action'' = JStr ''click'' \<and> field a ''observation'' = field args ''observation''))"
  using assms unfolding button_args_def click_middle_def
  by (auto simp: rbind_Inr_iff is_dict_jput simp del: is_dict_def split: option.splits if_splits)

lemma field_args_cases:
  assumes "field_args args state elements = Inr r"
  shows "(\<exists>m. r = Inl (Say m)) \<or> (\<exists>a. r = Inr (Some a)
     \<and> (is_dict args \<longrightarrow> field a ''action'' = JStr ''click'' \<and> field a ''observation'' = field args ''observation''))"
  using assms unfolding field_args_def click_middle_def
  by (auto simp: rbind_Inr_iff is_dict_jput simp del: is_dict_def split: option.splits if_splits)

lemma plain_args_observation:
  "is_dict args \<Longrightarrow> field (plain_args action args) ''observation'' = field args ''observation''"
  by (simp add: plain_args_def is_dict_jput del: is_dict_def)

lemma action_args_cases:
  assumes "action_args action args prior state waits = Inr r"
  shows "r = Inr None \<and> waits < 4 \<or> (\<exists>m. r = Inl (Say m)) \<or> (\<exists>a. r = Inr (Some a)
     \<and> (is_dict args \<longrightarrow> jget_or prior ''observation'' (JStr []) = Inr (field a ''observation'')))"
proof -
  from assms obtain ob es where ob: "jget_or prior ''observation'' (JStr []) = Inr ob"
    and r: "(if action = ''click_button'' \<or> action = ''click_button_coordinate''
       then button_args action (jput ''observation'' ob args) state es waits
       else if action = ''click_field'' then field_args (jput ''observation'' ob args) state es
       else Inr (Inr (Some (plain_args action (jput ''observation'' ob args))))) = Inr r"
    unfolding action_args_def Let_def by (elim rbind_InrE)
  have ob': "field (jput ''observation'' ob args) ''observation'' = ob" if "is_dict args"
    using that by (simp del: is_dict_def)
  show ?thesis
  proof (cases "action = ''click_button'' \<or> action = ''click_button_coordinate''")
    case True
    then have "button_args action (jput ''observation'' ob args) state es waits = Inr r"
      using r by (simp only: if_True)
    from button_args_cases[OF this] show ?thesis using ob ob' by (auto simp: is_dict_jput simp del: is_dict_def)
  next
    case False
    note r = r[unfolded if_not_P[OF False]]
    show ?thesis
    proof (cases "action = ''click_field''")
      case True
      then have "field_args (jput ''observation'' ob args) state es = Inr r" using r by simp
      from field_args_cases[OF this] show ?thesis using ob ob' by (auto simp: is_dict_jput simp del: is_dict_def)
    next
      case False
      then have "r = Inr (Some (plain_args action (jput ''observation'' ob args)))"
        using r by (simp only: if_False sum.inject)
      then show ?thesis using ob ob' by (simp add: plain_args_observation is_dict_jput del: is_dict_def)
    qed
  qed
qed

lemma next_action_run:
  assumes "next_action fixture_file request prior q = (r, q')"
  shows "qa_stale q' = qa_stale q"
    and "q' = q \<or> qa_step q' = qa_step q + 1 \<and> qa_step q < int (length qa_actions) \<and> qa_waits q' = qa_waits q
       \<or> qa_step q' = qa_step q \<and> qa_waits q' = qa_waits q + 1 \<and> qa_waits q < 4"
  using assms unfolding next_action_def Let_def
  by (auto simp: prog_simps not_le split: option.splits sum.splits if_splits dest: action_args_cases)

lemma next_action_call_run:
  assumes "next_action fixture_file request prior q = (Inr (Call args), q')"
  shows "qa_step q' = qa_step q + 1 \<and> qa_waits q' = qa_waits q
       \<or> qa_step q' = qa_step q \<and> qa_waits q' = qa_waits q + 1"
  using assms unfolding next_action_def Let_def
  by (auto simp: prog_simps not_le split: option.splits sum.splits if_splits dest: action_args_cases)

lemma reply_cases:
  assumes "reply decode fixture_file request q = (r, q')"
  obtains "q' = q"
    | recent out where "settle decode recent q = (out, q')"
    | recent prior q1 where "settle decode recent q = (Inr (Inr prior), q1)"
        and "recent_tool request = Inr recent"
        and "next_action fixture_file request prior q1 = (r, q')"
  using assms unfolding reply_def
  by (auto simp: prog_simps split: sum.splits if_splits prod.splits)

lemma reply_bounded:
  assumes "qa_bounded q"
  shows "qa_bounded (snd (reply decode fixture_file request q))"
proof -
  obtain r q' where run: "reply decode fixture_file request q = (r, q')"
    by (cases "reply decode fixture_file request q")
  have settled: "qa_bounded q1" if "settle decode recent q = (out, q1)" for recent out q1
    using settle_run[OF that] assms by (auto simp: qa_bounded_def)
  from run have "qa_bounded q'"
  proof (cases rule: reply_cases)
    case 1
    then show ?thesis using assms by simp
  next
    case (2 recent out)
    then show ?thesis by (rule settled)
  next
    case (3 recent prior q1)
    from settled[OF 3(1)] next_action_run[OF 3(3)] show ?thesis by (auto simp: qa_bounded_def)
  qed
  then show ?thesis by (simp add: run)
qed


lemma next_action_call:
  assumes "next_action fixture_file request prior q = (Inr (Call args), q')"
  shows "field args ''action'' \<in> {JStr ''status'', JStr ''apps'', JStr ''observe''}
    \<or> jget_or prior ''observation'' (JStr []) = Inr (field args ''observation'')"
  using assms unfolding next_action_def Let_def
  by (auto simp: prog_simps field_def[of "JObj _"] split: option.splits sum.splits if_splits dest!: action_args_cases)


text \<open>A window that changed under an action repeats that action: the step is the same after
  the next call, and the fifth change in a row stops the run without another input.\<close>

lemma changed_window_retries:
  assumes "recent_tool request = Inr (Some message)" and "jget_or message ''content'' (JStr []) = Inr content"
    and "decode_result decode content = Inr (Some prior)" and "truthy (field prior ''state_changed'')"
    and "reply decode fixture_file request q = (Inr (Call args), q')"
  shows "qa_stale q < 4 \<and> qa_stale q' = qa_stale q + 1
    \<and> (qa_step q' = qa_step q \<and> qa_waits q' = qa_waits q
       \<or> qa_step q' = qa_step q - 1 \<and> qa_waits q' = qa_waits q + 1)"
proof -
  have s: "settle decode (Some message) q =
      (if 4 \<le> qa_stale q
       then (Inr (Inl (Say ''QA stopped: fixture did not settle after fresh observations.'')), q\<lparr>qa_log := qa_log q
              @ [JObj [(''step'', JInt (qa_step q)), (''content'', content)]]\<rparr>)
       else (Inr (Inr prior), q\<lparr>qa_log := qa_log q @ [JObj [(''step'', JInt (qa_step q)), (''content'', content)]],
              qa_step := qa_step q - 1, qa_stale := qa_stale q + 1\<rparr>))"
    using assms(2-4) by (simp add: settle_def append_log_def repeat_step_def prog_simps)
  have "\<not> 4 \<le> qa_stale q"
    using assms(1,5) s unfolding reply_def by (auto simp: prog_simps split: sum.splits if_splits)
  moreover from this s obtain q1 where q1: "settle decode (Some message) q = (Inr (Inr prior), q1)"
    "qa_step q1 = qa_step q - 1" "qa_stale q1 = qa_stale q + 1" "qa_waits q1 = qa_waits q"
    by simp
  then have n: "next_action fixture_file request prior q1 = (Inr (Call args), q')"
    using assms(1,5) unfolding reply_def by (auto simp: prog_simps split: sum.splits if_splits)
  ultimately show ?thesis using next_action_run(1)[OF n] next_action_call_run[OF n] q1 by auto
qed

section \<open>Concrete runs\<close>

definition demo_decode :: "string \<Rightarrow> (string \<times> json) list option" where
  "demo_decode s = Some [(''observation'', JStr ''obs''), (''state_changed'', JBool (s = ''{changed''))]"

definition demo_request :: "string \<Rightarrow> json" where
  "demo_request content = JObj
     [(''tools'', JList [JObj [(''function'', JObj [(''name'', JStr ''use_capability'')])]]),
      (''messages'', JList [JObj [(''role'', JStr ''tool''), (''content'', JStr content)]])]"

definition demo_fixture :: "json res" where
  "demo_fixture = Inr (JObj [(''pid'', JInt 7), (''clicks'', JInt 0), (''text'', JStr [])])"

definition demo_model :: qa_model where
  "demo_model = new_model\<lparr>qa_step := 3\<rparr>"


definition demo_activate :: json where
  "demo_activate = JObj [(''action'', JStr ''activate''), (''pid'', JInt 7), (''observation'', JStr ''obs'')]"


lemma changed_window_retries_example:
  "qa_stale (snd (reply demo_decode demo_fixture (demo_request ''{changed'') (new_model\<lparr>qa_step := 5\<rparr>))) = 1"
proof -
  let ?r = "reply demo_decode demo_fixture (demo_request ''{changed'') (new_model\<lparr>qa_step := 5\<rparr>)"
  have "fst ?r = Inr (Call (JObj [(''action'', JStr ''observe''), (''pid'', JInt 7)]))" by code_simp
  then have run: "?r = (Inr (Call (JObj [(''action'', JStr ''observe''), (''pid'', JInt 7)])), snd ?r)"
    by (simp add: prod_eq_iff)
  have 1: "recent_tool (demo_request ''{changed'')
      = Inr (Some (JObj [(''role'', JStr ''tool''), (''content'', JStr ''{changed'')]))" by code_simp
  have 2: "jget_or (JObj [(''role'', JStr ''tool''), (''content'', JStr ''{changed'')]) ''content'' (JStr [])
      = Inr (JStr ''{changed'')" by code_simp
  have 3: "decode_result demo_decode (JStr ''{changed'')
      = Inr (Some (JObj [(''observation'', JStr ''obs''), (''state_changed'', JBool True)]))" by code_simp
  have 4: "truthy (field (JObj [(''observation'', JStr ''obs''), (''state_changed'', JBool True)]) ''state_changed'')"
    by code_simp
  from changed_window_retries[OF 1 2 3 4 run] show ?thesis by (simp add: new_model_def)
qed

end
