(* ===== verification/Polling.thy ===== *)
theory Polling
  imports Prelude
begin

text \<open>
  Polling under a deadline: \<open>while time.monotonic() < deadline: test; sleep\<close>. The world seen
  by the turns of the loop is a stream of observations, and the deadline is the number of
  turns that begin before it. The locale \<open>deadline_poll\<close> states what a wait promises: the
  answer of the first turn that has one, or none after the last turn.
\<close>

text \<open>\<open>test\<close> returns \<open>Some\<close> to leave the loop; \<open>n\<close> turns remain, the next one sees \<open>obs k\<close>.\<close>

fun poll_from :: "('o \<Rightarrow> 'a option) \<Rightarrow> (nat \<Rightarrow> 'o) \<Rightarrow> nat \<Rightarrow> nat \<Rightarrow> 'a option" where
  "poll_from test obs k 0 = None"
| "poll_from test obs k (Suc n) =
     (case test (obs k) of Some x \<Rightarrow> Some x | None \<Rightarrow> poll_from test obs (Suc k) n)"

definition poll_until :: "('o \<Rightarrow> 'a option) \<Rightarrow> (nat \<Rightarrow> 'o) \<Rightarrow> nat \<Rightarrow> 'a option" where
  "poll_until test obs turns = poll_from test obs 0 turns"

locale deadline_poll =
  fixes wait :: "(nat \<Rightarrow> 'o) \<Rightarrow> nat \<Rightarrow> 'r" and test :: "'o \<Rightarrow> 'a option"
    and answer :: "'a \<Rightarrow> 'r" and late :: "'r"
  assumes hit: "\<lbrakk>k < turns; test (obs k) = Some x; \<forall>j < k. test (obs j) = None\<rbrakk> \<Longrightarrow> wait obs turns = answer x"
    and miss: "\<forall>j < turns. test (obs j) = None \<Longrightarrow> wait obs turns = late"
begin

lemma cases_of:
  obtains (found) k x where "k < turns" "test (obs k) = Some x" "\<forall>j < k. test (obs j) = None"
      "wait obs turns = answer x"
    | (expired) "\<forall>j < turns. test (obs j) = None" "wait obs turns = late"
proof (cases "\<exists>k < turns. test (obs k) \<noteq> None")
  case True
  define k where "k = (LEAST k. k < turns \<and> test (obs k) \<noteq> None)"
  have k: "k < turns \<and> test (obs k) \<noteq> None"
    unfolding k_def using True by (rule LeastI_ex)
  have first: "\<forall>j < k. test (obs j) = None"
  proof (intro allI impI)
    fix j assume j: "j < k"
    then have "\<not> (j < turns \<and> test (obs j) \<noteq> None)" unfolding k_def by (rule not_less_Least)
    with j k show "test (obs j) = None" by auto
  qed
  from k obtain x where "test (obs k) = Some x" by blast
  with k first hit found show ?thesis by blast
next
  case False
  then have "\<forall>j < turns. test (obs j) = None" by blast
  with miss expired show ?thesis by blast
qed

text \<open>A wait answers exactly when some turn before the deadline has an answer.\<close>

lemma late_iff:
  assumes "\<And>x. answer x \<noteq> late"
  shows "wait obs turns = late \<longleftrightarrow> (\<forall>j < turns. test (obs j) = None)"
proof
  assume late: "wait obs turns = late"
  show "\<forall>j < turns. test (obs j) = None"
    by (rule cases_of[of turns obs]) (use late assms in auto)
qed (rule miss)

text \<open>A later deadline never changes an answer already given.\<close>

lemma longer_keeps:
  assumes "wait obs turns \<noteq> late" and "turns \<le> turns'" and "\<And>x. answer x \<noteq> late"
  shows "wait obs turns' = wait obs turns"
proof (rule cases_of[of turns obs])
  fix k x assume k: "k < turns" "test (obs k) = Some x" "\<forall>j < k. test (obs j) = None" "wait obs turns = answer x"
  then have "wait obs turns' = answer x" using hit[of k turns' obs x] assms(2) by simp
  with k(4) show ?thesis by simp
qed (use assms(1) in simp)

end

lemma poll_from_hit:
  assumes "i < n" and "test (obs (k + i)) = Some x" and "\<forall>j < i. test (obs (k + j)) = None"
  shows "poll_from test obs k n = Some x"
  using assms
proof (induction n arbitrary: i k)
  case (Suc n)
  show ?case
  proof (cases i)
    case 0
    with Suc.prems show ?thesis by simp
  next
    case (Suc i')
    have "test (obs k) = None" using Suc.prems(3) Suc by (metis add_0_right zero_less_Suc)
    moreover have "poll_from test obs (Suc k) n = Some x"
      by (rule Suc.IH[of i']) (use Suc.prems Suc in \<open>auto simp: less_Suc_eq_0_disj\<close>)
    ultimately show ?thesis by simp
  qed
qed simp

lemma poll_from_miss: "\<forall>j < n. test (obs (k + j)) = None \<Longrightarrow> poll_from test obs k n = None"
proof (induction n arbitrary: k)
  case (Suc n)
  then have "test (obs k) = None" by (metis add_0_right zero_less_Suc)
  moreover have "\<forall>j < n. test (obs (Suc k + j)) = None"
    using Suc.prems by (metis Suc_less_eq add_Suc_shift)
  ultimately show ?case using Suc.IH by simp
qed simp

lemma poll_until_hit:
  "k < turns \<Longrightarrow> test (obs k) = Some x \<Longrightarrow> \<forall>j < k. test (obs j) = None \<Longrightarrow> poll_until test obs turns = Some x"
  unfolding poll_until_def using poll_from_hit[of k turns test obs 0 x] by simp

lemma poll_until_miss: "\<forall>j < turns. test (obs j) = None \<Longrightarrow> poll_until test obs turns = None"
  unfolding poll_until_def using poll_from_miss[of turns test obs 0] by simp

text \<open>An answer is the answer of some turn.\<close>

lemma poll_until_Some: "poll_until test obs turns = Some x \<Longrightarrow> \<exists>k < turns. test (obs k) = Some x"
proof -
  have "poll_from test obs k n = Some x \<Longrightarrow> \<exists>i < n. test (obs (k + i)) = Some x" for k n
  proof (induction n arbitrary: k)
    case (Suc n)
    show ?case
    proof (cases "test (obs k)")
      case None
      then have "poll_from test obs (Suc k) n = Some x" using Suc.prems by simp
      from Suc.IH[OF this] obtain i where "i < n" "test (obs (Suc k + i)) = Some x" by blast
      then show ?thesis by (intro exI[of _ "Suc i"]) simp
    qed (use Suc.prems in \<open>auto intro: exI[of _ 0]\<close>)
  qed simp
  from this[of 0 turns] show "poll_until test obs turns = Some x \<Longrightarrow> \<exists>k < turns. test (obs k) = Some x"
    by (simp add: poll_until_def)
qed

end
