(* ===== verification/NativeTask.thy ===== *)
theory NativeTask
  imports Json Texts Polling
begin

text \<open>
  The streamed-completion fixture of \<open>tools/tauri/native-task-provider.py\<close>. Its request
  threads and the acceptance script interleave, so the fixture is a state machine: a
  \<open>Post\<close> is a request arriving, a \<open>Turn n late eof\<close> one turn of the polling loop of request
  \<open>n\<close> (\<open>late\<close>: its deadline has passed; \<open>eof\<close>: the socket is closed), \<open>Broken n\<close> any other
  exception of that thread, \<open>Mark\<close> a marker file the tested host writes. Each step holds the
  fixture's lock where the source does, and reads no other shared variable.
\<close>

section \<open>State\<close>

datatype phase =
    Idle
  | Held
  | Resumed
  | Finished
  | Streaming
  | Disconnected
  | Failed

record task =
  requests :: nat
  phase_of :: "nat \<Rightarrow> phase"
  sent :: "nat \<Rightarrow> string list"
  closed_requests :: "nat set"
  closed :: bool
  completed :: bool
  stopped :: bool
  task_error :: "string option"
  markers :: "string set"
  inspected :: "string set"
  controls :: "string set"
  config :: "string option"
  original :: "string option"

definition fresh_task :: "string option \<Rightarrow> string set \<Rightarrow> task" where
  "fresh_task cfg ms = \<lparr>requests = 0, phase_of = (\<lambda>n. Idle), sent = (\<lambda>n. []), closed_requests = {},
     closed = False, completed = False, stopped = False, task_error = None, markers = ms,
     inspected = {}, controls = {}, config = cfg, original = None\<rparr>"

section \<open>Requests\<close>

definition error_text :: "exc \<Rightarrow> string" where
  "error_text e = (case e of RuntimeErr m \<Rightarrow> m | _ \<Rightarrow> ''local native task provider failed'')"

text \<open>The tests of \<open>do_POST\<close> before a request is counted; \<open>body\<close> is \<open>None\<close> where the body is
  not JSON.\<close>

definition admit :: "string \<Rightarrow> int \<Rightarrow> json option \<Rightarrow> unit res" where
  "admit path len body =
     rbind (rcheck (path = ''/v1/chat/completions'') (RuntimeErr ''unexpected local provider route'')) (\<lambda>_.
     rbind (rcheck (0 < len \<and> len \<le> 2 * 1024 * 1024) (RuntimeErr ''invalid local provider request length'')) (\<lambda>_.
     rbind (case body of None \<Rightarrow> Inl (ValueErr ''json'') | Some j \<Rightarrow> Inr j) (\<lambda>request.
     rbind (jget request ''model'') (\<lambda>model.
     rbind (jget request ''stream'') (\<lambda>stream.
     rcheck (jeq model (JStr ''alpha'') \<and> stream = JBool True)
       (RuntimeErr ''native task did not request a real streamed completion''))))))"

definition fail_with :: "string \<Rightarrow> task \<Rightarrow> task" where
  "fail_with m s = s\<lparr>task_error := Some m\<rparr>"

definition send_text :: "nat \<Rightarrow> string \<Rightarrow> task \<Rightarrow> task" where
  "send_text n t s = s\<lparr>sent := (sent s)(n := sent s n @ [t])\<rparr>"

definition enter_phase :: "nat \<Rightarrow> phase \<Rightarrow> task \<Rightarrow> task" where
  "enter_phase n p s = s\<lparr>phase_of := (phase_of s)(n := p)\<rparr>"

definition accept_request :: "bool \<Rightarrow> task \<Rightarrow> task" where
  "accept_request host_death s =
     (let n = requests s + 1; s = s\<lparr>requests := n\<rparr> in
      if n \<noteq> 1 \<and> n \<noteq> 2
      then fail_with ''native task unexpectedly retried the provider'' s
      else if n = 1 \<and> \<not> host_death
      then enter_phase n Held (send_text n ''native-before-close '' s)
      else enter_phase n Streaming
             (send_text n (if host_death then ''native-before-close '' else ''native-before-quit'') s))"

section \<open>Turns of the polling loops\<close>

text \<open>A turn of \<open>wait_control(name)\<close>: the loop is left when the fixture stops or the deadline has
  passed, and then raises.\<close>

definition control_turn :: "nat \<Rightarrow> string \<Rightarrow> bool \<Rightarrow> (task \<Rightarrow> task) \<Rightarrow> task \<Rightarrow> task" where
  "control_turn n name late continue s =
     (if stopped s \<or> late
      then enter_phase n Failed (fail_with ''native task control was not delivered'' s)
      else if name \<in> controls s then continue s else s)"

definition stream_turn :: "nat \<Rightarrow> bool \<Rightarrow> bool \<Rightarrow> task \<Rightarrow> task" where
  "stream_turn n late eof s =
     (if stopped s then enter_phase n Failed s
      else if late
      then enter_phase n Failed
             (fail_with ''native quit did not disconnect the active provider stream'' s)
      else if eof
      then enter_phase n Disconnected (s\<lparr>closed_requests := insert n (closed_requests s), closed := True\<rparr>)
      else s)"

definition turn :: "nat \<Rightarrow> bool \<Rightarrow> bool \<Rightarrow> task \<Rightarrow> task" where
  "turn n late eof s =
     (case phase_of s n of
        Held \<Rightarrow> control_turn n ''allow-progress'' late
                  (\<lambda>s. enter_phase n Resumed (send_text n ''native-after-close '' s)) s
      | Resumed \<Rightarrow> control_turn n ''allow-finish'' late
                  (\<lambda>s. enter_phase n Finished (send_text n ''native-completed'' (s\<lparr>completed := True\<rparr>))) s
      | Streaming \<Rightarrow> stream_turn n late eof s
      | _ \<Rightarrow> s)"

section \<open>The acceptance script's side\<close>

definition control_of :: "(string \<times> string) list" where
  "control_of = [(''hidden'', ''allow-progress''), (''progress'', ''allow-finish'')]"

text \<open>\<open>pump(inspect_live)\<close>: \<open>inspect\<close> is what the inspection raises, if anything.\<close>

definition pump_one :: "(string \<Rightarrow> unit res) \<Rightarrow> string \<times> string \<Rightarrow> (task, unit) prog" where
  "pump_one inspect mc =
     pbind (reads (\<lambda>s. snd mc \<notin> controls s \<and> fst mc \<in> markers s)) (\<lambda>due.
     if \<not> due then ret ()
     else pseq (lift (inspect (snd mc)))
         (pseq (modify (\<lambda>s. s\<lparr>inspected := insert (snd mc) (inspected s)\<rparr>))
         (modify (\<lambda>s. s\<lparr>controls := insert (snd mc) (controls s)\<rparr>))))"

definition pump :: "(string \<Rightarrow> unit res) \<Rightarrow> (task, unit) prog" where
  "pump inspect =
     pbind (reads task_error) (\<lambda>e.
     case e of Some m \<Rightarrow> raise (RuntimeErr m) | None \<Rightarrow> for_each (pump_one inspect) control_of)"

text \<open>\<open>verify\<close> and \<open>verify_host_death\<close>: \<open>s'\<close> is the fixture when the wait for \<open>closed\<close> ends.\<close>

definition verify :: "task \<Rightarrow> task \<Rightarrow> unit res" where
  "verify s s' =
     rcheck (task_error s = None \<and> requests s = 2 \<and> completed s \<and> closed s')
       (RuntimeErr ''native task did not complete in background and disconnect on quit'')"

definition verify_host_death :: "task \<Rightarrow> task \<Rightarrow> unit res" where
  "verify_host_death s s' =
     rcheck (task_error s = None \<and> requests s = 1 \<and> \<not> completed s \<and> closed s')
       (RuntimeErr ''host death did not disconnect the actual active provider stream'')"

definition parallel_test :: "task \<Rightarrow> unit res option" where
  "parallel_test s =
     (if task_error s \<noteq> None then Some (Inl (RuntimeErr ''parallel native fixture failed''))
      else if requests s = 2 \<and> closed_requests s = {1, 2} then Some (Inr ()) else None)"

definition verify_parallel_quit :: "(nat \<Rightarrow> task) \<Rightarrow> nat \<Rightarrow> unit res" where
  "verify_parallel_quit obs turns =
     (case poll_until parallel_test obs turns of
        Some r \<Rightarrow> r
      | None \<Rightarrow> Inl (RuntimeErr ''parallel native quit did not disconnect both provider requests''))"

interpretation parallel: deadline_poll verify_parallel_quit parallel_test "\<lambda>r. r"
    "Inl (RuntimeErr ''parallel native quit did not disconnect both provider requests'')"
  by unfold_locales (simp_all add: verify_parallel_quit_def poll_until_hit poll_until_miss)

text \<open>\<open>__enter__\<close> and \<open>__exit__\<close>: the configuration is replaced and restored, and the four files of
  an earlier run are removed.\<close>

definition task_config :: "int \<Rightarrow> string" where
  "task_config port =
     ''default_model = '' @ quoted ''local/alpha'' @ nl @ nl @ ''[desktop]'' @ nl
     @ ''provider_access = ['' @ quoted ''local'' @ '']'' @ nl @ nl
     @ ''[[providers]]'' @ nl @ ''name = '' @ quoted ''local'' @ nl @ ''kind = '' @ quoted ''openai'' @ nl
     @ ''base_url = '' @ quoted (''http://127.0.0.1:'' @ int_text port @ ''/v1'') @ nl
     @ ''models = ['' @ quoted ''alpha'' @ '']'' @ nl @ ''default = '' @ quoted ''alpha'' @ nl"

definition enter_task :: "int \<Rightarrow> task \<Rightarrow> task" where
  "enter_task port s = s\<lparr>original := config s, config := Some (task_config port),
     markers := markers s - {''hidden'', ''progress''},
     controls := controls s - {''allow-progress'', ''allow-finish''}\<rparr>"

definition exit_task :: "task \<Rightarrow> task" where
  "exit_task s = s\<lparr>stopped := True, config := original s\<rparr>"

section \<open>Interleavings\<close>

datatype event =
    Post string int "json option"
  | Turn nat bool bool
  | Broken nat
  | Mark string
  | Pump "string \<Rightarrow> unit res"
  | Stop

definition step :: "bool \<Rightarrow> event \<Rightarrow> task \<Rightarrow> task" where
  "step host_death ev s =
     (case ev of
        Post path len body \<Rightarrow>
          (case admit path len body of
             Inl e \<Rightarrow> fail_with (error_text e) s
           | Inr _ \<Rightarrow> accept_request host_death s)
      | Turn n late eof \<Rightarrow> turn n late eof s
      | Broken n \<Rightarrow>
          if phase_of s n \<in> {Held, Resumed, Streaming}
          then enter_phase n Failed (fail_with ''local native task provider failed'' s) else s
      | Mark m \<Rightarrow> s\<lparr>markers := insert m (markers s)\<rparr>
      | Pump inspect \<Rightarrow> snd (pump inspect s)
      | Stop \<Rightarrow> exit_task s)"

definition steps :: "bool \<Rightarrow> event list \<Rightarrow> task \<Rightarrow> task" where
  "steps host_death evs s = fold (step host_death) evs s"

inductive task_reach :: "bool \<Rightarrow> task \<Rightarrow> bool" for host_death where
  entered: "task_reach host_death (enter_task port (fresh_task cfg ms))"
| stepped: "task_reach host_death s \<Longrightarrow> task_reach host_death (step host_death ev s)"

inductive_cases task_reachE: "task_reach host_death s"

section \<open>The invariant\<close>

text \<open>What the texts sent and the inspections made say of the phase of a request.\<close>

fun phase_ok :: "bool \<Rightarrow> task \<Rightarrow> nat \<Rightarrow> phase \<Rightarrow> bool" where
  "phase_ok hdm s n Idle = (sent s n = [] \<and> n \<notin> closed_requests s)"
| "phase_ok hdm s n Held = (n = 1 \<and> \<not> hdm \<and> n \<le> requests s \<and> n \<notin> closed_requests s
     \<and> sent s n = [''native-before-close ''])"
| "phase_ok hdm s n Resumed = (n = 1 \<and> \<not> hdm \<and> n \<le> requests s \<and> n \<notin> closed_requests s
     \<and> ''allow-progress'' \<in> inspected s \<and> sent s n = [''native-before-close '', ''native-after-close ''])"
| "phase_ok hdm s n Finished = (n = 1 \<and> \<not> hdm \<and> n \<le> requests s \<and> n \<notin> closed_requests s
     \<and> {''allow-progress'', ''allow-finish''} \<subseteq> inspected s
     \<and> sent s n = [''native-before-close '', ''native-after-close '', ''native-completed''])"
| "phase_ok hdm s n Streaming = ((n = 2 \<or> n = 1 \<and> hdm) \<and> n \<le> requests s \<and> n \<notin> closed_requests s)"
| "phase_ok hdm s n Disconnected = ((n = 2 \<or> n = 1 \<and> hdm) \<and> n \<le> requests s \<and> n \<in> closed_requests s)"
| "phase_ok hdm s n Failed = (n \<le> requests s \<and> n \<notin> closed_requests s)"

definition task_inv :: "bool \<Rightarrow> task \<Rightarrow> bool" where
  "task_inv hdm s \<longleftrightarrow> (\<forall>n. phase_ok hdm s n (phase_of s n))
     \<and> (completed s \<longleftrightarrow> phase_of s 1 = Finished)
     \<and> (closed s \<longleftrightarrow> closed_requests s \<noteq> {})
     \<and> controls s \<subseteq> inspected s \<and> phase_of s 0 = Idle \<and> (\<forall>n > requests s. phase_of s n = Idle)"

text \<open>What \<open>phase_ok\<close> reads of a state, apart from the phase itself.\<close>

lemma phase_ok_cong:
  assumes "sent s' n = sent s n" "requests s \<le> requests s'" "inspected s \<subseteq> inspected s'"
    "n \<in> closed_requests s' \<longleftrightarrow> n \<in> closed_requests s"
  shows "phase_ok hdm s n p \<Longrightarrow> phase_ok hdm s' n p"
  using assms by (cases p) auto

lemma inv_phase: "task_inv hdm s \<Longrightarrow> phase_of s n = p \<Longrightarrow> phase_ok hdm s n p"
  by (auto simp: task_inv_def)

lemma inv_update:
  assumes inv: "task_inv hdm s" and others: "\<And>m. m \<noteq> n \<Longrightarrow> sent s' m = sent s m \<and> phase_of s' m = phase_of s m
      \<and> (m \<in> closed_requests s' \<longleftrightarrow> m \<in> closed_requests s)"
    and own: "phase_ok hdm s' n (phase_of s' n)"
    and "requests s \<le> requests s'" "inspected s \<subseteq> inspected s'" "controls s' \<subseteq> inspected s'"
    and "completed s' \<longleftrightarrow> phase_of s' 1 = Finished" "closed s' \<longleftrightarrow> closed_requests s' \<noteq> {}"
    and "n \<noteq> 0" "n \<le> requests s'"
  shows "task_inv hdm s'"
  unfolding task_inv_def
proof (intro conjI allI impI)
  fix m
  show "phase_ok hdm s' m (phase_of s' m)"
    using own others[of m] phase_ok_cong[of s' m s hdm] inv assms(4,5)
    by (cases "m = n") (auto simp: task_inv_def)
  show "phase_of s' m = Idle" if "requests s' < m"
  proof -
    have "m \<noteq> n" "requests s < m" using that assms(4,10) by auto
    then show ?thesis using others[of m] inv by (auto simp: task_inv_def)
  qed
  show "phase_of s' 0 = Idle" using others[of 0] assms(9) inv by (auto simp: task_inv_def)
qed (use assms in auto)

lemma inv_pump_one: "task_inv hdm s \<Longrightarrow> task_inv hdm (snd (pump_one inspect mc s))"
proof -
  assume inv: "task_inv hdm s"
  have "task_inv hdm (s\<lparr>inspected := insert c (inspected s), controls := insert c (controls s)\<rparr>)" for c
  proof -
    have "phase_ok hdm (s\<lparr>inspected := insert c (inspected s), controls := insert c (controls s)\<rparr>) n (phase_of s n)" for n
      by (rule phase_ok_cong[OF _ _ _ _ inv_phase[OF inv refl]]) auto
    then show ?thesis using inv by (auto simp: task_inv_def)
  qed
  then show ?thesis
    using inv unfolding pump_one_def by (auto simp: prog_simps split: sum.splits)
qed

lemma inv_step:
  assumes inv: "task_inv hdm s"
  shows "task_inv hdm (step hdm ev s)"
proof -
  have same: "task_inv hdm (s\<lparr>task_error := e\<rparr>)" "task_inv hdm (s\<lparr>markers := ms\<rparr>)"
    "task_inv hdm (s\<lparr>stopped := b, config := cfg\<rparr>)" for e ms b cfg
    using inv phase_ok_cong[of _ _ s hdm] by (auto simp: task_inv_def)
  have known: "n \<noteq> 0" "n \<le> requests s" if "phase_of s n \<noteq> Idle" for n
    using inv that by (auto simp: task_inv_def not_le intro: ccontr)
  have failed: "task_inv hdm (enter_phase n Failed (s\<lparr>task_error := e\<rparr>))"
    if "phase_of s n \<in> {Held, Resumed, Streaming}" for n e
  proof -
    have "n \<notin> closed_requests s" using that inv_phase[OF inv refl, of n] by auto
    then show ?thesis
      by (intro inv_update[OF inv, where n = n])
        (use that inv known[of n] in \<open>auto simp: enter_phase_def task_inv_def\<close>)
  qed
  show ?thesis
  proof (cases ev)
    case (Post path len body)
    have "task_inv hdm (accept_request hdm s)"
    proof -
      let ?n = "Suc (requests s)"
      have idle: "phase_of s ?n = Idle" using inv by (simp add: task_inv_def)
      then have fresh: "sent s ?n = []" "?n \<notin> closed_requests s" using inv_phase[OF inv idle] by auto
      have one: "completed s \<longleftrightarrow> phase_of s 1 = Finished" using inv by (simp add: task_inv_def)
      show ?thesis
        by (rule inv_update[OF inv, where n = ?n])
          (use fresh idle inv one in \<open>auto simp: accept_request_def Let_def fail_with_def enter_phase_def
             send_text_def task_inv_def\<close>)
    qed
    then show ?thesis using Post same by (auto simp: step_def fail_with_def split: sum.splits)
  next
    case (Turn n late eof)
    have "task_inv hdm (turn n late eof s)"
    proof (cases "phase_of s n")
      case Held
      have go: "task_inv hdm (enter_phase n Resumed (send_text n ''native-after-close '' s))"
        if "''allow-progress'' \<in> controls s"
        by (rule inv_update[OF inv, where n = n])
          (use Held that inv known[of n] inv_phase[OF inv Held] in
           \<open>auto simp: enter_phase_def send_text_def task_inv_def\<close>)
      show ?thesis using Held go failed[of n] inv by (simp add: turn_def control_turn_def fail_with_def)
    next
      case Resumed
      have go: "task_inv hdm (enter_phase n Finished (send_text n ''native-completed'' (s\<lparr>completed := True\<rparr>)))"
        if "''allow-finish'' \<in> controls s"
        by (rule inv_update[OF inv, where n = n])
          (use Resumed that inv known[of n] inv_phase[OF inv Resumed] in
           \<open>auto simp: enter_phase_def send_text_def task_inv_def\<close>)
      show ?thesis using Resumed go failed[of n] inv by (simp add: turn_def control_turn_def fail_with_def)
    next
      case Streaming
      have go: "task_inv hdm (enter_phase n Disconnected
          (s\<lparr>closed_requests := insert n (closed_requests s), closed := True\<rparr>))"
        by (rule inv_update[OF inv, where n = n])
          (use Streaming inv known[of n] inv_phase[OF inv Streaming] in
           \<open>auto simp: enter_phase_def task_inv_def\<close>)
      have "task_inv hdm (enter_phase n Failed s)" using failed[of n "task_error s"] Streaming by simp
      then show ?thesis using Streaming go failed[of n] inv by (simp add: turn_def stream_turn_def fail_with_def)
    qed (use inv in \<open>simp_all add: turn_def\<close>)
    then show ?thesis using Turn by (simp add: step_def)
  next
    case (Broken n)
    then show ?thesis using failed[of n] inv by (simp add: step_def fail_with_def)
  next
    case (Mark m)
    then show ?thesis using same by (simp add: step_def)
  next
    case (Pump inspect)
    have "task_inv hdm (snd (for_each (pump_one inspect) xs t))" if "task_inv hdm t" for xs t
      using that
    proof (induction xs arbitrary: t)
      case (Cons x xs)
      then show ?case using inv_pump_one[OF Cons.prems, of inspect x]
        by (auto simp: pseq_run split: prod.splits sum.splits)
    qed (simp add: prog_simps)
    then show ?thesis using Pump inv by (auto simp: step_def pump_def prog_simps split: option.splits)
  next
    case Stop
    then show ?thesis using same by (simp add: step_def exit_task_def)
  qed
qed

lemma inv_reach: "task_reach hdm s \<Longrightarrow> task_inv hdm s"
proof (induction rule: task_reach.induct)
  case (entered port cfg ms)
  show ?case by (simp add: task_inv_def enter_task_def fresh_task_def)
qed (rule inv_step)

section \<open>Properties\<close>

text \<open>C13. When \<open>verify\<close> passes, exactly two requests were made; the first was streamed to its end,
  each later text after the live host had been inspected; the second was disconnected.\<close>

theorem verified_task:
  assumes "task_reach False s" and "task_reach False s'" and "verify s s' = Inr ()"
  shows "requests s = 2 \<and> task_error s = None \<and> phase_of s 1 = Finished
    \<and> sent s 1 = [''native-before-close '', ''native-after-close '', ''native-completed'']
    \<and> {''allow-progress'', ''allow-finish''} \<subseteq> inspected s \<and> closed_requests s' = {2}"
proof -
  note inv = inv_reach[OF assms(1)] and inv' = inv_reach[OF assms(2)]
  from assms(3) have v: "task_error s = None" "requests s = 2" "completed s" "closed s'"
    by (simp_all add: verify_def)
  then have "phase_of s 1 = Finished" using inv by (simp add: task_inv_def)
  note one = inv_phase[OF inv this]
  have only: "n = 2" if "n \<in> closed_requests s'" for n
    using that inv_phase[OF inv', of n "phase_of s' n"] by (cases "phase_of s' n") auto
  have "closed_requests s' \<noteq> {}" using v inv' by (simp add: task_inv_def)
  with only have "closed_requests s' = {2}" by blast
  with v one \<open>phase_of s 1 = Finished\<close> show ?thesis by simp
qed



lemma step_original: "original (step hdm ev s) = original s"
proof -
  have "original (snd (for_each (pump_one inspect) xs t)) = original t" for inspect xs t
  proof (induction xs arbitrary: t)
    case (Cons x xs)
    have one: "original (snd (pump_one inspect x t)) = original t"
      by (auto simp: pump_one_def prog_simps split: sum.splits)
    then show ?case using Cons by (auto simp: pseq_run split: prod.splits sum.splits)
  qed (simp add: prog_simps)
  then show ?thesis
    by (auto simp: step_def fail_with_def accept_request_def Let_def enter_phase_def send_text_def turn_def
        control_turn_def stream_turn_def pump_def prog_simps exit_task_def
        split: event.splits sum.splits phase.splits option.splits)
qed

text \<open>C16. Whatever happened in between, leaving the fixture restores the configuration it found.\<close>

theorem exit_restores_config:
  "config (exit_task (steps host_death evs (enter_task port s))) = config s"
proof -
  have "original (steps host_death evs t) = original t" for t
    by (induction evs arbitrary: t) (simp_all add: steps_def step_original)
  then show ?thesis by (simp add: exit_task_def enter_task_def)
qed

section \<open>Concrete runs\<close>

definition demo_post :: event where
  "demo_post = Post ''/v1/chat/completions'' 10
     (Some (JObj [(''model'', JStr ''alpha''), (''stream'', JBool True)]))"

definition demo_entered :: task where
  "demo_entered = enter_task 80 (fresh_task None {})"

lemma demo_steps_reach: "task_reach hdm (steps hdm evs demo_entered)"
proof -
  have "task_reach hdm t \<Longrightarrow> task_reach hdm (steps hdm evs t)" for t
    by (induction evs arbitrary: t) (simp_all add: steps_def task_reach.stepped)
  from this[OF task_reach.entered] show ?thesis unfolding demo_entered_def .
qed

definition demo_task :: task where
  "demo_task = steps False
     [demo_post, Mark ''hidden'', Pump (\<lambda>c. Inr ()), Turn 1 False False, Mark ''progress'', Pump (\<lambda>c. Inr ()),
      Turn 1 False False, demo_post, Turn 2 False True] demo_entered"

theorem verified_task_witness: "closed_requests demo_task = {2} \<and> phase_of demo_task 1 = Finished"
proof -
  have reach: "task_reach False demo_task" unfolding demo_task_def by (rule demo_steps_reach)
  have "verify demo_task demo_task = Inr ()" by code_simp
  from verified_task[OF reach reach this] show ?thesis by simp
qed

definition demo_dead :: task where
  "demo_dead = steps True [demo_post, Turn 1 False True] demo_entered"


definition demo_both :: task where
  "demo_both = steps True [demo_post, demo_post, Turn 2 False True, Turn 1 False True] demo_entered"


end
