(* ===== verification/Receipts.thy ===== *)
theory Receipts
  imports Json Texts Files
begin

text \<open>
  What the native acceptance scripts of \<open>tools/tauri\<close> look at on disk, and the order of their
  receipts. A file has a kind, an owner, permission bits, a modification time and an inode;
  a directory is listed by the paths directly below it. \<open>services\<close> holds what the scripts
  take from outside themselves: their user, JSON texts, SHA-256, zip members, the clock and
  the inode of a new file, and \<open>Path.resolve\<close>. The locale \<open>ordered_receipt\<close> states what a
  recorder of named steps promises and derives that a receipt can only grow in order.
\<close>

section \<open>Files with metadata\<close>

datatype kind = Regular string | Directory | Symlink path

record node_info =
  n_kind :: kind
  n_uid :: nat
  n_perm :: nat
  n_mtime :: int
  n_inode :: int

type_synonym store = "(path \<times> node_info) list"

record services =
  sv_uid :: nat
  sv_loads :: "string \<Rightarrow> json res"
  sv_dumps :: "json \<Rightarrow> string"
  sv_digest :: "string \<Rightarrow> string"
  sv_unzip :: "string \<Rightarrow> (string \<times> string) list res"
  sv_clock :: "store \<Rightarrow> int"
  sv_new_inode :: "store \<Rightarrow> int"
  sv_resolve :: "path \<Rightarrow> path"

record station =
  store :: store
  living :: "int list"
  said :: "string list"

definition lstat :: "store \<Rightarrow> path \<Rightarrow> node_info res" where
  "lstat t p = (case map_of t p of None \<Rightarrow> Inl (OSErr (path_str p)) | Some i \<Rightarrow> Inr i)"

definition present :: "store \<Rightarrow> path \<Rightarrow> bool" where
  "present t p = (map_of t p \<noteq> None)"

definition is_regular :: "node_info \<Rightarrow> bool" where
  "is_regular i = (case n_kind i of Regular _ \<Rightarrow> True | _ \<Rightarrow> False)"

definition size_of :: "node_info \<Rightarrow> int" where
  "size_of i = (case n_kind i of Regular b \<Rightarrow> int (length b) | _ \<Rightarrow> 0)"

text \<open>\<open>read_bytes\<close> of one's own file needs its owner read bit.\<close>

definition read_file :: "store \<Rightarrow> path \<Rightarrow> string res" where
  "read_file t p =
     rbind (lstat t p) (\<lambda>i.
     case n_kind i of
       Regular b \<Rightarrow> if odd (n_perm i div 256) then Inr b else Inl (OSErr (path_str p))
     | _ \<Rightarrow> Inl (OSErr (path_str p)))"

definition entries :: "store \<Rightarrow> path \<Rightarrow> path list" where
  "entries t p = map fst (filter (\<lambda>e. fst e \<noteq> [] \<and> butlast (fst e) = p) t)"

definition list_dir :: "store \<Rightarrow> path \<Rightarrow> path list res" where
  "list_dir t p =
     rbind (lstat t p) (\<lambda>i. if n_kind i = Directory then Inr (entries t p) else Inl (OSErr (path_str p)))"

text \<open>\<open>touch(mode=0o600, exist_ok=False)\<close> and writing an existing or new file.\<close>

definition touch_new :: "services \<Rightarrow> path \<Rightarrow> store \<Rightarrow> store res" where
  "touch_new sv p t =
     (if present t p then Inl (OSErr (path_str p))
      else Inr (AList.update p \<lparr>n_kind = Regular [], n_uid = sv_uid sv, n_perm = 384,
                 n_mtime = sv_clock sv t, n_inode = sv_new_inode sv t\<rparr> t))"

definition overwrite :: "services \<Rightarrow> path \<Rightarrow> string \<Rightarrow> store \<Rightarrow> store res" where
  "overwrite sv p b t =
     rbind (lstat t p) (\<lambda>i.
     if is_regular i then Inr (AList.update p (i\<lparr>n_kind := Regular b, n_mtime := sv_clock sv t\<rparr>) t)
     else Inl (OSErr (path_str p)))"

definition private_file :: "services \<Rightarrow> store \<Rightarrow> path \<Rightarrow> int \<Rightarrow> node_info res" where
  "private_file sv t p maximum =
     rbind (lstat t p) (\<lambda>i.
     rbind (rcheck (is_regular i \<and> n_uid i = sv_uid sv \<and> n_perm i = 384 \<and> size_of i \<le> maximum)
              (RuntimeErr ''Export acceptance file is not an owned bounded private regular file'')) (\<lambda>_.
     Inr i))"

definition own_directory :: "services \<Rightarrow> nat \<Rightarrow> string \<Rightarrow> store \<Rightarrow> path \<Rightarrow> unit res" where
  "own_directory sv perm msg t p =
     rbind (lstat t p) (\<lambda>i.
     rcheck (n_kind i = Directory \<and> n_uid i = sv_uid sv \<and> n_perm i = perm) (RuntimeErr msg))"

definition load_text :: "services \<Rightarrow> store \<Rightarrow> path \<Rightarrow> json res" where
  "load_text sv t p = rbind (read_file t p) (sv_loads sv)"

definition on_store :: "(store \<Rightarrow> 'a res) \<Rightarrow> (station, 'a) prog" where
  "on_store g = tries (\<lambda>s. g (store s))"

definition edit_store :: "(store \<Rightarrow> store res) \<Rightarrow> (station, unit) prog" where
  "edit_store g = (\<lambda>s. case g (store s) of Inl e \<Rightarrow> (Inl e, s) | Inr t \<Rightarrow> (Inr (), s\<lparr>store := t\<rparr>))"

definition say :: "string \<Rightarrow> (station, unit) prog" where
  "say l = modify (\<lambda>s. s\<lparr>said := said s @ [l]\<rparr>)"

lemma station_ops [prog_simps]:
  "on_store g s = (g (store s), s)"
  "edit_store h s = (case h (store s) of Inl e \<Rightarrow> (Inl e, s) | Inr t \<Rightarrow> (Inr (), s\<lparr>store := t\<rparr>))"
  "say l s = (Inr (), s\<lparr>said := said s @ [l]\<rparr>)"
  by (simp_all add: on_store_def edit_store_def say_def prog_simps)

lemma station_ok [ok_simps]:
  "on_store g s = (Inr x, s') \<longleftrightarrow> g (store s) = Inr x \<and> s' = s"
  "edit_store h s = (Inr u, s') \<longleftrightarrow> (\<exists>t. h (store s) = Inr t \<and> s' = s\<lparr>store := t\<rparr>)"
  "say l s = (Inr u, s') \<longleftrightarrow> s' = s\<lparr>said := said s @ [l]\<rparr>"
  by (auto simp: station_ops split: sum.splits)

section \<open>Control files\<close>

text \<open>The absolute path a control file names; a relative one is no private fixture.\<close>

definition absolute :: "string \<Rightarrow> path option" where
  "absolute s = (if starts_with ''/'' s then Some (path_of s) else None)"

definition hex_digit :: "char \<Rightarrow> bool" where
  "hex_digit c = (c \<in> set ''0123456789abcdef'')"

text \<open>\<open>root.parent == /private/tmp\<close>, \<open>root.resolve() == root\<close> and the name is the prefix and 32
  hexadecimal digits.\<close>

definition private_root :: "services \<Rightarrow> string \<Rightarrow> string \<Rightarrow> bool" where
  "private_root sv prefix text =
     (case absolute text of
        None \<Rightarrow> False
      | Some wroot \<Rightarrow>
          wroot \<noteq> [] \<and> butlast wroot = [''private'', ''tmp''] \<and> sv_resolve sv wroot = wroot
          \<and> starts_with prefix (last wroot)
          \<and> length (last wroot) = length prefix + 32 \<and> list_all hex_digit (drop (length prefix) (last wroot)))"

text \<open>\<open>type(state[key]) is int and package.is_alive(state[key])\<close> for both processes.\<close>

definition live_pid :: "int list \<Rightarrow> json \<Rightarrow> string \<Rightarrow> bool res" where
  "live_pid pids state key =
     rbind (jidx state key) (\<lambda>p. Inr (case p of JInt n \<Rightarrow> n \<in> set pids | _ \<Rightarrow> False))"

definition fixture_mode :: "services \<Rightarrow> string \<Rightarrow> string \<Rightarrow> json \<Rightarrow> path res" where
  "fixture_mode sv prefix msg state =
     rbind (rbind (jidx state ''root'') jstr) (\<lambda>text.
     rbind (if private_root sv prefix text
            then rbind (jidx state ''managed'') (\<lambda>m. Inr (is_bool m)) else Inr False) (\<lambda>ok.
     rbind (rcheck ok (RuntimeErr msg)) (\<lambda>_.
     rbind (jidx state ''managed'') (\<lambda>m.
     Inr (child (path_of text) (if truthy m then ''managed'' else ''explicit''))))))"

section \<open>The order of a receipt\<close>

definition position :: "'a \<Rightarrow> 'a list \<Rightarrow> nat option" where
  "position x xs = (if x \<in> set xs then Some (length (takeWhile (\<lambda>y. y \<noteq> x) xs)) else None)"

lemma position_Some: "position x xs = Some i \<Longrightarrow> i < length xs \<and> xs ! i = x"
proof -
  have "x \<in> set xs \<Longrightarrow> length (takeWhile (\<lambda>y. y \<noteq> x) xs) < length xs
      \<and> xs ! length (takeWhile (\<lambda>y. y \<noteq> x) xs) = x"
    by (induction xs) auto
  then show "position x xs = Some i \<Longrightarrow> i < length xs \<and> xs ! i = x"
    by (auto simp: position_def split: if_splits)
qed

text \<open>\<open>if prior['steps'] != list(steps[:index]): raise\<close>, then the step is appended.\<close>

definition steps_in_order :: "string list \<Rightarrow> nat \<Rightarrow> json \<Rightarrow> bool res" where
  "steps_in_order steps i prior =
     rbind (jidx prior ''steps'') (\<lambda>v. Inr (jeq v (JList (map JStr (take i steps)))))"

definition append_step :: "string \<Rightarrow> json \<Rightarrow> json" where
  "append_step step prior =
     (case field prior ''steps'' of JList xs \<Rightarrow> jput ''steps'' (JList (xs @ [JStr step])) prior | _ \<Rightarrow> prior)"

definition next_phase :: "string list \<Rightarrow> nat \<Rightarrow> string" where
  "next_phase steps i = (if i + 1 < length steps then steps ! (i + 1) else ''complete'')"

text \<open>The receipt as it was, and the place of the step in the order.\<close>

definition prior_receipt :: "services \<Rightarrow> store \<Rightarrow> path \<Rightarrow> json res" where
  "prior_receipt sv t receipt =
     (if present t receipt
      then rbind (private_file sv t receipt 8192) (\<lambda>_. load_text sv t receipt)
      else Inr (JObj [(''steps'', JList [])]))"

definition step_index :: "string \<Rightarrow> string list \<Rightarrow> string \<Rightarrow> json \<Rightarrow> nat res" where
  "step_index late steps step prior =
     (case position step steps of
        None \<Rightarrow> Inl (RuntimeErr ''Step does not belong to the controlled scenario'')
      | Some i \<Rightarrow>
          rbind (steps_in_order steps i prior) (\<lambda>ok.
          rbind (rcheck ok (RuntimeErr late)) (\<lambda>_. Inr i)))"

text \<open>The end of every \<open>record\<close>: the step is appended, the control goes to the next phase.\<close>

definition commit_step ::
    "services \<Rightarrow> path \<Rightarrow> path \<Rightarrow> json \<Rightarrow> string list \<Rightarrow> nat \<Rightarrow> string \<Rightarrow> bool \<Rightarrow> json \<Rightarrow> (station, unit) prog" where
  "commit_step sv control receipt state steps i step has_receipt prior =
     pseq (if has_receipt then ret () else edit_store (touch_new sv receipt))
    (pseq (edit_store (overwrite sv receipt (sv_dumps sv (append_step step prior))))
    (edit_store (overwrite sv control (sv_dumps sv (jput ''phase'' (JStr (next_phase steps i)) state)))))"

section \<open>What a receipt on disk records\<close>

definition texts_agree :: "services \<Rightarrow> bool" where
  "texts_agree sv \<longleftrightarrow> (\<forall>j. sv_loads sv (sv_dumps sv j) = Inr j)"

definition receipt_steps :: "services \<Rightarrow> path \<Rightarrow> station \<Rightarrow> string list" where
  "receipt_steps sv receipt s =
     (case load_text sv (store s) receipt of
        Inl _ \<Rightarrow> []
      | Inr d \<Rightarrow> (case field d ''steps'' of
                   JList xs \<Rightarrow> map (\<lambda>x. case x of JStr t \<Rightarrow> t | _ \<Rightarrow> []) xs | _ \<Rightarrow> []))"

lemma jeq_string: "jeq v (JStr x) \<longleftrightarrow> v = JStr x"
  by (cases v) auto

lemma jeq_string_list: "jeq_list ys (map JStr xs) \<longleftrightarrow> ys = map JStr xs"
proof (induction ys arbitrary: xs)
  case Nil
  then show ?case by auto
next
  case (Cons y ys)
  then show ?case by (cases xs) (auto simp: jeq_string)
qed

lemma jeq_strings: "jeq v (JList (map JStr xs)) \<longleftrightarrow> v = JList (map JStr xs)"
  by (cases v) (auto simp: jeq_string_list)

lemma step_index_ok:
  assumes "step_index late steps step prior = Inr i"
  shows "i < length steps \<and> steps ! i = step \<and> is_dict prior
    \<and> field prior ''steps'' = JList (map JStr (take i steps))"
proof -
  from assms have p: "position step steps = Some i" and "steps_in_order steps i prior = Inr True"
    by (auto simp: step_index_def split: option.splits)
  then obtain v where "jidx prior ''steps'' = Inr v" "v = JList (map JStr (take i steps))"
    by (auto simp: steps_in_order_def jeq_strings simp del: jeq.simps)
  with position_Some[OF p] show ?thesis
    by (auto simp: jidx_def field_def split: json.splits option.splits)
qed

lemma strings_back: "map (\<lambda>x. case x of JStr t \<Rightarrow> t | _ \<Rightarrow> []) (map JStr xs) = xs"
  by (induction xs) auto

lemma prior_receipt_steps:
  assumes "prior_receipt sv (store s) receipt = Inr prior" and "field prior ''steps'' = JList (map JStr xs)"
  shows "receipt_steps sv receipt s = xs"
proof (cases "present (store s) receipt")
  case True
  with assms have "load_text sv (store s) receipt = Inr prior" by (auto simp: prior_receipt_def)
  then show ?thesis using assms(2) by (simp add: receipt_steps_def strings_back del: map_map)
next
  case False
  then have "load_text sv (store s) receipt = Inl (OSErr (path_str receipt))"
    by (simp add: present_def load_text_def read_file_def lstat_def)
  moreover have "xs = []" using assms False by (auto simp: prior_receipt_def field_def)
  ultimately show ?thesis by (simp add: receipt_steps_def)
qed

text \<open>The files a store keeps between two moments, and what writing a text leaves to be read.\<close>

lemma overwrite_effect:
  assumes "overwrite sv p b t = Inr t'"
  shows "q \<noteq> p \<Longrightarrow> map_of t' q = map_of t q"
    and "map_of t p = Some i \<Longrightarrow> odd (n_perm i div 256) \<Longrightarrow> read_file t' p = Inr b"
  using assms by (auto simp: overwrite_def lstat_def update_conv' read_file_def split: option.splits if_splits)

lemma touch_effect:
  assumes "touch_new sv p t = Inr t'"
  shows "q \<noteq> p \<Longrightarrow> map_of t' q = map_of t q" and "\<exists>i. map_of t' p = Some i \<and> n_perm i = 384"
  using assms by (auto simp: touch_new_def update_conv' split: if_splits)

definition holds_node :: "path \<Rightarrow> node_info option \<Rightarrow> station \<Rightarrow> bool" where
  "holds_node q x s \<longleftrightarrow> map_of (store s) q = x"

lemma keeps_edit_store:
  "(\<And>t t'. g t = Inr t' \<Longrightarrow> map_of t' q = map_of t q) \<Longrightarrow> keeps (holds_node q x) (edit_store g)"
  by (auto simp: keeps_def holds_node_def station_ops split: sum.splits)

lemma keeps_reading [intro]: "keeps (holds_node q x) (on_store h)" "keeps (holds_node q x) (say l)"
  by (auto simp: keeps_def holds_node_def station_ops)

lemma keeps_if: "(b \<Longrightarrow> keeps P m) \<Longrightarrow> (\<not> b \<Longrightarrow> keeps P k) \<Longrightarrow> keeps P (if b then m else k)"
  by simp

lemma keeps_touch: "q \<noteq> p \<Longrightarrow> keeps (holds_node q x) (edit_store (touch_new sv p))"
  by (intro keeps_edit_store) (metis touch_effect(1))

lemma keeps_overwrite: "q \<noteq> p \<Longrightarrow> keeps (holds_node q x) (edit_store (overwrite sv p b))"
  by (intro keeps_edit_store) (metis overwrite_effect(1))

lemma keeps_copy:
  "q \<noteq> p \<Longrightarrow> keeps (holds_node q x) (edit_store (\<lambda>t. rbind (read_file t r) (\<lambda>b. overwrite sv p b t)))"
  by (intro keeps_edit_store) (auto dest: overwrite_effect(1))

lemmas keeps_rules = keeps_pbind keeps_pseq keeps_if keeps_touch keeps_overwrite keeps_copy keeps_reading

lemma keeps_node: "keeps (holds_node q x) m \<Longrightarrow> m s = (r, s') \<Longrightarrow> map_of (store s) q = x \<Longrightarrow> map_of (store s') q = x"
  unfolding keeps_def holds_node_def by (metis snd_conv)

lemma commit_step_effect:
  assumes "commit_step sv control receipt state steps i step has prior s = (Inr (), s')"
    and "has \<Longrightarrow> \<exists>r. map_of (store s) receipt = Some r \<and> n_perm r = 384"
    and "control \<noteq> receipt" and "texts_agree sv"
  shows "load_text sv (store s') receipt = Inr (append_step step prior)"
proof -
  from assms(1) obtain t1 t2 t3 where t1: "(if has then t1 = store s else touch_new sv receipt (store s) = Inr t1)"
    and t2: "overwrite sv receipt (sv_dumps sv (append_step step prior)) t1 = Inr t2"
    and t3: "overwrite sv control (sv_dumps sv (jput ''phase'' (JStr (next_phase steps i)) state)) t2 = Inr t3"
    and s': "store s' = t3"
    by (cases has) (auto simp: commit_step_def ok_simps)
  obtain r where "map_of t1 receipt = Some r" "n_perm r = 384"
    using t1 assms(2) touch_effect(2)[of sv receipt "store s" t1] by (auto split: if_splits)
  then have "read_file t2 receipt = Inr (sv_dumps sv (append_step step prior))"
    using overwrite_effect(2)[OF t2] by simp
  moreover have "map_of t3 receipt = map_of t2 receipt" using overwrite_effect(1)[OF t3] assms(3) by simp
  ultimately show ?thesis using assms(4) s' by (simp add: load_text_def read_file_def lstat_def texts_agree_def)
qed

lemma append_step_steps:
  assumes "is_dict prior" and "field prior ''steps'' = JList (map JStr (take i steps))" and "i < length steps"
  shows "field (append_step (steps ! i) prior) ''steps'' = JList (map JStr (take (Suc i) steps))"
  using assms by (simp add: append_step_def take_Suc_conv_app_nth del: is_dict_def)

text \<open>A recorder takes a world to the world after a step, or refuses. A run of recordings leaves
  the ledger alone between two of them.\<close>

fun recordings ::
    "('w \<Rightarrow> string list) \<Rightarrow> (string \<Rightarrow> 'w \<Rightarrow> 'w \<Rightarrow> bool) \<Rightarrow> string list \<Rightarrow> 'w \<Rightarrow> 'w \<Rightarrow> bool" where
  "recordings ledger rec [] w w' = (ledger w' = ledger w)"
| "recordings ledger rec (s # ss) w w' =
     (\<exists>w1 w2. ledger w1 = ledger w \<and> rec s w1 w2 \<and> recordings ledger rec ss w2 w')"

text \<open>The contract: only the step next in order is recorded, and then it is the last of the ledger.\<close>

locale ordered_receipt =
  fixes ledger :: "'w \<Rightarrow> string list" and rec :: "string \<Rightarrow> 'w \<Rightarrow> 'w \<Rightarrow> bool"
    and order :: "string list"
  assumes recorded: "rec step w w' \<Longrightarrow>
      \<exists>i < length order. order ! i = step \<and> ledger w = take i order \<and> ledger w' = take (Suc i) order"
begin

lemma grows_in_order:
  assumes "recordings ledger rec ss w w'" and "ledger w = take n order" and "n \<le> length order"
  shows "ledger w' = take (n + length ss) order \<and> n + length ss \<le> length order
    \<and> ss = take (length ss) (drop n order)"
  using assms
proof (induction ss arbitrary: w n)
  case (Cons s ss)
  then obtain w1 w2 where w1: "ledger w1 = ledger w" and s: "rec s w1 w2"
    and rest: "recordings ledger rec ss w2 w'"
    by auto
  from recorded[OF s] obtain i where i: "i < length order" "order ! i = s" "ledger w1 = take i order"
    "ledger w2 = take (Suc i) order" by blast
  have "length (take i order) = length (take n order)" using i(3) w1 Cons.prems(2) by simp
  then have "i = n" using i(1) Cons.prems(3) by simp
  with Cons.IH[OF rest i(4)] i show ?case by (simp add: Cons_nth_drop_Suc[symmetric])
qed simp

text \<open>From an empty receipt, the recorded steps are a prefix of the order.\<close>

lemma prefix_only:
  assumes "recordings ledger rec ss w w'" and "ledger w = []"
  shows "ledger w' = ss \<and> ss = take (length ss) order"
  using grows_in_order[OF assms(1), of 0] assms(2) by simp

lemma no_repeat:
  assumes "recordings ledger rec ss w w'" and "ledger w = []" and "distinct order"
  shows "distinct ss"
  using prefix_only[OF assms(1,2)] assms(3) by (metis distinct_take)

end

end
