(* ===== verification/UiExport.thy ===== *)
theory UiExport
  imports Receipts
begin

text \<open>
  The recorder of \<open>tools/tauri/smoke-native-ui-export.py\<close>: \<open>record(step, control)\<close> checks the
  private fixture, the prepared sources and the actual output of an export step, and then
  appends the step to the receipt. The launches (\<open>smoke\<close>) are in theory ExportLaunch.
\<close>

section \<open>Scenarios\<close>

definition plain_steps :: "string list" where
  "plain_steps = [''cancel'', ''new-save'', ''overwrite-cancel'', ''overwrite'']"

definition error_steps :: "string list" where
  "error_steps = [''same-source'', ''missing-source'']"

definition permission_steps :: "string list" where
  "permission_steps = [''read-denied'']"

definition write_steps :: "string list" where
  "write_steps = [''write-denied'']"

definition theme_names :: "string list" where
  "theme_names = [''Reasonix UI Theme'', ''Reasonix UI Theme Revised'']"

definition scenarios :: "string list" where
  "scenarios = [''diagnostics'', ''theme'', ''document'', ''document-errors'', ''document-permissions'',
     ''document-write-denied'']"

definition document_scenarios :: "string list" where
  "document_scenarios = [''document'', ''document-errors'', ''document-permissions'', ''document-write-denied'']"

definition scenario_steps :: "string \<Rightarrow> string list" where
  "scenario_steps scenario =
     (if scenario = ''document-write-denied'' then write_steps
      else if scenario = ''document-permissions'' then permission_steps
      else if scenario = ''document-errors'' then error_steps else plain_steps)"

definition output_dir :: string where
  "output_dir = [CHR 0xE6, CHR 0x8A, CHR 0xA5, CHR 0xE5, CHR 0x91, CHR 0x8A] @ '' ''
     @ [CHR 0xE6, CHR 0xB5, CHR 0x8B, CHR 0xE8, CHR 0xAF, CHR 0x95]"

definition copy_word :: string where
  "copy_word = '' '' @ [CHR 0xE5, CHR 0x89, CHR 0xAF, CHR 0xE6, CHR 0x9C, CHR 0xAC]"

definition output_name :: "string \<Rightarrow> string res" where
  "output_name scenario =
     (if scenario = ''theme''
      then Inr ([CHR 0xE4, CHR 0xB8, CHR 0xBB, CHR 0xE9, CHR 0xA2, CHR 0x98] @ copy_word @ ''.reasonix-theme'')
      else if scenario = ''diagnostics''
      then Inr ([CHR 0xE6, CHR 0x8A, CHR 0xA5, CHR 0xE5, CHR 0x91, CHR 0x8A] @ copy_word @ ''.json'')
      else if scenario \<in> set document_scenarios
      then Inr ([CHR 0xE6, CHR 0x96, CHR 0x87, CHR 0xE6, CHR 0xA1, CHR 0xA3] @ copy_word @ ''.md'')
      else Inl (KeyErr scenario))"

section \<open>Prepared sources\<close>

definition original_word :: string where
  "original_word = [CHR 0xE5, CHR 0x8E, CHR 0x9F, CHR 0xE4, CHR 0xBB, CHR 0xB6]"

definition source_dir :: string where
  "source_dir = original_word @ '' '' @ [CHR 0xE6, CHR 0x96, CHR 0x87, CHR 0xE4, CHR 0xBB, CHR 0xB6]"

definition document_sources :: "path \<Rightarrow> path list" where
  "document_sources mode = map (\<lambda>l. child (child mode source_dir) (original_word @ '' '' @ l @ ''.md'')) [''A'', ''B'']"

definition contents :: "string list" where
  "contents = [''Reasonix native document original A'' @ nl, ''Reasonix native document original B'' @ nl]"

definition stat_mode :: "node_info \<Rightarrow> int" where
  "stat_mode i = int (n_perm i) + (case n_kind i of Regular _ \<Rightarrow> 32768 | Directory \<Rightarrow> 16384 | Symlink _ \<Rightarrow> 40960)"

definition fingerprint :: "services \<Rightarrow> store \<Rightarrow> path \<Rightarrow> json res" where
  "fingerprint sv t p =
     rbind (private_file sv t p 4096) (\<lambda>i.
     rbind (read_file t p) (\<lambda>b.
     Inr (JObj [(''sha256'', JStr (sv_digest sv b)), (''mode'', JInt (stat_mode i)),
                (''mtime'', JInt (n_mtime i)), (''inode'', JInt (n_inode i))])))"

definition permission_source_metadata :: "services \<Rightarrow> store \<Rightarrow> path \<Rightarrow> json res" where
  "permission_source_metadata sv t p =
     rbind (lstat t p) (\<lambda>i.
     rbind (rcheck (is_regular i \<and> n_uid i = sv_uid sv \<and> n_perm i = 0 \<and> size_of i = int (length (contents ! 0)))
              (RuntimeErr ''Unreadable source is not the owned bounded mode-000 file'')) (\<lambda>_.
     Inr (JObj [(''mode'', JInt (stat_mode i)), (''mtime'', JInt (n_mtime i)),
                (''inode'', JInt (n_inode i)), (''size'', JInt (size_of i))])))"

definition destination_metadata :: "services \<Rightarrow> store \<Rightarrow> path \<Rightarrow> json res" where
  "destination_metadata sv t p =
     rbind (lstat t p) (\<lambda>i.
     rbind (rcheck (n_kind i = Directory \<and> n_uid i = sv_uid sv \<and> n_perm i = 320)
              (RuntimeErr ''Destination is not an owned ordinary mode-500 directory'')) (\<lambda>_.
     Inr (JObj [(''mode'', JInt (stat_mode i)), (''mtime'', JInt (n_mtime i)), (''inode'', JInt (n_inode i))])))"

definition document_fingerprints :: "services \<Rightarrow> store \<Rightarrow> path \<Rightarrow> string \<Rightarrow> json res" where
  "document_fingerprints sv t mode scenario =
     (let a = document_sources mode ! 0; b = document_sources mode ! 1 in
      rbind (if scenario = ''document-permissions'' then permission_source_metadata sv t a
             else fingerprint sv t a) (\<lambda>fa.
      rbind (fingerprint sv t b) (\<lambda>fb. Inr (JList [fa, fb]))))"

section \<open>Reports\<close>

definition theme_colors :: "(string \<times> (string \<times> string) list) list" where
  "theme_colors =
     [(''light'', [(''bg'', ''#fcf8ee''), (''fg'', ''#2a241b''), (''accent'', ''#7a5a16'')]),
      (''dark'', [(''bg'', ''#151515''), (''fg'', ''#f4f4f4''), (''accent'', ''#ff6a45'')])]"

definition valid_manifest :: "json \<Rightarrow> bool" where
  "valid_manifest data \<longleftrightarrow>
     is_dict data \<and> field data ''schemaVersion'' = JInt 2
     \<and> jeq (field data ''id'') (JStr ''user-reasonix-ui-theme'')
     \<and> list_ex (\<lambda>n. jeq (field data ''name'') (JStr n)) theme_names
     \<and> jeq (field data ''baseStyle'') (JStr ''graphite'')
     \<and> is_dict (field data ''tokens'')
     \<and> jeq (field data ''recipes'') (JObj [(''density'', JStr ''comfortable''), (''corners'', JStr ''soft'')])
     \<and> \<not> truthy (field data ''background'') \<and> \<not> truthy (field data ''taskBackground'')"

definition has_tokens :: "json \<Rightarrow> string \<times> (string \<times> string) list \<Rightarrow> bool" where
  "has_tokens data me =
     (let tokens = field (field data ''tokens'') (fst me) in
      is_dict tokens \<and> list_all (\<lambda>kv. jeq (field tokens (fst kv)) (JStr (snd kv))) (snd me))"

definition theme_report :: "services \<Rightarrow> string \<Rightarrow> string res" where
  "theme_report sv b =
     rbind (sv_unzip sv b) (\<lambda>members.
     rbind (case members of
              [(name, text)] \<Rightarrow> if name = ''theme.json'' \<and> int (length text) \<le> 1048576 then Inr text
                               else Inl (RuntimeErr ''Actual image-free theme export archive is invalid'')
            | _ \<Rightarrow> Inl (RuntimeErr ''Actual image-free theme export archive is invalid'')) (\<lambda>text.
     rbind (sv_loads sv text) (\<lambda>data.
     rbind (rcheck (valid_manifest data) (RuntimeErr ''Actual theme export manifest is invalid'')) (\<lambda>_.
     rbind (rcheck (list_all (has_tokens data) theme_colors)
              (RuntimeErr ''Actual theme export lost its prepared tokens'')) (\<lambda>_.
     jstr (field data ''name''))))))"

definition is_marker :: "json \<Rightarrow> bool" where
  "is_marker e \<longleftrightarrow> is_dict e \<and> jeq (field e ''type'') (JStr ''marker'')"

definition diagnostics_report :: "services \<Rightarrow> string \<Rightarrow> string res" where
  "diagnostics_report sv b =
     rbind (sv_loads sv b) (\<lambda>data.
     let invalid = Inl (RuntimeErr ''Actual exported report schema/identity/user marker is invalid'') in
     if \<not> (is_dict data \<and> is_dict (field data ''manifest'')) then invalid
     else
       case (field data ''schemaVersion'', field (field data ''manifest'') ''reportId'', field data ''events'') of
         (JInt v, JStr identifier, JList events) \<Rightarrow>
           if v = 2 \<and> 1 \<le> length (code_points identifier) \<and> length (code_points identifier) \<le> 128
              \<and> events \<noteq> [] \<and> list_ex is_marker events
           then Inr identifier else invalid
       | _ \<Rightarrow> invalid)"

definition report :: "services \<Rightarrow> store \<Rightarrow> path \<Rightarrow> string \<Rightarrow> string res" where
  "report sv t p scenario =
     rbind (private_file sv t p 8388608) (\<lambda>_.
     rbind (read_file t p) (\<lambda>b.
     if scenario = ''document''
     then if b = contents ! 0 then Inr ''A'' else if b = contents ! 1 then Inr ''B''
          else Inl (RuntimeErr ''Saved document differs from both prepared originals'')
     else if scenario = ''theme'' then theme_report sv b
     else if scenario \<noteq> ''diagnostics'' then Inl (ValueErr ''Unknown export acceptance scenario'')
     else diagnostics_report sv b))"

section \<open>Recording a step\<close>

definition export_root_name :: string where
  "export_root_name = ''reasonix-native-ui-export-''"

text \<open>The scenario the control names, \<open>diagnostics\<close> by default.\<close>

definition control_scenario :: "json \<Rightarrow> string res" where
  "control_scenario state =
     rbind (jget_or state ''scenario'' (JStr ''diagnostics'')) (\<lambda>v.
     case v of
       JStr sc \<Rightarrow> if sc \<in> set scenarios then Inr sc else Inl (RuntimeErr ''Export UI scenario is invalid'')
     | _ \<Rightarrow> Inl (RuntimeErr ''Export UI scenario is invalid''))"

definition check_directories :: "services \<Rightarrow> store \<Rightarrow> path \<Rightarrow> string \<Rightarrow> unit res" where
  "check_directories sv t mode scenario =
     (let msg = ''Export UI directory is not an owned private ordinary directory'' in
      rbind (own_directory sv 448 msg t (butlast mode)) (\<lambda>_.
      rbind (own_directory sv 448 msg t mode) (\<lambda>_.
      own_directory sv (if scenario = ''document-write-denied'' then 320 else 448) msg t (child mode output_dir))))"

definition check_destination :: "services \<Rightarrow> store \<Rightarrow> path \<Rightarrow> string \<Rightarrow> json \<Rightarrow> unit res" where
  "check_destination sv t mode scenario state =
     (if scenario \<noteq> ''document-write-denied'' then Inr ()
      else rbind (destination_metadata sv t (child mode output_dir)) (\<lambda>d.
           rbind (jget state ''destinationMetadata'') (\<lambda>saved.
           rcheck (jeq d saved) (RuntimeErr ''Destination denial directory changed''))))"

definition check_step_path :: "string \<Rightarrow> path \<Rightarrow> json \<Rightarrow> unit res" where
  "check_step_path step target state =
     rbind (jidx state ''outputFile'') (\<lambda>f.
     rbind (if jeq f (JStr (path_str target))
            then rbind (jidx state ''phase'') (\<lambda>p. Inr (jeq p (JStr step))) else Inr False) (\<lambda>ok.
     rcheck ok (RuntimeErr ''Export UI step/path does not match the current phase'')))"

definition check_live :: "int list \<Rightarrow> json \<Rightarrow> unit res" where
  "check_live pids state =
     rbind (rall (live_pid pids state) [''hostPid'', ''sidecarPid'']) (\<lambda>ok.
     rcheck ok (RuntimeErr ''Export UI fixture is no longer live''))"

definition same_set :: "path list \<Rightarrow> path list \<Rightarrow> bool" where
  "same_set xs ys = (list_all (\<lambda>x. x \<in> set ys) xs \<and> list_all (\<lambda>y. y \<in> set xs) ys)"

definition check_documents :: "services \<Rightarrow> store \<Rightarrow> path \<Rightarrow> string \<Rightarrow> json \<Rightarrow> unit res" where
  "check_documents sv t mode scenario state =
     (if scenario \<notin> set document_scenarios then Inr ()
      else
        let sources = document_sources mode; protection = RuntimeErr ''Document source protection failed'' in
        rbind (own_directory sv 448 ''Document source directory is not private'' t (child mode source_dir)) (\<lambda>_.
        rbind (jget state ''sourceFiles'') (\<lambda>files.
        rbind (rcheck (jeq files (JList (map (\<lambda>p. JStr (path_str p)) sources))) protection) (\<lambda>_.
        rbind (document_fingerprints sv t mode scenario) (\<lambda>prints.
        rbind (jget state ''sourceFingerprints'') (\<lambda>saved.
        rbind (rcheck (jeq prints saved) protection) (\<lambda>_.
        rbind (read_file t (sources ! 1)) (\<lambda>b.
        rbind (rcheck (b = contents ! 1) protection) (\<lambda>_.
        rbind (if scenario = ''document-permissions'' then Inr ()
               else rbind (read_file t (sources ! 0)) (\<lambda>a. rcheck (a = contents ! 0) protection)) (\<lambda>_.
        rbind (list_dir t (child mode source_dir)) (\<lambda>es.
        rcheck (same_set es sources) (RuntimeErr ''Document source directory changed''))))))))))))"

text \<open>The first save: what is kept of it, and the new fields of the receipt.\<close>

definition keep_first :: "services \<Rightarrow> path \<Rightarrow> path \<Rightarrow> string \<Rightarrow> string \<Rightarrow> json \<Rightarrow> (station, json) prog" where
  "keep_first sv target backup scenario identifier prior =
     pseq (require (scenario \<noteq> ''document'' \<or> identifier = ''A'')
             (RuntimeErr ''First Save As did not copy Original A''))
    (pseq (require (scenario \<noteq> ''theme'' \<or> identifier = theme_names ! 0)
             (RuntimeErr ''First export did not publish the created theme''))
    (pbind (on_store (\<lambda>t. private_file sv t target 8388608)) (\<lambda>_.
     pseq (edit_store (touch_new sv backup))
    (pseq (edit_store (\<lambda>t. rbind (read_file t target) (\<lambda>b. overwrite sv backup b t)))
    (pbind (on_store (\<lambda>t. lstat t target)) (\<lambda>i.
     ret (case prior of
            JObj kvs \<Rightarrow> JObj (dict_union kvs [(''firstId'', JStr identifier), (''firstMode'', JInt (stat_mode i)),
                                (''firstMtime'', JInt (n_mtime i)), (''firstInode'', JInt (n_inode i))])
          | _ \<Rightarrow> prior)))))))"

text \<open>Cancel and accept of a Replace, compared with the first save.\<close>

definition check_replace ::
    "services \<Rightarrow> store \<Rightarrow> path \<Rightarrow> path \<Rightarrow> string \<Rightarrow> string \<Rightarrow> json \<Rightarrow> unit res" where
  "check_replace sv t target backup step identifier prior =
     rbind (private_file sv t backup 8388608) (\<lambda>_.
     if step = ''overwrite-cancel''
     then
       rbind (lstat t target) (\<lambda>i.
       rbind (read_file t target) (\<lambda>b.
       rbind (read_file t backup) (\<lambda>saved.
       rbind (rcheck (b = saved) (RuntimeErr ''Cancelled Replace changed the original export'')) (\<lambda>_.
       rbind (jidx prior ''firstMode'') (\<lambda>m.
       rbind (jidx prior ''firstMtime'') (\<lambda>mt.
       rbind (jidx prior ''firstInode'') (\<lambda>ino.
       rcheck (jeq m (JInt (stat_mode i)) \<and> jeq mt (JInt (n_mtime i)) \<and> jeq ino (JInt (n_inode i)))
         (RuntimeErr ''Cancelled Replace changed the original export''))))))))
     else
       rbind (jidx prior ''firstId'') (\<lambda>first.
       rbind (rcheck (\<not> jeq first (JStr identifier))
                (RuntimeErr ''Accepted Replace did not publish the second report'')) (\<lambda>_.
       rbind (read_file t target) (\<lambda>b.
       rbind (read_file t backup) (\<lambda>saved.
       rcheck (b \<noteq> saved) (RuntimeErr ''Accepted Replace did not publish the second report''))))))"

definition check_output ::
    "services \<Rightarrow> path \<Rightarrow> path \<Rightarrow> string \<Rightarrow> string \<Rightarrow> json \<Rightarrow> (station, json) prog" where
  "check_output sv mode target scenario step prior =
     (let output = child mode output_dir; backup = child mode ''first-export-original.json'' in
      if step = ''cancel'' \<or> scenario \<in> set [''document-errors'', ''document-permissions'', ''document-write-denied'']
      then
        pbind (on_store (\<lambda>t. list_dir t output)) (\<lambda>es.
        pseq (require (es = []) (RuntimeErr ''Cancelled save unexpectedly wrote an output'')) (ret prior))
      else
        pbind (on_store (\<lambda>t. list_dir t output)) (\<lambda>es.
        pseq (require (same_set es [target]) (RuntimeErr ''Export left unexpected output files''))
       (pbind (on_store (\<lambda>t. report sv t target scenario)) (\<lambda>identifier.
        if step = ''new-save'' then keep_first sv target backup scenario identifier prior
        else pseq (on_store (\<lambda>t. check_replace sv t target backup step identifier prior)) (ret prior)))))"

definition record_export :: "services \<Rightarrow> path \<Rightarrow> string \<Rightarrow> (station, unit) prog" where
  "record_export sv control step =
     pseq (require (step \<in> set (plain_steps @ error_steps @ permission_steps @ write_steps))
             (ValueErr ''Unknown export acceptance step''))
    (pbind (on_store (\<lambda>t. rbind (private_file sv t control 8192) (\<lambda>_. load_text sv t control))) (\<lambda>state.
     pbind (lift (fixture_mode sv export_root_name ''Export UI control does not identify a private fixture'' state)) (\<lambda>mode.
     pbind (lift (control_scenario state)) (\<lambda>scenario.
     pseq (on_store (\<lambda>t. check_directories sv t mode scenario))
    (pseq (on_store (\<lambda>t. check_destination sv t mode scenario state))
    (pbind (lift (output_name scenario)) (\<lambda>name.
     let target = child (child mode output_dir) name; receipt = child mode ''ui-export-receipt.json'';
         steps = scenario_steps scenario in
     pseq (lift (check_step_path step target state))
    (pseq (tries (\<lambda>s. check_live (living s) state))
    (pseq (on_store (\<lambda>t. check_documents sv t mode scenario state))
    (pbind (reads (\<lambda>s. present (store s) receipt)) (\<lambda>has_receipt.
     pbind (on_store (\<lambda>t. prior_receipt sv t receipt)) (\<lambda>prior.
     pbind (lift (step_index ''Export UI receipt order is invalid'' steps step prior)) (\<lambda>i.
     pbind (check_output sv mode target scenario step prior) (\<lambda>prior'.
     pseq (commit_step sv control receipt state steps i step has_receipt prior')
     (say (''Actual output check '' @ step @ '' passed; panel/feedback evidence remains separate''))))))))))))))))"

section \<open>The receipt of a run\<close>

definition export_receipt :: "path \<Rightarrow> path" where
  "export_receipt mode = child mode ''ui-export-receipt.json''"

text \<open>A successful \<open>record\<close> of one fixture and scenario.\<close>

definition export_recording ::
    "services \<Rightarrow> path \<Rightarrow> path \<Rightarrow> string \<Rightarrow> string \<Rightarrow> station \<Rightarrow> station \<Rightarrow> bool" where
  "export_recording sv control mode scenario step s s' \<longleftrightarrow>
     record_export sv control step s = (Inr (), s') \<and> texts_agree sv \<and> control \<noteq> export_receipt mode
     \<and> (\<exists>state. load_text sv (store s) control = Inr state
          \<and> fixture_mode sv export_root_name ''Export UI control does not identify a private fixture'' state = Inr mode
          \<and> control_scenario state = Inr scenario)"

lemma keep_first_effect:
  assumes "keep_first sv target backup scenario identifier prior s = (Inr prior', s')" and "is_dict prior"
  shows "is_dict prior' \<and> field prior' ''steps'' = field prior ''steps''"
    and "q \<noteq> backup \<Longrightarrow> map_of (store s') q = map_of (store s) q"
proof -
  show "is_dict prior' \<and> field prior' ''steps'' = field prior ''steps''"
    using assms by (auto simp: keep_first_def ok_simps field_def map_of_update split: json.splits)
  show "map_of (store s') q = map_of (store s) q" if "q \<noteq> backup"
    using assms(1) that
    by (auto simp: keep_first_def ok_simps) (metis overwrite_effect(1) touch_effect(1))+
qed

lemma check_output_effect:
  assumes "check_output sv mode target scenario step prior s = (Inr prior', s')" and "is_dict prior"
  shows "is_dict prior' \<and> field prior' ''steps'' = field prior ''steps''"
    and "map_of (store s') (export_receipt mode) = map_of (store s) (export_receipt mode)"
proof -
  consider "prior' = prior" "s' = s"
    | ident where "keep_first sv target (child mode ''first-export-original.json'') scenario ident prior s
        = (Inr prior', s')"
    using assms(1) unfolding check_output_def Let_def by (auto simp: ok_simps split: if_splits)
  then show "is_dict prior' \<and> field prior' ''steps'' = field prior ''steps''"
    "map_of (store s') (export_receipt mode) = map_of (store s) (export_receipt mode)"
    by (cases; use assms(2) keep_first_effect in \<open>auto simp: export_receipt_def\<close>)+
qed

lemma record_export_ok:
  assumes "record_export sv control step s = (Inr (), s')"
  obtains state mode scenario prior prior' i s1 s2 name where
    "load_text sv (store s) control = Inr state"
    "fixture_mode sv export_root_name ''Export UI control does not identify a private fixture'' state = Inr mode"
    "control_scenario state = Inr scenario"
    "prior_receipt sv (store s) (export_receipt mode) = Inr prior"
    "step_index ''Export UI receipt order is invalid'' (scenario_steps scenario) step prior = Inr i"
    "check_output sv mode (child (child mode output_dir) name) scenario step prior s = (Inr prior', s1)"
    "commit_step sv control (export_receipt mode) state (scenario_steps scenario) i step
       (present (store s) (export_receipt mode)) prior' s1 = (Inr (), s2)"
    "store s' = store s2"
  using assms unfolding record_export_def Let_def export_receipt_def[symmetric]
  by (auto simp: ok_simps)

interpretation export: ordered_receipt "receipt_steps sv (export_receipt mode)"
    "export_recording sv control mode scenario" "scenario_steps scenario"
  for sv control mode scenario
proof
  fix step s s' assume rec: "export_recording sv control mode scenario step s s'"
  then have run: "record_export sv control step s = (Inr (), s')" and sv: "texts_agree sv"
    and other: "control \<noteq> export_receipt mode"
    by (auto simp: export_recording_def)
  from run obtain state mode' scenario' prior prior' i s1 s2 name where r:
    "load_text sv (store s) control = Inr state"
    "fixture_mode sv export_root_name ''Export UI control does not identify a private fixture'' state = Inr mode'"
    "control_scenario state = Inr scenario'"
    "prior_receipt sv (store s) (export_receipt mode') = Inr prior"
    "step_index ''Export UI receipt order is invalid'' (scenario_steps scenario') step prior = Inr i"
    "check_output sv mode' (child (child mode' output_dir) name) scenario' step prior s = (Inr prior', s1)"
    "commit_step sv control (export_receipt mode') state (scenario_steps scenario') i step
       (present (store s) (export_receipt mode')) prior' s1 = (Inr (), s2)"
    "store s' = store s2"
    by (rule record_export_ok)
  have same: "mode' = mode" "scenario' = scenario" using rec r(1-3) by (auto simp: export_recording_def)
  note i = step_index_ok[OF r(5)]
  note out = check_output_effect[OF r(6)]
  have perm: "\<exists>n. map_of (store s1) (export_receipt mode') = Some n \<and> n_perm n = 384"
    if "present (store s) (export_receipt mode')"
    using that r(4) out(2) i by (auto simp: prior_receipt_def private_file_def lstat_def split: option.splits)
  have "load_text sv (store s2) (export_receipt mode') = Inr (append_step step prior')"
    by (rule commit_step_effect[OF r(7) perm]) (use other same sv in auto)
  then have "receipt_steps sv (export_receipt mode) s' = take (Suc i) (scenario_steps scenario)"
    using append_step_steps[of prior' i "scenario_steps scenario"] out(1) i same r(8)
    by (simp add: receipt_steps_def strings_back del: is_dict_def map_map)
  moreover have "receipt_steps sv (export_receipt mode) s = take i (scenario_steps scenario)"
    using prior_receipt_steps[OF r(4)] i same by simp
  ultimately show "\<exists>i < length (scenario_steps scenario). scenario_steps scenario ! i = step
      \<and> receipt_steps sv (export_receipt mode) s = take i (scenario_steps scenario)
      \<and> receipt_steps sv (export_receipt mode) s' = take (Suc i) (scenario_steps scenario)"
    using i same by blast
qed

text \<open>C17. Whatever the application does in between as long as it leaves the receipt alone, the
  steps recorded for a fixture are a prefix of its scenario's steps, in order and each once.\<close>

theorem export_receipt_in_order:
  assumes "recordings (receipt_steps sv (export_receipt mode)) (export_recording sv control mode scenario) ss s s'"
    and "receipt_steps sv (export_receipt mode) s = []"
  shows "receipt_steps sv (export_receipt mode) s' = ss
    \<and> ss = take (length ss) (scenario_steps scenario) \<and> distinct ss"
proof -
  have "distinct (scenario_steps scenario)"
    by (simp add: scenario_steps_def plain_steps_def error_steps_def permission_steps_def write_steps_def)
  with export.prefix_only[OF assms] export.no_repeat[OF assms] show ?thesis by blast
qed

text \<open>C18. A recorded cancel, and every recorded denial, found the output directory empty.\<close>

theorem recorded_cancel_wrote_nothing:
  assumes "export_recording sv control mode scenario step s s'"
    and "step = ''cancel'' \<or> scenario \<in> set [''document-errors'', ''document-permissions'', ''document-write-denied'']"
  shows "entries (store s) (child mode output_dir) = []"
proof -
  have run: "record_export sv control step s = (Inr (), s')" using assms(1) by (simp add: export_recording_def)
  from run obtain state mode' scenario' prior prior' i s1 s2 name where r:
    "load_text sv (store s) control = Inr state"
    "fixture_mode sv export_root_name ''Export UI control does not identify a private fixture'' state = Inr mode'"
    "control_scenario state = Inr scenario'"
    "check_output sv mode' (child (child mode' output_dir) name) scenario' step prior s = (Inr prior', s1)"
    by (rule record_export_ok)
  have same: "mode' = mode" "scenario' = scenario" using assms(1) r(1-3) by (auto simp: export_recording_def)
  show ?thesis
    using r(4) assms(2) unfolding same check_output_def Let_def
    by (auto simp: ok_simps list_dir_def split: if_splits)
qed

end
