(* ===== verification/ExportWitness.thy ===== *)
theory ExportWitness
  imports UiExport "HOL-Library.Countable"
begin

text \<open>
  A private export fixture on which one step is recorded: its control file, its three
  directories and live processes, and a text format for JSON that can be read back.
\<close>

instance json :: countable
  by countable_datatype

definition demo_root :: path where
  "demo_root = [''private'', ''tmp'', ''reasonix-native-ui-export-00000000000000000000000000000000'']"

definition demo_mode :: path where
  "demo_mode = child demo_root ''managed''"

definition demo_target :: path where
  "demo_target = child (child demo_mode output_dir)
     ([CHR 0xE6, CHR 0x8A, CHR 0xA5, CHR 0xE5, CHR 0x91, CHR 0x8A] @ copy_word @ ''.json'')"

definition demo_control :: "string \<Rightarrow> json" where
  "demo_control phase = JObj
     [(''root'', JStr (path_str demo_root)), (''managed'', JBool True), (''hostPid'', JInt 1),
      (''sidecarPid'', JInt 2), (''phase'', JStr phase), (''outputFile'', JStr (path_str demo_target))]"

definition demo_receipt :: json where
  "demo_receipt = JObj [(''steps'', JList [JStr ''cancel''])]"

text \<open>One-character texts for the documents of a run, a longer one for any other document.\<close>

definition table_dumps :: "json list \<Rightarrow> json \<Rightarrow> string" where
  "table_dumps docs j =
     (case position j docs of Some i \<Rightarrow> [char_of i] | None \<Rightarrow> replicate (to_nat j + 2) CHR ''x'')"

definition table_loads :: "json list \<Rightarrow> string \<Rightarrow> json res" where
  "table_loads docs s =
     (case s of [c] \<Rightarrow> Inr (docs ! of_char c) | _ \<Rightarrow> Inr (from_nat (length s - 2)))"

lemma table_texts:
  assumes "length docs \<le> 256"
  shows "table_loads docs (table_dumps docs j) = Inr j"
proof (cases "position j docs")
  case None
  then show ?thesis by (simp add: table_dumps_def table_loads_def numeral_2_eq_2)
next
  case (Some i)
  from position_Some[OF this] have "i < 256" "docs ! i = j" using assms by auto
  then show ?thesis using Some by (simp add: table_dumps_def table_loads_def)
qed

definition table_services :: "json list \<Rightarrow> services" where
  "table_services docs = \<lparr>sv_uid = 501, sv_loads = table_loads docs, sv_dumps = table_dumps docs,
     sv_digest = (\<lambda>b. b), sv_unzip = (\<lambda>b. Inr []), sv_clock = (\<lambda>t. 0),
     sv_new_inode = (\<lambda>t. int (length t)), sv_resolve = (\<lambda>p. p)\<rparr>"

lemma table_texts_agree: "length docs \<le> 256 \<Longrightarrow> texts_agree (table_services docs)"
  by (simp add: texts_agree_def table_services_def table_texts)

definition demo_docs :: "json list" where
  "demo_docs = [demo_control ''cancel'', demo_control ''new-save'', demo_receipt]"

definition demo_services :: services where
  "demo_services = table_services demo_docs"

definition demo_dir :: node_info where
  "demo_dir = \<lparr>n_kind = Directory, n_uid = 501, n_perm = 448, n_mtime = 0, n_inode = 0\<rparr>"

definition demo_control_path :: path where
  "demo_control_path = [''private'', ''tmp'', ''c.json'']"

definition demo_station :: station where
  "demo_station = \<lparr>store =
     [(demo_control_path, \<lparr>n_kind = Regular [CHR 0x00], n_uid = 501, n_perm = 384, n_mtime = 0, n_inode = 1\<rparr>),
      (demo_root, demo_dir), (demo_mode, demo_dir), (child demo_mode output_dir, demo_dir)],
     living = [1, 2], said = []\<rparr>"

lemma demo_texts: "texts_agree demo_services"
  unfolding demo_services_def by (rule table_texts_agree) (simp add: demo_docs_def)

definition demo_recorded :: "unit res \<times> station" where
  "demo_recorded = record_export demo_services demo_control_path ''cancel'' demo_station"

lemma demo_load: "load_text demo_services (store demo_station) demo_control_path = Inr (demo_control ''cancel'')"
  by (simp add: demo_services_def table_services_def table_loads_def demo_docs_def demo_station_def
      load_text_def read_file_def lstat_def)

lemma demo_state_facts:
  "fixture_mode demo_services export_root_name ''Export UI control does not identify a private fixture''
     (demo_control ''cancel'') = Inr demo_mode"
  "control_scenario (demo_control ''cancel'') = Inr ''diagnostics''"
  by code_simp+

lemma demo_record: "fst demo_recorded = Inr ()"
  by code_simp

lemma demo_recording:
  "export_recording demo_services demo_control_path demo_mode ''diagnostics'' ''cancel'' demo_station (snd demo_recorded)"
proof -
  have "record_export demo_services demo_control_path ''cancel'' demo_station = (Inr (), snd demo_recorded)"
    using demo_record by (simp add: demo_recorded_def prod_eq_iff)
  moreover have "demo_control_path \<noteq> export_receipt demo_mode" by code_simp
  ultimately show ?thesis
    unfolding export_recording_def using demo_texts demo_load demo_state_facts by blast
qed

lemma demo_no_receipt: "receipt_steps demo_services (export_receipt demo_mode) demo_station = []"
proof -
  have "\<not> present (store demo_station) (export_receipt demo_mode)" by code_simp
  then have "load_text demo_services (store demo_station) (export_receipt demo_mode)
      = Inl (OSErr (path_str (export_receipt demo_mode)))"
    by (simp add: present_def load_text_def read_file_def lstat_def)
  then show ?thesis by (simp add: receipt_steps_def)
qed

theorem export_receipt_in_order_witness:
  "receipt_steps demo_services (export_receipt demo_mode) (snd demo_recorded) = [''cancel'']"
proof -
  have "recordings (receipt_steps demo_services (export_receipt demo_mode))
      (export_recording demo_services demo_control_path demo_mode ''diagnostics'') [''cancel'']
      demo_station (snd demo_recorded)"
    using demo_recording by auto
  from export_receipt_in_order[OF this demo_no_receipt] show ?thesis by simp
qed

theorem recorded_cancel_wrote_nothing_witness:
  "entries (store demo_station) (child demo_mode output_dir) = []"
  by (rule recorded_cancel_wrote_nothing[OF demo_recording]) simp

end
