(* ===== verification/UiThemeImport.thy ===== *)
theory UiThemeImport
  imports UiExport
begin

text \<open>
  The disk checks of \<open>tools/tauri/smoke-native-ui-theme-import.py\<close>: the prepared sources, the
  imported themes with their assets, and \<open>record(step, control)\<close>, whose receipt obeys the
  same contract as the export's. The preparation of the archives and the launches (\<open>smoke\<close>) are in
  theory ImportLaunch.
\<close>

section \<open>Names\<close>

definition import_steps :: "string list" where
  "import_steps = [''cancel'', ''import'', ''duplicate'', ''invalid'', ''restart'']"

definition import_ids :: "string list" where
  "import_ids = [''user-ui-import'', ''user-ui-import-2'']"

definition import_dir :: string where
  "import_dir = [CHR 0xE5, CHR 0xAF, CHR 0xBC, CHR 0xE5, CHR 0x85, CHR 0xA5] @ '' '' @ original_word"

definition theme_word :: string where
  "theme_word = [CHR 0xE4, CHR 0xB8, CHR 0xBB, CHR 0xE9, CHR 0xA2, CHR 0x98]"

definition source_file :: string where
  "source_file = theme_word @ '' '' @ original_word @ ''.reasonix-theme''"

definition invalid_file :: string where
  "invalid_file = [CHR 0xE6, CHR 0x97, CHR 0xA0, CHR 0xE6, CHR 0x95, CHR 0x88] @ '' '' @ theme_word @ ''.reasonix-theme''"

definition source_names :: "string list" where
  "source_names = [''home.webp'', ''task.webp'', ''expected-manifest.json'', source_file, invalid_file]"

section \<open>Fingerprints and sources\<close>

definition preference_file :: "services \<Rightarrow> store \<Rightarrow> path \<Rightarrow> node_info res" where
  "preference_file sv t p =
     rbind (lstat t p) (\<lambda>i.
     rbind (rcheck (is_regular i \<and> n_uid i = sv_uid sv \<and> (n_perm i = 384 \<or> n_perm i = 420) \<and> size_of i \<le> 1048576)
              (RuntimeErr ''Theme preferences are not bounded/owned/ordinary'')) (\<lambda>_. Inr i))"

definition file_print :: "services \<Rightarrow> store \<Rightarrow> path \<Rightarrow> bool \<Rightarrow> json res" where
  "file_print sv t p is_preferences =
     rbind (if is_preferences then preference_file sv t p else private_file sv t p 8388608) (\<lambda>i.
     rbind (read_file t p) (\<lambda>b.
     Inr (JList [JStr (sv_digest sv b), JInt (stat_mode i), JInt (n_mtime i), JInt (n_inode i)])))"

text \<open>\<open>set(saved) == set(names)\<close> for the keys of a decoded document.\<close>

definition same_names :: "json list \<Rightarrow> string list \<Rightarrow> bool" where
  "same_names js ns = (list_all (\<lambda>j. list_ex (\<lambda>n. jeq j (JStr n)) ns) js
     \<and> list_all (\<lambda>n. list_ex (\<lambda>j. jeq j (JStr n)) js) ns)"

definition check_sources :: "services \<Rightarrow> store \<Rightarrow> path \<Rightarrow> json res" where
  "check_sources sv t mode =
     (let source = child mode import_dir; changed = RuntimeErr ''Theme import changed a source original'' in
      rbind (private_file sv t (child source ''originals.json'') 8192) (\<lambda>_.
      rbind (load_text sv t (child source ''originals.json'')) (\<lambda>saved.
      rbind (jiter saved) (\<lambda>keys.
      rbind (rcheck (same_names keys source_names) changed) (\<lambda>_.
      rbind (rall (\<lambda>n. rbind (file_print sv t (child source n) False) (\<lambda>f.
                       rbind (jidx saved n) (\<lambda>s. Inr (jeq f s)))) source_names) (\<lambda>ok.
      rbind (rcheck ok changed) (\<lambda>_.
      load_text sv t (child source ''expected-manifest.json''))))))))"

definition preferences_path :: "path \<Rightarrow> path" where
  "preferences_path mode = mode @ [''home'', ''Library'', ''Application Support'',
     ''io.reasonix.desktop.preview'', ''host-preferences.json'']"

definition preferences :: "services \<Rightarrow> store \<Rightarrow> path \<Rightarrow> json list res" where
  "preferences sv t mode =
     (let p = preferences_path mode in
      if \<not> present t p then Inr []
      else
        rbind (preference_file sv t p) (\<lambda>_.
        rbind (load_text sv t p) (\<lambda>data.
        case field data ''userThemes'' of
          JList themes \<Rightarrow> Inr themes
        | _ \<Rightarrow> Inl (RuntimeErr ''Theme preferences are invalid''))))"

section \<open>Imported themes\<close>

definition lower_tokens :: "json \<Rightarrow> json res" where
  "lower_tokens tokens =
     (case tokens of
        JObj kvs \<Rightarrow>
          rbind (rmap (\<lambda>kv. rbind (jstr (snd kv)) (\<lambda>v. Inr (fst kv, JStr (lower v)))) kvs) (\<lambda>kvs'. Inr (JObj kvs'))
      | _ \<Rightarrow> Inl (AttributeErr ''items''))"

definition normalized_tokens :: "json \<Rightarrow> json res" where
  "normalized_tokens manifest =
     rbind (jidx manifest ''tokens'') (\<lambda>schemes.
     case schemes of
       JObj kvs \<Rightarrow> rbind (rmap (\<lambda>kv. rbind (lower_tokens (snd kv)) (\<lambda>v. Inr (fst kv, v))) kvs) (\<lambda>kvs'. Inr (JObj kvs'))
     | _ \<Rightarrow> Inl (AttributeErr ''items''))"

definition asset_scenes :: "(string \<times> string \<times> string) list" where
  "asset_scenes = [(''background'', ''background.webp'', ''home.webp''),
     (''taskBackground'', ''background-task.webp'', ''task.webp'')]"

definition check_scene ::
    "services \<Rightarrow> store \<Rightarrow> path \<Rightarrow> path \<Rightarrow> json \<Rightarrow> json \<Rightarrow> string \<times> string \<times> string \<Rightarrow> unit res" where
  "check_scene sv t mode assets manifest theme scene =
     (case scene of (key, destination, source) \<Rightarrow>
        rbind (jget theme key) (\<lambda>have.
        rbind (jidx manifest key) (\<lambda>base.
        rbind (case base of JObj kvs \<Rightarrow> Inr (JObj (dict_union kvs [(''image'', JStr destination)]))
               | _ \<Rightarrow> Inl (TypeErr ''unsupported operand'')) (\<lambda>expected.
        rbind (rcheck (jeq have expected) (RuntimeErr ''Imported scene background metadata changed'')) (\<lambda>_.
        rbind (lstat t (child assets destination)) (\<lambda>i.
        rbind (rcheck (is_regular i \<and> n_uid i = sv_uid sv \<and> size_of i \<le> 8388608)
                 (RuntimeErr ''Imported image bytes changed'')) (\<lambda>_.
        rbind (read_file t (child assets destination)) (\<lambda>b.
        rbind (read_file t (child (child mode import_dir) source)) (\<lambda>original.
        rcheck (b = original) (RuntimeErr ''Imported image bytes changed''))))))))))"

definition check_theme :: "services \<Rightarrow> store \<Rightarrow> path \<Rightarrow> path \<Rightarrow> json \<Rightarrow> json \<Rightarrow> unit res" where
  "check_theme sv t mode asset_root manifest theme =
     rbind (rall (\<lambda>key. rbind (jget theme key) (\<lambda>v. rbind (jidx manifest key) (\<lambda>w. Inr (jeq v w))))
              [''name'', ''author'', ''description'', ''license'', ''baseStyle'']) (\<lambda>meta.
     rbind (rcheck meta (RuntimeErr ''Imported theme metadata/tokens changed'')) (\<lambda>_.
     rbind (normalized_tokens manifest) (\<lambda>tokens.
     rbind (jget theme ''tokens'') (\<lambda>have.
     rbind (rcheck (jeq have tokens) (RuntimeErr ''Imported theme tokens changed beyond hex normalization'')) (\<lambda>_.
     rbind (rcheck (jeq (field theme ''density'') (JStr ''compact'') \<and> jeq (field theme ''corners'') (JStr ''round''))
              (RuntimeErr ''Imported theme recipes changed'')) (\<lambda>_.
     rbind (rbind (jidx theme ''id'') jstr) (\<lambda>tid.
     let assets = child asset_root tid in
     rbind (lstat t assets) (\<lambda>i.
     rbind (rcheck (n_kind i = Directory \<and> n_uid i = sv_uid sv)
              (RuntimeErr ''Theme asset directory is not owned and ordinary'')) (\<lambda>_.
     rbind (rcheck (same_set (map (\<lambda>p. [last p]) (entries t assets)) [[''background.webp''], [''background-task.webp'']])
              (RuntimeErr ''Imported asset names are invalid'')) (\<lambda>_.
     rbind (rmap (check_scene sv t mode assets manifest theme) asset_scenes) (\<lambda>_. Inr ())))))))))))"

definition check_themes :: "services \<Rightarrow> store \<Rightarrow> path \<Rightarrow> nat \<Rightarrow> json list res" where
  "check_themes sv t mode expected_count =
     rbind (check_sources sv t mode) (\<lambda>manifest.
     rbind (preferences sv t mode) (\<lambda>themes.
     rbind (rmap (\<lambda>theme. jget theme ''id'') themes) (\<lambda>ids.
     let wanted = take expected_count import_ids;
         asset_root = with_name (preferences_path mode) ''theme-assets'' in
     rbind (rcheck (jeq (JList ids) (JList (map JStr wanted))) (RuntimeErr ''Imported theme count/IDs are invalid'')) (\<lambda>_.
     rbind (if present t asset_root then list_dir t asset_root else Inr []) (\<lambda>es.
     rbind (rcheck (same_set (map (\<lambda>p. [last p]) es) (map (\<lambda>i. [i]) wanted))
              (RuntimeErr ''Theme import left unexpected/staging asset directories'')) (\<lambda>_.
     rbind (rmap (check_theme sv t mode asset_root manifest) themes) (\<lambda>_. Inr themes)))))))"

section \<open>Recording a step\<close>

definition import_root_name :: string where
  "import_root_name = ''reasonix-native-ui-theme-import-''"

definition check_import_control :: "int list \<Rightarrow> path \<Rightarrow> string \<Rightarrow> json \<Rightarrow> unit res" where
  "check_import_control pids mode step state =
     rbind (rall (\<lambda>kv. rbind (jidx state (fst kv)) (\<lambda>v. Inr (jeq v (JStr (snd kv)))))
              [(''phase'', step), (''sourceFile'', path_str (child (child mode import_dir) source_file)),
               (''invalidFile'', path_str (child (child mode import_dir) invalid_file))]) (\<lambda>paths.
     rbind (if paths then rall (live_pid pids state) [''hostPid'', ''sidecarPid''] else Inr False) (\<lambda>ok.
     rcheck ok (RuntimeErr ''Import UI step/path/live processes do not match'')))"

definition expected_count :: "string \<Rightarrow> nat" where
  "expected_count step = (if step = ''cancel'' then 0 else if step = ''import'' then 1 else 2)"

text \<open>What a step keeps for the later ones, and what it compares with what was kept.\<close>

definition keep_import ::
    "services \<Rightarrow> path \<Rightarrow> string \<Rightarrow> json list \<Rightarrow> json \<Rightarrow> (station, json) prog" where
  "keep_import sv mode step themes prior =
     (let first = child mode ''first-imported-theme.json''; after = child mode ''after-duplicate-preferences.json'';
          p = preferences_path mode in
      if step = ''import''
      then pseq (edit_store (touch_new sv first))
          (pseq (edit_store (\<lambda>t. case themes of [] \<Rightarrow> Inl (IndexErr ''list index out of range'')
                                 | th # _ \<Rightarrow> overwrite sv first (sv_dumps sv th) t)) (ret prior))
      else if step \<in> set [''duplicate'', ''invalid'', ''restart'']
      then
        pbind (on_store (\<lambda>t. private_file sv t first 1048576)) (\<lambda>_.
        pbind (on_store (\<lambda>t. load_text sv t first)) (\<lambda>kept.
        pseq (require (themes \<noteq> [] \<and> jeq (hd themes) kept)
                (RuntimeErr ''Duplicate import changed the first saved theme''))
       (if step = ''duplicate''
        then pseq (edit_store (touch_new sv after))
            (pseq (edit_store (\<lambda>t. rbind (read_file t p) (\<lambda>b. overwrite sv after b t)))
            (pbind (on_store (\<lambda>t. file_print sv t p True)) (\<lambda>f. ret (jput ''preferences'' f prior))))
        else
          pseq (on_store (\<lambda>t. rbind (private_file sv t after 1048576) (\<lambda>_.
                  rbind (read_file t p) (\<lambda>b. rbind (read_file t after) (\<lambda>a.
                  rbind (rcheck (b = a) (RuntimeErr ''Invalid import/restart changed saved preferences'')) (\<lambda>_.
                  rbind (file_print sv t p True) (\<lambda>f. rbind (jidx prior ''preferences'') (\<lambda>saved.
                  rcheck (jeq f saved) (RuntimeErr ''Invalid import/restart changed saved preferences'')))))))))
          (ret prior))))
      else ret prior)"

definition import_receipt :: "path \<Rightarrow> path" where
  "import_receipt mode = child mode ''ui-import-receipt.json''"

definition import_directories :: "path \<Rightarrow> path list" where
  "import_directories mode = [butlast mode, mode, child mode ''home'', child mode ''tmp'', child mode import_dir]"

definition record_import :: "services \<Rightarrow> path \<Rightarrow> string \<Rightarrow> (station, unit) prog" where
  "record_import sv control step =
     pseq (require (step \<in> set import_steps) (ValueErr ''Unknown import UI step''))
    (pbind (on_store (\<lambda>t. rbind (private_file sv t control 8192) (\<lambda>_. load_text sv t control))) (\<lambda>state.
     pbind (lift (fixture_mode sv import_root_name ''Import control does not identify a private fixture'' state)) (\<lambda>mode.
     pseq (for_each (\<lambda>d. on_store (\<lambda>t. own_directory sv 448
             ''Import fixture directory is not private/owned/ordinary'' t d)) (import_directories mode))
    (pseq (tries (\<lambda>s. check_import_control (living s) mode step state))
    (pbind (reads (\<lambda>s. present (store s) (import_receipt mode))) (\<lambda>has_receipt.
     pbind (on_store (\<lambda>t. prior_receipt sv t (import_receipt mode))) (\<lambda>prior.
     pbind (lift (step_index ''Import UI receipt order is invalid'' import_steps step prior)) (\<lambda>i.
     pbind (on_store (\<lambda>t. check_themes sv t mode (expected_count step))) (\<lambda>themes.
     pbind (keep_import sv mode step themes prior) (\<lambda>prior'.
     pseq (commit_step sv control (import_receipt mode) state import_steps i step has_receipt prior')
     (say (''Actual disk check '' @ step @ '' passed; panel/preview/error evidence remains separate''))))))))))))"

section \<open>The receipt of a run\<close>

definition import_recording ::
    "services \<Rightarrow> path \<Rightarrow> path \<Rightarrow> string \<Rightarrow> station \<Rightarrow> station \<Rightarrow> bool" where
  "import_recording sv control mode step s s' \<longleftrightarrow>
     record_import sv control step s = (Inr (), s') \<and> texts_agree sv \<and> control \<noteq> import_receipt mode
     \<and> (\<exists>state. load_text sv (store s) control = Inr state
          \<and> fixture_mode sv import_root_name ''Import control does not identify a private fixture'' state = Inr mode)"

lemma keep_import_effect:
  assumes "keep_import sv mode step themes prior s = (Inr prior', s')" and "is_dict prior"
  shows "is_dict prior' \<and> field prior' ''steps'' = field prior ''steps''"
    and "map_of (store s') (import_receipt mode) = map_of (store s) (import_receipt mode)"
proof -
  show "is_dict prior' \<and> field prior' ''steps'' = field prior ''steps''"
    using assms unfolding keep_import_def Let_def
    by (auto simp: ok_simps is_dict_jput simp del: is_dict_def split: if_splits)
  have "keeps (holds_node (import_receipt mode) x) (keep_import sv mode step themes prior)" for x
    unfolding keep_import_def Let_def
    by (intro keeps_rules keeps_basic keeps_edit_store)
      (auto simp: import_receipt_def overwrite_effect(1) split: list.splits)
  from keeps_node[OF this assms(1) refl]
  show "map_of (store s') (import_receipt mode) = map_of (store s) (import_receipt mode)" .
qed

lemma record_import_ok:
  assumes "record_import sv control step s = (Inr (), s')"
  obtains state mode prior prior' themes i s1 s2 where
    "load_text sv (store s) control = Inr state"
    "fixture_mode sv import_root_name ''Import control does not identify a private fixture'' state = Inr mode"
    "prior_receipt sv (store s) (import_receipt mode) = Inr prior"
    "step_index ''Import UI receipt order is invalid'' import_steps step prior = Inr i"
    "check_themes sv (store s) mode (expected_count step) = Inr themes"
    "keep_import sv mode step themes prior s = (Inr prior', s1)"
    "commit_step sv control (import_receipt mode) state import_steps i step
       (present (store s) (import_receipt mode)) prior' s1 = (Inr (), s2)"
    "store s' = store s2"
proof -
  have reads: "u = v" if "for_each (\<lambda>d. on_store (g d)) ds v = (Inr (), u)" for g :: "path \<Rightarrow> store \<Rightarrow> unit res" and ds u v
    using that by (induction ds arbitrary: v) (auto simp: ok_simps)
  show ?thesis
    using assms that unfolding record_import_def
    by (auto simp: ok_simps dest!: reads)
qed

interpretation theme_import: ordered_receipt "receipt_steps sv (import_receipt mode)"
    "import_recording sv control mode" import_steps
  for sv control mode
proof
  fix step s s' assume rec: "import_recording sv control mode step s s'"
  then have run: "record_import sv control step s = (Inr (), s')" and sv: "texts_agree sv"
    and other: "control \<noteq> import_receipt mode"
    by (auto simp: import_recording_def)
  from run obtain state mode' prior prior' themes i s1 s2 where r:
    "load_text sv (store s) control = Inr state"
    "fixture_mode sv import_root_name ''Import control does not identify a private fixture'' state = Inr mode'"
    "prior_receipt sv (store s) (import_receipt mode') = Inr prior"
    "step_index ''Import UI receipt order is invalid'' import_steps step prior = Inr i"
    "keep_import sv mode' step themes prior s = (Inr prior', s1)"
    "commit_step sv control (import_receipt mode') state import_steps i step
       (present (store s) (import_receipt mode')) prior' s1 = (Inr (), s2)"
    "store s' = store s2"
    by (rule record_import_ok)
  have same: "mode' = mode" using rec r(1,2) by (auto simp: import_recording_def)
  note i = step_index_ok[OF r(4)]
  note out = keep_import_effect[OF r(5)]
  have perm: "\<exists>n. map_of (store s1) (import_receipt mode') = Some n \<and> n_perm n = 384"
    if "present (store s) (import_receipt mode')"
    using that r(3) out(2) i by (auto simp: prior_receipt_def private_file_def lstat_def split: option.splits)
  have "load_text sv (store s2) (import_receipt mode') = Inr (append_step step prior')"
    by (rule commit_step_effect[OF r(6) perm]) (use other same sv in auto)
  then have "receipt_steps sv (import_receipt mode) s' = take (Suc i) import_steps"
    using append_step_steps[of prior' i import_steps] out(1) i same r(7)
    by (simp add: receipt_steps_def strings_back del: is_dict_def map_map)
  moreover have "receipt_steps sv (import_receipt mode) s = take i import_steps"
    using prior_receipt_steps[OF r(3)] i same by simp
  ultimately show "\<exists>i < length import_steps. import_steps ! i = step
      \<and> receipt_steps sv (import_receipt mode) s = take i import_steps
      \<and> receipt_steps sv (import_receipt mode) s' = take (Suc i) import_steps"
    using i by blast
qed

text \<open>The receipt of a theme import only ever holds a prefix of cancel, import, duplicate,
  invalid, restart, in that order.\<close>

lemma import_receipt_in_order:
  assumes "recordings (receipt_steps sv (import_receipt mode)) (import_recording sv control mode) ss s s'"
    and "receipt_steps sv (import_receipt mode) s = []"
  shows "receipt_steps sv (import_receipt mode) s' = ss \<and> ss = take (length ss) import_steps"
  by (rule theme_import.prefix_only[OF assms])

text \<open>C21. A recorded invalid import or restart found the preferences byte for byte as they were
  kept after the duplicate import, and two imported themes.\<close>

theorem recorded_restart_kept_preferences:
  assumes "import_recording sv control mode step s s'" and "step = ''invalid'' \<or> step = ''restart''"
  shows "\<exists>b themes. read_file (store s) (preferences_path mode) = Inr b
    \<and> read_file (store s) (child mode ''after-duplicate-preferences.json'') = Inr b
    \<and> preferences sv (store s) mode = Inr themes \<and> map (\<lambda>t. field t ''id'') themes = map JStr import_ids"
proof -
  have run: "record_import sv control step s = (Inr (), s')" using assms(1) by (simp add: import_recording_def)
  from run obtain state mode' prior prior' themes i s1 s2 where r:
    "load_text sv (store s) control = Inr state"
    "fixture_mode sv import_root_name ''Import control does not identify a private fixture'' state = Inr mode'"
    "check_themes sv (store s) mode' (expected_count step) = Inr themes"
    "keep_import sv mode' step themes prior s = (Inr prior', s1)"
    by (rule record_import_ok)
  have same: "mode' = mode" using assms(1) r(1,2) by (auto simp: import_recording_def)
  have count: "expected_count step = 2" using assms(2) by (auto simp: expected_count_def)
  have bytes: "\<exists>b. read_file (store s) (preferences_path mode) = Inr b
      \<and> read_file (store s) (child mode ''after-duplicate-preferences.json'') = Inr b"
    using r(4) assms(2) unfolding same keep_import_def Let_def by (auto simp: ok_simps)
  have "\<exists>ids. preferences sv (store s) mode = Inr themes \<and> rmap (\<lambda>theme. jget theme ''id'') themes = Inr ids
      \<and> ids = map JStr import_ids"
    using r(3) unfolding same count check_themes_def Let_def
    by (auto simp: import_ids_def jeq_strings[of "JList _", simplified] jeq_string_list[of _ import_ids, unfolded import_ids_def, simplified])
  moreover have "map (\<lambda>t. field t ''id'') themes = ids" if "rmap (\<lambda>theme. jget theme ''id'') themes = Inr ids" for ids
    using that
    by (induction themes arbitrary: ids)
      (auto simp: jget_def jget_or_def field_def split: json.splits option.splits)
  ultimately show ?thesis using bytes by blast
qed

end
