(* ===== verification/ImportWitness.thy ===== *)
theory ImportWitness
  imports UiThemeImport ExportWitness
begin

text \<open>
  A private theme-import fixture, before its first step and after its duplicate import: the
  sources and their fingerprints, two imported themes with their assets, and the files the
  recorder keeps.
\<close>

definition imp_root :: path where
  "imp_root = [''private'', ''tmp'', ''reasonix-native-ui-theme-import-00000000000000000000000000000000'']"

definition imp_mode :: path where
  "imp_mode = child imp_root ''managed''"

definition imp_control :: "string \<Rightarrow> json" where
  "imp_control phase = JObj
     [(''root'', JStr (path_str imp_root)), (''managed'', JBool True), (''phase'', JStr phase),
      (''sourceFile'', JStr (path_str (child (child imp_mode import_dir) source_file))),
      (''invalidFile'', JStr (path_str (child (child imp_mode import_dir) invalid_file))),
      (''hostPid'', JInt 1), (''sidecarPid'', JInt 2)]"

definition imp_print :: "string \<Rightarrow> json" where
  "imp_print b = JList [JStr b, JInt 33152, JInt 0, JInt 1]"

definition imp_manifest :: json where
  "imp_manifest = JObj
     [(''name'', JStr ''N''), (''author'', JStr ''A''), (''description'', JStr ''D''), (''license'', JStr ''L''),
      (''baseStyle'', JStr ''graphite''), (''tokens'', JObj [(''light'', JObj [(''bg'', JStr ''#FFF'')])]),
      (''background'', JObj [(''image'', JStr ''home.webp'')]), (''taskBackground'', JObj [(''image'', JStr ''task.webp'')])]"

definition imp_theme :: "string \<Rightarrow> json" where
  "imp_theme tid = JObj
     [(''id'', JStr tid), (''name'', JStr ''N''), (''author'', JStr ''A''), (''description'', JStr ''D''),
      (''license'', JStr ''L''), (''baseStyle'', JStr ''graphite''),
      (''tokens'', JObj [(''light'', JObj [(''bg'', JStr ''#fff'')])]),
      (''density'', JStr ''compact''), (''corners'', JStr ''round''),
      (''background'', JObj [(''image'', JStr ''background.webp'')]),
      (''taskBackground'', JObj [(''image'', JStr ''background-task.webp'')])]"

definition imp_originals :: json where
  "imp_originals = JObj
     [(''home.webp'', imp_print ''h''), (''task.webp'', imp_print ''t''),
      (''expected-manifest.json'', imp_print [CHR 0x01]), (source_file, imp_print ''s''), (invalid_file, imp_print ''i'')]"

definition imp_preferences :: json where
  "imp_preferences = JObj [(''userThemes'', JList (map imp_theme import_ids))]"

definition imp_receipt_json :: "string list \<Rightarrow> json" where
  "imp_receipt_json ss = JObj ((''steps'', JList (map JStr ss)) # (if 2 < length ss then [(''preferences'', imp_print [CHR 0x02])] else []))"

definition imp_docs :: "json list" where
  "imp_docs = [imp_originals, imp_manifest, imp_preferences, imp_theme ''user-ui-import'',
     imp_control ''cancel'', imp_control ''import'', imp_receipt_json [''cancel''],
     imp_control ''invalid'', imp_control ''restart'', imp_receipt_json (take 3 import_steps),
     imp_receipt_json (take 4 import_steps)]"

definition imp_services :: services where
  "imp_services = table_services imp_docs"

definition imp_file :: "string \<Rightarrow> node_info" where
  "imp_file b = \<lparr>n_kind = Regular b, n_uid = 501, n_perm = 384, n_mtime = 0, n_inode = 1\<rparr>"

definition imp_folder :: node_info where
  "imp_folder = \<lparr>n_kind = Directory, n_uid = 501, n_perm = 448, n_mtime = 0, n_inode = 1\<rparr>"

definition imp_control_path :: path where
  "imp_control_path = [''private'', ''tmp'', ''c.json'']"

definition imp_store :: "string \<Rightarrow> store" where
  "imp_store control =
     (imp_control_path, imp_file control)
     # map (\<lambda>d. (d, imp_folder)) (import_directories imp_mode)
     @ [(child (child imp_mode import_dir) ''originals.json'', imp_file [CHR 0x00]),
        (child (child imp_mode import_dir) ''home.webp'', imp_file ''h''),
        (child (child imp_mode import_dir) ''task.webp'', imp_file ''t''),
        (child (child imp_mode import_dir) ''expected-manifest.json'', imp_file [CHR 0x01]),
        (child (child imp_mode import_dir) source_file, imp_file ''s''),
        (child (child imp_mode import_dir) invalid_file, imp_file ''i'')]"

definition imp_assets :: "string \<Rightarrow> store" where
  "imp_assets tid =
     (let d = child (with_name (preferences_path imp_mode) ''theme-assets'') tid in
      [(d, imp_folder), (child d ''background.webp'', imp_file ''h''), (child d ''background-task.webp'', imp_file ''t'')])"

definition imp_start :: station where
  "imp_start = \<lparr>store = imp_store [CHR 0x04], living = [1, 2], said = []\<rparr>"

definition imp_duplicated :: station where
  "imp_duplicated = \<lparr>store = imp_store [CHR 0x07]
     @ [(preferences_path imp_mode, imp_file [CHR 0x02]),
        (with_name (preferences_path imp_mode) ''theme-assets'', imp_folder),
        (child imp_mode ''first-imported-theme.json'', imp_file [CHR 0x03]),
        (child imp_mode ''after-duplicate-preferences.json'', imp_file [CHR 0x02]),
        (import_receipt imp_mode, imp_file [CHR 0x09])]
     @ concat (map imp_assets import_ids), living = [1, 2], said = []\<rparr>"

lemma imp_texts: "texts_agree imp_services"
  unfolding imp_services_def by (rule table_texts_agree) (simp add: imp_docs_def)

definition imp_recorded :: "unit res \<times> station" where
  "imp_recorded = record_import imp_services imp_control_path ''cancel'' imp_start"

definition imp_invalid :: "unit res \<times> station" where
  "imp_invalid = record_import imp_services imp_control_path ''invalid'' imp_duplicated"

lemma imp_recorded_ok: "fst imp_recorded = Inr ()"
  by code_simp

lemma imp_invalid_ok: "fst imp_invalid = Inr ()"
  by code_simp

lemma imp_loads:
  "load_text imp_services (store imp_start) imp_control_path = Inr (imp_control ''cancel'')"
  "load_text imp_services (store imp_duplicated) imp_control_path = Inr (imp_control ''invalid'')"
  by (simp_all add: imp_services_def table_services_def table_loads_def imp_docs_def imp_start_def
      imp_duplicated_def imp_store_def imp_file_def load_text_def read_file_def lstat_def)

lemma imp_mode_of:
  "fixture_mode imp_services import_root_name ''Import control does not identify a private fixture''
     (imp_control ''cancel'') = Inr imp_mode"
  "fixture_mode imp_services import_root_name ''Import control does not identify a private fixture''
     (imp_control ''invalid'') = Inr imp_mode"
  by code_simp+

lemma imp_apart: "imp_control_path \<noteq> import_receipt imp_mode"
  by code_simp

lemma imp_recording:
  "import_recording imp_services imp_control_path imp_mode ''cancel'' imp_start (snd imp_recorded)"
  "import_recording imp_services imp_control_path imp_mode ''invalid'' imp_duplicated (snd imp_invalid)"
proof -
  have "record_import imp_services imp_control_path ''cancel'' imp_start = (Inr (), snd imp_recorded)"
    "record_import imp_services imp_control_path ''invalid'' imp_duplicated = (Inr (), snd imp_invalid)"
    using imp_recorded_ok imp_invalid_ok by (simp_all add: imp_recorded_def imp_invalid_def prod_eq_iff)
  then show "import_recording imp_services imp_control_path imp_mode ''cancel'' imp_start (snd imp_recorded)"
    "import_recording imp_services imp_control_path imp_mode ''invalid'' imp_duplicated (snd imp_invalid)"
    unfolding import_recording_def using imp_texts imp_loads imp_mode_of imp_apart by blast+
qed

lemma imp_no_receipt: "receipt_steps imp_services (import_receipt imp_mode) imp_start = []"
proof -
  have "\<not> present (store imp_start) (import_receipt imp_mode)" by code_simp
  then have "load_text imp_services (store imp_start) (import_receipt imp_mode)
      = Inl (OSErr (path_str (import_receipt imp_mode)))"
    by (simp add: present_def load_text_def read_file_def lstat_def)
  then show ?thesis by (simp add: receipt_steps_def)
qed

lemma import_receipt_in_order_example:
  "receipt_steps imp_services (import_receipt imp_mode) (snd imp_recorded) = [''cancel'']"
proof -
  have "recordings (receipt_steps imp_services (import_receipt imp_mode))
      (import_recording imp_services imp_control_path imp_mode) [''cancel''] imp_start (snd imp_recorded)"
    using imp_recording(1) by auto
  from import_receipt_in_order[OF this imp_no_receipt] show ?thesis by simp
qed

theorem recorded_restart_kept_preferences_witness:
  "\<exists>b. read_file (store imp_duplicated) (preferences_path imp_mode) = Inr b
    \<and> read_file (store imp_duplicated) (child imp_mode ''after-duplicate-preferences.json'') = Inr b"
  using recorded_restart_kept_preferences[OF imp_recording(2)] by blast

end
