(* ===== verification/MoneyTask.thy ===== *)
theory MoneyTask
  imports Json Texts "HOL-Library.List_Lexorder" "HOL-Library.Char_ord"
begin

text \<open>
  The benchmark task \<open>migrate-signature-3packages\<close>: \<open>common/money.py\<close> formats an amount and takes
  a currency since the change, the functions of \<open>pkgs/\<close> still call it with one argument, and
  \<open>check.py\<close> decides whether a migration of the call sites is complete. A function of a
  package is its name and what it appends for each row.
\<close>

section \<open>The packages\<close>

text \<open>\<open>str(value)\<close>, or \<open>fmt_amount(value, ...)\<close> with these further arguments.\<close>

datatype render = Plain | Amount "string list"

type_synonym py_module = "string \<times> (string \<times> render) list"
type_synonym py_package = "string \<times> py_module list"

definition is_amount :: "render \<Rightarrow> bool" where
  "is_amount r = (r \<noteq> Plain)"

section \<open>Formatting an amount\<close>

text \<open>\<open>%02d\<close> of a number below a hundred, and \<open>fmt_amount\<close>; \<open>//\<close> and \<open>%\<close> round down.\<close>

definition pad2 :: "nat \<Rightarrow> string" where
  "pad2 n = (if n < 10 then ''0'' else []) @ digits n"

definition fmt_amount :: "int \<Rightarrow> string \<Rightarrow> string" where
  "fmt_amount cents currency =
     int_text (cents div 100) @ ''.'' @ pad2 (nat (cents mod 100)) @ '' '' @ currency"

text \<open>Reading an amount back: the sign belongs to the whole units only.\<close>

definition read_nat :: "string \<Rightarrow> nat" where
  "read_nat = foldl (\<lambda>n c. 10 * n + (of_char c - 48)) 0"

definition read_int :: "string \<Rightarrow> int" where
  "read_int s = (case s of
       [] \<Rightarrow> 0
     | c # r \<Rightarrow> if c = CHR ''-'' then - int (read_nat r) else int (read_nat s))"

definition read_amount :: "string \<Rightarrow> int \<times> string" where
  "read_amount s =
     (let w = takeWhile (\<lambda>c. c \<noteq> CHR ''.'') s; r = drop (length w + 1) s in
      (100 * read_int w + int (read_nat (take 2 r)), drop 3 r))"

section \<open>Functions of the packages\<close>

text \<open>\<open>int(x)\<close> of a decoded value; digits of a text may be grouped by single underscores.\<close>

fun grouped_digits :: "string \<Rightarrow> bool" where
  "grouped_digits [] = False"
| "grouped_digits [c] = (c \<in> set ''0123456789'')"
| "grouped_digits (c # d # s) =
     (c \<in> set ''0123456789''
      \<and> (if d = CHR ''_'' then grouped_digits s else grouped_digits (d # s)))"

definition py_int :: "json \<Rightarrow> int res" where
  "py_int j =
     (case j of
        JInt i \<Rightarrow> Inr i
      | JBool b \<Rightarrow> Inr (if b then 1 else 0)
      | JFloat q \<Rightarrow> Inr (trunc q)
      | JStr s \<Rightarrow>
          (let t = strip s; u = (if t \<noteq> [] \<and> hd t \<in> set ''+-'' then tl t else t) in
           if grouped_digits u
           then Inr ((if hd t = CHR ''-'' then -1 else 1)
                       * int (read_nat (filter (\<lambda>c. c \<noteq> CHR ''_'') u)))
           else Inl (ValueErr ''invalid literal for int() with base 10''))
      | _ \<Rightarrow> Inl (TypeErr ''int() argument must be a string, a bytes-like object or a real number''))"

definition render_value :: "render \<Rightarrow> int \<Rightarrow> string res" where
  "render_value r v =
     (case r of
        Plain \<Rightarrow> Inr (int_text v)
      | Amount [] \<Rightarrow>
          Inl (TypeErr (''fmt_amount() missing 1 required positional argument: '' @ [CHR 0x27] @ ''currency'' @ [CHR 0x27]))
      | Amount [currency] \<Rightarrow> Inr (fmt_amount v currency)
      | Amount more \<Rightarrow>
          Inl (TypeErr (''fmt_amount() takes 2 positional arguments but '' @ digits (length more + 1) @ '' were given'')))"

definition call_site :: "render \<Rightarrow> json list \<Rightarrow> string list res" where
  "call_site r =
     rmap (\<lambda>row. rbind (jget_or row ''cents'' (JInt 0)) (\<lambda>c. rbind (py_int c) (render_value r)))"

section \<open>The check\<close>

definition probe_row :: json where
  "probe_row = JObj [(''cents'', JInt 1234)]"

text \<open>What the check finds wrong with one function; another exception than a type error would end
  the check, and does not occur for the row it passes.\<close>

definition check_site :: "string \<Rightarrow> string \<Rightarrow> string \<times> render \<Rightarrow> string option res" where
  "check_site pkg stem site =
     (let where_is = pkg @ ''/'' @ stem @ ''.'' @ fst site in
      case call_site (snd site) [probe_row] of
        Inl (TypeErr m) \<Rightarrow> Inr (Some (where_is @ '': '' @ m))
      | Inl e \<Rightarrow> Inl e
      | Inr (v # _) \<Rightarrow> Inr (if v \<in> set [''1234'', ''12.34 USD''] then None else Some (where_is @ '': '' @ v))
      | Inr [] \<Rightarrow> Inr None)"

text \<open>A module whose text has no \<open>fmt_amount(\<close> is passed over; \<open>dir(m)\<close> is sorted.\<close>

definition check_module :: "string \<Rightarrow> py_module \<Rightarrow> string list res" where
  "check_module pkg m =
     (if \<not> list_ex (\<lambda>s. is_amount (snd s)) (snd m) then Inr []
      else rbind (rmap (check_site pkg (fst m)) (sort_key fst (snd m))) (\<lambda>found.
           Inr (concat (map (\<lambda>b. case b of None \<Rightarrow> [] | Some t \<Rightarrow> [t]) found))))"

definition check_package :: "py_package \<Rightarrow> string list res" where
  "check_package p =
     rbind (rmap (check_module (fst p)) (sort_key (\<lambda>m. fst m @ ''.py'') (snd p))) (\<lambda>bs. Inr (concat bs))"

definition check_packages :: "py_package list \<Rightarrow> string list res" where
  "check_packages ps = rbind (rmap check_package ps) (\<lambda>bs. Inr (concat bs))"

text \<open>The lines printed and the exit status.\<close>

definition check_report :: "string list \<Rightarrow> string list \<times> int" where
  "check_report bad =
     (if bad \<noteq> [] then (''FAIL:'' # map (\<lambda>b. ''  '' @ b) (take 10 bad), 1) else ([''OK''], 0))"

definition run_check :: "py_package list \<Rightarrow> (string list \<times> int) res" where
  "run_check ps = rbind (check_packages ps) (\<lambda>bad. Inr (check_report bad))"

end
