(* ===== verification/MoneyPackages.thy ===== *)
theory MoneyPackages
  imports MoneyTask
begin

text \<open>
  The three packages of the benchmark task as the repository has them, one definition per module:
  the name of each function with what it appends for a row. Every function is the loop of
  \<open>call_site\<close> over the rows.
\<close>

section \<open>pkgs/alpha\<close>

definition alpha_batch_2 :: py_module where
  "alpha_batch_2 = (''batch_2'',
     [(''collect_batch_0'', Plain),
      (''summarise_batch_1'', Amount []),
      (''validate_batch_2'', Plain),
      (''expand_batch_3'', Plain),
      (''merge_batch_4'', Amount []),
      (''filter_batch_5'', Plain),
      (''rank_batch_6'', Plain),
      (''tally_batch_7'', Amount []),
      (''audit_batch_8'', Plain)])"

definition alpha_credit_9 :: py_module where
  "alpha_credit_9 = (''credit_9'',
     [(''tally_credit_0'', Amount []),
      (''audit_credit_1'', Plain),
      (''emit_credit_2'', Plain),
      (''load_credit_3'', Amount []),
      (''render_credit_4'', Plain),
      (''collect_credit_5'', Plain),
      (''summarise_credit_6'', Amount []),
      (''validate_credit_7'', Plain),
      (''expand_credit_8'', Plain)])"

definition alpha_invoice_0 :: py_module where
  "alpha_invoice_0 = (''invoice_0'',
     [(''load_invoice_0'', Amount []),
      (''render_invoice_1'', Plain),
      (''collect_invoice_2'', Plain),
      (''summarise_invoice_3'', Amount []),
      (''validate_invoice_4'', Plain),
      (''expand_invoice_5'', Plain),
      (''merge_invoice_6'', Amount []),
      (''filter_invoice_7'', Plain),
      (''rank_invoice_8'', Plain)])"

definition alpha_ledger_1 :: py_module where
  "alpha_ledger_1 = (''ledger_1'',
     [(''render_ledger_0'', Plain),
      (''collect_ledger_1'', Plain),
      (''summarise_ledger_2'', Amount []),
      (''validate_ledger_3'', Plain),
      (''expand_ledger_4'', Plain),
      (''merge_ledger_5'', Amount []),
      (''filter_ledger_6'', Plain),
      (''rank_ledger_7'', Plain),
      (''tally_ledger_8'', Amount [])])"

definition alpha_payout_5 :: py_module where
  "alpha_payout_5 = (''payout_5'',
     [(''expand_payout_0'', Plain),
      (''merge_payout_1'', Amount []),
      (''filter_payout_2'', Plain),
      (''rank_payout_3'', Plain),
      (''tally_payout_4'', Amount []),
      (''audit_payout_5'', Plain),
      (''emit_payout_6'', Plain),
      (''load_payout_7'', Amount []),
      (''render_payout_8'', Plain)])"

definition alpha_quota_8 :: py_module where
  "alpha_quota_8 = (''quota_8'',
     [(''rank_quota_0'', Plain),
      (''tally_quota_1'', Amount []),
      (''audit_quota_2'', Plain),
      (''emit_quota_3'', Plain),
      (''load_quota_4'', Amount []),
      (''render_quota_5'', Plain),
      (''collect_quota_6'', Plain),
      (''summarise_quota_7'', Amount []),
      (''validate_quota_8'', Plain)])"

definition alpha_rebate_4 :: py_module where
  "alpha_rebate_4 = (''rebate_4'',
     [(''validate_rebate_0'', Plain),
      (''expand_rebate_1'', Plain),
      (''merge_rebate_2'', Amount []),
      (''filter_rebate_3'', Plain),
      (''rank_rebate_4'', Plain),
      (''tally_rebate_5'', Amount []),
      (''audit_rebate_6'', Plain),
      (''emit_rebate_7'', Plain),
      (''load_rebate_8'', Amount [])])"

definition alpha_refund_7 :: py_module where
  "alpha_refund_7 = (''refund_7'',
     [(''filter_refund_0'', Plain),
      (''rank_refund_1'', Plain),
      (''tally_refund_2'', Amount []),
      (''audit_refund_3'', Plain),
      (''emit_refund_4'', Plain),
      (''load_refund_5'', Amount []),
      (''render_refund_6'', Plain),
      (''collect_refund_7'', Plain),
      (''summarise_refund_8'', Amount [])])"

definition alpha_shipment_6 :: py_module where
  "alpha_shipment_6 = (''shipment_6'',
     [(''merge_shipment_0'', Amount []),
      (''filter_shipment_1'', Plain),
      (''rank_shipment_2'', Plain),
      (''tally_shipment_3'', Amount []),
      (''audit_shipment_4'', Plain),
      (''emit_shipment_5'', Plain),
      (''load_shipment_6'', Amount []),
      (''render_shipment_7'', Plain),
      (''collect_shipment_8'', Plain)])"

definition alpha_tariff_10 :: py_module where
  "alpha_tariff_10 = (''tariff_10'',
     [(''audit_tariff_0'', Plain),
      (''emit_tariff_1'', Plain),
      (''load_tariff_2'', Amount []),
      (''render_tariff_3'', Plain),
      (''collect_tariff_4'', Plain),
      (''summarise_tariff_5'', Amount []),
      (''validate_tariff_6'', Plain),
      (''expand_tariff_7'', Plain),
      (''merge_tariff_8'', Amount [])])"

definition alpha_tenant_3 :: py_module where
  "alpha_tenant_3 = (''tenant_3'',
     [(''summarise_tenant_0'', Amount []),
      (''validate_tenant_1'', Plain),
      (''expand_tenant_2'', Plain),
      (''merge_tenant_3'', Amount []),
      (''filter_tenant_4'', Plain),
      (''rank_tenant_5'', Plain),
      (''tally_tenant_6'', Amount []),
      (''audit_tenant_7'', Plain),
      (''emit_tenant_8'', Plain)])"

definition alpha_voucher_11 :: py_module where
  "alpha_voucher_11 = (''voucher_11'',
     [(''emit_voucher_0'', Plain),
      (''load_voucher_1'', Amount []),
      (''render_voucher_2'', Plain),
      (''collect_voucher_3'', Plain),
      (''summarise_voucher_4'', Amount []),
      (''validate_voucher_5'', Plain),
      (''expand_voucher_6'', Plain),
      (''merge_voucher_7'', Amount []),
      (''filter_voucher_8'', Plain)])"

definition alpha_package :: py_package where
  "alpha_package = (''alpha'', [alpha_batch_2, alpha_credit_9, alpha_invoice_0, alpha_ledger_1, alpha_payout_5, alpha_quota_8, alpha_rebate_4, alpha_refund_7, alpha_shipment_6, alpha_tariff_10, alpha_tenant_3, alpha_voucher_11])"

section \<open>pkgs/beta\<close>

definition beta_batch_2 :: py_module where
  "beta_batch_2 = (''batch_2'',
     [(''collect_batch_0'', Plain),
      (''summarise_batch_1'', Amount []),
      (''validate_batch_2'', Plain),
      (''expand_batch_3'', Plain),
      (''merge_batch_4'', Amount []),
      (''filter_batch_5'', Plain),
      (''rank_batch_6'', Plain),
      (''tally_batch_7'', Amount []),
      (''audit_batch_8'', Plain)])"

definition beta_credit_9 :: py_module where
  "beta_credit_9 = (''credit_9'',
     [(''tally_credit_0'', Amount []),
      (''audit_credit_1'', Plain),
      (''emit_credit_2'', Plain),
      (''load_credit_3'', Amount []),
      (''render_credit_4'', Plain),
      (''collect_credit_5'', Plain),
      (''summarise_credit_6'', Amount []),
      (''validate_credit_7'', Plain),
      (''expand_credit_8'', Plain)])"

definition beta_invoice_0 :: py_module where
  "beta_invoice_0 = (''invoice_0'',
     [(''load_invoice_0'', Amount []),
      (''render_invoice_1'', Plain),
      (''collect_invoice_2'', Plain),
      (''summarise_invoice_3'', Amount []),
      (''validate_invoice_4'', Plain),
      (''expand_invoice_5'', Plain),
      (''merge_invoice_6'', Amount []),
      (''filter_invoice_7'', Plain),
      (''rank_invoice_8'', Plain)])"

definition beta_ledger_1 :: py_module where
  "beta_ledger_1 = (''ledger_1'',
     [(''render_ledger_0'', Plain),
      (''collect_ledger_1'', Plain),
      (''summarise_ledger_2'', Amount []),
      (''validate_ledger_3'', Plain),
      (''expand_ledger_4'', Plain),
      (''merge_ledger_5'', Amount []),
      (''filter_ledger_6'', Plain),
      (''rank_ledger_7'', Plain),
      (''tally_ledger_8'', Amount [])])"

definition beta_payout_5 :: py_module where
  "beta_payout_5 = (''payout_5'',
     [(''expand_payout_0'', Plain),
      (''merge_payout_1'', Amount []),
      (''filter_payout_2'', Plain),
      (''rank_payout_3'', Plain),
      (''tally_payout_4'', Amount []),
      (''audit_payout_5'', Plain),
      (''emit_payout_6'', Plain),
      (''load_payout_7'', Amount []),
      (''render_payout_8'', Plain)])"

definition beta_quota_8 :: py_module where
  "beta_quota_8 = (''quota_8'',
     [(''rank_quota_0'', Plain),
      (''tally_quota_1'', Amount []),
      (''audit_quota_2'', Plain),
      (''emit_quota_3'', Plain),
      (''load_quota_4'', Amount []),
      (''render_quota_5'', Plain),
      (''collect_quota_6'', Plain),
      (''summarise_quota_7'', Amount []),
      (''validate_quota_8'', Plain)])"

definition beta_rebate_4 :: py_module where
  "beta_rebate_4 = (''rebate_4'',
     [(''validate_rebate_0'', Plain),
      (''expand_rebate_1'', Plain),
      (''merge_rebate_2'', Amount []),
      (''filter_rebate_3'', Plain),
      (''rank_rebate_4'', Plain),
      (''tally_rebate_5'', Amount []),
      (''audit_rebate_6'', Plain),
      (''emit_rebate_7'', Plain),
      (''load_rebate_8'', Amount [])])"

definition beta_refund_7 :: py_module where
  "beta_refund_7 = (''refund_7'',
     [(''filter_refund_0'', Plain),
      (''rank_refund_1'', Plain),
      (''tally_refund_2'', Amount []),
      (''audit_refund_3'', Plain),
      (''emit_refund_4'', Plain),
      (''load_refund_5'', Amount []),
      (''render_refund_6'', Plain),
      (''collect_refund_7'', Plain),
      (''summarise_refund_8'', Amount [])])"

definition beta_shipment_6 :: py_module where
  "beta_shipment_6 = (''shipment_6'',
     [(''merge_shipment_0'', Amount []),
      (''filter_shipment_1'', Plain),
      (''rank_shipment_2'', Plain),
      (''tally_shipment_3'', Amount []),
      (''audit_shipment_4'', Plain),
      (''emit_shipment_5'', Plain),
      (''load_shipment_6'', Amount []),
      (''render_shipment_7'', Plain),
      (''collect_shipment_8'', Plain)])"

definition beta_tariff_10 :: py_module where
  "beta_tariff_10 = (''tariff_10'',
     [(''audit_tariff_0'', Plain),
      (''emit_tariff_1'', Plain),
      (''load_tariff_2'', Amount []),
      (''render_tariff_3'', Plain),
      (''collect_tariff_4'', Plain),
      (''summarise_tariff_5'', Amount []),
      (''validate_tariff_6'', Plain),
      (''expand_tariff_7'', Plain),
      (''merge_tariff_8'', Amount [])])"

definition beta_tenant_3 :: py_module where
  "beta_tenant_3 = (''tenant_3'',
     [(''summarise_tenant_0'', Amount []),
      (''validate_tenant_1'', Plain),
      (''expand_tenant_2'', Plain),
      (''merge_tenant_3'', Amount []),
      (''filter_tenant_4'', Plain),
      (''rank_tenant_5'', Plain),
      (''tally_tenant_6'', Amount []),
      (''audit_tenant_7'', Plain),
      (''emit_tenant_8'', Plain)])"

definition beta_voucher_11 :: py_module where
  "beta_voucher_11 = (''voucher_11'',
     [(''emit_voucher_0'', Plain),
      (''load_voucher_1'', Amount []),
      (''render_voucher_2'', Plain),
      (''collect_voucher_3'', Plain),
      (''summarise_voucher_4'', Amount []),
      (''validate_voucher_5'', Plain),
      (''expand_voucher_6'', Plain),
      (''merge_voucher_7'', Amount []),
      (''filter_voucher_8'', Plain)])"

definition beta_package :: py_package where
  "beta_package = (''beta'', [beta_batch_2, beta_credit_9, beta_invoice_0, beta_ledger_1, beta_payout_5, beta_quota_8, beta_rebate_4, beta_refund_7, beta_shipment_6, beta_tariff_10, beta_tenant_3, beta_voucher_11])"

section \<open>pkgs/gamma\<close>

definition gamma_batch_2 :: py_module where
  "gamma_batch_2 = (''batch_2'',
     [(''collect_batch_0'', Plain),
      (''summarise_batch_1'', Amount []),
      (''validate_batch_2'', Plain),
      (''expand_batch_3'', Plain),
      (''merge_batch_4'', Amount []),
      (''filter_batch_5'', Plain),
      (''rank_batch_6'', Plain),
      (''tally_batch_7'', Amount []),
      (''audit_batch_8'', Plain)])"

definition gamma_credit_9 :: py_module where
  "gamma_credit_9 = (''credit_9'',
     [(''tally_credit_0'', Amount []),
      (''audit_credit_1'', Plain),
      (''emit_credit_2'', Plain),
      (''load_credit_3'', Amount []),
      (''render_credit_4'', Plain),
      (''collect_credit_5'', Plain),
      (''summarise_credit_6'', Amount []),
      (''validate_credit_7'', Plain),
      (''expand_credit_8'', Plain)])"

definition gamma_invoice_0 :: py_module where
  "gamma_invoice_0 = (''invoice_0'',
     [(''load_invoice_0'', Amount []),
      (''render_invoice_1'', Plain),
      (''collect_invoice_2'', Plain),
      (''summarise_invoice_3'', Amount []),
      (''validate_invoice_4'', Plain),
      (''expand_invoice_5'', Plain),
      (''merge_invoice_6'', Amount []),
      (''filter_invoice_7'', Plain),
      (''rank_invoice_8'', Plain)])"

definition gamma_ledger_1 :: py_module where
  "gamma_ledger_1 = (''ledger_1'',
     [(''render_ledger_0'', Plain),
      (''collect_ledger_1'', Plain),
      (''summarise_ledger_2'', Amount []),
      (''validate_ledger_3'', Plain),
      (''expand_ledger_4'', Plain),
      (''merge_ledger_5'', Amount []),
      (''filter_ledger_6'', Plain),
      (''rank_ledger_7'', Plain),
      (''tally_ledger_8'', Amount [])])"

definition gamma_payout_5 :: py_module where
  "gamma_payout_5 = (''payout_5'',
     [(''expand_payout_0'', Plain),
      (''merge_payout_1'', Amount []),
      (''filter_payout_2'', Plain),
      (''rank_payout_3'', Plain),
      (''tally_payout_4'', Amount []),
      (''audit_payout_5'', Plain),
      (''emit_payout_6'', Plain),
      (''load_payout_7'', Amount []),
      (''render_payout_8'', Plain)])"

definition gamma_quota_8 :: py_module where
  "gamma_quota_8 = (''quota_8'',
     [(''rank_quota_0'', Plain),
      (''tally_quota_1'', Amount []),
      (''audit_quota_2'', Plain),
      (''emit_quota_3'', Plain),
      (''load_quota_4'', Amount []),
      (''render_quota_5'', Plain),
      (''collect_quota_6'', Plain),
      (''summarise_quota_7'', Amount []),
      (''validate_quota_8'', Plain)])"

definition gamma_rebate_4 :: py_module where
  "gamma_rebate_4 = (''rebate_4'',
     [(''validate_rebate_0'', Plain),
      (''expand_rebate_1'', Plain),
      (''merge_rebate_2'', Amount []),
      (''filter_rebate_3'', Plain),
      (''rank_rebate_4'', Plain),
      (''tally_rebate_5'', Amount []),
      (''audit_rebate_6'', Plain),
      (''emit_rebate_7'', Plain),
      (''load_rebate_8'', Amount [])])"

definition gamma_refund_7 :: py_module where
  "gamma_refund_7 = (''refund_7'',
     [(''filter_refund_0'', Plain),
      (''rank_refund_1'', Plain),
      (''tally_refund_2'', Amount []),
      (''audit_refund_3'', Plain),
      (''emit_refund_4'', Plain),
      (''load_refund_5'', Amount []),
      (''render_refund_6'', Plain),
      (''collect_refund_7'', Plain),
      (''summarise_refund_8'', Amount [])])"

definition gamma_shipment_6 :: py_module where
  "gamma_shipment_6 = (''shipment_6'',
     [(''merge_shipment_0'', Amount []),
      (''filter_shipment_1'', Plain),
      (''rank_shipment_2'', Plain),
      (''tally_shipment_3'', Amount []),
      (''audit_shipment_4'', Plain),
      (''emit_shipment_5'', Plain),
      (''load_shipment_6'', Amount []),
      (''render_shipment_7'', Plain),
      (''collect_shipment_8'', Plain)])"

definition gamma_tariff_10 :: py_module where
  "gamma_tariff_10 = (''tariff_10'',
     [(''audit_tariff_0'', Plain),
      (''emit_tariff_1'', Plain),
      (''load_tariff_2'', Amount []),
      (''render_tariff_3'', Plain),
      (''collect_tariff_4'', Plain),
      (''summarise_tariff_5'', Amount []),
      (''validate_tariff_6'', Plain),
      (''expand_tariff_7'', Plain),
      (''merge_tariff_8'', Amount [])])"

definition gamma_tenant_3 :: py_module where
  "gamma_tenant_3 = (''tenant_3'',
     [(''summarise_tenant_0'', Amount []),
      (''validate_tenant_1'', Plain),
      (''expand_tenant_2'', Plain),
      (''merge_tenant_3'', Amount []),
      (''filter_tenant_4'', Plain),
      (''rank_tenant_5'', Plain),
      (''tally_tenant_6'', Amount []),
      (''audit_tenant_7'', Plain),
      (''emit_tenant_8'', Plain)])"

definition gamma_voucher_11 :: py_module where
  "gamma_voucher_11 = (''voucher_11'',
     [(''emit_voucher_0'', Plain),
      (''load_voucher_1'', Amount []),
      (''render_voucher_2'', Plain),
      (''collect_voucher_3'', Plain),
      (''summarise_voucher_4'', Amount []),
      (''validate_voucher_5'', Plain),
      (''expand_voucher_6'', Plain),
      (''merge_voucher_7'', Amount []),
      (''filter_voucher_8'', Plain)])"

definition gamma_package :: py_package where
  "gamma_package = (''gamma'', [gamma_batch_2, gamma_credit_9, gamma_invoice_0, gamma_ledger_1, gamma_payout_5, gamma_quota_8, gamma_rebate_4, gamma_refund_7, gamma_shipment_6, gamma_tariff_10, gamma_tenant_3, gamma_voucher_11])"

text \<open>The order in which \<open>check.py\<close> looks at them.\<close>

definition shipped :: "py_package list" where
  "shipped = [alpha_package, beta_package, gamma_package]"

lemmas shipped_defs = shipped_def alpha_package_def beta_package_def gamma_package_def
  alpha_batch_2_def alpha_credit_9_def alpha_invoice_0_def alpha_ledger_1_def alpha_payout_5_def alpha_quota_8_def alpha_rebate_4_def alpha_refund_7_def alpha_shipment_6_def alpha_tariff_10_def alpha_tenant_3_def alpha_voucher_11_def
  beta_batch_2_def beta_credit_9_def beta_invoice_0_def beta_ledger_1_def beta_payout_5_def beta_quota_8_def beta_rebate_4_def beta_refund_7_def beta_shipment_6_def beta_tariff_10_def beta_tenant_3_def beta_voucher_11_def
  gamma_batch_2_def gamma_credit_9_def gamma_invoice_0_def gamma_ledger_1_def gamma_payout_5_def gamma_quota_8_def gamma_rebate_4_def gamma_refund_7_def gamma_shipment_6_def gamma_tariff_10_def gamma_tenant_3_def gamma_voucher_11_def

end
