(* ===== verification/MoneyProps.thy ===== *)
theory MoneyProps
  imports MoneyPackages
begin

text \<open>
  What the check of the benchmark task decides: it accepts a tree exactly when every call site
  passes the one currency the task names. The tree as shipped is refused, and the migration the
  task asks for makes it pass.
\<close>

section \<open>Decimal texts\<close>

lemma of_char_digit: "m < 10 \<Longrightarrow> of_char (char_of (m + 48) :: char) = m + (48 :: nat)"
  by (simp add: of_char_of)

lemma read_nat_append: "read_nat (s @ [c]) = 10 * read_nat s + (of_char c - 48)"
  by (simp add: read_nat_def)

lemma read_digits: "read_nat (digits n) = n"
proof (induction n rule: digits.induct)
  case (1 n)
  show ?case
  proof (cases "n < 10")
    case True
    then show ?thesis by (subst digits.simps) (simp add: read_nat_def of_char_digit)
  next
    case False
    with 1 show ?thesis
      by (subst digits.simps) (simp add: read_nat_append of_char_digit del: of_char_of)
  qed
qed

lemma digit_char: "m < 10 \<Longrightarrow> char_of (m + 48) \<in> set ''0123456789''" for m :: nat
proof -
  assume "m < 10"
  then have "m \<in> set [0..<10]" by simp
  moreover have "list_all (\<lambda>m. char_of (m + 48) \<in> set ''0123456789'') [0..<10]" by code_simp
  ultimately show ?thesis unfolding list_all_iff by blast
qed

lemma digits_chars: "set (digits n) \<subseteq> set ''0123456789''"
proof (induction n rule: digits.induct)
  case (1 n)
  show ?case
  proof (cases "n < 10")
    case True
    then show ?thesis using digit_char[OF True] by (subst digits.simps) simp
  next
    case False
    then have "char_of (n mod 10 + 48) \<in> set ''0123456789''" by (intro digit_char) simp
    with 1 False show ?thesis by (subst digits.simps) simp
  qed
qed

lemma digits_nonempty: "digits n \<noteq> []"
  by (subst digits.simps) simp

lemma hd_digits: "hd (digits n) \<in> set ''0123456789''"
  using digits_chars hd_in_set[OF digits_nonempty] by blast

lemma read_int_text: "read_int (int_text i) = i"
proof (cases "i < 0")
  case True
  then show ?thesis by (simp add: int_text_def read_int_def read_digits)
next
  case False
  obtain c r where d: "digits (nat i) = c # r" using digits_nonempty by (cases "digits (nat i)") auto
  then have "c \<noteq> CHR ''-''" using hd_digits[of "nat i"] by auto
  then show ?thesis using False d by (simp add: int_text_def read_int_def read_digits[of "nat i", unfolded d])
qed

lemma int_text_no_dot: "CHR ''.'' \<notin> set (int_text i)"
  using digits_chars[of "nat i"] digits_chars[of "nat (- i)"] by (auto simp: int_text_def)

lemma pad2_two: "n < 100 \<Longrightarrow> length (pad2 n) = 2 \<and> read_nat (pad2 n) = n"
proof -
  assume "n < 100"
  then have "n \<in> set [0..<100]" by simp
  moreover have "list_all (\<lambda>n. length (pad2 n) = 2) [0..<100]" by code_simp
  ultimately have "length (pad2 n) = 2" unfolding list_all_iff by blast
  moreover have "read_nat (pad2 n) = n"
    by (simp add: pad2_def read_digits) (simp add: read_nat_def, simp add: read_nat_def[symmetric] read_digits)
  ultimately show ?thesis by simp
qed

text \<open>An amount reads back as the cents and the currency it was formatted from, for negative
  amounts too: the whole units are rounded down and the cents counted up from there.\<close>

lemma amount_reads_back: "read_amount (fmt_amount cents currency) = (cents, currency)"
proof -
  let ?w = "int_text (cents div 100)" and ?p = "pad2 (nat (cents mod 100))"
  have p: "length ?p = 2" "read_nat ?p = nat (cents mod 100)"
    using pad2_two[of "nat (cents mod 100)"] by (simp_all add: nat_less_iff)
  have w: "takeWhile (\<lambda>c. c \<noteq> CHR ''.'') (fmt_amount cents currency) = ?w"
    unfolding fmt_amount_def using int_text_no_dot[of "cents div 100"]
    by (subst takeWhile_append2) auto
  have r: "drop (length ?w + 1) (fmt_amount cents currency) = ?p @ '' '' @ currency"
    by (simp add: fmt_amount_def)
  show ?thesis unfolding read_amount_def w Let_def r using p
    by (simp add: read_int_text numeral_3_eq_3)
qed

section \<open>The check\<close>

definition settled_site :: "string \<times> render \<Rightarrow> bool" where
  "settled_site s = (snd s = Plain \<or> snd s = Amount [''USD''])"

definition settled_packages :: "py_package list \<Rightarrow> bool" where
  "settled_packages ps =
     list_all (\<lambda>p. list_all (\<lambda>m. list_all settled_site (snd m)) (snd p)) ps"

text \<open>The edit the task asks for: every call site passes the currency, the rest is untouched.\<close>

definition migrate :: "py_package list \<Rightarrow> py_package list" where
  "migrate = map (map_prod id (map (map_prod id (map (map_prod id
     (\<lambda>r. if is_amount r then Amount [''USD''] else r))))))"

lemma int_text_1234: "int_text 1234 = ''1234''"
  by code_simp

lemma fmt_amount_1234: "fmt_amount 1234 c = ''12.34 '' @ c"
proof -
  have "int_text (1234 div 100) = ''12''" "pad2 (nat (1234 mod 100)) = ''34''" by code_simp+
  then show ?thesis unfolding fmt_amount_def by simp
qed

lemma probe_value: "call_site r [probe_row] = rbind (render_value r 1234) (\<lambda>v. Inr [v])"
  by (simp add: call_site_def probe_row_def jget_or_def py_int_def)

lemma check_site_total: "\<exists>b. check_site pkg stem s = Inr b \<and> (b = None \<longleftrightarrow> settled_site s)"
proof (cases "snd s")
  case Plain
  then show ?thesis
    by (simp add: check_site_def probe_value render_value_def int_text_1234 settled_site_def)
next
  case (Amount more)
  consider "more = []" | c where "more = [c]" | a b r where "more = a # b # r"
    by (metis list.exhaust)
  then show ?thesis
  proof cases
    case 2
    then show ?thesis
      by (simp add: check_site_def Amount probe_value render_value_def settled_site_def fmt_amount_1234)
  qed (simp_all add: check_site_def Amount probe_value render_value_def settled_site_def)
qed

lemma rmap_concat_total:
  assumes "\<And>x. x \<in> set xs \<Longrightarrow> \<exists>y. f x = Inr y \<and> (g y = [] \<longleftrightarrow> P x)"
  shows "\<exists>ys. rmap f xs = Inr ys \<and> (concat (map g ys) = [] \<longleftrightarrow> (\<forall>x \<in> set xs. P x))"
  using assms
proof (induction xs)
  case (Cons x xs)
  obtain y where "f x = Inr y" "g y = [] \<longleftrightarrow> P x" using Cons.prems by auto
  moreover obtain ys where "rmap f xs = Inr ys" "concat (map g ys) = [] \<longleftrightarrow> (\<forall>x \<in> set xs. P x)"
    using Cons.IH Cons.prems by auto
  ultimately show ?case by auto
qed simp

lemma check_module_total:
  "\<exists>bs. check_module pkg m = Inr bs \<and> (bs = [] \<longleftrightarrow> list_all settled_site (snd m))"
proof (cases "list_ex (\<lambda>s. is_amount (snd s)) (snd m)")
  case True
  let ?g = "\<lambda>b. case b of None \<Rightarrow> [] | Some t \<Rightarrow> [t]"
  have "\<exists>b. check_site pkg (fst m) s = Inr b \<and> (?g b = [] \<longleftrightarrow> settled_site s)" for s
    using check_site_total[of pkg "fst m" s] by (auto split: option.splits)
  then obtain ys where "rmap (check_site pkg (fst m)) (sort_key fst (snd m)) = Inr ys"
    "concat (map ?g ys) = [] \<longleftrightarrow> (\<forall>s \<in> set (sort_key fst (snd m)). settled_site s)"
    using rmap_concat_total[where g = ?g and P = settled_site] by blast
  then show ?thesis using True by (simp add: check_module_def list_all_iff)
next
  case False
  then show ?thesis
    by (auto simp: check_module_def list_all_iff list_ex_iff settled_site_def is_amount_def)
qed

lemma check_package_total:
  "\<exists>bs. check_package p = Inr bs \<and> (bs = [] \<longleftrightarrow> list_all (\<lambda>m. list_all settled_site (snd m)) (snd p))"
  using rmap_concat_total[where f = "check_module (fst p)" and g = "\<lambda>b. b"
      and P = "\<lambda>m. list_all settled_site (snd m)" and xs = "sort_key (\<lambda>m. fst m @ ''.py'') (snd p)"]
    check_module_total
  by (force simp: check_package_def list_all_iff)

lemma check_packages_total:
  "\<exists>bs. check_packages ps = Inr bs \<and> (bs = [] \<longleftrightarrow> settled_packages ps)"
  using rmap_concat_total[where f = check_package and g = "\<lambda>b. b"
      and P = "\<lambda>p. list_all (\<lambda>m. list_all settled_site (snd m)) (snd p)" and xs = ps]
    check_package_total
  by (force simp: check_packages_def settled_packages_def list_all_iff)

lemma run_check_ok: "run_check ps = Inr ([''OK''], 0) \<longleftrightarrow> settled_packages ps"
  using check_packages_total[of ps] by (auto simp: run_check_def check_report_def)

lemma settled_migrate: "settled_packages (migrate ps)"
  by (auto simp: settled_packages_def migrate_def list_all_iff settled_site_def is_amount_def)


text \<open>The benchmark is neither passed as shipped nor impossible: the check refuses the shipped
  packages, and accepts them once every call site is migrated.\<close>

lemma shipped_needs_migration:
  "run_check shipped \<noteq> Inr ([''OK''], 0) \<and> run_check (migrate shipped) = Inr ([''OK''], 0)"
proof -
  have "\<not> settled_packages shipped"
    by (simp add: shipped_def alpha_package_def alpha_batch_2_def settled_packages_def settled_site_def)
  then show ?thesis by (simp add: run_check_ok settled_migrate)
qed

text \<open>The sign of an amount below zero is not that of the printed number.\<close>

lemma negative_amount: "fmt_amount (-150) ''USD'' = ''-2.50 USD''"
  by code_simp

end
