(* ===== verification/SubsetSelection.thy ===== *)
theory SubsetSelection
  imports Json Dirs "HOL-Library.List_Lexorder" "HOL-Library.Char_ord" "HOL-Library.Product_Lexorder"
    "HOL-Library.Sublist" "HOL-Library.Multiset"
begin

text \<open>
  \<open>benchmarks/swebench/select_subset.py\<close>: largest-remainder apportionment of the sample among
  the repositories of the benchmark, and evenly spaced picks within one. The data set is a list
  of rows; quotas are exact rationals where the script has floats.
\<close>

section \<open>The selection\<close>

record instance_row =
  i_id :: string
  i_repo :: string
  i_commit :: string
  i_problem :: string
  i_difficulty :: string

definition difficulty_order :: "(string \<times> nat) list" where
  "difficulty_order = [(''<15 min fix'', 0), (''15 min - 1 hour'', 1), (''1-4 hours'', 2), (''>4 hours'', 3)]"

text \<open>\<open>d[k]\<close> of a key that is there.\<close>

definition item_of :: "(string \<times> 'a) list \<Rightarrow> string \<Rightarrow> 'a" where
  "item_of d k = the (map_of d k)"

definition allocate :: "(string \<times> int) list \<Rightarrow> int \<Rightarrow> (string \<times> int) list res" where
  "allocate counts tot =
     (let population = sum_list (map snd counts) in
      if population = 0 \<and> counts \<noteq> [] then Inl ZeroDivErr
      else
        let exact = map (\<lambda>(r, n). (r, of_int (n * tot) / of_int population :: rat)) counts;
            floors = map (\<lambda>(r, v). (r, trunc v)) exact;
            remaining = tot - sum_list (map snd floors);
            order = sort_key (\<lambda>r. (- (item_of exact r - of_int (item_of floors r)), r)) (map fst exact) in
        Inr (fold (\<lambda>r fl. AList.map_entry r (\<lambda>v. v + 1) fl) (upto_index remaining order) floors))"

definition evenly_spaced :: "'a list \<Rightarrow> int \<Rightarrow> 'a list" where
  "evenly_spaced items k =
     (if k \<le> 0 then []
      else if int (length items) \<le> k then items
      else map (\<lambda>i. items ! ((2 * i + 1) * length items div (2 * nat k))) [0..<nat k])"

text \<open>\<open>by_repo.setdefault(row["repo"], []).append(row)\<close> for every row.\<close>

definition add_row :: "instance_row \<Rightarrow> (string \<times> instance_row list) list \<Rightarrow> (string \<times> instance_row list) list" where
  "add_row row d =
     AList.update (i_repo row) ((case map_of d (i_repo row) of None \<Rightarrow> [] | Some rs \<Rightarrow> rs) @ [row]) d"

definition rows_by_repo :: "instance_row list \<Rightarrow> (string \<times> instance_row list) list" where
  "rows_by_repo ds = fold add_row ds []"

definition repo_order :: "instance_row list \<Rightarrow> instance_row list" where
  "repo_order = sort_key (\<lambda>r. (case map_of difficulty_order (i_difficulty r) of None \<Rightarrow> 9 | Some n \<Rightarrow> n, i_id r))"

definition total_slots :: int where
  "total_slots = 50"

definition select_rows :: "instance_row list \<Rightarrow> instance_row list res" where
  "select_rows ds =
     (let by_repo = rows_by_repo ds in
      rbind (allocate (map (\<lambda>(r, rows). (r, int (length rows))) by_repo) total_slots) (\<lambda>slots.
      Inr (sort_key i_id (concat (map (\<lambda>r. evenly_spaced (repo_order (item_of by_repo r)) (item_of slots r))
                                   (sort (map fst by_repo)))))))"

text \<open>What is published of a row, and the script: the data set it reads is the list \<open>ds\<close>.\<close>

definition published :: "instance_row \<Rightarrow> json" where
  "published r = JObj
     [(''instance_id'', JStr (i_id r)), (''repo'', JStr (i_repo r)), (''base_commit'', JStr (i_commit r)),
      (''problem_statement'', JStr (i_problem r)), (''difficulty'', JStr (i_difficulty r))]"

definition select_main :: "(json \<Rightarrow> string) \<Rightarrow> instance_row list \<Rightarrow> (dirs, unit) prog" where
  "select_main dumps ds =
     pbind (lift (select_rows ds)) (\<lambda>selected.
     edit_files (write_bytes [''benchmarks'', ''swebench'', ''subset.json'']
       (dumps (JList (map published selected)) @ nl)))"

section \<open>Evenly spaced picks\<close>

lemma subseq_nth:
  assumes "sorted_wrt (<) is" and "\<And>i. i \<in> set is \<Longrightarrow> i < length xs"
  shows "subseq (map ((!) xs) is) xs"
  using assms
proof (induction xs arbitrary: "is")
  case Nil
  then show ?case by (cases "is") auto
next
  case (Cons x xs)
  show ?case
  proof (cases "is")
    case Nil
    then show ?thesis by simp
  next
    case is_def: (Cons j js)
    have js: "sorted_wrt (<) (map (\<lambda>i. i - 1) js)" "\<And>i. i \<in> set js \<Longrightarrow> 0 < i \<and> i < Suc (length xs)"
      using Cons.prems is_def by (force simp: sorted_wrt_map intro: sorted_wrt_mono_rel[of js "(<)"])+
    have map_js: "map ((!) (x # xs)) js = map ((!) xs) (map (\<lambda>i. i - 1) js)"
      using js(2) by (auto simp: nth_Cons')
    show ?thesis
    proof (cases j)
      case 0
      have "subseq (map ((!) xs) (map (\<lambda>i. i - 1) js)) xs"
        by (rule Cons.IH[OF js(1)]) (use js(2) in force)
      then show ?thesis unfolding is_def list.map(2) map_js by (simp add: 0)
    next
      case (Suc j')
      have "sorted_wrt (<) (map (\<lambda>i. i - 1) is)" using Cons.prems(1) is_def Suc js(1) by force
      moreover have "\<And>i. i \<in> set is \<Longrightarrow> 0 < i" using Cons.prems(1) is_def Suc by auto
      ultimately have "subseq (map ((!) xs) (map (\<lambda>i. i - 1) is)) xs"
        using Cons.prems(2) by (intro Cons.IH) force+
      moreover have "map ((!) (x # xs)) is = map ((!) xs) (map (\<lambda>i. i - 1) is)"
        using \<open>\<And>i. i \<in> set is \<Longrightarrow> 0 < i\<close> by (auto simp: nth_Cons')
      ultimately show ?thesis by (simp only: list_emb_Cons)
    qed
  qed
qed

lemma spaced_less:
  fixes i j k n :: nat
  assumes "i < j" and "k < n" and "0 < k"
  shows "(2 * i + 1) * n div (2 * k) < (2 * j + 1) * n div (2 * k)"
proof -
  have "(2 * i + 1) * n + 2 * k \<le> (2 * i + 1) * n + 2 * n" using assms by simp
  also have "\<dots> = (2 * i + 3) * n" by (simp add: algebra_simps)
  also have "\<dots> \<le> (2 * j + 1) * n" using assms(1) by (intro mult_le_mono1) simp
  finally have "((2 * i + 1) * n + 2 * k) div (2 * k) \<le> (2 * j + 1) * n div (2 * k)" by (rule div_le_mono)
  then show ?thesis using assms(3) by simp
qed

lemma spaced_bound:
  fixes i k n :: nat
  assumes "i < k"
  shows "(2 * i + 1) * n div (2 * k) < n \<or> n = 0"
proof -
  have "n \<noteq> 0 \<Longrightarrow> (2 * i + 1) * n < 2 * k * n" using assms by (intro mult_less_mono1) auto
  then show ?thesis using assms by (auto simp: less_mult_imp_div_less mult.commute)
qed

lemma evenly_spaced_subseq: "subseq (evenly_spaced items k) items"
proof (cases "k \<le> 0 \<or> int (length items) \<le> k")
  case False
  let ?is = "map (\<lambda>i. (2 * i + 1) * length items div (2 * nat k)) [0..<nat k]"
  have "sorted_wrt (<) ?is"
    unfolding sorted_wrt_map using False
    by (intro sorted_wrt_mono_rel[OF _ sorted_wrt_upt] spaced_less) auto
  moreover have "i < length items" if i: "i \<in> set ?is" for i
  proof -
    from i obtain j where "i = (2 * j + 1) * length items div (2 * nat k)" "j \<in> set [0..<nat k]"
      unfolding set_map by (rule imageE)
    moreover have "0 < length items" using False by linarith
    ultimately show ?thesis using spaced_bound[of j "nat k" "length items"] by auto
  qed
  ultimately have "subseq (map ((!) items) ?is) items" by (rule subseq_nth)
  then show ?thesis using False by (simp add: evenly_spaced_def comp_def)
qed (auto simp: evenly_spaced_def)

lemma evenly_spaced_length:
  "int (length (evenly_spaced items k)) = max 0 (min k (int (length items)))"
  by (auto simp: evenly_spaced_def)

section \<open>Apportionment\<close>

text \<open>When quotas below one add up to \<open>m\<close>, the \<open>m\<close> largest of them are positive.\<close>

lemma sum_list_bound:
  fixes f :: "'a \<Rightarrow> rat"
  assumes "\<forall>x \<in> set xs. f x < 1"
  shows "sum_list (map f xs) \<le> of_nat (length xs)"
  using assms by (induction xs) (auto simp: add_mono less_imp_le)

lemma largest_positive:
  fixes f :: "'a \<Rightarrow> rat"
  assumes "sorted_wrt (\<lambda>x y. f y \<le> f x) xs" and "\<forall>x \<in> set xs. 0 \<le> f x \<and> f x < 1"
    and "sum_list (map f xs) = of_nat m"
  shows "m \<le> length xs" and "x \<in> set (take m xs) \<Longrightarrow> 0 < f x"
proof -
  have "(of_nat m :: rat) \<le> of_nat (length xs)" using sum_list_bound[of xs f] assms(2,3) by auto
  then show m: "m \<le> length xs" by simp
  assume "x \<in> set (take m xs)"
  then obtain i where i: "i < m" "x = xs ! i" using m by (auto simp: in_set_conv_nth)
  show "0 < f x"
  proof (rule ccontr)
    assume "\<not> 0 < f x"
    then have zero: "f y = 0" if y: "y \<in> set (drop i xs)" for y
    proof -
      obtain k where "k < length (drop i xs)" "drop i xs ! k = y" using y by (meson in_set_conv_nth)
      then have j: "i + k < length xs" "i \<le> i + k" "y = xs ! (i + k)" by simp_all
      then have "f y \<le> f x"
        using assms(1) i(2) by (cases k) (auto simp: sorted_wrt_iff_nth_less)
      moreover have "0 \<le> f y" using assms(2) j by auto
      ultimately show ?thesis using \<open>\<not> 0 < f x\<close> by simp
    qed
    have "sum_list (map f xs) = sum_list (map f (take i xs)) + sum_list (map f (drop i xs))"
      by (metis append_take_drop_id map_append sum_list_append)
    also have "sum_list (map f (drop i xs)) = 0"
      using zero by (intro sum_list_nonneg_eq_0_iff[THEN iffD2]) auto
    finally have "(of_nat m :: rat) \<le> of_nat (length (take i xs))"
      using sum_list_bound[of "take i xs" f] assms(2,3) by (auto dest: in_set_takeD)
    then show False using i by simp
  qed
qed

lemma fold_map_entry:
  fixes fl :: "(string \<times> int) list"
  assumes "distinct rs" and "distinct (map fst fl)"
  shows "fold (\<lambda>r fl. AList.map_entry r (\<lambda>v. v + 1) fl) rs fl
    = map (\<lambda>(r, v). (r, if r \<in> set rs then v + 1 else v)) fl"
proof -
  have entry: "AList.map_entry r (\<lambda>v. v + 1) fl = map (\<lambda>(q, v). (q, if q = r then v + 1 else v)) fl"
    if "distinct (map fst fl)" for r and fl :: "(string \<times> int) list"
    using that by (induction fl) (force intro!: map_idI[symmetric])+
  show ?thesis
    using assms
  proof (induction rs arbitrary: fl)
    case Nil
    then show ?case by (simp add: map_idI case_prod_unfold)
  next
    case (Cons r rs)
    have "distinct (map fst (map (\<lambda>(q, v). (q, if q = r then v + 1 else v)) fl))"
      using Cons.prems(2) by (simp add: case_prod_unfold comp_def)
    with Cons show ?case by (auto simp: entry)
  qed
qed

lemma item_of_in: "distinct (map fst xs) \<Longrightarrow> (r, v) \<in> set xs \<Longrightarrow> item_of xs r = v"
  by (simp add: item_of_def)

lemma item_of_map:
  assumes "distinct (map fst xs)" and "(r, n) \<in> set xs"
  shows "item_of (map (\<lambda>(r, n). (r, g r n)) xs) r = g r n"
  using assms by (intro item_of_in) (force simp: case_prod_unfold comp_def)+

lemma sum_list_fst:
  fixes f :: "string \<Rightarrow> 'b :: comm_monoid_add"
  assumes "\<And>r n. (r, n) \<in> set xs \<Longrightarrow> f r = g r n"
  shows "sum_list (map f (map fst xs)) = sum_list (map (\<lambda>(r, n). g r n) xs)"
proof -
  have "map f (map fst xs) = map (\<lambda>(r, n). g r n) xs" using assms by auto
  then show ?thesis by (rule arg_cong)
qed

lemma sum_list_snd:
  fixes f :: "string \<Rightarrow> 'b :: comm_monoid_add"
  assumes "\<And>r n. (r, n) \<in> set xs \<Longrightarrow> n = f r"
  shows "sum_list (map snd xs) = sum_list (map f (map fst xs))"
proof -
  have "map snd xs = map f (map fst xs)" using assms by auto
  then show ?thesis by (rule arg_cong)
qed

lemma int_length_concat: "int (length (concat xss)) = sum_list (map (\<lambda>xs. int (length xs)) xss)"
  by (induction xss) auto

lemma sum_list_sort_key:
  fixes f :: "'a \<Rightarrow> 'b :: comm_monoid_add"
  shows "sum_list (map f (sort_key k xs)) = sum_list (map f xs)"
proof -
  have "mset (map f (sort_key k xs)) = mset (map f xs)" by simp
  then show ?thesis by (metis sum_mset_sum_list)
qed

lemma sum_frac:
  fixes q :: "int \<Rightarrow> rat"
  shows "sum_list (map (\<lambda>(r, n). frac (q n)) xs)
    = sum_list (map (\<lambda>(r, n). q n) xs) - of_int (sum_list (map snd (map (\<lambda>(r, n). (r, \<lfloor>q n\<rfloor>)) xs)))"
  by (induction xs) (auto simp: frac_def)

text \<open>The quota of a repository, as the script computes it exactly.\<close>

definition quota :: "(string \<times> int) list \<Rightarrow> int \<Rightarrow> int \<Rightarrow> rat" where
  "quota counts tot n = of_int (n * tot) / of_int (sum_list (map snd counts))"

lemma sum_quota:
  assumes "sum_list (map snd counts) \<noteq> 0"
  shows "sum_list (map (\<lambda>(r, n). quota counts tot n) counts) = of_int tot"
proof -
  have "sum_list (map (\<lambda>(r, n). of_int (n * tot) / c) xs) = of_int (sum_list (map snd xs)) * of_int tot / c"
    for xs :: "(string \<times> int) list" and c :: rat
    by (induction xs) (auto simp: algebra_simps add_divide_distrib)
  then show ?thesis using assms by (simp add: quota_def)
qed

lemma allocate_parts:
  assumes "distinct (map fst counts)" and "\<forall>(r, n) \<in> set counts. 0 \<le> n"
    and "0 < sum_list (map snd counts)" and "0 \<le> tot"
  obtains chosen where
    "allocate counts tot = Inr (map (\<lambda>(r, n). (r, \<lfloor>quota counts tot n\<rfloor> + (if r \<in> chosen then 1 else 0))) counts)"
    and "chosen \<subseteq> fst ` set counts" and "finite chosen"
    and "int (card chosen) = tot - sum_list (map (\<lambda>(r, n). \<lfloor>quota counts tot n\<rfloor>) counts)"
    and "\<And>r n. (r, n) \<in> set counts \<Longrightarrow> r \<in> chosen \<Longrightarrow> 0 < frac (quota counts tot n)"
proof -
  let ?q = "quota counts tot"
  let ?exact = "map (\<lambda>(r, n). (r, ?q n)) counts" and ?floors = "map (\<lambda>(r, n). (r, \<lfloor>?q n\<rfloor>)) counts"
  let ?rem = "tot - sum_list (map snd ?floors)"
  let ?f = "\<lambda>r. item_of ?exact r - of_int (item_of ?floors r)"
  let ?order = "sort_key (\<lambda>r. (- ?f r, r)) (map fst counts)"
  have exact_def: "map (\<lambda>(r, n). (r, of_int (n * tot) / of_int (sum_list (map snd counts)) :: rat)) counts = ?exact"
    by (simp add: quota_def)
  have pos: "0 \<le> ?q n" if "(r, n) \<in> set counts" for r n
    using that assms(2-4) by (auto simp: quota_def)
  have floors_def: "map (\<lambda>(r, v). (r, trunc v)) ?exact = ?floors"
    using pos by (force simp: trunc_def)
  have f: "?f r = frac (?q n)" if "(r, n) \<in> set counts" for r n
    using item_of_map[OF assms(1) that, of "\<lambda>r n. ?q n"] item_of_map[OF assms(1) that, of "\<lambda>r n. \<lfloor>?q n\<rfloor>"]
    by (simp add: frac_def)
  have rem: "sum_list (map ?f ?order) = of_int ?rem"
  proof -
    have "sum_list (map ?f ?order) = sum_list (map (\<lambda>(r, n). frac (?q n)) counts)"
      unfolding sum_list_sort_key by (rule sum_list_fst[OF f])
    also have "\<dots> = of_int ?rem" unfolding sum_frac using assms(3) by (simp add: sum_quota)
    finally show ?thesis .
  qed
  have range: "0 \<le> ?f r \<and> ?f r < 1" if "r \<in> set ?order" for r
  proof -
    from that obtain n where "(r, n) \<in> set counts" by auto
    then show ?thesis by (simp add: f frac_lt_1)
  qed
  have "0 \<le> sum_list (map ?f ?order)"
  proof (rule sum_list_nonneg)
    fix v assume "v \<in> set (map ?f ?order)"
    then obtain r where "v = ?f r" "r \<in> set ?order" unfolding set_map by (rule imageE)
    then show "0 \<le> v" using range by blast
  qed
  then have rem0: "0 \<le> ?rem" unfolding rem by simp
  have sorted: "sorted_wrt (\<lambda>x y. ?f y \<le> ?f x) ?order"
  proof -
    have "sorted_wrt (\<lambda>x y. (- ?f x, x) \<le> (- ?f y, y)) ?order"
      using sorted_sort_key[of "\<lambda>r. (- ?f r, r)" "map fst counts"] unfolding sorted_map .
    then show ?thesis by (rule sorted_wrt_mono_rel[rotated]) auto
  qed
  have m: "sum_list (map ?f ?order) = of_nat (nat ?rem)" using rem rem0 by simp
  have rng: "\<forall>r \<in> set ?order. 0 \<le> ?f r \<and> ?f r < 1" using range by blast
  note largest = largest_positive[OF sorted rng m]
  let ?chosen = "take (nat ?rem) ?order"
  have up: "upto_index ?rem ?order = ?chosen" using rem0 by (simp add: upto_index_def)
  have dist: "distinct ?chosen" using assms(1) by (simp add: distinct_take)
  have keys: "map fst ?exact = map fst counts" "distinct (map fst ?floors)"
    using assms(1) by (simp_all add: case_prod_unfold comp_def)
  show thesis
  proof (rule that[of "set ?chosen"])
    have "allocate counts tot = Inr (fold (\<lambda>r fl. AList.map_entry r (\<lambda>v. v + 1) fl) ?chosen ?floors)"
      unfolding allocate_def Let_def exact_def floors_def keys(1) up using assms(3) by simp
    also have "fold (\<lambda>r fl. AList.map_entry r (\<lambda>v. v + 1) fl) ?chosen ?floors
        = map (\<lambda>(r, n). (r, \<lfloor>?q n\<rfloor> + (if r \<in> set ?chosen then 1 else 0))) counts"
      by (subst fold_map_entry[OF dist keys(2)]) auto
    finally show "allocate counts tot = Inr (map (\<lambda>(r, n). (r, \<lfloor>?q n\<rfloor> + (if r \<in> set ?chosen then 1 else 0))) counts)" .
    show "set ?chosen \<subseteq> fst ` set counts" using set_take_subset[of "nat ?rem" ?order] by auto
    show "finite (set ?chosen)" by simp
    have "card (set ?chosen) = nat ?rem" using distinct_card[OF dist] largest(1) by simp
    then show "int (card (set ?chosen)) = tot - sum_list (map (\<lambda>(r, n). \<lfloor>?q n\<rfloor>) counts)"
      using rem0 by (simp add: case_prod_unfold comp_def)
    show "0 < frac (?q n)" if "(r, n) \<in> set counts" "r \<in> set ?chosen" for r n
      using largest(2)[OF that(2)] f[OF that(1)] by simp
  qed
qed

lemma allocate_share:
  assumes "distinct (map fst counts)" and "\<forall>(r, n) \<in> set counts. 0 \<le> n"
    and "0 < sum_list (map snd counts)" and "0 \<le> tot" and "tot \<le> sum_list (map snd counts)"
  shows "\<exists>slots. allocate counts tot = Inr slots \<and> map fst slots = map fst counts
    \<and> sum_list (map snd slots) = tot
    \<and> (\<forall>(r, n) \<in> set counts. 0 \<le> item_of slots r \<and> item_of slots r \<le> n
         \<and> \<bar>of_int (item_of slots r) - quota counts tot n\<bar> < 1)"
proof -
  let ?q = "quota counts tot"
  obtain chosen where alloc: "allocate counts tot
      = Inr (map (\<lambda>(r, n). (r, \<lfloor>?q n\<rfloor> + (if r \<in> chosen then 1 else 0))) counts)" (is "_ = Inr ?slots")
    and ch: "chosen \<subseteq> fst ` set counts" "finite chosen"
      "int (card chosen) = tot - sum_list (map (\<lambda>(r, n). \<lfloor>?q n\<rfloor>) counts)"
    and fr: "\<And>r n. (r, n) \<in> set counts \<Longrightarrow> r \<in> chosen \<Longrightarrow> 0 < frac (?q n)"
    by (rule allocate_parts[OF assms(1-4)]) (rule that; assumption)
  have count: "sum_list (map (\<lambda>r. if r \<in> chosen then 1 else 0 :: int) (map fst counts)) = int (card chosen)"
  proof -
    have "sum_list (map (\<lambda>r. if r \<in> chosen then 1 else 0 :: int) (map fst counts))
        = (\<Sum>r \<in> fst ` set counts. if r \<in> chosen then 1 else 0)"
      using sum_list_distinct_conv_sum_set[OF assms(1), of "\<lambda>r. if r \<in> chosen then 1 else 0 :: int"] by simp
    also have "\<dots> = int (card (fst ` set counts \<inter> chosen))" by (simp add: sum.If_cases)
    also have "fst ` set counts \<inter> chosen = chosen" using ch(1) by blast
    finally show ?thesis .
  qed
  have "sum_list (map snd ?slots) = sum_list (map (\<lambda>(r, n). \<lfloor>?q n\<rfloor>) counts)
      + sum_list (map (\<lambda>r. if r \<in> chosen then 1 else 0 :: int) (map fst counts))"
    by (simp add: case_prod_unfold comp_def sum_list_addf)
  then have sum: "sum_list (map snd ?slots) = tot" using count ch(3) by simp
  have each: "0 \<le> item_of ?slots r \<and> item_of ?slots r \<le> n \<and> \<bar>of_int (item_of ?slots r) - ?q n\<bar> < 1"
    if rn: "(r, n) \<in> set counts" for r n
  proof -
    have n: "0 \<le> n" using assms(2) rn by auto
    have "?q n \<le> of_int n"
      using assms(3,5) n by (simp add: quota_def divide_le_eq mult_left_mono)
    have "0 \<le> ?q n" using n assms(3,4) by (simp add: quota_def)
    have slot: "item_of ?slots r = \<lfloor>?q n\<rfloor> + (if r \<in> chosen then 1 else 0)"
      using item_of_map[OF assms(1) rn, of "\<lambda>r n. \<lfloor>?q n\<rfloor> + (if r \<in> chosen then 1 else 0)"] by simp
    show ?thesis
    proof (cases "r \<in> chosen")
      case True
      then have "of_int \<lfloor>?q n\<rfloor> < ?q n" using fr[OF rn] by (simp add: frac_def)
      then show ?thesis using True slot \<open>?q n \<le> of_int n\<close> \<open>0 \<le> ?q n\<close> by (auto simp: floor_less_iff) linarith+
    next
      case False
      then show ?thesis using slot \<open>?q n \<le> of_int n\<close> \<open>0 \<le> ?q n\<close> by (auto simp: floor_le_iff) linarith+
    qed
  qed
  have "map fst ?slots = map fst counts" by (simp add: case_prod_unfold comp_def)
  then show ?thesis using alloc sum each by blast
qed

section \<open>The sample\<close>

lemma key_in: "k \<in> set (map fst xs) \<Longrightarrow> \<exists>v. (k, v) \<in> set xs"
  by force

lemma rows_by_repo_lookup:
  "distinct (map fst (rows_by_repo ds))
   \<and> map_of (rows_by_repo ds) k
     = (if filter (\<lambda>r. i_repo r = k) ds = [] then None else Some (filter (\<lambda>r. i_repo r = k) ds))"
proof (induction ds arbitrary: k rule: rev_induct)
  case Nil
  then show ?case by (simp add: rows_by_repo_def)
next
  case (snoc x ds)
  have step: "rows_by_repo (ds @ [x]) = add_row x (rows_by_repo ds)" by (simp add: rows_by_repo_def)
  show ?case
    unfolding step add_row_def using snoc[of "i_repo x"] snoc[of k]
    by (auto simp: distinct_update update_conv' filter_empty_conv)
qed

lemma rows_by_repo_keys: "set (map fst (rows_by_repo ds)) = i_repo ` set ds"
proof -
  have "k \<in> set (map fst (rows_by_repo ds)) \<longleftrightarrow> k \<in> i_repo ` set ds" for k
    using rows_by_repo_lookup[of ds k] map_of_eq_None_iff[of "rows_by_repo ds" k]
    by (auto simp: filter_empty_conv split: if_splits)
  then show ?thesis by blast
qed

lemma group_of: "k \<in> i_repo ` set ds \<Longrightarrow> item_of (rows_by_repo ds) k = filter (\<lambda>r. i_repo r = k) ds"
  using rows_by_repo_lookup[of ds k] by (auto simp: item_of_def filter_empty_conv split: if_splits)

lemma mset_groups:
  assumes "distinct ks" and "f ` set xs \<subseteq> set ks"
  shows "mset (concat (map (\<lambda>k. filter (\<lambda>x. f x = k) xs) ks)) = mset xs"
  using assms
proof (induction ks arbitrary: xs)
  case (Cons k ks)
  let ?rest = "filter (\<lambda>x. f x \<noteq> k) xs"
  have "map (\<lambda>j. filter (\<lambda>x. f x = j) xs) ks = map (\<lambda>j. filter (\<lambda>x. f x = j) ?rest) ks"
    using Cons.prems(1) by (auto intro!: filter_cong)
  moreover have "mset (concat (map (\<lambda>j. filter (\<lambda>x. f x = j) ?rest) ks)) = mset ?rest"
    using Cons.prems by (intro Cons.IH) auto
  ultimately have "mset (concat (map (\<lambda>j. filter (\<lambda>x. f x = j) xs) (k # ks)))
      = filter_mset (\<lambda>x. f x = k) (mset xs) + filter_mset (\<lambda>x. f x \<noteq> k) (mset xs)"
    by (simp only: list.map concat.simps mset_append mset_filter)
  then show ?case by (metis multiset_partition)
qed simp

lemma mset_concat_mono:
  assumes "\<And>k. k \<in> set ks \<Longrightarrow> mset (g k) \<subseteq># mset (h k)"
  shows "mset (concat (map g ks)) \<subseteq># mset (concat (map h ks))"
  using assms by (induction ks) (auto intro: subset_mset.add_mono)

lemma mset_repo_order [simp]: "mset (repo_order rs) = mset rs"
  by (simp add: repo_order_def)

lemma subseq_mset: "subseq xs ys \<Longrightarrow> mset xs \<subseteq># mset ys"
proof (induction rule: list_emb.induct)
  case (list_emb_Cons xs ys y)
  then show ?case by (metis add_mset_add_single mset.simps(2) mset_subset_eq_add_left subset_mset.order_trans)
qed auto

lemma evenly_spaced_mset: "mset (evenly_spaced (repo_order rs) k) \<subseteq># mset rs"
  using subseq_mset[OF evenly_spaced_subseq[of "repo_order rs" k]] by simp

text \<open>C34. The slots add up to the total, and each repository gets its exact quota rounded down or
  up, so within one of its proportional share, and never more than it has.\<close>

theorem allocation_fair:
  assumes "distinct (map fst counts)" and "\<forall>(r, n) \<in> set counts. 0 \<le> n"
    and "0 < sum_list (map snd counts)" and "0 \<le> tot" and "tot \<le> sum_list (map snd counts)"
  shows "\<exists>slots. allocate counts tot = Inr slots \<and> map fst slots = map fst counts
    \<and> sum_list (map snd slots) = tot
    \<and> (\<forall>(r, n) \<in> set counts. 0 \<le> item_of slots r \<and> item_of slots r \<le> n
         \<and> \<bar>of_int (item_of slots r) - quota counts tot n\<bar> < 1)"
  using assms by (rule allocate_share)

text \<open>The rows of a repository, the numbers of rows, and the repositories in order.\<close>

abbreviation repo_rows :: "instance_row list \<Rightarrow> string \<Rightarrow> instance_row list" where
  "repo_rows ds k \<equiv> filter (\<lambda>r. i_repo r = k) ds"

abbreviation repo_counts :: "instance_row list \<Rightarrow> (string \<times> int) list" where
  "repo_counts ds \<equiv> map (\<lambda>(r, rows). (r, int (length rows))) (rows_by_repo ds)"

abbreviation repos :: "instance_row list \<Rightarrow> string list" where
  "repos ds \<equiv> sort (map fst (rows_by_repo ds))"

lemma repos_distinct: "distinct (map fst (rows_by_repo ds))"
  using rows_by_repo_lookup by blast

lemma counts_keys: "map fst (repo_counts ds) = map fst (rows_by_repo ds)"
  by (simp add: case_prod_unfold comp_def)

lemma repos_mset: "mset (concat (map (repo_rows ds) (repos ds))) = mset ds"
  by (rule mset_groups) (use repos_distinct[of ds] rows_by_repo_keys[of ds] in auto)

lemma repo_item: "k \<in> set (repos ds) \<Longrightarrow> item_of (rows_by_repo ds) k = repo_rows ds k"
  using rows_by_repo_keys[of ds] by (intro group_of) auto

lemma counts_members: "(r, n) \<in> set (repo_counts ds) \<Longrightarrow> n = int (length (repo_rows ds r))"
proof -
  assume "(r, n) \<in> set (repo_counts ds)"
  then obtain rows where rows: "(r, rows) \<in> set (rows_by_repo ds)" "n = int (length rows)" by auto
  then have "r \<in> set (repos ds)" by force
  then show ?thesis using rows item_of_in[OF repos_distinct rows(1)] repo_item by simp
qed

lemma counts_total: "sum_list (map snd (repo_counts ds)) = int (length ds)"
proof -
  have "sum_list (map snd (repo_counts ds))
      = sum_list (map (\<lambda>k. int (length (repo_rows ds k))) (map fst (repo_counts ds)))"
    using counts_members by (intro sum_list_snd)
  also have "\<dots> = sum_list (map (\<lambda>k. int (length (repo_rows ds k))) (repos ds))"
    unfolding counts_keys by (simp only: sum_list_sort_key[where k = "\<lambda>x. x"])
  also have "\<dots> = int (length (concat (map (repo_rows ds) (repos ds))))"
    by (simp add: int_length_concat comp_def)
  also have "\<dots> = int (length ds)" using repos_mset[of ds] by (metis size_mset)
  finally show ?thesis .
qed

text \<open>The slots are found, none is negative or more than the repository has.\<close>

lemma slots_found:
  assumes "50 \<le> length ds"
  obtains slots where "allocate (repo_counts ds) total_slots = Inr slots" "map fst slots = map fst (repo_counts ds)"
    "sum_list (map snd slots) = 50" "\<forall>(r, n) \<in> set (repo_counts ds). 0 \<le> item_of slots r \<and> item_of slots r \<le> n"
proof -
  have "\<exists>slots. allocate (repo_counts ds) total_slots = Inr slots \<and> map fst slots = map fst (repo_counts ds)
    \<and> sum_list (map snd slots) = total_slots
    \<and> (\<forall>(r, n) \<in> set (repo_counts ds). 0 \<le> item_of slots r \<and> item_of slots r \<le> n
         \<and> \<bar>of_int (item_of slots r) - quota (repo_counts ds) total_slots n\<bar> < 1)"
  proof (rule allocate_share)
    show "distinct (map fst (repo_counts ds))" unfolding counts_keys by (rule repos_distinct)
    show "0 < sum_list (map snd (repo_counts ds))" "total_slots \<le> sum_list (map snd (repo_counts ds))"
      unfolding counts_total total_slots_def using assms by linarith+
  qed (auto simp: total_slots_def)
  then show thesis using that unfolding total_slots_def by fast
qed

abbreviation repo_pick :: "instance_row list \<Rightarrow> (string \<times> int) list \<Rightarrow> string \<Rightarrow> instance_row list" where
  "repo_pick ds slots k \<equiv> evenly_spaced (repo_order (item_of (rows_by_repo ds) k)) (item_of slots k)"

lemma picks_sub: "mset (concat (map (repo_pick ds slots) (repos ds))) \<subseteq># mset ds"
proof -
  have "mset (concat (map (repo_pick ds slots) (repos ds))) \<subseteq># mset (concat (map (repo_rows ds) (repos ds)))"
  proof (rule mset_concat_mono)
    show "mset (repo_pick ds slots k) \<subseteq># mset (repo_rows ds k)" if "k \<in> set (repos ds)" for k
      unfolding repo_item[OF that] by (rule evenly_spaced_mset)
  qed
  then show ?thesis by (simp only: repos_mset)
qed

lemma pick_length:
  assumes "\<forall>(r, n) \<in> set (repo_counts ds). 0 \<le> item_of slots r \<and> item_of slots r \<le> n" and k: "k \<in> set (repos ds)"
  shows "int (length (repo_pick ds slots k)) = item_of slots k"
proof -
  have "k \<in> set (map fst (repo_counts ds))" unfolding counts_keys using k by (simp only: set_sort)
  from key_in[OF this] obtain n where n: "(k, n) \<in> set (repo_counts ds)" ..
  then have "0 \<le> item_of slots k \<and> item_of slots k \<le> n" using bspec[OF assms(1) n] by (simp only: prod.case)
  then have "0 \<le> item_of slots k" "item_of slots k \<le> int (length (repo_rows ds k))" using counts_members[OF n] by simp_all
  then show ?thesis using repo_item[OF k] by (simp add: evenly_spaced_length repo_order_def)
qed

lemma picks_length:
  assumes "map fst slots = map fst (repo_counts ds)"
    and "\<forall>(r, n) \<in> set (repo_counts ds). 0 \<le> item_of slots r \<and> item_of slots r \<le> n"
  shows "int (length (concat (map (repo_pick ds slots) (repos ds)))) = sum_list (map snd slots)"
proof -
  have "sum_list (map (\<lambda>k. int (length (repo_pick ds slots k))) (repos ds)) = sum_list (map (item_of slots) (repos ds))"
    using pick_length[OF assms(2)] by (intro arg_cong[where f = sum_list] map_cong) auto
  also have "\<dots> = sum_list (map (item_of slots) (map fst slots))"
    unfolding assms(1) counts_keys by (simp only: sum_list_sort_key[where k = "\<lambda>x. x"])
  also have "\<dots> = sum_list (map snd slots)"
  proof (rule sum_list_snd[symmetric])
    have "distinct (map fst slots)" unfolding assms(1) counts_keys by (rule repos_distinct)
    then show "(r, n) \<in> set slots \<Longrightarrow> n = item_of slots r" for r n by (simp add: item_of_in)
  qed
  finally show ?thesis by (simp add: int_length_concat comp_def)
qed

text \<open>C35. From a data set of at least fifty rows the script selects exactly fifty of them, no row
  more often than it is there, in the order of their ids.\<close>

theorem sample_exact:
  assumes "50 \<le> length ds"
  shows "\<exists>out. select_rows ds = Inr out \<and> length out = 50 \<and> mset out \<subseteq># mset ds \<and> sorted (map i_id out)"
proof -
  obtain slots where slots: "allocate (repo_counts ds) total_slots = Inr slots" "map fst slots = map fst (repo_counts ds)"
    "sum_list (map snd slots) = 50" "\<forall>(r, n) \<in> set (repo_counts ds). 0 \<le> item_of slots r \<and> item_of slots r \<le> n"
    by (rule slots_found[OF assms])
  let ?out = "sort_key i_id (concat (map (repo_pick ds slots) (repos ds)))"
  have "mset ?out \<subseteq># mset ds" using picks_sub[of ds slots] by simp
  moreover have "length ?out = 50" using picks_length[OF slots(2,4)] slots(3) by simp
  moreover have "select_rows ds = Inr ?out" by (simp add: select_rows_def Let_def slots(1))
  ultimately show ?thesis using sorted_sort_key by blast
qed

lemma demo_counts:
  "distinct (map fst [(''django'', 5), (''flask'', 3), (''sympy'', 2 :: int)])"
  "\<forall>(r, n) \<in> set [(''django'', 5), (''flask'', 3), (''sympy'', 2 :: int)]. 0 \<le> n"
  by simp_all

theorem allocation_fair_witness:
  "\<exists>slots. allocate [(''django'', 5), (''flask'', 3), (''sympy'', 2)] 4 = Inr slots \<and> sum_list (map snd slots) = 4
    \<and> item_of slots ''django'' = 2"
proof -
  have "\<exists>slots. allocate [(''django'', 5), (''flask'', 3), (''sympy'', 2)] 4 = Inr slots
      \<and> map fst slots = map fst [(''django'', 5), (''flask'', 3), (''sympy'', 2 :: int)]
      \<and> sum_list (map snd slots) = 4
      \<and> (\<forall>(r, n) \<in> set [(''django'', 5), (''flask'', 3), (''sympy'', 2)]. 0 \<le> item_of slots r \<and> item_of slots r \<le> n
         \<and> \<bar>of_int (item_of slots r) - quota [(''django'', 5), (''flask'', 3), (''sympy'', 2)] 4 n\<bar> < 1)"
    by (rule allocation_fair[OF demo_counts]) simp_all
  moreover have "quota [(''django'', 5), (''flask'', 3), (''sympy'', 2)] 4 5 = 2" by (simp add: quota_def)
  ultimately show ?thesis by fastforce
qed

definition demo_instance :: "string \<Rightarrow> string \<Rightarrow> instance_row" where
  "demo_instance repo ident = \<lparr>i_id = ident, i_repo = repo, i_commit = ''c0'', i_problem = ''p'', i_difficulty = ''1-4 hours''\<rparr>"

definition demo_dataset :: "instance_row list" where
  "demo_dataset = concat (map (\<lambda>c. [demo_instance ''django'' [''d'' ! 0, c], demo_instance ''flask'' [''f'' ! 0, c]])
     ''ABCDEFGHIJKLMNOPQRSTUVWXYZ'')"

theorem sample_exact_witness:
  "\<exists>out. select_rows demo_dataset = Inr out \<and> length out = 50 \<and> mset out \<subseteq># mset demo_dataset
    \<and> sorted (map i_id out)"
  by (rule sample_exact) (simp add: demo_dataset_def)

end
