(* ===== verification/ThemePalettes.thy ===== *)
theory ThemePalettes
  imports Json Texts
begin

text \<open>
  The palettes of \<open>scripts/official-theme-art/palettes.py\<close> and its contrast gate. Colours are the
  hexadecimal texts of the script; relative luminance and contrast are real numbers, where the
  script has floats.
\<close>

section \<open>Palettes\<close>

type_synonym palette = "(string \<times> string) list"

record theme_spec =
  t_name :: string
  t_zh :: string
  t_base :: string
  t_corners :: string
  t_params :: "rat \<times> rat \<times> rat \<times> rat \<times> rat"
  t_description :: string
  t_light :: palette
  t_dark :: palette

definition rose_dawn_theme :: theme_spec where
  "rose_dawn_theme = \<lparr>
    t_name = ''Rose Dawn'',
    t_zh = [CHR 0xE7, CHR 0x8E, CHR 0xAB, CHR 0xE7, CHR 0x91, CHR 0xB0, CHR 0xE6, CHR 0x99, CHR 0xA8, CHR 0xE5, CHR 0x85, CHR 0x89],
    t_base = ''graphite'',
    t_corners = ''round'',
    t_params = (72 / 100, 43 / 100, 100 / 100, 20 / 100, 68 / 100),
    t_description = ''Ivory dawn light, soft roses and an original illustrated muse on the right.'',
    t_light =
     [(''bg'', ''#FFF7F8''), (''bgSoft'', ''#FBEFF1''), (''bgElev'', ''#FFFFFF''), (''panel'', ''#FFFFFF''),
      (''sidebar'', ''#FBECEF''), (''chat'', ''#FFFCFC''), (''workspace'', ''#FFFFFF''), (''workspaceFiles'', ''#FDF3F4''),
      (''border'', ''#E2BCC6''), (''borderSoft'', ''#F5E3E7''), (''fg'', ''#3A252C''), (''fgDim'', ''#6D4A55''),
      (''fgFaint'', ''#A97B87''), (''accent'', ''#B43F65''), (''accentFg'', ''#FFF7F8'')],
    t_dark =
     [(''bg'', ''#1E1419''), (''bgSoft'', ''#281B21''), (''bgElev'', ''#312329''), (''panel'', ''#2A1D24''),
      (''sidebar'', ''#251922''), (''chat'', ''#231820''), (''workspace'', ''#312329''), (''workspaceFiles'', ''#281C22''),
      (''border'', ''#4C3440''), (''borderSoft'', ''#3A2832''), (''fg'', ''#FFF3F6''), (''fgDim'', ''#D9B3C0''),
      (''fgFaint'', ''#A87C8C''), (''accent'', ''#E26D91''), (''accentFg'', ''#2A121D'')]\<rparr>"

definition fortune_forge_theme :: theme_spec where
  "fortune_forge_theme = \<lparr>
    t_name = ''Fortune Forge'',
    t_zh = [CHR 0xE9, CHR 0xB8, CHR 0xBF, CHR 0xE8, CHR 0xBF, CHR 0x90, CHR 0xE5, CHR 0xB7, CHR 0xA5, CHR 0xE5, CHR 0x9D, CHR 0x8A],
    t_base = ''amber'',
    t_corners = ''soft'',
    t_params = (74 / 100, 44 / 100, 100 / 100, 20 / 100, 70 / 100),
    t_description = ''Warm ivory workshop with vermilion, gold and jade around an original lucky programmer.'',
    t_light =
     [(''bg'', ''#FFF8E8''), (''bgSoft'', ''#F9EFD5''), (''bgElev'', ''#FFFDF6''), (''panel'', ''#FFFDF6''),
      (''sidebar'', ''#F8EDD3''), (''chat'', ''#FFFBF1''), (''workspace'', ''#FFFDF6''), (''workspaceFiles'', ''#FAF1DC''),
      (''border'', ''#D6B87E''), (''borderSoft'', ''#F2E7CD''), (''fg'', ''#382116''), (''fgDim'', ''#6E4E35''),
      (''fgFaint'', ''#A98A68''), (''accent'', ''#A92D22''), (''accentFg'', ''#FFF8E8'')],
    t_dark =
     [(''bg'', ''#1D140D''), (''bgSoft'', ''#271C12''), (''bgElev'', ''#302417''), (''panel'', ''#291E13''),
      (''sidebar'', ''#251B11''), (''chat'', ''#231A11''), (''workspace'', ''#302417''), (''workspaceFiles'', ''#271D13''),
      (''border'', ''#4D3A22''), (''borderSoft'', ''#3B2C1A''), (''fg'', ''#FFF2D1''), (''fgDim'', ''#DDC49C''),
      (''fgFaint'', ''#A9926B''), (''accent'', ''#E8AD38''), (''accentFg'', ''#241606'')]\<rparr>"

definition crimson_horizon_theme :: theme_spec where
  "crimson_horizon_theme = \<lparr>
    t_name = ''Crimson Horizon'',
    t_zh = [CHR 0xE8, CHR 0xB5, CHR 0xA4, CHR 0xE6, CHR 0x9B, CHR 0x9C, CHR 0xE6, CHR 0x96, CHR 0xB0, CHR 0xE5, CHR 0x9F, CHR 0x8E],
    t_base = ''graphite'',
    t_corners = ''soft'',
    t_params = (75 / 100, 45 / 100, 98 / 100, 22 / 100, 66 / 100),
    t_description = ''Pearl-white sky over a coral-red future city skyline. No people, pure skyline.'',
    t_light =
     [(''bg'', ''#FFF8F7''), (''bgSoft'', ''#F9EEEC''), (''bgElev'', ''#FFFFFF''), (''panel'', ''#FFFFFF''),
      (''sidebar'', ''#F9ECEA''), (''chat'', ''#FFFBFA''), (''workspace'', ''#FFFFFF''), (''workspaceFiles'', ''#FBF1EF''),
      (''border'', ''#DFB3AD''), (''borderSoft'', ''#F6E4E2''), (''fg'', ''#301D1D''), (''fgDim'', ''#6B4644''),
      (''fgFaint'', ''#A9807D''), (''accent'', ''#B92B38''), (''accentFg'', ''#FFF8F7'')],
    t_dark =
     [(''bg'', ''#190D11''), (''bgSoft'', ''#221318''), (''bgElev'', ''#2B181E''), (''panel'', ''#25141A''),
      (''sidebar'', ''#211218''), (''chat'', ''#201116''), (''workspace'', ''#2B181E''), (''workspaceFiles'', ''#221319''),
      (''border'', ''#582F3C''), (''borderSoft'', ''#361B24''), (''fg'', ''#FFF1F2''), (''fgDim'', ''#DFB3B6''),
      (''fgFaint'', ''#AC7E84''), (''accent'', ''#FF6772''), (''accentFg'', ''#2A0E12'')]\<rparr>"

definition sage_breeze_theme :: theme_spec where
  "sage_breeze_theme = \<lparr>
    t_name = ''Sage Breeze'',
    t_zh = [CHR 0xE9, CHR 0xBC, CHR 0xA0, CHR 0xE5, CHR 0xB0, CHR 0xBE, CHR 0xE8, CHR 0x8D, CHR 0x89, CHR 0xE6, CHR 0xB8, CHR 0x85, CHR 0xE9, CHR 0xA3, CHR 0x8E],
    t_base = ''slate'',
    t_corners = ''soft'',
    t_params = (73 / 100, 44 / 100, 100 / 100, 20 / 100, 68 / 100),
    t_description = ''Cream paper, sage sprigs and an original illustrated reader on the right.'',
    t_light =
     [(''bg'', ''#F7F7EF''), (''bgSoft'', ''#EFEFE2''), (''bgElev'', ''#FCFCF6''), (''panel'', ''#FCFCF6''),
      (''sidebar'', ''#EEEEE0''), (''chat'', ''#FAFAF4''), (''workspace'', ''#FCFCF6''), (''workspaceFiles'', ''#F1F1E5''),
      (''border'', ''#BFC095''), (''borderSoft'', ''#E8E8D8''), (''fg'', ''#26332D''), (''fgDim'', ''#4E6157''),
      (''fgFaint'', ''#7C8F83''), (''accent'', ''#47735F''), (''accentFg'', ''#F7F7EF'')],
    t_dark =
     [(''bg'', ''#101814''), (''bgSoft'', ''#17211C''), (''bgElev'', ''#1E2922''), (''panel'', ''#19231D''),
      (''sidebar'', ''#161F1A''), (''chat'', ''#151E19''), (''workspace'', ''#1E2922''), (''workspaceFiles'', ''#17211C''),
      (''border'', ''#32443A''), (''borderSoft'', ''#25322B''), (''fg'', ''#EEF6F0''), (''fgDim'', ''#B7CDBF''),
      (''fgFaint'', ''#7E968A''), (''accent'', ''#84CBA7''), (''accentFg'', ''#0E1A13'')]\<rparr>"

definition spark_notebook_theme :: theme_spec where
  "spark_notebook_theme = \<lparr>
    t_name = ''Spark Notebook'',
    t_zh = [CHR 0xE7, CHR 0x81, CHR 0xB5, CHR 0xE6, CHR 0x84, CHR 0x9F, CHR 0xE6, CHR 0x89, CHR 0x8B, CHR 0xE8, CHR 0xB4, CHR 0xA6],
    t_base = ''aurora'',
    t_corners = ''round'',
    t_params = (74 / 100, 46 / 100, 98 / 100, 20 / 100, 68 / 100),
    t_description = ''Off-white notebook grid with teal, yellow and coral stationery around an original anime adult.'',
    t_light =
     [(''bg'', ''#FFF9ED''), (''bgSoft'', ''#F9F1DE''), (''bgElev'', ''#FFFDF7''), (''panel'', ''#FFFDF7''),
      (''sidebar'', ''#F8F0DC''), (''chat'', ''#FFFCF4''), (''workspace'', ''#FFFDF7''), (''workspaceFiles'', ''#FAF3E2''),
      (''border'', ''#D2BC8E''), (''borderSoft'', ''#F2E9D4''), (''fg'', ''#2B2F35''), (''fgDim'', ''#565D66''),
      (''fgFaint'', ''#848D98''), (''accent'', ''#007B78''), (''accentFg'', ''#F3FBFA'')],
    t_dark =
     [(''bg'', ''#14171A''), (''bgSoft'', ''#1B1F23''), (''bgElev'', ''#23282D''), (''panel'', ''#1D2226''),
      (''sidebar'', ''#1A1E22''), (''chat'', ''#191D21''), (''workspace'', ''#23282D''), (''workspaceFiles'', ''#1B2024''),
      (''border'', ''#38404A''), (''borderSoft'', ''#2A3138''), (''fg'', ''#F8F5E9''), (''fgDim'', ''#C9CCBF''),
      (''fgFaint'', ''#8B918A''), (''accent'', ''#42D1C6''), (''accentFg'', ''#08201E'')]\<rparr>"

definition violet_starlight_theme :: theme_spec where
  "violet_starlight_theme = \<lparr>
    t_name = ''Violet Starlight'',
    t_zh = [CHR 0xE7, CHR 0xB4, CHR 0xAB, CHR 0xE6, CHR 0x9B, CHR 0x9C, CHR 0xE6, CHR 0x98, CHR 0x9F, CHR 0xE5, CHR 0xA4, CHR 0x9C],
    t_base = ''nocturne'',
    t_corners = ''round'',
    t_params = (73 / 100, 44 / 100, 96 / 100, 18 / 100, 72 / 100),
    t_description = ''Blue-violet starfield with glowing butterflies and an original silhouette muse.'',
    t_light =
     [(''bg'', ''#F7F4FF''), (''bgSoft'', ''#EFEBFB''), (''bgElev'', ''#FCFAFF''), (''panel'', ''#FCFAFF''),
      (''sidebar'', ''#EEE9FA''), (''chat'', ''#FAF8FF''), (''workspace'', ''#FCFAFF''), (''workspaceFiles'', ''#F1EDFB''),
      (''border'', ''#CABDEC''), (''borderSoft'', ''#E8E3F7''), (''fg'', ''#251F3C''), (''fgDim'', ''#544B74''),
      (''fgFaint'', ''#9188B3''), (''accent'', ''#6242C7''), (''accentFg'', ''#F7F4FF'')],
    t_dark =
     [(''bg'', ''#0C1022''), (''bgSoft'', ''#131834''), (''bgElev'', ''#1A2140''), (''panel'', ''#151B36''),
      (''sidebar'', ''#121732''), (''chat'', ''#111630''), (''workspace'', ''#1A2140''), (''workspaceFiles'', ''#131834''),
      (''border'', ''#2E3A66''), (''borderSoft'', ''#222B4E''), (''fg'', ''#F4F2FF''), (''fgDim'', ''#C2BDE8''),
      (''fgFaint'', ''#8580B8''), (''accent'', ''#9B86FF''), (''accentFg'', ''#14102E'')]\<rparr>"

definition cyan_stage_theme :: theme_spec where
  "cyan_stage_theme = \<lparr>
    t_name = ''Cyan Stage'',
    t_zh = [CHR 0xE9, CHR 0x9D, CHR 0x92, CHR 0xE5, CHR 0xB2, CHR 0x9A, CHR 0xE8, CHR 0x88, CHR 0x9E, CHR 0xE5, CHR 0x8F, CHR 0xB0],
    t_base = ''carbon'',
    t_corners = ''round'',
    t_params = (74 / 100, 45 / 100, 96 / 100, 18 / 100, 72 / 100),
    t_description = ''Airy cyan future stage with light rings and an original digital performer.'',
    t_light =
     [(''bg'', ''#F1FCFD''), (''bgSoft'', ''#E4F5F7''), (''bgElev'', ''#FAFEFE''), (''panel'', ''#FAFEFE''),
      (''sidebar'', ''#E3F4F6''), (''chat'', ''#F6FDFE''), (''workspace'', ''#FAFEFE''), (''workspaceFiles'', ''#E8F6F8''),
      (''border'', ''#9CCFD7''), (''borderSoft'', ''#DAEDF0''), (''fg'', ''#173238''), (''fgDim'', ''#43606A''),
      (''fgFaint'', ''#71939D''), (''accent'', ''#007C92''), (''accentFg'', ''#F1FCFD'')],
    t_dark =
     [(''bg'', ''#07181D''), (''bgSoft'', ''#0C2229''), (''bgElev'', ''#112C34''), (''panel'', ''#0E252D''),
      (''sidebar'', ''#0B2128''), (''chat'', ''#0A2027''), (''workspace'', ''#112C34''), (''workspaceFiles'', ''#0C232A''),
      (''border'', ''#1F4550''), (''borderSoft'', ''#16333C''), (''fg'', ''#E9FCFF''), (''fgDim'', ''#AEDBE2''),
      (''fgFaint'', ''#6FA5AF''), (''accent'', ''#37D7E4''), (''accentFg'', ''#04222a'')]\<rparr>"

definition noir_gold_theme :: theme_spec where
  "noir_gold_theme = \<lparr>
    t_name = ''Noir Gold'',
    t_zh = [CHR 0xE9, CHR 0xBB, CHR 0x91, CHR 0xE9, CHR 0x87, CHR 0x91, CHR 0xE5, CHR 0xBA, CHR 0x8F, CHR 0xE6, CHR 0x9B, CHR 0xB2],
    t_base = ''carbon'',
    t_corners = ''soft'',
    t_params = (73 / 100, 43 / 100, 94 / 100, 18 / 100, 74 / 100),
    t_description = ''Champagne field, black velvet curtain and gold spotlights around an original gentleman.'',
    t_light =
     [(''bg'', ''#FCF8EE''), (''bgSoft'', ''#F6F0DF''), (''bgElev'', ''#FEFBF4''), (''panel'', ''#FEFBF4''),
      (''sidebar'', ''#F5EFDD''), (''chat'', ''#FDFAF2''), (''workspace'', ''#FEFBF4''), (''workspaceFiles'', ''#F7F1E1''),
      (''border'', ''#CCBE94''), (''borderSoft'', ''#EFE8D2''), (''fg'', ''#2A241B''), (''fgDim'', ''#5C5340''),
      (''fgFaint'', ''#9A8F74''), (''accent'', ''#7A5A16''), (''accentFg'', ''#FCF8EE'')],
    t_dark =
     [(''bg'', ''#0D0B09''), (''bgSoft'', ''#15120E''), (''bgElev'', ''#1D1913''), (''panel'', ''#171410''),
      (''sidebar'', ''#14110D''), (''chat'', ''#131009''), (''workspace'', ''#1D1913''), (''workspaceFiles'', ''#15120E''),
      (''border'', ''#463B27''), (''borderSoft'', ''#2A2418''), (''fg'', ''#F8F1DF''), (''fgDim'', ''#D6CBAE''),
      (''fgFaint'', ''#968C6E''), (''accent'', ''#D9B45B''), (''accentFg'', ''#1D1503'')]\<rparr>"

definition official_themes :: "(string \<times> theme_spec) list" where
  "official_themes =
    [(''official-rose-dawn'', rose_dawn_theme),
     (''official-fortune-forge'', fortune_forge_theme),
     (''official-crimson-horizon'', crimson_horizon_theme),
     (''official-sage-breeze'', sage_breeze_theme),
     (''official-spark-notebook'', spark_notebook_theme),
     (''official-violet-starlight'', violet_starlight_theme),
     (''official-cyan-stage'', cyan_stage_theme),
     (''official-noir-gold'', noir_gold_theme)]"

section \<open>Luminance and contrast\<close>

text \<open>\<open>int(s, 16)\<close> of hexadecimal digits.\<close>

definition hex_value :: "char \<Rightarrow> int option" where
  "hex_value c =
     (let n = of_char c in
      if 48 \<le> n \<and> n \<le> 57 then Some (n - 48)
      else if 97 \<le> n \<and> n \<le> 102 then Some (n - 87)
      else if 65 \<le> n \<and> n \<le> 70 then Some (n - 55)
      else None)"

definition hex_int :: "string \<Rightarrow> int res" where
  "hex_int s =
     (if s = [] then Inl (ValueErr ''invalid literal for int() with base 16'')
      else rfold (\<lambda>c n. case hex_value c of
                     None \<Rightarrow> Inl (ValueErr ''invalid literal for int() with base 16'')
                   | Some v \<Rightarrow> Inr (16 * n + v)) s 0)"

text \<open>\<open>hexs.lstrip("#")[:6]\<close>, and the three channels of it.\<close>

definition channels :: "string \<Rightarrow> (int \<times> int \<times> int) res" where
  "channels hexs =
     (let s = take 6 (dropWhile (\<lambda>c. c = CHR ''#'') hexs) in
      rbind (hex_int (take 2 s)) (\<lambda>r.
      rbind (hex_int (take 2 (drop 2 s))) (\<lambda>g.
      rbind (hex_int (take 2 (drop 4 s))) (\<lambda>b. Inr (r, g, b)))))"

definition lin :: "real \<Rightarrow> real" where
  "lin c = (if c \<le> 0.04045 then c / 12.92 else ((c + 0.055) / 1.055) powr 2.4)"

definition lum :: "string \<Rightarrow> real res" where
  "lum hexs =
     rbind (channels hexs) (\<lambda>(r, g, b).
     Inr (0.2126 * lin (r / 255) + 0.7152 * lin (g / 255) + 0.0722 * lin (b / 255)))"

definition ratio :: "string \<Rightarrow> string \<Rightarrow> real res" where
  "ratio a b =
     rbind (lum a) (\<lambda>la. rbind (lum b) (\<lambda>lb.
     Inr ((max la lb + 0.05) / (min la lb + 0.05))))"

section \<open>The gate\<close>

definition token :: "palette \<Rightarrow> string \<Rightarrow> string res" where
  "token tk k = (case map_of tk k of None \<Rightarrow> Inl (KeyErr k) | Some v \<Rightarrow> Inr v)"

text \<open>The pairs the gate looks at: the name, the two tokens and the minimum in tenths.\<close>

definition contrast_pairs :: "(string \<times> string \<times> string \<times> nat) list" where
  "contrast_pairs =
     [(''fg/bg'', ''fg'', ''bg'', 45),
      (''fg/chat'', ''fg'', ''chat'', 45),
      (''fg/panel'', ''fg'', ''panel'', 45),
      (''fgDim/bg'', ''fgDim'', ''bg'', 30),
      (''fgFaint/bg'', ''fgFaint'', ''bg'', 30),
      (''fgFaint/panel'', ''fgFaint'', ''panel'', 30),
      (''accentFg/accent'', ''accentFg'', ''accent'', 30),
      (''accent/bg'', ''accent'', ''bg'', 30),
      (''border/bg'', ''border'', ''bg'', 16)]"

text \<open>A failed pair as the gate prints it: theme, mode, pair, contrast, minimum and the two colours.\<close>

type_synonym contrast_failure = "string \<times> string \<times> string \<times> real \<times> nat \<times> string \<times> string"

definition check_pair ::
    "string \<Rightarrow> string \<Rightarrow> string \<times> string \<times> string \<times> nat \<Rightarrow> contrast_failure list res" where
  "check_pair tid mode = (\<lambda>(name, a, b, minimum).
     rbind (ratio a b) (\<lambda>r.
     Inr (if r < minimum / 10 then [(tid, mode, name, r, minimum, a, b)] else [])))"

text \<open>\<open>pairs\<close> is built with every token before the first pair is looked at.\<close>

definition resolve_pairs :: "palette \<Rightarrow> (string \<times> string \<times> string \<times> nat) list res" where
  "resolve_pairs tk =
     rmap (\<lambda>(name, a, b, m). rbind (token tk a) (\<lambda>x. rbind (token tk b) (\<lambda>y. Inr (name, x, y, m)))) contrast_pairs"

definition check_mode :: "string \<Rightarrow> string \<times> palette \<Rightarrow> contrast_failure list res" where
  "check_mode tid = (\<lambda>(mode, tk).
     rbind (resolve_pairs tk) (\<lambda>pairs.
     rbind (rmap (check_pair tid mode) pairs) (\<lambda>fs. Inr (concat fs))))"

definition check_theme_contrast :: "string \<times> theme_spec \<Rightarrow> contrast_failure list res" where
  "check_theme_contrast = (\<lambda>(tid, spec).
     rbind (rmap (check_mode tid) [(''light'', t_light spec), (''dark'', t_dark spec)]) (\<lambda>fs. Inr (concat fs)))"

text \<open>\<open>check\<close> returns the number of failures it has printed.\<close>

definition check_contrast :: "(string \<times> theme_spec) list \<Rightarrow> contrast_failure list res" where
  "check_contrast themes = rbind (rmap check_theme_contrast themes) (\<lambda>fs. Inr (concat fs))"

lemma hex_value_range: "hex_value c = Some v \<Longrightarrow> 0 \<le> v \<and> v < 16"
  by (auto simp: hex_value_def Let_def split: if_splits)

end
