(* ===== verification/ThemeContrast.thy ===== *)
theory ThemeContrast
  imports ThemePalettes
begin

text \<open>
  The contrast gate passes the official palettes. The real power in the luminance of a channel is
  enclosed between rationals: an entry of \<open>lin_table\<close> for a channel value has \<open>10^5\<close> times
  the power \<open>0.4\<close> of the rescaled channel and \<open>10^6\<close> times its luminance, rounded
  down; both are certified by comparing integers.
\<close>

section \<open>Enclosing the luminance of a channel\<close>

definition lin_table :: "(int \<times> int) list" where
  "lin_table =
     [(0, 0), (0, 303), (0, 607), (0, 910), (0, 1214), (0, 1517), (0, 1821), (0, 2124),
      (0, 2428), (0, 2731), (0, 3035), (38675, 3346), (39286, 3676), (39883, 4024), (40467, 4391), (41038, 4776),
      (41598, 5181), (42147, 5605), (42685, 6048), (43213, 6512), (43732, 6995), (44241, 7498), (44742, 8023), (45235, 8567),
      (45720, 9133), (46197, 9721), (46667, 10329), (47130, 10959), (47586, 11612), (48036, 12286), (48480, 12983), (48917, 13701),
      (49349, 14443), (49775, 15208), (50196, 15996), (50611, 16807), (51022, 17641), (51427, 18500), (51828, 19382), (52224, 20288),
      (52616, 21218), (53003, 22173), (53387, 23153), (53766, 24157), (54141, 25186), (54512, 26240), (54880, 27320), (55244, 28425),
      (55604, 29556), (55961, 30713), (56314, 31895), (56665, 33104), (57012, 34339), (57355, 35600), (57696, 36889), (58034, 38204),
      (58369, 39546), (58701, 40915), (59030, 42311), (59356, 43734), (59680, 45185), (60001, 46664), (60320, 48171), (60636, 49705),
      (60950, 51269), (61261, 52860), (61570, 54479), (61877, 56128), (62181, 57804), (62483, 59510), (62783, 61245), (63081, 63009),
      (63377, 64803), (63670, 66625), (63962, 68477), (64252, 70359), (64539, 72270), (64825, 74212), (65109, 76184), (65391, 78186),
      (65672, 80219), (65950, 82282), (66227, 84375), (66502, 86500), (66775, 88654), (67047, 90841), (67317, 93058), (67585, 95306),
      (67852, 97586), (68117, 99897), (68381, 102241), (68643, 104615), (68904, 107022), (69163, 109460), (69421, 111931), (69677, 114434),
      (69932, 116969), (70186, 119538), (70438, 122138), (70689, 124771), (70938, 127436), (71186, 130134), (71433, 132866), (71679, 135632),
      (71923, 138430), (72166, 141261), (72408, 144126), (72649, 147026), (72889, 149959), (73127, 152925), (73364, 155925), (73600, 158959),
      (73835, 162028), (74069, 165131), (74302, 168269), (74533, 171439), (74764, 174646), (74993, 177886), (75222, 181164), (75449, 184473),
      (75675, 187818), (75901, 191201), (76125, 194616), (76348, 198066), (76571, 201555), (76792, 205076), (77013, 208636), (77232, 212228),
      (77451, 215859), (77669, 219526), (77885, 223225), (78101, 226964), (78316, 230738), (78530, 234548), (78743, 238394), (78956, 242280),
      (79167, 246198), (79378, 250156), (79588, 254151), (79797, 258182), (80005, 262249), (80212, 266352), (80419, 270496), (80625, 274676),
      (80830, 278893), (81034, 283147), (81237, 287438), (81440, 291768), (81642, 296136), (81843, 300541), (82044, 304987), (82243, 309466),
      (82442, 313985), (82640, 318542), (82838, 323141), (83035, 327776), (83231, 332449), (83427, 337163), (83621, 341911), (83815, 346700),
      (84009, 351531), (84202, 356399), (84394, 361305), (84585, 366249), (84776, 371235), (84966, 376259), (85156, 381325), (85345, 386429),
      (85533, 391570), (85720, 396750), (85908, 401977), (86094, 407238), (86280, 412541), (86465, 417882), (86650, 423267), (86834, 428689),
      (87017, 434150), (87200, 439654), (87382, 445197), (87564, 450782), (87745, 456407), (87926, 462075), (88106, 467781), (88285, 473526),
      (88464, 479315), (88643, 485148), (88821, 491019), (88998, 496929), (89175, 502884), (89351, 508877), (89527, 514914), (89702, 520991),
      (89877, 527112), (90051, 533272), (90225, 539476), (90398, 545720), (90571, 552008), (90743, 558336), (90915, 564708), (91086, 571120),
      (91257, 577577), (91427, 584072), (91597, 590614), (91767, 597201), (91935, 603820), (92104, 610492), (92272, 617203), (92439, 623954),
      (92606, 630750), (92773, 637592), (92939, 644474), (93105, 651402), (93270, 658369), (93435, 665382), (93600, 672443), (93763, 679535),
      (93927, 686681), (94090, 693866), (94253, 701099), (94415, 708370), (94577, 715689), (94738, 723047), (94899, 730453), (95060, 737905),
      (95220, 745397), (95380, 752937), (95540, 760523), (95699, 768150), (95857, 775816), (96015, 783530), (96173, 791291), (96331, 799100),
      (96488, 806949), (96644, 814838), (96801, 822783), (96957, 830768), (97112, 838792), (97267, 846865), (97422, 854986), (97577, 863155),
      (97731, 871364), (97884, 879613), (98038, 887920), (98191, 896266), (98343, 904652), (98496, 913096), (98648, 921580), (98799, 930103),
      (98950, 938676), (99101, 947298), (99252, 955969), (99402, 964680), (99552, 973440), (99701, 982241), (99851, 991100), (100000, 1000000)]"

lemma fifth_root:
  fixes x :: real
  assumes "0 < x"
  shows "(x powr 0.4) ^ 5 = x ^ 2" and "x powr 2.4 = x ^ 2 * x powr 0.4"
proof -
  have "(x powr 0.4) ^ 5 = (x powr 0.4) powr (real 5)" using assms by (subst powr_realpow) simp_all
  also have "\<dots> = x powr (real 2)" by (simp add: powr_powr)
  also have "\<dots> = x ^ 2" by (rule powr_realpow[OF assms])
  finally show "(x powr 0.4) ^ 5 = x ^ 2" .
  have "x powr 2.4 = x powr (real 2 + 0.4)" by simp
  also have "\<dots> = x powr (real 2) * x powr 0.4" by (rule powr_add)
  finally show "x powr 2.4 = x ^ 2 * x powr 0.4" using powr_realpow[OF assms, of 2] by simp
qed

lemma root_bounds:
  fixes x :: real
  assumes "0 < x" and "0 \<le> t" and "t ^ 5 \<le> x ^ 2" and "x ^ 2 \<le> u ^ 5" and "0 \<le> u"
  shows "x ^ 2 * t \<le> x powr 2.4" and "x powr 2.4 \<le> x ^ 2 * u"
proof -
  have "t ^ 5 \<le> (x powr 0.4) ^ 5" "(x powr 0.4) ^ 5 \<le> u ^ 5" using assms fifth_root(1) by simp_all
  then have "t \<le> x powr 0.4" "x powr 0.4 \<le> u" using assms(2,5) by (simp_all add: power_mono_iff)
  then show "x ^ 2 * t \<le> x powr 2.4" "x powr 2.4 \<le> x ^ 2 * u"
    unfolding fifth_root(2)[OF assms(1)] by (simp_all add: mult_left_mono)
qed

text \<open>The integer tests of an entry: \<open>269025 = 255 * 1055\<close>.\<close>

definition pow5 :: "int \<Rightarrow> int" where
  "pow5 a = (let c = a * a in c * c * a)"

definition entry_ok :: "int \<Rightarrow> int \<times> int \<Rightarrow> bool" where
  "entry_ok v e =
     (let (t, lo) = e in
      if v \<le> 10 then lo * 32946 \<le> v * 10000000 \<and> v * 10000000 \<le> (lo + 12) * 32946
      else let p = 1000 * v + 14025; q = p * p; r = q * 10000000000000000000000000 in
           0 \<le> t \<and> pow5 t * 72374450625 \<le> r \<and> r \<le> pow5 (t + 1) * 72374450625
         \<and> lo * 7237445062500000 \<le> q * t * 1000000
         \<and> q * (t + 1) * 1000000 \<le> (lo + 12) * 7237445062500000)"

lemma entries_ok: "list_all2 entry_ok [0..255] lin_table"
  by code_simp

definition lo_of :: "int \<Rightarrow> int" where
  "lo_of v = snd (lin_table ! nat v)"

lemma entry_of:
  assumes "0 \<le> v" and "v \<le> 255"
  shows "entry_ok v (lin_table ! nat v)"
proof -
  have "nat v < 256" using assms by simp
  moreover have "\<forall>i<256. entry_ok (int i) (lin_table ! i)"
    using entries_ok by (simp add: list_all2_conv_all_nth)
  ultimately have "entry_ok (int (nat v)) (lin_table ! nat v)" by blast
  then show ?thesis using assms by simp
qed

lemma cross_le:
  fixes a b c d :: int
  assumes "a * c \<le> b * d" and "0 < c" and "0 < d"
  shows "real_of_int a / of_int d \<le> of_int b / of_int c"
proof -
  have "real_of_int (a * c) \<le> of_int (b * d)" using assms(1) by (simp only: of_int_le_iff)
  then show ?thesis using assms(2,3) by (simp add: field_simps)
qed

lemma lin_bounds:
  assumes "0 \<le> v" and "v \<le> 255"
  shows "lo_of v / 1000000 \<le> lin (v / 255) \<and> lin (v / 255) \<le> (lo_of v + 12) / 1000000"
proof -
  obtain t lo where e: "lin_table ! nat v = (t, lo)" by (cases "lin_table ! nat v")
  then have lo: "lo_of v = lo" by (simp add: lo_of_def)
  note ok = entry_of[OF assms, unfolded e entry_ok_def Let_def prod.case]
  show ?thesis
  proof (cases "v \<le> 10")
    case True
    then have "lo * 32946 \<le> v * 10000000" "v * 10000000 \<le> (lo + 12) * 32946" using ok by simp_all
    then have "real_of_int (lo * 32946) \<le> of_int (v * 10000000)"
      "real_of_int (v * 10000000) \<le> of_int ((lo + 12) * 32946)" by (simp_all only: of_int_le_iff)
    moreover have "real_of_int v / 255 \<le> 0.04045" using True by simp
    ultimately show ?thesis unfolding lo lin_def by simp
  next
    case False
    let ?p = "1000 * v + 14025" and ?x = "(real_of_int v / 255 + 0.055) / 1.055"
    have x: "?x = ?p / 269025" by simp
    have pos: "0 < ?x" using assms(1) by simp
    from False ok have t: "0 \<le> t"
      and r: "pow5 t * 72374450625 \<le> ?p * ?p * 10000000000000000000000000"
        "?p * ?p * 10000000000000000000000000 \<le> pow5 (t + 1) * 72374450625"
      and q: "lo * 7237445062500000 \<le> ?p * ?p * t * 1000000"
        "?p * ?p * (t + 1) * 1000000 \<le> (lo + 12) * 7237445062500000" by simp_all
    have sq: "?x ^ 2 = real_of_int (?p * ?p) / 72374450625" unfolding x by (simp add: power2_eq_square)
    have p5: "(real_of_int a / 100000) ^ 5 = of_int (pow5 a) / 10000000000000000000000000" for a
      by (simp add: pow5_def Let_def power_divide eval_nat_numeral)
    have "(real_of_int t / 100000) ^ 5 \<le> ?x ^ 2" "?x ^ 2 \<le> (real_of_int (t + 1) / 100000) ^ 5"
      unfolding sq p5 using cross_le[OF r(1)] cross_le[OF r(2)] by simp_all
    then have b: "?x ^ 2 * (t / 100000) \<le> ?x powr 2.4" "?x powr 2.4 \<le> ?x ^ 2 * (real_of_int (t + 1) / 100000)"
      using root_bounds[OF pos, of "t / 100000" "real_of_int (t + 1) / 100000"] t by simp_all
    define w where "w = real_of_int (?p * ?p)"
    have "real_of_int (lo * 7237445062500000) \<le> of_int (?p * ?p * t * 1000000)"
      "real_of_int (?p * ?p * (t + 1) * 1000000) \<le> of_int ((lo + 12) * 7237445062500000)"
      using q by (simp_all only: of_int_le_iff)
    then have "lo * 7237445062500000 \<le> w * t * 1000000" "w * (real_of_int t + 1) * 1000000 \<le> (real_of_int lo + 12) * 7237445062500000"
      unfolding w_def by (simp_all only: of_int_mult of_int_add of_int_numeral of_int_1)
    then have "lo / 1000000 \<le> ?x ^ 2 * (t / 100000)" "?x ^ 2 * (real_of_int (t + 1) / 100000) \<le> (lo + 12) / 1000000"
      unfolding sq w_def[symmetric] by (simp_all add: field_simps)
    moreover have "lin (v / 255) = ?x powr 2.4" using False by (simp add: lin_def)
    ultimately show ?thesis using b unfolding lo by linarith
  qed
qed

section \<open>Deciding a pair\<close>

text \<open>Luminance in units of \<open>10^-10\<close>, from below; it is off by at most 120000.\<close>

definition lum_lo :: "int \<times> int \<times> int \<Rightarrow> int" where
  "lum_lo = (\<lambda>(r, g, b). 2126 * lo_of r + 7152 * lo_of g + 722 * lo_of b)"

definition byte_triple :: "int \<times> int \<times> int \<Rightarrow> bool" where
  "byte_triple = (\<lambda>(r, g, b). 0 \<le> r \<and> r \<le> 255 \<and> 0 \<le> g \<and> g \<le> 255 \<and> 0 \<le> b \<and> b \<le> 255)"

lemma lum_bounds:
  assumes "channels h = Inr rgb" and "byte_triple rgb"
  shows "\<exists>l. lum h = Inr l \<and> lum_lo rgb / 10000000000 \<le> l \<and> l \<le> (lum_lo rgb + 120000) / 10000000000"
proof -
  obtain r g b where rgb: "rgb = (r, g, b)" by (cases rgb)
  then have "lo_of r / 1000000 \<le> lin (r / 255) \<and> lin (r / 255) \<le> (lo_of r + 12) / 1000000"
    "lo_of g / 1000000 \<le> lin (g / 255) \<and> lin (g / 255) \<le> (lo_of g + 12) / 1000000"
    "lo_of b / 1000000 \<le> lin (b / 255) \<and> lin (b / 255) \<le> (lo_of b + 12) / 1000000"
    using assms(2) lin_bounds by (auto simp: byte_triple_def)
  then show ?thesis using assms(1) by (simp add: lum_def rgb lum_lo_def)
qed

definition pair_decided :: "string \<times> string \<times> string \<times> nat \<Rightarrow> bool" where
  "pair_decided = (\<lambda>(name, a, b, m).
     case (channels a, channels b) of
       (Inr x, Inr y) \<Rightarrow>
         byte_triple x \<and> byte_triple y
         \<and> (let l = lum_lo x; k = lum_lo y in
            int m * (k + 500120000) \<le> 10 * (l + 500000000) \<or> int m * (l + 500120000) \<le> 10 * (k + 500000000))
     | _ \<Rightarrow> False)"

lemma quotient_bound:
  fixes la lb m c :: real
  assumes "0 \<le> la" and "0 \<le> lb" and "0 < c" and "0 \<le> m"
    and "m * (lb + c) \<le> 10 * (la + c) \<or> m * (la + c) \<le> 10 * (lb + c)"
  shows "m / 10 \<le> (max la lb + c) / (min la lb + c)"
proof -
  have "m * (min la lb + c) \<le> m * (lb + c)" "m * (min la lb + c) \<le> m * (la + c)"
    using assms(4) by (auto intro: mult_left_mono)
  moreover have "10 * (la + c) \<le> 10 * (max la lb + c)" "10 * (lb + c) \<le> 10 * (max la lb + c)" by simp_all
  ultimately have "m * (min la lb + c) \<le> 10 * (max la lb + c)" using assms(5) by (meson order_trans)
  moreover have "0 < min la lb + c" using assms(1-3) by simp
  ultimately show ?thesis by (simp add: le_divide_eq)
qed

lemma lum_lo_nonneg: "byte_triple rgb \<Longrightarrow> 0 \<le> lum_lo rgb"
proof -
  have "list_all (\<lambda>e. 0 \<le> snd e) lin_table" by code_simp
  moreover have "length lin_table = 256" by code_simp
  ultimately have "0 \<le> lo_of v" if "0 \<le> v" "v \<le> 255" for v
    using that by (simp add: lo_of_def list_all_length)
  then show "byte_triple rgb \<Longrightarrow> 0 \<le> lum_lo rgb"
    by (auto simp: byte_triple_def lum_lo_def split: prod.splits)
qed

lemma decided_side:
  fixes la lb :: real and k l :: int
  assumes "lb \<le> (k + 120000) / 10000000000" and "l / 10000000000 \<le> la"
    and "int m * (k + 500120000) \<le> 10 * (l + 500000000)"
  shows "real m * (lb + 0.05) \<le> 10 * (la + 0.05)"
proof -
  have "real m * (lb + 0.05) \<le> real m * ((k + 500120000) / 10000000000)"
    using assms(1) by (intro mult_left_mono) simp_all
  also have "\<dots> = real_of_int (int m * (k + 500120000)) / 10000000000" by simp
  also have "\<dots> \<le> real_of_int (10 * (l + 500000000)) / 10000000000"
    using assms(3) by (simp only: divide_right_mono of_int_le_iff)
  also have "\<dots> \<le> 10 * (la + 0.05)" using assms(2) by simp
  finally show ?thesis .
qed

lemma pair_decided_passes:
  assumes "pair_decided (name, a, b, m)"
  shows "check_pair tid mode (name, a, b, m) = Inr []"
proof -
  from assms obtain x y where x: "channels a = Inr x" "byte_triple x" and y: "channels b = Inr y" "byte_triple y"
    and d: "int m * (lum_lo y + 500120000) \<le> 10 * (lum_lo x + 500000000)
      \<or> int m * (lum_lo x + 500120000) \<le> 10 * (lum_lo y + 500000000)"
    by (auto simp: pair_decided_def Let_def split: sum.splits)
  obtain la lb where la: "lum a = Inr la" "lum_lo x / 10000000000 \<le> la" "la \<le> (lum_lo x + 120000) / 10000000000"
    and lb: "lum b = Inr lb" "lum_lo y / 10000000000 \<le> lb" "lb \<le> (lum_lo y + 120000) / 10000000000"
    using lum_bounds[OF x] lum_bounds[OF y] by blast
  have pos: "0 \<le> la" "0 \<le> lb"
    using la(2) lb(2) lum_lo_nonneg[OF x(2)] lum_lo_nonneg[OF y(2)]
    by (auto intro: order_trans[OF divide_nonneg_pos])
  have "real m * (lb + 0.05) \<le> 10 * (la + 0.05) \<or> real m * (la + 0.05) \<le> 10 * (lb + 0.05)"
    using d decided_side[OF lb(3) la(2)] decided_side[OF la(3) lb(2)] by blast
  then have "real m / 10 \<le> (max la lb + 0.05) / (min la lb + 0.05)"
    by (intro quotient_bound pos) simp_all
  then show ?thesis using la(1) lb(1) by (simp add: check_pair_def ratio_def not_less)
qed

section \<open>The official palettes\<close>

definition mode_decided :: "palette \<Rightarrow> bool" where
  "mode_decided tk = (case resolve_pairs tk of Inl _ \<Rightarrow> False | Inr ps \<Rightarrow> list_all pair_decided ps)"

lemma rmap_all_empty: "(\<And>x. x \<in> set xs \<Longrightarrow> f x = Inr []) \<Longrightarrow> \<exists>ys. rmap f xs = Inr ys \<and> concat ys = []"
  by (induction xs) auto

lemma mode_decided_passes: "mode_decided tk \<Longrightarrow> check_mode tid (mode, tk) = Inr []"
  using rmap_all_empty[of _ "check_pair tid mode"] pair_decided_passes
  by (force simp: mode_decided_def check_mode_def list_all_iff split: sum.splits)

lemma theme_decided_passes:
  "mode_decided (t_light spec) \<Longrightarrow> mode_decided (t_dark spec) \<Longrightarrow> check_theme_contrast (tid, spec) = Inr []"
  by (simp add: check_theme_contrast_def mode_decided_passes)

lemma rose_dawn_decided: "mode_decided (t_light rose_dawn_theme)" "mode_decided (t_dark rose_dawn_theme)"
  by code_simp+

lemma fortune_forge_decided: "mode_decided (t_light fortune_forge_theme)" "mode_decided (t_dark fortune_forge_theme)"
  by code_simp+

lemma crimson_horizon_decided: "mode_decided (t_light crimson_horizon_theme)" "mode_decided (t_dark crimson_horizon_theme)"
  by code_simp+

lemma sage_breeze_decided: "mode_decided (t_light sage_breeze_theme)" "mode_decided (t_dark sage_breeze_theme)"
  by code_simp+

lemma spark_notebook_decided: "mode_decided (t_light spark_notebook_theme)" "mode_decided (t_dark spark_notebook_theme)"
  by code_simp+

lemma violet_starlight_decided: "mode_decided (t_light violet_starlight_theme)" "mode_decided (t_dark violet_starlight_theme)"
  by code_simp+

lemma cyan_stage_decided: "mode_decided (t_light cyan_stage_theme)" "mode_decided (t_dark cyan_stage_theme)"
  by code_simp+

lemma noir_gold_decided: "mode_decided (t_light noir_gold_theme)" "mode_decided (t_dark noir_gold_theme)"
  by code_simp+

lemmas themes_decided = rose_dawn_decided fortune_forge_decided crimson_horizon_decided sage_breeze_decided spark_notebook_decided violet_starlight_decided cyan_stage_decided noir_gold_decided

lemma check_official: "check_contrast official_themes = Inr []"
  by (simp add: check_contrast_def official_themes_def theme_decided_passes themes_decided)

end
