(* ===== verification/ThemeManifests.thy ===== *)
theory ThemeManifests
  imports ThemeContrast Dirs
begin

text \<open>
  \<open>write_manifests\<close> and the command of \<open>palettes.py\<close>: the manifest of a theme, its files below
  \<open>desktop/themes/official\<close>, and the gate in front of them. The state is the directory tree;
  \<open>dumps\<close> is the JSON text of the library.
\<close>

section \<open>Manifests\<close>

definition palette_json :: "palette \<Rightarrow> json" where
  "palette_json tk = JObj (map (\<lambda>(k, v). (k, JStr v)) tk)"

definition manifest_json :: "string \<Rightarrow> theme_spec \<Rightarrow> json" where
  "manifest_json tid spec =
     (let (fx, fy, home, task, overlay) = t_params spec in
      JObj [(''schemaVersion'', JInt 1), (''id'', JStr tid), (''name'', JStr (t_name spec)),
        (''author'', JStr ''Reasonix Contributors''), (''description'', JStr (t_description spec)),
        (''license'', JStr ''MIT''), (''baseStyle'', JStr (t_base spec)),
        (''tokens'', JObj [(''light'', palette_json (t_light spec)), (''dark'', palette_json (t_dark spec))]),
        (''recipes'', JObj [(''density'', JStr ''comfortable''), (''corners'', JStr (t_corners spec))]),
        (''background'', JObj [(''image'', JStr ''background.webp''), (''focusX'', JFloat fx), (''focusY'', JFloat fy),
           (''safeArea'', JStr ''left''), (''homeOpacity'', JFloat home), (''taskOpacity'', JFloat task),
           (''overlayStrength'', JFloat overlay)])])"

definition theme_images :: "string list" where
  "theme_images = [''background.webp'', ''preview.webp'']"

definition write_theme :: "(json \<Rightarrow> string) \<Rightarrow> path \<Rightarrow> path \<Rightarrow> string \<times> theme_spec \<Rightarrow> (dirs, unit) prog" where
  "write_theme dumps src dest = (\<lambda>(tid, spec).
     let tdir = child dest tid in
     pseq (edit_files (make_dirs tdir))
    (pseq (edit_files (write_bytes (child tdir ''theme.json'') (dumps (manifest_json tid spec) @ nl)))
    (for_each (\<lambda>name. edit_files (copy_bytes (child (child src tid) name) (child tdir name))) theme_images)))"

definition write_manifests :: "(json \<Rightarrow> string) \<Rightarrow> path \<Rightarrow> path \<Rightarrow> (string \<times> theme_spec) list \<Rightarrow> (dirs, unit) prog" where
  "write_manifests dumps src dest themes = for_each (write_theme dumps src dest) themes"

text \<open>The command: a failed gate exits with status 1 before anything is written.\<close>

definition palettes_main ::
    "(json \<Rightarrow> string) \<Rightarrow> path \<Rightarrow> path \<Rightarrow> (string \<times> theme_spec) list \<Rightarrow> bool \<Rightarrow> (dirs, unit) prog" where
  "palettes_main dumps src dest themes write =
     pbind (lift (check_contrast themes)) (\<lambda>bad.
     if bad \<noteq> [] then raise (ExitErr ''1'')
     else if write then write_manifests dumps src dest themes
     else ret ())"

section \<open>What is written\<close>

lemma write_theme_ok:
  assumes "write_theme dumps src dest (tid, spec) t = (Inr (), t')"
    and "\<And>name. name \<in> set theme_images \<Longrightarrow> \<not> below (child dest tid) (child (child src tid) name)"
  shows "only_below (child dest tid) t t'"
    and "map_of t' (child (child dest tid) ''theme.json'') = Some (File (dumps (manifest_json tid spec) @ nl))"
    and "name \<in> set theme_images \<Longrightarrow>
      \<exists>b. map_of t (child (child src tid) name) = Some (File b) \<and> map_of t' (child (child dest tid) name) = Some (File b)"
proof -
  let ?d = "child dest tid" and ?s = "child src tid"
  from assms(1) obtain t1 t2 t3 where t1: "make_dirs ?d t = Inr t1"
    and t2: "write_bytes (child ?d ''theme.json'') (dumps (manifest_json tid spec) @ nl) t1 = Inr t2"
    and t3: "copy_bytes (child ?s ''background.webp'') (child ?d ''background.webp'') t2 = Inr t3"
    and t': "copy_bytes (child ?s ''preview.webp'') (child ?d ''preview.webp'') t3 = Inr t'"
    by (auto simp: write_theme_def theme_images_def Let_def ok_simps)
  obtain b where b: "map_of t2 (child ?s ''background.webp'') = Some (File b)"
      "map_of t3 = (map_of t2)(child ?d ''background.webp'' \<mapsto> File b)"
    by (rule copy_bytes_Inr[OF t3])
  obtain c where c: "map_of t3 (child ?s ''preview.webp'') = Some (File c)"
      "map_of t' = (map_of t3)(child ?d ''preview.webp'' \<mapsto> File c)"
    by (rule copy_bytes_Inr[OF t'])
  note m2 = write_bytes_Inr[OF t2]
  have ne: "p \<noteq> child ?d n" if "\<not> below ?d p" for p n
    using that below_child[OF below_refl] by metis
  have files1: "(map_of t1 p = Some (File x)) = (map_of t p = Some (File x))" for p x
    using make_dirs_keeps(1)[OF t1] make_dirs_keeps(2)[OF t1] by metis
  have out: "(map_of t' p = Some (File x)) = (map_of t p = Some (File x))" if "\<not> below ?d p" for p x
    using ne[OF that] files1 by (simp add: c(2) b(2) m2)
  then show "only_below ?d t t'" by (simp add: only_below_def)
  show "map_of t' (child ?d ''theme.json'') = Some (File (dumps (manifest_json tid spec) @ nl))"
    by (simp add: c(2) b(2) m2)
  have s: "\<not> below ?d (child ?s ''background.webp'')" "\<not> below ?d (child ?s ''preview.webp'')"
    using assms(2) by (simp_all add: theme_images_def)
  have "map_of t (child ?s ''background.webp'') = Some (File b)"
    using b(1) ne[OF s(1)] files1 by (simp add: m2)
  moreover have "map_of t (child ?s ''preview.webp'') = Some (File c)"
    using c(1) ne[OF s(2)] files1 by (simp add: b(2) m2)
  ultimately show "name \<in> set theme_images \<Longrightarrow>
      \<exists>b. map_of t (child ?s name) = Some (File b) \<and> map_of t' (child ?d name) = Some (File b)"
    by (auto simp: theme_images_def c(2) b(2))
qed

text \<open>A theme's folder as the command leaves it: its manifest, and the images of the source.\<close>

definition theme_written :: "(json \<Rightarrow> string) \<Rightarrow> path \<Rightarrow> path \<Rightarrow> dirs \<Rightarrow> string \<times> theme_spec \<Rightarrow> dirs \<Rightarrow> bool" where
  "theme_written dumps src dest t = (\<lambda>(a, sp) u.
     map_of u (child (child dest a) ''theme.json'') = Some (File (dumps (manifest_json a sp) @ nl))
     \<and> (\<forall>n \<in> set theme_images. \<exists>b. map_of t (child (child src a) n) = Some (File b)
          \<and> map_of u (child (child dest a) n) = Some (File b)))"

lemma write_theme_step:
  assumes apart: "\<And>a n. \<not> below dest (child (child src a) n)" and "only_below dest t u"
    and run: "write_theme dumps src dest (a, sp) u = (Inr (), v)"
  shows "only_below dest t v \<and> theme_written dumps src dest t (a, sp) v"
proof -
  have no: "\<not> below (child dest a) (child (child src a) n)" for n
    using apart[of a n] by (metis below_trans below_child below_refl)
  have "only_below dest u v"
    using write_theme_ok(1)[OF run no] unfolding only_below_def by (metis below_trans below_child below_refl)
  then have "only_below dest t v" using assms(2) only_below_trans by blast
  moreover have "map_of u (child (child src a) n) = Some (File b) \<Longrightarrow> map_of t (child (child src a) n) = Some (File b)" for n b
    using assms(2) apart unfolding only_below_def by blast
  ultimately show ?thesis using write_theme_ok(2,3)[OF run no] unfolding theme_written_def by fast
qed

lemma write_theme_other:
  assumes apart: "\<And>a n. \<not> below dest (child (child src a) n)" and "a \<noteq> c"
    and "theme_written dumps src dest t (a, sp) u" and run: "write_theme dumps src dest (c, sq) u = (Inr (), v)"
  shows "theme_written dumps src dest t (a, sp) v"
proof -
  have no: "\<not> below (child dest c) (child (child src c) n)" for n
    using apart[of c n] by (metis below_trans below_child below_refl)
  have "\<not> below (child dest c) (child (child dest a) n)" for n
    using assms(2) by (simp add: below_def child_def)
  then show ?thesis using assms(3) write_theme_ok(1)[OF run no] unfolding only_below_def theme_written_def by fast
qed

lemma themes_written:
  assumes apart: "\<And>a n. \<not> below dest (child (child src a) n)" and dist: "distinct (map fst themes)"
    and run: "for_each (write_theme dumps src dest) themes t = (Inr (), t')"
  shows "only_below dest t t' \<and> (\<forall>x \<in> set themes. theme_written dumps src dest t x t')"
proof (rule for_each_establishes[OF run])
  fix x u v assume "only_below dest t u" "write_theme dumps src dest x u = (Inr (), v)"
  then show "only_below dest t v \<and> theme_written dumps src dest t x v"
    using write_theme_step[OF apart] by (cases x) blast
next
  fix x y u v
  assume xy: "x \<in> set themes" "y \<in> set themes" "x \<noteq> y"
    and h: "theme_written dumps src dest t x u" "write_theme dumps src dest y u = (Inr (), v)"
  obtain a sp c sq where x: "x = (a, sp)" and y: "y = (c, sq)" by (cases x, cases y)
  have "a \<noteq> c" using xy dist unfolding x y by (metis eq_key_imp_eq_value)
  from write_theme_other[OF apart this h(1)[unfolded x] h(2)[unfolded y]]
  show "theme_written dumps src dest t x v" unfolding x .
qed simp

text \<open>C37. When the command has written the manifests, the gate had passed, and below every theme's
  folder are its manifest and the two images as they were built.\<close>

theorem written_manifests:
  assumes "palettes_main dumps src dest themes True t = (Inr (), t')" and "distinct (map fst themes)"
    and "\<not> below dest src" and "\<not> below src dest" and "(tid, spec) \<in> set themes"
  shows "check_contrast themes = Inr []
    \<and> read_bytes t' (child (child dest tid) ''theme.json'') = Inr (dumps (manifest_json tid spec) @ nl)
    \<and> read_bytes t' (child (child dest tid) ''background.webp'') = read_bytes t (child (child src tid) ''background.webp'')
    \<and> read_bytes t' (child (child dest tid) ''preview.webp'') = read_bytes t (child (child src tid) ''preview.webp'')"
proof -
  from assms(1) have gate: "check_contrast themes = Inr []"
    and run: "for_each (write_theme dumps src dest) themes t = (Inr (), t')"
    by (auto simp: palettes_main_def write_manifests_def ok_simps split: if_splits)
  have "\<not> below dest (child (child src a) n)" for a n
    using assms(3,4) by (auto simp: below_def child_def take_Suc append_eq_conv_conj)
  then have "theme_written dumps src dest t (tid, spec) t'" using themes_written[OF _ assms(2) run] assms(5) by blast
  then show ?thesis using gate by (auto simp: theme_written_def theme_images_def read_bytes_def)
qed

text \<open>A palette that fails the gate stops the command with status 1 and no file is written.\<close>

lemma failed_gate_writes_nothing:
  assumes "check_contrast themes = Inr bad" and "bad \<noteq> []"
  shows "palettes_main dumps src dest themes write t = (Inl (ExitErr ''1''), t)"
  using assms by (simp add: palettes_main_def prog_simps)


section \<open>Witnesses\<close>

definition art_src :: path where
  "art_src = [''scripts'', ''out'']"

definition art_dest :: path where
  "art_dest = [''desktop'', ''themes'']"

definition art_tree :: dirs where
  "art_tree = [(art_dest, Dir), ([''desktop''], Dir),
     (child (child art_src ''official-rose-dawn'') ''background.webp'', File ''rose''),
     (child (child art_src ''official-rose-dawn'') ''preview.webp'', File ''small rose'')]"

definition one_theme :: "(string \<times> theme_spec) list" where
  "one_theme = [(''official-rose-dawn'', rose_dawn_theme)]"

definition art_written :: dirs where
  "art_written = snd (write_manifests (\<lambda>j. ''manifest'') art_src art_dest one_theme art_tree)"

lemma art_run: "palettes_main (\<lambda>j. ''manifest'') art_src art_dest one_theme True art_tree = (Inr (), art_written)"
proof -
  have "fst (write_manifests (\<lambda>j. ''manifest'') art_src art_dest one_theme art_tree) = Inr ()" by code_simp
  then have "write_manifests (\<lambda>j. ''manifest'') art_src art_dest one_theme art_tree = (Inr (), art_written)"
    by (simp add: art_written_def prod_eq_iff)
  moreover have "check_contrast one_theme = Inr []"
    by (simp add: check_contrast_def one_theme_def theme_decided_passes rose_dawn_decided)
  ultimately show ?thesis by (simp add: palettes_main_def prog_simps)
qed

theorem written_manifests_witness:
  "read_bytes art_written (child (child art_dest ''official-rose-dawn'') ''preview.webp'') = Inr ''small rose''"
proof -
  have d: "\<not> below art_dest art_src" "\<not> below art_src art_dest" by code_simp+
  have "read_bytes art_written (child (child art_dest ''official-rose-dawn'') ''preview.webp'')
      = read_bytes art_tree (child (child art_src ''official-rose-dawn'') ''preview.webp'')"
    using written_manifests[OF art_run _ d, of "''official-rose-dawn''" rose_dawn_theme]
    by (simp add: one_theme_def)
  also have "\<dots> = Inr ''small rose''" by code_simp
  finally show ?thesis .
qed

text \<open>A palette of one colour fails every pair.\<close>

definition grey_palette :: palette where
  "grey_palette = map (\<lambda>k. (k, ''#777777'')) [''bg'', ''panel'', ''chat'', ''border'', ''fg'', ''fgDim'', ''fgFaint'', ''accent'', ''accentFg'']"

definition grey_theme :: theme_spec where
  "grey_theme = rose_dawn_theme\<lparr>t_light := grey_palette, t_dark := grey_palette\<rparr>"

lemma grey_ratio: "ratio ''#777777'' ''#777777'' = Inr 1"
proof -
  have "channels ''#777777'' = Inr (119, 119, 119)" "byte_triple (119, 119, 119)" by code_simp+
  then obtain l where l: "lum ''#777777'' = Inr l" "lum_lo (119, 119, 119) / 10000000000 \<le> l"
    using lum_bounds by blast
  have "0 \<le> lum_lo (119, 119, 119)" by (rule lum_lo_nonneg) (simp add: byte_triple_def)
  then have "0 \<le> l" using l(2) by (auto intro: order_trans[OF divide_nonneg_pos])
  then show ?thesis by (simp add: ratio_def l(1))
qed

lemma grey_pairs: "resolve_pairs grey_palette = Inr (map (\<lambda>(n, a, b, m). (n, ''#777777'', ''#777777'', m)) contrast_pairs)"
  by code_simp

lemma grey_fails: "\<exists>bad. check_contrast [(''grey'', grey_theme)] = Inr bad \<and> bad \<noteq> []"
  by (simp add: check_contrast_def check_theme_contrast_def check_mode_def grey_theme_def grey_pairs
      contrast_pairs_def check_pair_def grey_ratio)

lemma grey_gate_stops:
  "palettes_main (\<lambda>j. ''manifest'') art_src art_dest [(''grey'', grey_theme)] True art_tree = (Inl (ExitErr ''1''), art_tree)"
proof -
  obtain bad where "check_contrast [(''grey'', grey_theme)] = Inr bad" "bad \<noteq> []" using grey_fails by blast
  then show ?thesis by (rule failed_gate_writes_nothing)
qed

end
