(* ===== verification/ThemeRatio.thy ===== *)
theory ThemeRatio
  imports ThemePalettes
begin

text \<open>
  The contrast ratio of two colours that parse lies between 1 and 21, whichever is in front.
\<close>

lemma hex_int_two:
  assumes "hex_int s = Inr v" and "length s \<le> 2"
  shows "0 \<le> v \<and> v \<le> 255"
proof -
  consider "s = []" | c where "s = [c]" | c d where "s = [c, d]"
    using assms(2) by (cases s; cases "tl s") auto
  then show ?thesis
  proof cases
    case 3
    with assms(1) obtain x y where "hex_value c = Some x" "hex_value d = Some y" "v = 16 * x + y"
      by (auto simp: hex_int_def rbind_Inr_iff split: option.splits)
    then show ?thesis using hex_value_range[of c x] hex_value_range[of d y] by auto
  qed (use assms(1) hex_value_range in \<open>force simp: hex_int_def rbind_Inr_iff split: option.splits\<close>)+
qed

lemma channels_range:
  assumes "channels h = Inr (r, g, b)"
  shows "0 \<le> r \<and> r \<le> 255 \<and> 0 \<le> g \<and> g \<le> 255 \<and> 0 \<le> b \<and> b \<le> 255"
  using assms by (auto simp: channels_def Let_def dest!: hex_int_two)

lemma lin_range:
  assumes "0 \<le> c" and "c \<le> 1"
  shows "0 \<le> lin c \<and> lin c \<le> 1"
proof (cases "c \<le> 0.04045")
  case True
  then show ?thesis using assms by (simp add: lin_def)
next
  case False
  then have "((c + 0.055) / 1.055) powr 2.4 \<le> 1 powr 2.4" using assms by (intro powr_mono2) auto
  then show ?thesis using False by (simp add: lin_def)
qed

lemma convex_three:
  fixes x y z :: real
  assumes "0 \<le> x \<and> x \<le> 1" and "0 \<le> y \<and> y \<le> 1" and "0 \<le> z \<and> z \<le> 1"
  shows "0 \<le> 0.2126 * x + 0.7152 * y + 0.0722 * z \<and> 0.2126 * x + 0.7152 * y + 0.0722 * z \<le> 1"
  using assms by (simp add: field_simps)

lemma lum_range:
  assumes "lum h = Inr l"
  shows "0 \<le> l \<and> l \<le> 1"
proof -
  from assms obtain r g b where c: "channels h = Inr (r, g, b)"
    and l: "l = 0.2126 * lin (r / 255) + 0.7152 * lin (g / 255) + 0.0722 * lin (b / 255)"
    by (auto simp: lum_def)
  have "0 \<le> lin (v / 255) \<and> lin (v / 255) \<le> 1" if "0 \<le> v" "v \<le> 255" for v :: int
    using that by (intro lin_range) auto
  then have "0 \<le> lin (r / 255) \<and> lin (r / 255) \<le> 1" "0 \<le> lin (g / 255) \<and> lin (g / 255) \<le> 1"
    "0 \<le> lin (b / 255) \<and> lin (b / 255) \<le> 1"
    using channels_range[OF c] by auto
  then show ?thesis unfolding l by (rule convex_three)
qed

text \<open>Whatever the two colours, their contrast is at least 1 and at most 21, and the same in
  either order: the gate does not depend on which token is the foreground.\<close>

lemma contrast_range:
  assumes "ratio a b = Inr r"
  shows "1 \<le> r \<and> r \<le> 21 \<and> ratio b a = Inr r"
proof -
  from assms obtain la lb where l: "lum a = Inr la" "lum b = Inr lb"
    and r: "r = (max la lb + 0.05) / (min la lb + 0.05)"
    by (auto simp: ratio_def)
  have "0 \<le> min la lb" "max la lb \<le> 1" "min la lb \<le> max la lb" using lum_range[OF l(1)] lum_range[OF l(2)] by auto
  have "1 \<le> (max la lb + c) / (min la lb + c) \<and> (max la lb + c) / (min la lb + c) \<le> (1 + c) / c" if "0 < c" for c
  proof
    have p: "0 < min la lb + c" "min la lb + c \<le> max la lb + c" using that \<open>0 \<le> min la lb\<close> \<open>min la lb \<le> max la lb\<close> by linarith+
    then show "1 \<le> (max la lb + c) / (min la lb + c)" by (simp only: le_divide_eq_1_pos)
    show "(max la lb + c) / (min la lb + c) \<le> (1 + c) / c"
      by (rule frac_le) (use that p \<open>max la lb \<le> 1\<close> \<open>0 \<le> min la lb\<close> in simp_all)
  qed
  from this[of "0.05"] have "1 \<le> r" "r \<le> 21" unfolding r by simp_all
  then show ?thesis using l by (simp add: ratio_def r max.commute min.commute)
qed

lemma black_on_white: "ratio ''#000000'' ''#FFFFFF'' = Inr 21"
proof -
  have "channels ''#000000'' = Inr (0, 0, 0)" "channels ''#FFFFFF'' = Inr (255, 255, 255)" by code_simp+
  then show ?thesis by (simp add: ratio_def lum_def lin_def)
qed

lemma contrast_range_example: "ratio ''#FFFFFF'' ''#000000'' = Inr 21"
  using contrast_range[OF black_on_white] by blast

end
