(* ===== verification/ArtKit.thy ===== *)
theory ArtKit
  imports ThemePalettes "HOL-Library.State_Monad"
begin

text \<open>
  The drawing kit of the official themes (\<open>scripts/official-theme-art/artkit.py\<close>): colours, curves
  and outlines, and what is drawn. Pillow and numpy make the pixels; the model keeps what
  the scripts ask of them. A layer is the list of the marks drawn on it in their order and
  the way it is composed onto the picture; coordinates are reals where the script has floats. Random numbers come from
  a generator that is a parameter, threaded through the state monad in the order of the calls.
\<close>

section \<open>Numbers and colours\<close>

text \<open>\<open>int\<close> cuts towards zero; \<open>round\<close> takes the even neighbour of a half.\<close>

definition py_int :: "real \<Rightarrow> int" where
  "py_int x = (if 0 \<le> x then \<lfloor>x\<rfloor> else \<lceil>x\<rceil>)"

definition py_round :: "real \<Rightarrow> int" where
  "py_round x =
     (let n = \<lfloor>x\<rfloor>; d = x - of_int n in
      if d < 1 / 2 then n else if 1 / 2 < d then n + 1 else if even n then n else n + 1)"

text \<open>\<open>range\<close> with a positive step.\<close>

definition py_range :: "int \<Rightarrow> int \<Rightarrow> int \<Rightarrow> int list" where
  "py_range a b step = List.map (\<lambda>k. a + step * k) [0..(b - a + step - 1) div step - 1]"

type_synonym rgb = "int \<times> int \<times> int"
type_synonym pixel = "int \<times> int \<times> int \<times> int"
type_synonym point = "real \<times> real"

definition hex2rgb :: "string \<Rightarrow> rgb res" where
  "hex2rgb s =
     (let s = dropWhile (\<lambda>c. c = CHR ''#'') s in
      rbind (hex_int (take 2 s)) (\<lambda>r.
      rbind (hex_int (take 2 (drop 2 s))) (\<lambda>g.
      rbind (hex_int (take 2 (drop 4 s))) (\<lambda>b. Inr (r, g, b)))))"

text \<open>The scripts write their colours as literals, every one of which is decoded without an error
  (\<open>literals_decode\<close> in theory ArtScenes); \<open>colour\<close> is the value of such a literal.\<close>

definition colour :: "string \<Rightarrow> rgb" where
  "colour s = (case hex2rgb s of Inr c \<Rightarrow> c | Inl e \<Rightarrow> (0, 0, 0))"

datatype paint = Hex string | Rgb rgb

fun paint_rgb :: "paint \<Rightarrow> rgb" where
  "paint_rgb (Hex s) = colour s"
| "paint_rgb (Rgb c) = c"

definition mix_channel :: "int \<Rightarrow> int \<Rightarrow> real \<Rightarrow> int" where
  "mix_channel a b t = py_round (of_int a + (of_int b - of_int a) * t)"

definition mix :: "paint \<Rightarrow> paint \<Rightarrow> real \<Rightarrow> rgb" where
  "mix c1 c2 t =
     (case (paint_rgb c1, paint_rgb c2) of ((r, g, b), (r', g', b')) \<Rightarrow>
        (mix_channel r r' t, mix_channel g g' t, mix_channel b b' t))"

fun rgba :: "rgb \<Rightarrow> real \<Rightarrow> pixel" where
  "rgba (r, g, b) a = (r, g, b, max 0 (min 255 (py_int a)))"

section \<open>The canvas\<close>

definition W :: real where "W = 2560"
definition H :: real where "H = 1440"
definition KEY_X0 :: real where "KEY_X0 = 0.62 * W"
definition KEY_X1 :: real where "KEY_X1 = 0.88 * W"
definition KEY_Y0 :: real where "KEY_Y0 = 0.16 * H"
definition KEY_Y1 :: real where "KEY_Y1 = 0.72 * H"

text \<open>The ground of a picture is a gradient. The colour of one of its pixels, with numpy's
  \<open>interp\<close> as a parameter.\<close>

record ground =
  g_width :: int
  g_height :: int
  g_stops :: "(real \<times> rgb) list"
  g_direction :: string

definition stops_arrays :: "(real \<times> string) list \<Rightarrow> (real \<times> rgb) list res" where
  "stops_arrays stops = rmap (\<lambda>(p, c). rbind (hex2rgb c) (\<lambda>col. Inr (p, col))) stops"

definition gradient :: "int \<Rightarrow> int \<Rightarrow> (real \<times> string) list \<Rightarrow> string \<Rightarrow> ground res" where
  "gradient w h stops direction =
     rbind (stops_arrays stops) (\<lambda>cols.
     rbind (rcheck (direction \<in> {''v'', ''h'', ''d1'', ''d2''}) (ValueErr direction)) (\<lambda>_.
     Inr \<lparr>g_width = w, g_height = h, g_stops = cols, g_direction = direction\<rparr>))"

definition linspace :: "real \<Rightarrow> real \<Rightarrow> int \<Rightarrow> int \<Rightarrow> real" where
  "linspace a b n i = a + (b - a) * of_int i / of_int (n - 1)"

definition ramp :: "ground \<Rightarrow> int \<Rightarrow> int \<Rightarrow> real" where
  "ramp g x y =
     (let across = linspace 0 1 (g_width g) x; down = linspace 0 1 (g_height g) y in
      if g_direction g = ''v'' then down
      else if g_direction g = ''h'' then across
      else if g_direction g = ''d1'' then (down + across) / 2
      else (linspace 1 0 (g_height g) y + across) / 2)"

definition interp_channel ::
    "(real list \<Rightarrow> real list \<Rightarrow> real \<Rightarrow> real) \<Rightarrow> (real \<times> rgb) list \<Rightarrow> real \<Rightarrow> real \<times> real \<times> real" where
  "interp_channel interp stops t =
     (let chan = (\<lambda>ch. interp (List.map fst stops) (List.map (\<lambda>(p, c). of_int (ch c)) stops) t) in
      (chan fst, chan (fst \<circ> snd), chan (snd \<circ> snd)))"

definition ground_pixel :: "(real list \<Rightarrow> real list \<Rightarrow> real \<Rightarrow> real) \<Rightarrow> ground \<Rightarrow> int \<Rightarrow> int \<Rightarrow> rgb" where
  "ground_pixel interp g x y =
     (case interp_channel interp (g_stops g) (ramp g x y) of (r, gr, b) \<Rightarrow> (py_int r, py_int gr, py_int b))"

section \<open>Marks and layers\<close>

text \<open>What \<open>ImageDraw\<close> is asked to draw: filled polygons, ellipses and rectangles, lines with a width
  and curved or plain joints, and the outline of an ellipse. A box is given by two corners.\<close>

datatype mark =
    Polygon "point list" pixel
  | Line "point list" pixel int bool
  | Ellipse point point pixel
  | Ring point point pixel int
  | Rectangle point point pixel

text \<open>How a layer reaches the picture: composed as it is or blurred, with its alpha scaled first, as a small
  image turned by an angle in degrees and pasted at a corner, or as a paper texture.\<close>

datatype layer =
    Layer "mark list" "real option"
  | Faded "mark list" real "real option"
  | Turned "int \<times> int" "mark list" real "int \<times> int"
  | Texture rgb real int int

record picture =
  p_ground :: ground
  p_layers :: "layer list"

definition comp_blur :: "real \<Rightarrow> real option" where
  "comp_blur blur = (if 0 < blur then Some blur else None)"

definition comp :: "mark list \<Rightarrow> real \<Rightarrow> layer list" where
  "comp lay blur = [Layer lay (comp_blur blur)]"

definition glow :: "real \<Rightarrow> real \<Rightarrow> real \<Rightarrow> rgb \<Rightarrow> real \<Rightarrow> real \<Rightarrow> layer list" where
  "glow cx cy r color alpha squash =
     (let rx = r; ry = r * squash; steps = 28 in
      [Layer
        (List.map (\<lambda>i. let t = of_int i / of_int steps; a = alpha * (1 - t) powr 1.6 in
             Ellipse (cx - rx * t, cy - ry * t) (cx + rx * t, cy + ry * t) (rgba color a))
           (rev [1..steps]))
        (Some (r * 0.10))])"

definition beam :: "point \<Rightarrow> point \<Rightarrow> real \<Rightarrow> real \<Rightarrow> rgb \<Rightarrow> real \<Rightarrow> real \<Rightarrow> layer list" where
  "beam apex target width0 width1 color alpha blur =
     (case (apex, target) of ((ax, ay), (tx, ty)) \<Rightarrow>
      let dx = tx - ax; dy = ty - ay;
          hyp = sqrt (dx\<^sup>2 + dy\<^sup>2); ln1 = (if hyp = 0 then 1 else hyp);
          nx = - dy / ln1; ny = dx / ln1;
          pts = [(ax + nx * width0 / 2, ay + ny * width0 / 2),
                 (tx + nx * width1 / 2, ty + ny * width1 / 2),
                 (tx - nx * width1 / 2, ty - ny * width1 / 2),
                 (ax - nx * width0 / 2, ay - ny * width0 / 2)] in
      [Layer [Polygon pts (rgba color alpha)] (Some blur)])"

definition paper_texture :: "string \<Rightarrow> real \<Rightarrow> int \<Rightarrow> int \<Rightarrow> layer list" where
  "paper_texture color alpha seed scale = [Texture (colour color) alpha seed scale]"

section \<open>Curves and outlines\<close>

definition cubic :: "point \<Rightarrow> point \<Rightarrow> point \<Rightarrow> point \<Rightarrow> int \<Rightarrow> point list" where
  "cubic p0 p1 p2 p3 n =
     List.map (\<lambda>i. let t = of_int i / of_int n; mt = 1 - t in
        (mt ^ 3 * fst p0 + 3 * mt\<^sup>2 * t * fst p1 + 3 * mt * t\<^sup>2 * fst p2 + t ^ 3 * fst p3,
         mt ^ 3 * snd p0 + 3 * mt\<^sup>2 * t * snd p1 + 3 * mt * t\<^sup>2 * snd p2 + t ^ 3 * snd p3))
       [0..n]"

definition smooth_path :: "(point \<times> point \<times> point \<times> point) list \<Rightarrow> point list" where
  "smooth_path segments =
     fold (\<lambda>(p0, p1, p2, p3) pts.
         let part = cubic p0 p1 p2 p3 48 in pts @ (if pts \<noteq> [] then tl part else part))
       segments []"

definition ellipse_poly :: "real \<Rightarrow> real \<Rightarrow> real \<Rightarrow> real \<Rightarrow> int \<Rightarrow> real \<Rightarrow> real \<Rightarrow> real \<Rightarrow> point list" where
  "ellipse_poly cx cy rx ry n a0 a1 rot =
     List.map (\<lambda>i. let t = a0 + (a1 - a0) * of_int i / of_int n;
               x = rx * cos t; y = ry * sin t;
               xr = x * cos rot - y * sin rot; yr = x * sin rot + y * cos rot in
        (cx + xr, cy + yr))
       [0..n]"

definition copysign :: "real \<Rightarrow> real \<Rightarrow> real" where
  "copysign x y = (if y < 0 then - \<bar>x\<bar> else \<bar>x\<bar>)"

definition superellipse_poly :: "real \<Rightarrow> real \<Rightarrow> real \<Rightarrow> real \<Rightarrow> real \<Rightarrow> int \<Rightarrow> real \<Rightarrow> point list" where
  "superellipse_poly cx cy rx ry pow n rot =
     (let e = 2.0 / pow in
      List.map (\<lambda>i. let t = 2 * pi * of_int i / of_int n; ct = cos t; st = sin t;
                x = rx * copysign (\<bar>ct\<bar> powr e) ct; y = ry * copysign (\<bar>st\<bar> powr e) st;
                xr = x * cos rot - y * sin rot; yr = x * sin rot + y * cos rot in
         (cx + xr, cy + yr))
        [0..n - 1])"

definition star4 :: "real \<Rightarrow> real \<Rightarrow> real \<Rightarrow> rgb \<Rightarrow> real \<Rightarrow> real \<Rightarrow> real \<Rightarrow> mark list" where
  "star4 cx cy r color alpha thin rot =
     (let pts = List.map (\<lambda>i. let ang = rot + pi / 4 * of_int i; rr = (if i mod 2 = 0 then r else r * thin) in
                   (cx + rr * cos ang, cy + rr * sin ang)) [0..7] in
      [Polygon pts (rgba color alpha)])"

text \<open>The local function \<open>tr\<close>: a point of a shape's own frame, turned and moved into place.\<close>

definition placed :: "real \<Rightarrow> real \<Rightarrow> real \<Rightarrow> point \<Rightarrow> point" where
  "placed cx cy angle p =
     (case p of (x, y) \<Rightarrow> (cx + x * cos angle - y * sin angle, cy + x * sin angle + y * cos angle))"

definition petal_pts :: "real \<Rightarrow> real \<Rightarrow> real \<Rightarrow> real \<Rightarrow> point list" where
  "petal_pts cx cy sz angle =
     (let segs =
       [((0, 0), (0.55 * sz, - 0.42 * sz), (1.05 * sz, - 0.28 * sz), (1.18 * sz, 0.10 * sz)),
        ((1.18 * sz, 0.10 * sz), (1.26 * sz, 0.42 * sz), (0.72 * sz, 0.62 * sz), (0.28 * sz, 0.55 * sz)),
        ((0.28 * sz, 0.55 * sz), (- 0.05 * sz, 0.50 * sz), (- 0.10 * sz, 0.18 * sz), (0, 0))] in
      List.map (placed cx cy angle) (smooth_path segs))"

definition leaf_pts :: "real \<Rightarrow> real \<Rightarrow> real \<Rightarrow> real \<Rightarrow> real \<Rightarrow> real \<Rightarrow> point list" where
  "leaf_pts cx cy len width angle curl =
     (let segs =
       [((0, 0), (0.30 * len, - width), (0.75 * len, - width * 0.9), (len, - curl * width)),
        ((len, - curl * width), (0.72 * len, width * 0.7), (0.32 * len, width), (0, 0))] in
      List.map (placed cx cy angle) (smooth_path segs))"

text \<open>The four wings, left before right and upper before lower, and the body.\<close>

definition butterfly_pts :: "real \<Rightarrow> real \<Rightarrow> real \<Rightarrow> real \<Rightarrow> real \<Rightarrow> point list list \<times> point list" where
  "butterfly_pts cx cy sz angle flap =
     (concat (List.map (\<lambda>sgn.
        [List.map (placed cx cy angle) (smooth_path
           [((0, 0), (sgn * 0.95 * sz, - 0.85 * sz * flap), (sgn * 1.45 * sz, - 0.55 * sz * flap), (sgn * 1.30 * sz, - 0.02 * sz)),
            ((sgn * 1.30 * sz, - 0.02 * sz), (sgn * 1.05 * sz, 0.28 * sz), (sgn * 0.35 * sz, 0.22 * sz), (0, 0.10 * sz))]),
         List.map (placed cx cy angle) (smooth_path
           [((0, 0.08 * sz), (sgn * 0.72 * sz, 0.28 * sz), (sgn * 0.88 * sz, 0.78 * sz), (sgn * 0.42 * sz, 1.02 * sz)),
            ((sgn * 0.42 * sz, 1.02 * sz), (sgn * 0.10 * sz, 0.95 * sz), (sgn * 0.02 * sz, 0.42 * sz), (0, 0.22 * sz))])])
        [-1, 1]),
      ellipse_poly cx cy (0.09 * sz) (0.42 * sz) 72 0 (2 * pi) angle)"

definition cloud_curl_pts :: "real \<Rightarrow> real \<Rightarrow> real \<Rightarrow> point list \<times> point list" where
  "cloud_curl_pts cx cy sz =
     (let turns = 1.65;
          pts = List.map (\<lambda>i. let t = of_int i / 89; ang = turns * 2 * pi * t + pi * 0.5; r = sz * (1.0 - 0.72 * t) in
                   (cx + r * cos ang, cy + 0.62 * r * sin ang)) [0..89];
          tail = smooth_path
            [(pts ! 0, (cx + 1.9 * sz, cy - 0.9 * sz), (cx + 2.9 * sz, cy - 0.4 * sz), (cx + 3.3 * sz, cy + 0.35 * sz))] in
      (pts, tail))"

definition coin_pts :: "real \<Rightarrow> real \<Rightarrow> real \<Rightarrow> real \<Rightarrow> point list \<times> point list" where
  "coin_pts cx cy r rot =
     (ellipse_poly cx cy r r 72 0 (2 * pi) rot,
      superellipse_poly cx cy (r * 0.34) (r * 0.34) 4.5 96 rot)"

definition ring_pts :: "real \<Rightarrow> real \<Rightarrow> real \<Rightarrow> real \<Rightarrow> real \<Rightarrow> real \<Rightarrow> real \<Rightarrow> point list" where
  "ring_pts cx cy r width a0 a1 squash =
     ellipse_poly cx cy r (r * squash) 72 a0 a1 0
     @ ellipse_poly cx cy (r - width) ((r - width) * squash) 72 a1 a0 0"

definition draw_poly :: "point list \<Rightarrow> rgb \<Rightarrow> real \<Rightarrow> pixel option \<Rightarrow> int \<Rightarrow> mark list" where
  "draw_poly pts color alpha outline outline_w =
     Polygon pts (rgba color alpha)
     # (case outline of
          None \<Rightarrow> []
        | Some c \<Rightarrow> if 0 < outline_w then [Line (pts @ [hd pts]) c outline_w True] else [])"

definition soft_fill :: "point list \<Rightarrow> rgb \<Rightarrow> real \<Rightarrow> real \<Rightarrow> layer list" where
  "soft_fill pts color alpha blur = comp [Polygon pts (rgba color alpha)] blur"

section \<open>Random numbers\<close>

text \<open>\<open>random.Random\<close>, and how large an image becomes when it is turned with \<open>expand\<close>.\<close>

record 'g studio =
  seeded :: "int \<Rightarrow> 'g"
  s_random :: "('g, real) state"
  s_randint :: "int \<Rightarrow> int \<Rightarrow> ('g, int) state"
  s_beta :: "real \<Rightarrow> real \<Rightarrow> ('g, real) state"
  s_turned :: "int \<times> int \<Rightarrow> real \<Rightarrow> int \<times> int"

definition uniform :: "'g studio \<Rightarrow> real \<Rightarrow> real \<Rightarrow> ('g, real) state" where
  "uniform S a b = do { u \<leftarrow> s_random S; State_Monad.return (a + (b - a) * u) }"

text \<open>Loops that draw: the marks of the turns, one after the other.\<close>

fun repeated :: "nat \<Rightarrow> ('g, 'a list) state \<Rightarrow> ('g, 'a list) state" where
  "repeated 0 m = State_Monad.return []"
| "repeated (Suc n) m = do { x \<leftarrow> m; xs \<leftarrow> repeated n m; State_Monad.return (x @ xs) }"

fun each :: "('b \<Rightarrow> ('g, 'a list) state) \<Rightarrow> 'b list \<Rightarrow> ('g, 'a list) state" where
  "each f [] = State_Monad.return []"
| "each f (y # ys) = do { x \<leftarrow> f y; xs \<leftarrow> each f ys; State_Monad.return (x @ xs) }"

end
