(* ===== verification/ArtFigures.thy ===== *)
theory ArtFigures
  imports ArtKit
begin

text \<open>
  The figures of the official themes (\<open>scripts/official-theme-art/figures.py\<close>). A function that draws
  on a layer is the list of its marks in drawing order, and one that composes layers onto the picture
  the list of those layers. Coordinates are relative to the centre of the face and its half
  width, as in the script.
\<close>

definition face_outline :: "real \<Rightarrow> real \<Rightarrow> real \<Rightarrow> real \<Rightarrow> real \<Rightarrow> point list" where
  "face_outline cx cy fw fh turn =
     (let chin = (cx - turn * 0.10 * fw, cy + fh);
          segs = [((cx - 0.94 * fw, cy - 0.38 * fh), (cx - 1.02 * fw, cy - 1.02 * fh),
                   (cx + 0.55 * fw, cy - 1.12 * fh), (cx + 0.92 * fw, cy - 0.42 * fh)),
                  ((cx + 0.92 * fw, cy - 0.42 * fh), (cx + 0.98 * fw, cy + 0.18 * fh),
                   (cx + 0.62 * fw, cy + 0.62 * fh), (cx + 0.30 * fw, cy + 0.86 * fh)),
                  ((cx + 0.30 * fw, cy + 0.86 * fh), (cx + 0.14 * fw, cy + 1.00 * fh),
                   (fst chin + 0.16 * fw, snd chin + 0.02 * fh), chin),
                  (chin, (fst chin - 0.34 * fw, snd chin - 0.02 * fh), (cx - 0.72 * fw, cy + 0.66 * fh),
                   (cx - 0.88 * fw, cy + 0.30 * fh)),
                  ((cx - 0.88 * fw, cy + 0.30 * fh), (cx - 0.96 * fw, cy + 0.02 * fh),
                   (cx - 0.97 * fw, cy - 0.16 * fh), (cx - 0.94 * fw, cy - 0.38 * fh))] in
      smooth_path segs)"

definition neck_pts :: "real \<Rightarrow> real \<Rightarrow> real \<Rightarrow> real \<Rightarrow> point list" where
  "neck_pts cx cy fw fh =
     (let top_y = cy + 0.62 * fh;
          bot_y = cy + 1.55 * fh in
      smooth_path
        [((cx - 0.34 * fw, top_y), (cx - 0.30 * fw, bot_y - 0.2 * fh), (cx - 0.38 * fw, bot_y),
          (cx - 0.42 * fw, bot_y)),
         ((cx - 0.42 * fw, bot_y), (cx - 0.1 * fw, bot_y + 0.06 * fh), (cx + 0.2 * fw, bot_y + 0.06 * fh),
          (cx + 0.34 * fw, bot_y)),
         ((cx + 0.34 * fw, bot_y), (cx + 0.28 * fw, bot_y - 0.2 * fh), (cx + 0.30 * fw, top_y),
          (cx + 0.30 * fw, top_y))])"

definition shoulders_pts :: "real \<Rightarrow> real \<Rightarrow> real \<Rightarrow> real \<Rightarrow> real \<Rightarrow> point list" where
  "shoulders_pts cx y0 wid height slope =
     (let hw = wid / 2 in
      smooth_path
        [((cx - hw, y0 + height), (cx - hw * 1.02, y0 + height * 0.35), (cx - hw * 0.72, y0 + slope * height),
          (cx - hw * 0.30, y0 + 0.02 * height)),
         ((cx - hw * 0.30, y0 + 0.02 * height), (cx - hw * 0.1, y0 - 0.06 * height),
          (cx + hw * 0.1, y0 - 0.06 * height), (cx + hw * 0.30, y0 + 0.02 * height)),
         ((cx + hw * 0.30, y0 + 0.02 * height), (cx + hw * 0.72, y0 + slope * height),
          (cx + hw * 1.02, y0 + height * 0.35), (cx + hw, y0 + height)),
         ((cx + hw, y0 + height), (cx + hw * 0.4, y0 + height * 1.04), (cx - hw * 0.4, y0 + height * 1.04),
          (cx - hw, y0 + height))])"

definition closed_eye :: "real \<Rightarrow> real \<Rightarrow> real \<Rightarrow> rgb \<Rightarrow> real \<Rightarrow> int \<Rightarrow> real \<Rightarrow> mark list" where
  "closed_eye ex ey s color alpha lashes w =
     (let pts = cubic (ex - 0.16 * s, ey) (ex - 0.05 * s, ey + 0.10 * s) (ex + 0.06 * s, ey + 0.10 * s)
                  (ex + 0.17 * s, ey - 0.01 * s) 24 in
      [Line pts (rgba color alpha) (max 2 (py_int (w * s * 0.28))) True]
      @ concat
          (List.map
             (\<lambda>i.
                let t = 0.55 + 0.22 * of_int i;
                    bx = ex - 0.16 * s + 0.33 * s * t;
                    by = ey + 0.06 * s - 0.05 * s * \<bar>t - 0.5\<bar> in
                [Line [(bx, by), (bx + 0.05 * s, by - 0.07 * s)] (rgba color alpha)
                   (max 2 (py_int (w * s * 0.2))) False])
             [0..lashes - 1]))"

definition open_eye :: "real \<Rightarrow> real \<Rightarrow> real \<Rightarrow> rgb \<Rightarrow> real \<Rightarrow> bool \<Rightarrow> mark list" where
  "open_eye ex ey s iris alpha sparkle =
     (let white = (255, 255, 255) in
      [Ellipse (ex - 0.13 * s, ey - 0.17 * s) (ex + 0.13 * s, ey + 0.17 * s) (rgba white alpha),
       Ellipse (ex - 0.10 * s, ey - 0.13 * s) (ex + 0.10 * s, ey + 0.15 * s) (rgba iris alpha),
       Ellipse (ex - 0.055 * s, ey - 0.06 * s) (ex + 0.055 * s, ey + 0.09 * s)
         (rgba (mix (Rgb iris) (Hex ''#000000'') 0.55) alpha)]
      @ (if sparkle
           then [Ellipse (ex - 0.055 * s, ey - 0.10 * s) (ex + 0.005 * s, ey - 0.04 * s) (rgba white alpha),
                 Ellipse (ex + 0.03 * s, ey + 0.02 * s) (ex + 0.07 * s, ey + 0.06 * s)
                   (rgba white (py_int (alpha * 0.8)))]
           else []))"

definition brow :: "real \<Rightarrow> real \<Rightarrow> real \<Rightarrow> rgb \<Rightarrow> real \<Rightarrow> real \<Rightarrow> mark list" where
  "brow ex ey s color alpha tilt =
     (let pts = cubic (ex - 0.15 * s, ey + tilt) (ex - 0.05 * s, ey - 0.06 * s + tilt)
                  (ex + 0.08 * s, ey - 0.06 * s - tilt) (ex + 0.16 * s, ey - 0.02 * s - tilt) 20 in
      [Line pts (rgba color alpha) (max 2 (py_int (0.035 * s))) True])"

definition smile :: "real \<Rightarrow> real \<Rightarrow> real \<Rightarrow> rgb \<Rightarrow> real \<Rightarrow> real \<Rightarrow> mark list" where
  "smile cx y s color alpha wid =
     (let pts = cubic (cx - wid * s, y) (cx - 0.05 * s, y + 0.07 * s) (cx + 0.05 * s, y + 0.07 * s)
                  (cx + wid * s, y - 0.01 * s) 24 in
      [Line pts (rgba color alpha) (max 2 (py_int (0.032 * s))) True])"

definition lips :: "real \<Rightarrow> real \<Rightarrow> real \<Rightarrow> rgb \<Rightarrow> real \<Rightarrow> mark list" where
  "lips cx y s color alpha =
     (let pts = smooth_path
                  [((cx - 0.15 * s, y), (cx - 0.05 * s, y - 0.045 * s), (cx - 0.02 * s, y - 0.03 * s),
                    (cx, y - 0.012 * s)),
                   ((cx, y - 0.012 * s), (cx + 0.02 * s, y - 0.03 * s), (cx + 0.05 * s, y - 0.045 * s),
                    (cx + 0.15 * s, y)),
                   ((cx + 0.15 * s, y), (cx + 0.07 * s, y + 0.075 * s), (cx - 0.07 * s, y + 0.075 * s),
                    (cx - 0.15 * s, y))] in
      [Polygon pts (rgba color alpha)])"

definition blush :: "real \<Rightarrow> real \<Rightarrow> real \<Rightarrow> rgb \<Rightarrow> real \<Rightarrow> mark list" where
  "blush ex ey s color alpha =
     [Ellipse (ex - 0.16 * s, ey - 0.08 * s) (ex + 0.16 * s, ey + 0.08 * s) (rgba color alpha)]"

definition figure_shadow ::
    "real \<Rightarrow> real \<Rightarrow> real \<Rightarrow> real \<Rightarrow> real \<Rightarrow> real \<Rightarrow> int \<Rightarrow> real \<Rightarrow> real \<Rightarrow> real \<Rightarrow> layer list" where
  "figure_shadow cx cy fw fh scale_w scale_h alpha blur dx dy =
     (comp
        ([Ellipse (cx - fw * scale_w / 2 + dx, cy - fh * 0.9 + dy)
            (cx + fw * scale_w / 2 + dx, cy + fh * scale_h / 2 + dy) (30, 24, 28, alpha)])
        blur)"

definition woman_serene ::
    "real \<Rightarrow> real \<Rightarrow> real \<Rightarrow> rgb \<Rightarrow> rgb \<Rightarrow> rgb \<Rightarrow> rgb \<Rightarrow> rgb \<Rightarrow> string \<Rightarrow> rgb option \<Rightarrow> layer list" where
  "woman_serene cx cy s skin hair_c cloth_c lip_c blush_c style accent =
     (let fw = s;
          fh = s * 1.22;
          accent = (case accent of None \<Rightarrow> cloth_c | Some c \<Rightarrow> c) in
      figure_shadow cx cy fw fh 3.9 4.1 26 52 22 34
      @ [Layer
           (let back = (if style = ''long''
                          then smooth_path
                                 [((cx - 1.05 * fw, cy - 0.5 * fh), (cx - 1.25 * fw, cy - 1.5 * fh),
                                   (cx + 0.9 * fw, cy - 1.65 * fh), (cx + 1.15 * fw, cy - 0.45 * fh)),
                                  ((cx + 1.15 * fw, cy - 0.45 * fh), (cx + 1.5 * fw, cy + 0.9 * fh),
                                   (cx + 1.35 * fw, cy + 2.6 * fh), (cx + 0.75 * fw, cy + 3.1 * fh)),
                                  ((cx + 0.75 * fw, cy + 3.1 * fh), (cx + 0.45 * fw, cy + 2.2 * fh),
                                   (cx + 0.15 * fw, cy + 3.4 * fh), (cx - 0.35 * fw, cy + 3.5 * fh)),
                                  ((cx - 0.35 * fw, cy + 3.5 * fh), (cx - 1.05 * fw, cy + 2.4 * fh),
                                   (cx - 1.35 * fw, cy + 1.0 * fh), (cx - 1.05 * fw, cy - 0.5 * fh))]
                          else smooth_path
                                 [((cx - 1.02 * fw, cy - 0.45 * fh), (cx - 1.1 * fw, cy - 1.4 * fh),
                                   (cx + 0.8 * fw, cy - 1.5 * fh), (cx + 1.05 * fw, cy - 0.4 * fh)),
                                  ((cx + 1.05 * fw, cy - 0.4 * fh), (cx + 1.15 * fw, cy + 0.5 * fh),
                                   (cx + 0.6 * fw, cy + 1.0 * fh), (cx, cy + 1.05 * fh)),
                                  ((cx, cy + 1.05 * fh), (cx - 0.7 * fw, cy + 1.0 * fh),
                                   (cx - 1.1 * fw, cy + 0.4 * fh), (cx - 1.02 * fw, cy - 0.45 * fh))]) in
            (if style = ''long''
               then []
               else [Ellipse (cx + 0.35 * fw, cy - 1.95 * fh) (cx + 1.05 * fw, cy - 1.15 * fh)
                       (rgba hair_c 255)])
            @ [Polygon back (rgba hair_c 255)])
           None]
      @ [Layer
           (let sh = shoulders_pts cx (cy + 1.45 * fh) (3.4 * fw) (2.2 * fh) 0.12 in
            [Polygon (neck_pts cx cy fw fh) (rgba (mix (Rgb skin) (Hex ''#000000'') 0.07) 255),
             Polygon sh (rgba cloth_c 255),
             Polygon
               [(cx - 0.30 * fw, cy + 1.50 * fh), (cx, cy + 1.95 * fh), (cx + 0.30 * fw, cy + 1.50 * fh),
                (cx + 0.22 * fw, cy + 1.42 * fh), (cx - 0.22 * fw, cy + 1.42 * fh)]
               (rgba (mix (Rgb cloth_c) (Hex ''#ffffff'') 0.35) 255)])
           None]
      @ [Layer ([Polygon (face_outline cx cy fw fh 0) (rgba skin 255)]) None]
      @ [Layer
           (let fringe = smooth_path
                           [((cx - 1.0 * fw, cy - 0.18 * fh), (cx - 1.10 * fw, cy - 1.25 * fh),
                             (cx + 0.6 * fw, cy - 1.48 * fh), (cx + 0.98 * fw, cy - 0.42 * fh)),
                            ((cx + 0.98 * fw, cy - 0.42 * fh), (cx + 0.72 * fw, cy - 0.58 * fh),
                             (cx + 0.55 * fw, cy - 0.70 * fh), (cx + 0.30 * fw, cy - 0.62 * fh)),
                            ((cx + 0.30 * fw, cy - 0.62 * fh), (cx + 0.05 * fw, cy - 0.80 * fh),
                             (cx - 0.35 * fw, cy - 0.78 * fh), (cx - 0.55 * fw, cy - 0.56 * fh)),
                            ((cx - 0.55 * fw, cy - 0.56 * fh), (cx - 0.75 * fw, cy - 0.70 * fh),
                             (cx - 0.9 * fw, cy - 0.48 * fh), (cx - 1.0 * fw, cy - 0.18 * fh))];
                strand = smooth_path
                           [((cx + 0.82 * fw, cy - 0.62 * fh), (cx + 1.10 * fw, cy - 0.05 * fh),
                             (cx + 1.05 * fw, cy + 0.9 * fh), (cx + 0.8 * fw, cy + 1.6 * fh)),
                            ((cx + 0.8 * fw, cy + 1.6 * fh), (cx + 0.66 * fw, cy + 0.8 * fh),
                             (cx + 0.64 * fw, cy - 0.05 * fh), (cx + 0.68 * fw, cy - 0.58 * fh))] in
            [Polygon fringe (rgba hair_c 255),
             Polygon strand (rgba (mix (Rgb hair_c) (Hex ''#ffffff'') 0.06) 255)])
           None]
      @ [Layer
           (let ink = mix (Rgb skin) (Hex ''#000000'') 0.72;
                nose = cubic (cx - 0.02 * fw, cy + 0.16 * fh) (cx + 0.03 * fw, cy + 0.24 * fh)
                         (cx + 0.02 * fw, cy + 0.30 * fh) (cx - 0.04 * fw, cy + 0.32 * fh) 16 in
            closed_eye (cx - 0.42 * fw) (cy - 0.02 * fh) fw ink 235 2 0.16
            @ closed_eye (cx + 0.42 * fw) (cy - 0.02 * fh) fw ink 235 2 0.16
            @ brow (cx - 0.42 * fw) (cy - 0.30 * fh) fw (mix (Rgb hair_c) (Hex ''#000000'') 0.25) 200 0
            @ brow (cx + 0.42 * fw) (cy - 0.30 * fh) fw (mix (Rgb hair_c) (Hex ''#000000'') 0.25) 200 0
            @ [Line nose (rgba (mix (Rgb skin) (Hex ''#000000'') 0.30) 200) (max 2 (py_int (0.03 * fw))) True]
            @ lips (cx + 0.02 * fw) (cy + 0.52 * fh) fw lip_c 230
            @ blush (cx - 0.52 * fw) (cy + 0.30 * fh) fw blush_c 70
            @ blush (cx + 0.56 * fw) (cy + 0.30 * fh) fw blush_c 70)
           None])"

definition man_bust ::
    "real \<Rightarrow> real \<Rightarrow> real \<Rightarrow> rgb \<Rightarrow> rgb \<Rightarrow> rgb \<Rightarrow> rgb option \<Rightarrow> string \<Rightarrow> layer list" where
  "man_bust cx cy s skin hair_c cloth_c collar_c style =
     (let fw = s;
          fh = s * 1.20;
          collar_c = (case collar_c of
                         None \<Rightarrow> mix (Rgb cloth_c) (Hex ''#ffffff'') 0.5
                       | Some c \<Rightarrow> c) in
      figure_shadow cx cy fw fh 3.9 4.1 40 52 22 34
      @ [Layer
           (let sh = shoulders_pts cx (cy + 1.45 * fh) (3.6 * fw) (2.25 * fh) 0.12 in
            [Polygon (neck_pts cx cy fw fh) (rgba (mix (Rgb skin) (Hex ''#000000'') 0.08) 255),
             Polygon sh (rgba cloth_c 255)]
            @ (if style = ''suit''
                 then let lap_l = [(cx - 0.38 * fw, cy + 1.5 * fh), (cx - 0.95 * fw, cy + 1.75 * fh),
                                   (cx - 0.55 * fw, cy + 2.6 * fh), (cx - 0.12 * fw, cy + 2.1 * fh)];
                          lap_r = [(cx + 0.38 * fw, cy + 1.5 * fh), (cx + 0.95 * fw, cy + 1.75 * fh),
                                   (cx + 0.55 * fw, cy + 2.6 * fh), (cx + 0.12 * fw, cy + 2.1 * fh)] in
                      [Polygon
                         [(cx - 0.38 * fw, cy + 1.5 * fh), (cx, cy + 2.35 * fh),
                          (cx + 0.38 * fw, cy + 1.5 * fh)]
                         (rgba collar_c 255),
                       Polygon
                         [(cx - 0.09 * fw, cy + 1.62 * fh), (cx + 0.09 * fw, cy + 1.62 * fh),
                          (cx + 0.05 * fw, cy + 1.78 * fh), (cx - 0.05 * fw, cy + 1.78 * fh)]
                         (rgba (mix (Rgb cloth_c) (Hex ''#000000'') 0.4) 255),
                       Polygon
                         [(cx - 0.05 * fw, cy + 1.78 * fh), (cx + 0.05 * fw, cy + 1.78 * fh),
                          (cx + 0.10 * fw, cy + 2.35 * fh), (cx, cy + 2.5 * fh),
                          (cx - 0.10 * fw, cy + 2.35 * fh)]
                         (rgba (mix (Rgb cloth_c) (Hex ''#000000'') 0.4) 255),
                       Polygon lap_l (rgba (mix (Rgb cloth_c) (Hex ''#ffffff'') 0.08) 255),
                       Polygon lap_r (rgba (mix (Rgb cloth_c) (Hex ''#ffffff'') 0.08) 255)]
                 else [Polygon
                         [(cx - 0.40 * fw, cy + 1.48 * fh), (cx, cy + 1.95 * fh),
                          (cx + 0.40 * fw, cy + 1.48 * fh), (cx + 0.28 * fw, cy + 1.38 * fh),
                          (cx - 0.28 * fw, cy + 1.38 * fh)]
                         (rgba collar_c 255)]))
           None]
      @ [Layer ([Polygon (face_outline cx cy fw fh 0.4) (rgba skin 255)]) None]
      @ [Layer
           (let hair = smooth_path
                         [((cx - 0.98 * fw, cy - 0.30 * fh), (cx - 1.05 * fw, cy - 1.18 * fh),
                           (cx + 0.6 * fw, cy - 1.38 * fh), (cx + 0.97 * fw, cy - 0.42 * fh)),
                          ((cx + 0.97 * fw, cy - 0.42 * fh), (cx + 0.86 * fw, cy - 0.60 * fh),
                           (cx + 0.68 * fw, cy - 0.74 * fh), (cx + 0.42 * fw, cy - 0.68 * fh)),
                          ((cx + 0.42 * fw, cy - 0.68 * fh), (cx + 0.08 * fw, cy - 0.88 * fh),
                           (cx - 0.45 * fw, cy - 0.84 * fh), (cx - 0.68 * fw, cy - 0.58 * fh)),
                          ((cx - 0.68 * fw, cy - 0.58 * fh), (cx - 0.86 * fw, cy - 0.68 * fh),
                           (cx - 0.96 * fw, cy - 0.50 * fh), (cx - 0.98 * fw, cy - 0.30 * fh))] in
            [Polygon hair (rgba hair_c 255)])
           None]
      @ [Layer
           (let ink = mix (Rgb skin) (Hex ''#000000'') 0.75;
                nose = cubic (cx - 0.02 * fw, cy + 0.14 * fh) (cx + 0.035 * fw, cy + 0.24 * fh)
                         (cx + 0.03 * fw, cy + 0.31 * fh) (cx - 0.05 * fw, cy + 0.33 * fh) 16 in
            closed_eye (cx - 0.42 * fw) (cy + 0.0 * fh) fw ink 235 0 0.16
            @ closed_eye (cx + 0.42 * fw) (cy + 0.0 * fh) fw ink 235 0 0.16
            @ brow (cx - 0.42 * fw) (cy - 0.28 * fh) fw (mix (Rgb hair_c) (Hex ''#000000'') 0.2) 200
                (0.01 * fw)
            @ brow (cx + 0.42 * fw) (cy - 0.28 * fh) fw (mix (Rgb hair_c) (Hex ''#000000'') 0.2) 200
                (0.01 * fw)
            @ [Line nose (rgba (mix (Rgb skin) (Hex ''#000000'') 0.32) 200) (max 2 (py_int (0.032 * fw))) True]
            @ smile cx (cy + 0.52 * fh) fw (mix (Rgb skin) (Hex ''#7a3b3b'') 0.55) 220 0.15)
           None])"

definition silhouette_muse :: "real \<Rightarrow> real \<Rightarrow> real \<Rightarrow> rgb \<Rightarrow> rgb option \<Rightarrow> layer list" where
  "silhouette_muse cx cy s body_c rim_c =
     (let fw = s;
          fh = s * 1.2 in
      [Layer
         (let gown = smooth_path
                       [((cx - 0.35 * fw, cy + 1.2 * fh), (cx - 1.6 * fw, cy + 2.2 * fh),
                         (cx - 2.6 * fw, cy + 3.4 * fh), (cx - 2.9 * fw, cy + 4.6 * fh)),
                        ((cx - 2.9 * fw, cy + 4.6 * fh), (cx - 1.2 * fw, cy + 4.9 * fh),
                         (cx + 1.4 * fw, cy + 4.9 * fh), (cx + 2.8 * fw, cy + 4.4 * fh)),
                        ((cx + 2.8 * fw, cy + 4.4 * fh), (cx + 2.2 * fw, cy + 3.0 * fh),
                         (cx + 1.3 * fw, cy + 2.0 * fh), (cx + 0.38 * fw, cy + 1.2 * fh))];
              torso = smooth_path
                        [((cx - 0.9 * fw, cy + 2.2 * fh), (cx - 0.75 * fw, cy + 1.4 * fh),
                          (cx - 0.4 * fw, cy + 1.25 * fh), (cx, cy + 1.2 * fh)),
                         ((cx, cy + 1.2 * fh), (cx + 0.4 * fw, cy + 1.25 * fh),
                          (cx + 0.75 * fw, cy + 1.4 * fh), (cx + 0.9 * fw, cy + 2.2 * fh)),
                         ((cx + 0.9 * fw, cy + 2.2 * fh), (cx + 0.4 * fw, cy + 2.5 * fh),
                          (cx - 0.4 * fw, cy + 2.5 * fh), (cx - 0.9 * fw, cy + 2.2 * fh))];
              hair = smooth_path
                       [((cx - 0.95 * fw, cy - 0.35 * fh), (cx - 1.1 * fw, cy - 1.5 * fh),
                         (cx + 0.9 * fw, cy - 1.6 * fh), (cx + 1.05 * fw, cy - 0.3 * fh)),
                        ((cx + 1.05 * fw, cy - 0.3 * fh), (cx + 1.9 * fw, cy + 0.6 * fh),
                         (cx + 2.6 * fw, cy + 1.1 * fh), (cx + 3.2 * fw, cy + 0.9 * fh)),
                        ((cx + 3.2 * fw, cy + 0.9 * fh), (cx + 2.4 * fw, cy + 1.7 * fh),
                         (cx + 1.6 * fw, cy + 1.7 * fh), (cx + 1.0 * fw, cy + 1.3 * fh)),
                        ((cx + 1.0 * fw, cy + 1.3 * fh), (cx + 0.5 * fw, cy + 0.9 * fh),
                         (cx - 0.2 * fw, cy + 1.1 * fh), (cx - 0.6 * fw, cy + 0.7 * fh)),
                        ((cx - 0.6 * fw, cy + 0.7 * fh), (cx - 1.05 * fw, cy + 0.3 * fh),
                         (cx - 1.0 * fw, cy - 0.05 * fh), (cx - 0.95 * fw, cy - 0.35 * fh))] in
          [Polygon gown (rgba body_c 255),
           Polygon (neck_pts cx cy fw fh) (rgba body_c 255),
           Polygon torso (rgba body_c 255),
           Polygon (face_outline cx cy (fw * 0.92) (fh * 0.92) 0) (rgba body_c 255),
           Polygon hair (rgba (mix (Rgb body_c) (Hex ''#000000'') 0.12) 255)])
         None]
      @ (case rim_c of
            None \<Rightarrow> []
          | Some rim_c \<Rightarrow>
              comp
                ([Line
                    (cubic (cx + 0.9 * fw, cy - 0.6 * fh) (cx + 1.2 * fw, cy + 0.4 * fh)
                       (cx + 1.1 * fw, cy + 1.6 * fh) (cx + 0.8 * fw, cy + 2.2 * fh) 40)
                    (rgba rim_c 150) (max 3 (py_int (0.07 * fw))) False,
                  Line
                    (cubic (cx + 1.05 * fw, cy - 0.3 * fh) (cx + 2.0 * fw, cy + 0.7 * fh)
                       (cx + 2.8 * fw, cy + 1.2 * fh) (cx + 3.1 * fw, cy + 1.0 * fh) 40)
                    (rgba rim_c 120) (max 3 (py_int (0.06 * fw))) False])
                6))"

definition mascot_programmer ::
    "real \<Rightarrow> real \<Rightarrow> real \<Rightarrow> rgb \<Rightarrow> rgb \<Rightarrow> rgb \<Rightarrow> rgb \<Rightarrow> rgb option \<Rightarrow> layer list" where
  "mascot_programmer cx cy s skin hair_c cloth_c accent_c glasses_c =
     (let fw = s;
          fh = s * 1.14;
          glasses_c = (case glasses_c of
                          None \<Rightarrow> mix (Rgb cloth_c) (Hex ''#000000'') 0.5
                        | Some c \<Rightarrow> c) in
      figure_shadow cx cy fw fh 3.9 4.1 42 52 22 34
      @ [Layer
           (let sh = shoulders_pts cx (cy + 1.42 * fh) (3.5 * fw) (2.3 * fh) 0.12;
                pocket = superellipse_poly cx (cy + 2.9 * fh) (0.7 * fw) (0.5 * fh) 5 96 0 in
            [Polygon (neck_pts cx cy fw fh) (rgba (mix (Rgb skin) (Hex ''#000000'') 0.07) 255),
             Polygon sh (rgba cloth_c 255),
             Polygon
               [(cx - 0.5 * fw, cy + 1.5 * fh), (cx, cy + 2.0 * fh), (cx + 0.5 * fw, cy + 1.5 * fh),
                (cx + 0.36 * fw, cy + 1.34 * fh), (cx - 0.36 * fw, cy + 1.34 * fh)]
               (rgba (mix (Rgb cloth_c) (Hex ''#000000'') 0.14) 255),
             Line [(cx - 0.16 * fw, cy + 1.85 * fh), (cx - 0.20 * fw, cy + 2.35 * fh)] (rgba accent_c 255)
               (max 3 (py_int (0.05 * fw))) False,
             Line [(cx + 0.16 * fw, cy + 1.85 * fh), (cx + 0.20 * fw, cy + 2.35 * fh)] (rgba accent_c 255)
               (max 3 (py_int (0.05 * fw))) False,
             Polygon pocket (rgba (mix (Rgb cloth_c) (Hex ''#ffffff'') 0.10) 255)])
           None]
      @ [Layer
           (let band = cubic (cx - 0.75 * fw, cy + 1.35 * fh) (cx - 0.5 * fw, cy + 1.9 * fh)
                         (cx + 0.5 * fw, cy + 1.9 * fh) (cx + 0.75 * fw, cy + 1.35 * fh) 40 in
            [Line band (rgba glasses_c 255) (max 4 (py_int (0.14 * fw))) False]
            @ concat
                (List.map
                   (\<lambda>sgn.
                      [Ellipse (cx + of_int sgn * 0.82 * fw - 0.17 * fw, cy + 1.18 * fh)
                         (cx + of_int sgn * 0.82 * fw + 0.17 * fw, cy + 1.62 * fh) (rgba glasses_c 255),
                       Ellipse (cx + of_int sgn * 0.82 * fw - 0.09 * fw, cy + 1.28 * fh)
                         (cx + of_int sgn * 0.82 * fw + 0.09 * fw, cy + 1.52 * fh) (rgba accent_c 255)])
                   [- 1, 1]))
           None]
      @ [Layer ([Polygon (face_outline cx cy fw fh 0) (rgba skin 255)]) None]
      @ [Layer
           (let hair = smooth_path
                         [((cx - 0.98 * fw, cy - 0.28 * fh), (cx - 1.07 * fw, cy - 1.22 * fh),
                           (cx + 0.62 * fw, cy - 1.40 * fh), (cx + 0.99 * fw, cy - 0.38 * fh)),
                          ((cx + 0.99 * fw, cy - 0.38 * fh), (cx + 0.88 * fw, cy - 0.62 * fh),
                           (cx + 0.58 * fw, cy - 0.80 * fh), (cx + 0.28 * fw, cy - 0.72 * fh)),
                          ((cx + 0.28 * fw, cy - 0.72 * fh), (cx - 0.06 * fw, cy - 0.88 * fh),
                           (cx - 0.5 * fw, cy - 0.82 * fh), (cx - 0.70 * fw, cy - 0.54 * fh)),
                          ((cx - 0.70 * fw, cy - 0.54 * fh), (cx - 0.88 * fw, cy - 0.64 * fh),
                           (cx - 0.97 * fw, cy - 0.48 * fh), (cx - 0.98 * fw, cy - 0.28 * fh))] in
            [Polygon hair (rgba hair_c 255)])
           None]
      @ [Layer
           (let ink = mix (Rgb skin) (Hex ''#000000'') 0.78;
                mouth = smooth_path
                          [((cx - 0.16 * fw, cy + 0.5 * fh), (cx - 0.05 * fw, cy + 0.52 * fh),
                            (cx + 0.05 * fw, cy + 0.52 * fh), (cx + 0.16 * fw, cy + 0.5 * fh)),
                           ((cx + 0.16 * fw, cy + 0.5 * fh), (cx + 0.08 * fw, cy + 0.68 * fh),
                            (cx - 0.08 * fw, cy + 0.68 * fh), (cx - 0.16 * fw, cy + 0.5 * fh))] in
            concat
              (List.map
                 (\<lambda>sgn.
                    let ex = cx + of_int sgn * 0.42 * fw;
                        pts = cubic (ex - 0.14 * fw, cy + 0.08 * fh) (ex - 0.05 * fw, cy - 0.03 * fh)
                                (ex + 0.05 * fw, cy - 0.03 * fh) (ex + 0.14 * fw, cy + 0.08 * fh) 20 in
                    [Ring (ex - 0.26 * fw, cy - 0.20 * fh) (ex + 0.26 * fw, cy + 0.30 * fh)
                       (rgba glasses_c 235) (max 3 (py_int (0.045 * fw))),
                     Line pts (rgba ink 240) (max 3 (py_int (0.045 * fw))) True])
                 [- 1, 1])
            @ [Line [(cx - 0.16 * fw, cy + 0.05 * fh), (cx + 0.16 * fw, cy + 0.05 * fh)] (rgba glasses_c 235)
                 (max 3 (py_int (0.04 * fw))) False,
               Line [(cx - 0.68 * fw, cy + 0.02 * fh), (cx - 0.88 * fw, cy - 0.05 * fh)] (rgba glasses_c 235)
                 (max 3 (py_int (0.04 * fw))) False,
               Line [(cx + 0.68 * fw, cy + 0.02 * fh), (cx + 0.88 * fw, cy - 0.05 * fh)] (rgba glasses_c 235)
                 (max 3 (py_int (0.04 * fw))) False,
               Polygon mouth (rgba (mix (Rgb skin) (Hex ''#7a2e2e'') 0.6) 235)]
            @ blush (cx - 0.62 * fw) (cy + 0.34 * fh) fw (238, 140, 110) 85
            @ blush (cx + 0.62 * fw) (cy + 0.34 * fh) fw (238, 140, 110) 85)
           None])"

definition performer :: "real \<Rightarrow> real \<Rightarrow> real \<Rightarrow> rgb \<Rightarrow> rgb \<Rightarrow> rgb \<Rightarrow> rgb \<Rightarrow> layer list" where
  "performer cx cy s skin hair_c cloth_c glow_c =
     (let fw = s;
          fh = s * 1.18 in
      figure_shadow cx cy fw fh 3.9 4.1 44 52 22 34
      @ [Layer
           (let tail = smooth_path
                         [((cx + 0.55 * fw, cy - 1.35 * fh), (cx + 1.6 * fw, cy - 1.2 * fh),
                           (cx + 2.1 * fw, cy + 0.2 * fh), (cx + 1.85 * fw, cy + 1.6 * fh)),
                          ((cx + 1.85 * fw, cy + 1.6 * fh), (cx + 1.25 * fw, cy + 0.9 * fh),
                           (cx + 0.85 * fw, cy + 0.2 * fh), (cx + 0.7 * fw, cy - 0.6 * fh))] in
            [Polygon tail (rgba (mix (Rgb hair_c) (Hex ''#000000'') 0.10) 255)])
           None]
      @ [Layer
           (let sh = shoulders_pts cx (cy + 1.45 * fh) (3.3 * fw) (2.2 * fh) 0.12 in
            [Polygon (neck_pts cx cy fw fh) (rgba (mix (Rgb skin) (Hex ''#000000'') 0.07) 255),
             Polygon sh (rgba cloth_c 255),
             Polygon
               [(cx - 0.46 * fw, cy + 1.5 * fh), (cx - 0.12 * fw, cy + 2.1 * fh),
                (cx - 0.55 * fw, cy + 2.0 * fh), (cx - 0.75 * fw, cy + 1.65 * fh)]
               (rgba (mix (Rgb cloth_c) (Rgb glow_c) 0.25) 255),
             Polygon
               [(cx + 0.46 * fw, cy + 1.5 * fh), (cx + 0.12 * fw, cy + 2.1 * fh),
                (cx + 0.55 * fw, cy + 2.0 * fh), (cx + 0.75 * fw, cy + 1.65 * fh)]
               (rgba (mix (Rgb cloth_c) (Rgb glow_c) 0.25) 255)])
           None]
      @ [Layer ([Polygon (face_outline cx cy fw fh 0) (rgba skin 255)]) None]
      @ [Layer
           (let hair = smooth_path
                         [((cx - 1.0 * fw, cy - 0.3 * fh), (cx - 1.1 * fw, cy - 1.3 * fh),
                           (cx + 0.7 * fw, cy - 1.5 * fh), (cx + 1.05 * fw, cy - 0.4 * fh)),
                          ((cx + 1.05 * fw, cy - 0.4 * fh), (cx + 0.8 * fw, cy - 0.7 * fh),
                           (cx + 0.5 * fw, cy - 0.9 * fh), (cx + 0.2 * fw, cy - 0.82 * fh)),
                          ((cx + 0.2 * fw, cy - 0.82 * fh), (cx - 0.2 * fw, cy - 1.0 * fh),
                           (cx - 0.6 * fw, cy - 0.9 * fh), (cx - 0.8 * fw, cy - 0.6 * fh)),
                          ((cx - 0.8 * fw, cy - 0.6 * fh), (cx - 0.95 * fw, cy - 0.7 * fh),
                           (cx - 1.0 * fw, cy - 0.5 * fh), (cx - 1.0 * fw, cy - 0.3 * fh))] in
            [Polygon hair (rgba hair_c 255)])
           None]
      @ [Layer
           (let band = cubic (cx - 0.85 * fw, cy - 0.45 * fh) (cx - 0.6 * fw, cy - 1.45 * fh)
                         (cx + 0.6 * fw, cy - 1.45 * fh) (cx + 0.85 * fw, cy - 0.45 * fh) 40;
                boom = cubic (cx + 0.88 * fw, cy + 0.05 * fh) (cx + 0.95 * fw, cy + 0.45 * fh)
                         (cx + 0.5 * fw, cy + 0.62 * fh) (cx + 0.28 * fw, cy + 0.58 * fh) 30;
                ink = mix (Rgb skin) (Hex ''#000000'') 0.72 in
            [Line band (rgba (mix (Rgb cloth_c) (Hex ''#000000'') 0.3) 255) (max 3 (py_int (0.09 * fw))) False,
             Ellipse (cx + 0.72 * fw, cy - 0.28 * fh) (cx + 1.02 * fw, cy + 0.12 * fh)
               (rgba (mix (Rgb cloth_c) (Hex ''#000000'') 0.3) 255),
             Line boom (rgba (mix (Rgb cloth_c) (Hex ''#000000'') 0.3) 255) (max 2 (py_int (0.05 * fw))) False,
             Ellipse (cx + 0.18 * fw, cy + 0.5 * fh) (cx + 0.34 * fw, cy + 0.66 * fh) (rgba glow_c 255)]
            @ closed_eye (cx - 0.42 * fw) (cy + 0.0 * fh) fw ink 235 2 0.16
            @ open_eye (cx + 0.42 * fw) (cy + 0.02 * fh) fw (mix (Rgb glow_c) (Hex ''#000000'') 0.25) 255 True
            @ brow (cx - 0.42 * fw) (cy - 0.28 * fh) fw (mix (Rgb hair_c) (Hex ''#000000'') 0.25) 200 0
            @ brow (cx + 0.42 * fw) (cy - 0.28 * fh) fw (mix (Rgb hair_c) (Hex ''#000000'') 0.25) 200 0
            @ smile cx (cy + 0.52 * fh) fw (mix (Rgb skin) (Hex ''#8a4040'') 0.6) 220 0.15
            @ blush (cx - 0.56 * fw) (cy + 0.3 * fh) fw glow_c 55
            @ blush (cx + 0.56 * fw) (cy + 0.3 * fh) fw glow_c 55)
           None])"

definition anime_fringe :: "real \<Rightarrow> real \<Rightarrow> real \<Rightarrow> real \<Rightarrow> point list" where
  "anime_fringe cx cy fw fh =
     (let x0 = cx - 1.02 * fw;
          x1 = cx + 1.02 * fw;
          top_y = cy - 1.28 * fh;
          bot_y = cy - 0.42 * fh;
          n = 7 in
      [(x0, cy - 0.2 * fh)]
      @ tl
          (cubic (x0, cy - 0.2 * fh) (x0 - 0.05 * fw, top_y - 0.2 * fh) (cx, top_y - 0.25 * fh)
             (x1, cy - 0.35 * fh) 30)
      @ [(x1, cy - 0.1 * fh)]
      @ concat
          (List.map
             (\<lambda>i.
                let xm = x1 - (x1 - x0) * (of_int i + 0.5) / of_int n;
                    xe = x1 - (x1 - x0) * (of_int i + 1) / of_int n;
                    depth = bot_y + (if i mod 2 = 0 then 0.10 * fh else (- 0.06) * fh) in
                [(xm, depth), (xe, bot_y - 0.08 * fh)])
             [0..n - 1]))"

definition anime_adult ::
    "real \<Rightarrow> real \<Rightarrow> real \<Rightarrow> rgb \<Rightarrow> rgb \<Rightarrow> rgb \<Rightarrow> rgb \<Rightarrow> string \<Rightarrow> layer list" where
  "anime_adult cx cy s skin hair_c cloth_c iris_c style =
     (let fw = s;
          fh = s * 1.16 in
      figure_shadow cx cy fw fh 3.9 4.1 40 52 22 34
      @ [Layer
           (let back = smooth_path
                         [((cx - 1.08 * fw, cy - 0.3 * fh), (cx - 1.2 * fw, cy - 1.5 * fh),
                           (cx + 0.9 * fw, cy - 1.6 * fh), (cx + 1.12 * fw, cy - 0.3 * fh)),
                          ((cx + 1.12 * fw, cy - 0.3 * fh), (cx + 1.3 * fw, cy + 0.9 * fh),
                           (cx + 0.95 * fw, cy + 2.0 * fh), (cx + 0.55 * fw, cy + 2.5 * fh)),
                          ((cx + 0.55 * fw, cy + 2.5 * fh), (cx + 0.3 * fw, cy + 1.6 * fh),
                           (cx - 0.1 * fw, cy + 2.6 * fh), (cx - 0.5 * fw, cy + 2.4 * fh)),
                          ((cx - 0.5 * fw, cy + 2.4 * fh), (cx - 1.15 * fw, cy + 1.2 * fh),
                           (cx - 1.25 * fw, cy + 0.4 * fh), (cx - 1.08 * fw, cy - 0.3 * fh))] in
            (if style = ''twin''
               then concat
                      (List.map
                         (\<lambda>sgn.
                            let tail = smooth_path
                                         [((cx + of_int sgn * 0.85 * fw, cy - 0.7 * fh),
                                           (cx + of_int sgn * 1.9 * fw, cy - 0.2 * fh),
                                           (cx + of_int sgn * 2.1 * fw, cy + 1.2 * fh),
                                           (cx + of_int sgn * 1.5 * fw, cy + 2.4 * fh)),
                                          ((cx + of_int sgn * 1.5 * fw, cy + 2.4 * fh),
                                           (cx + of_int sgn * 1.2 * fw, cy + 1.4 * fh),
                                           (cx + of_int sgn * 0.9 * fw, cy + 0.6 * fh),
                                           (cx + of_int sgn * 0.72 * fw, cy - 0.2 * fh))] in
                            [Polygon tail (rgba (mix (Rgb hair_c) (Hex ''#000000'') 0.08) 255)])
                         [- 1, 1])
               else [])
            @ [Polygon back (rgba hair_c 255)])
           None]
      @ [Layer
           (let sh = shoulders_pts cx (cy + 1.42 * fh) (3.1 * fw) (2.1 * fh) 0.12 in
            [Polygon (neck_pts cx cy fw fh) (rgba (mix (Rgb skin) (Hex ''#000000'') 0.06) 255),
             Polygon sh (rgba cloth_c 255),
             Polygon
               [(cx - 0.44 * fw, cy + 1.5 * fh), (cx, cy + 2.05 * fh), (cx + 0.44 * fw, cy + 1.5 * fh),
                (cx + 0.30 * fw, cy + 1.38 * fh), (cx - 0.30 * fw, cy + 1.38 * fh)]
               (rgba (mix (Rgb cloth_c) (Hex ''#000000'') 0.12) 255),
             Line [(cx - 0.14 * fw, cy + 1.9 * fh), (cx - 0.16 * fw, cy + 2.3 * fh)]
               (rgba (mix (Rgb cloth_c) (Hex ''#ffffff'') 0.6) 255) (max 2 (py_int (0.045 * fw))) False,
             Line [(cx + 0.14 * fw, cy + 1.9 * fh), (cx + 0.16 * fw, cy + 2.3 * fh)]
               (rgba (mix (Rgb cloth_c) (Hex ''#ffffff'') 0.6) 255) (max 2 (py_int (0.045 * fw))) False])
           None]
      @ [Layer ([Polygon (face_outline cx cy fw fh 0) (rgba skin 255)]) None]
      @ [Layer (let pts = anime_fringe cx cy fw fh in [Polygon pts (rgba hair_c 255)]) None]
      @ [Layer
           (let ink = mix (Rgb hair_c) (Hex ''#000000'') 0.45 in
            open_eye (cx - 0.42 * fw) (cy + 0.05 * fh) fw iris_c 255 True
            @ open_eye (cx + 0.42 * fw) (cy + 0.05 * fh) fw iris_c 255 True
            @ [Line
                 (cubic (cx - 0.58 * fw, cy - 0.12 * fh) (cx - 0.45 * fw, cy - 0.22 * fh)
                    (cx - 0.28 * fw, cy - 0.22 * fh) (cx - 0.24 * fw, cy - 0.14 * fh) 16)
                 (rgba ink 220) (max 2 (py_int (0.035 * fw))) False,
               Line
                 (cubic (cx + 0.58 * fw, cy - 0.12 * fh) (cx + 0.45 * fw, cy - 0.22 * fh)
                    (cx + 0.28 * fw, cy - 0.22 * fh) (cx + 0.24 * fw, cy - 0.14 * fh) 16)
                 (rgba ink 220) (max 2 (py_int (0.035 * fw))) False]
            @ smile cx (cy + 0.5 * fh) fw (mix (Rgb skin) (Hex ''#8a4040'') 0.6) 220 0.13
            @ blush (cx - 0.58 * fw) (cy + 0.32 * fh) fw (242, 153, 142) 80
            @ blush (cx + 0.58 * fw) (cy + 0.32 * fh) fw (242, 153, 142) 80)
           None])"

end
