(* ===== verification/ArtScenes.thy ===== *)
theory ArtScenes
  imports ArtFigures
begin

text \<open>
  The first four scenes of the official themes (\<open>scripts/official-theme-art/scenes.py\<close>). A
  scene is a gradient with layers composed onto it in the order of the script; the layers whose marks are
  placed at random are programs of the state monad over the generator seeded with the scene's number.
\<close>

definition scene :: "'g studio \<Rightarrow> int \<Rightarrow> ground res \<Rightarrow> ('g, layer list) state \<Rightarrow> picture res" where
  "scene S seed img layers =
     rbind img (\<lambda>g. Inr \<lparr>p_ground = g, p_layers = fst (run_state layers (seeded S seed))\<rparr>)"

text \<open>A rose draws from a generator of its own.\<close>

definition rose_petals :: "'g studio \<Rightarrow> real \<Rightarrow> real \<Rightarrow> real \<Rightarrow> rgb \<Rightarrow> rgb \<Rightarrow> rgb \<Rightarrow> ('g, mark list) state" where
  "rose_petals S cx cy r deep mid light =
     each
       (\<lambda>(ring_i, (frac, col)).
          let n = (if ring_i < 2 then 7 else 5) in
          each
            (\<lambda>i.
               do {
                 u \<leftarrow> uniform S (- 0.06) 0.06;
                 let ang = (2 * pi * of_int i / of_int n) + of_int ring_i * 0.45 + u;
                 let px = cx + cos ang * r * frac * 0.34;
                 let py = cy + sin ang * r * frac * 0.34;
                 State_Monad.return [Polygon (petal_pts px py (r * frac * 0.72) (ang + pi / 2)) (rgba col 255)] })
            [0..n - 1])
       (zip [0..3] [(1.0, mid), (0.72, light), (0.46, mid), (0.26, deep)])"

definition rose :: "'g studio \<Rightarrow> real \<Rightarrow> real \<Rightarrow> real \<Rightarrow> rgb \<Rightarrow> rgb \<Rightarrow> rgb \<Rightarrow> int \<Rightarrow> mark list" where
  "rose S cx cy r deep mid light seed =
     (let pts = List.map (\<lambda>i. let t = of_int i / 39; a = 4.6 * pi * t in
            (cx + cos a * r * 0.20 * (1 - t * 0.75), cy + sin a * r * 0.20 * (1 - t * 0.75))) [0..39] in
      fst (run_state (rose_petals S cx cy r deep mid light) (seeded S seed))
      @ [Line pts (rgba deep 220) (max 2 (py_int (r * 0.05))) True])"

definition rose_dawn_petals :: "'g studio \<Rightarrow> ('g, mark list) state" where
  "rose_dawn_petals S =
     do {
       m6 \<leftarrow>
         repeated 9
           (do {
              u1 \<leftarrow> uniform S 0.04 0.48;
              let x = u1 * W;
              u2 \<leftarrow> uniform S 0.10 0.92;
              let y = u2 * H;
              s \<leftarrow> uniform S 26 52;
              u4 \<leftarrow> uniform S 0 6.28;
              u5 \<leftarrow> s_randint S 28 55;
              State_Monad.return ([Polygon (petal_pts x y s u4) (rgba (colour ''#EFC4CD'') (of_int u5))]) });
       State_Monad.return (m6) }"

definition rose_dawn_roses :: "'g studio \<Rightarrow> rgb \<Rightarrow> rgb \<Rightarrow> rgb \<Rightarrow> ('g, mark list) state" where
  "rose_dawn_roses S deep mid light =
     do {
       let roses = [(0.865 * W, 0.82 * H, 150, 1), (0.940 * W, 0.62 * H, 108, 2),
                    (0.780 * W, 0.93 * H, 124, 3), (0.925 * W, 0.95 * H, 84, 4), (0.620 * W, 0.90 * H, 56, 5)];
       let leaf_c = colour ''#8A9A7B'';
       m3 \<leftarrow>
         each
           (\<lambda>(cx, cy, r, seed).
              do {
                m2 \<leftarrow>
                  repeated 3
                    (do {
                       ang \<leftarrow> uniform S 0 6.28;
                       State_Monad.return
                         ([Polygon
                             (leaf_pts (cx + cos ang * r * 0.9) (cy + sin ang * r * 0.9) (r * 0.85) (r * 0.30)
                                ang 0.35)
                             (rgba leaf_c 235)]) });
                State_Monad.return (m2 @ rose S cx cy r deep mid light seed) })
           roses;
       let stem = cubic (0.86 * W, 0.98 * H) (0.83 * W, 0.90 * H) (0.84 * W, 0.84 * H) (0.855 * W, 0.80 * H)
                    30;
       State_Monad.return (m3 @ [Line stem (rgba (mix (Rgb leaf_c) (Hex ''#000000'') 0.15) 200) 10 True]) }"

definition rose_dawn_loose_petals :: "'g studio \<Rightarrow> rgb \<Rightarrow> rgb \<Rightarrow> ('g, mark list) state" where
  "rose_dawn_loose_petals S mid light =
     do {
       m7 \<leftarrow>
         repeated 14
           (do {
              u1 \<leftarrow> uniform S 0.58 0.97;
              let x = u1 * W;
              u2 \<leftarrow> uniform S 0.08 0.85;
              let y = u2 * H;
              s \<leftarrow> uniform S 20 46;
              u4 \<leftarrow> s_random S;
              let col = (if u4 < 0.5 then mid else light);
              u5 \<leftarrow> uniform S 0 6.28;
              u6 \<leftarrow> s_randint S 120 200;
              State_Monad.return ([Polygon (petal_pts x y s u5) (rgba col (of_int u6))]) });
       m11 \<leftarrow>
         repeated 10
           (do {
              u8 \<leftarrow> uniform S 0.60 0.98;
              u9 \<leftarrow> uniform S 0.10 0.80;
              let x = u8 * W;
              let y = u9 * H;
              u10 \<leftarrow> s_randint S 90 160;
              State_Monad.return
                ([Ellipse (x - 5, y - 5) (x + 5, y + 5) (rgba (colour ''#FFFFFF'') (of_int u10))]) });
       State_Monad.return (m7 @ m11) }"

definition rose_dawn_layers :: "'g studio \<Rightarrow> ('g, layer list) state" where
  "rose_dawn_layers S =
     do {
       let deep = colour ''#B43F65'';
       let mid = colour ''#E28CA1'';
       let light = colour ''#F5C3CE'';
       petals \<leftarrow> rose_dawn_petals S;
       roses \<leftarrow> rose_dawn_roses S deep mid light;
       loose_petals \<leftarrow> rose_dawn_loose_petals S mid light;
       State_Monad.return
         (glow (0.78 * W) (0.30 * H) (0.55 * W) (colour ''#FFFFFF'') 70 1
          @ glow (0.86 * W) (0.72 * H) (0.38 * W) (colour ''#F2B7C4'') 60 1
          @ comp petals 2
          @ woman_serene (0.722 * W) (0.40 * H) 152 (colour ''#F6D8C6'') (colour ''#5E3A36'')
              (colour ''#FCEFEA'') (colour ''#C45B73'') (colour ''#EBA9B5'') ''long'' None
          @ comp roses 0.8
          @ comp loose_petals 1.2
          @ comp
              (concat
                 (List.map
                    (\<lambda>(i, ang).
                       let x0 = 0.99 * W;
                           y0 = (- 0.05) * H;
                           x1 = 0.60 * W + of_int i * 0.09 * W in
                       [Polygon
                          [(x0, y0), (x0 - 0.10 * W, y0), (x1 - 0.06 * W, 0.75 * H), (x1 + 0.10 * W, 0.75 * H)]
                          (rgba (colour ''#FFFFFF'') 26)])
                    (zip [0..2] ([- 0.5, - 0.28, - 0.06] :: real list))))
              30) }"

definition scene_rose_dawn :: "'g studio \<Rightarrow> picture res" where
  "scene_rose_dawn S =
     scene S 20260117 (gradient 2560 1440
       [(0.0, ''#FFF9F5''), (0.45, ''#FDF0F1''), (0.8, ''#F9E0E4''), (1.0, ''#F5D3DA'')]
       ''d1'') (rose_dawn_layers S)"

definition ingot :: "real \<Rightarrow> real \<Rightarrow> real \<Rightarrow> rgb \<Rightarrow> rgb \<Rightarrow> mark list" where
  "ingot cx cy w gold deep =
     (let body = smooth_path
                   [((cx - w * 0.5, cy + w * 0.10), (cx - w * 0.62, cy - w * 0.28),
                     (cx - w * 0.30, cy - w * 0.30), (cx - w * 0.16, cy - w * 0.12)),
                    ((cx - w * 0.16, cy - w * 0.12), (cx - w * 0.08, cy - w * 0.02),
                     (cx + w * 0.08, cy - w * 0.02), (cx + w * 0.16, cy - w * 0.12)),
                    ((cx + w * 0.16, cy - w * 0.12), (cx + w * 0.30, cy - w * 0.30),
                     (cx + w * 0.62, cy - w * 0.28), (cx + w * 0.5, cy + w * 0.10)),
                    ((cx + w * 0.5, cy + w * 0.10), (cx + w * 0.3, cy + w * 0.30),
                     (cx - w * 0.3, cy + w * 0.30), (cx - w * 0.5, cy + w * 0.10))] in
      [Polygon body (rgba gold 255),
       Ellipse (cx - w * 0.16, cy - w * 0.16) (cx + w * 0.16, cy + w * 0.06)
         (rgba (mix (Rgb gold) (Hex ''#ffffff'') 0.35) 255),
       Line [(cx - w * 0.30, cy + w * 0.16), (cx + w * 0.30, cy + w * 0.16)] (rgba deep 130)
         (max 2 (py_int (w * 0.03))) False])"

definition fortune_treasure :: "'g studio \<Rightarrow> rgb \<Rightarrow> rgb \<Rightarrow> rgb \<Rightarrow> rgb \<Rightarrow> ('g, mark list) state" where
  "fortune_treasure S gold gold_deep verm jade =
     do {
       let coins = [(0.620 * W, 0.30 * H, 54, 0.3), (0.650 * W, 0.62 * H, 40, - 0.4),
                    (0.860 * W, 0.24 * H, 62, 0.2), (0.920 * W, 0.46 * H, 44, 0.5),
                    (0.600 * W, 0.82 * H, 48, - 0.2), (0.880 * W, 0.70 * H, 38, 0.1)];
       m6 \<leftarrow>
         repeated 16
           (do {
              u1 \<leftarrow> uniform S 0.58 0.97;
              u2 \<leftarrow> uniform S 0.10 0.92;
              let x = u1 * W;
              let y = u2 * H;
              u3 \<leftarrow> uniform S 8 22;
              u4 \<leftarrow> s_random S;
              u5 \<leftarrow> s_randint S 120 210;
              State_Monad.return (star4 x y u3 (if u4 < 0.6 then gold else verm) (of_int u5) 0.18 0) });
       State_Monad.return
         (concat
            (List.map
               (\<lambda>(cx, cy, r, rot).
                  let (outer, hole) = coin_pts cx cy r rot;
                      (inner, inner_hole) = coin_pts cx cy (r * 0.74) rot in
                  [Polygon outer (rgba gold 255),
                   Polygon hole (rgba (mix (Rgb gold) (Hex ''#7a5310'') 0.45) 255),
                   Line inner (rgba gold_deep 160) (max 3 (py_int (r * 0.06))) False,
                   Polygon inner_hole (rgba gold 255)])
               coins)
          @ ingot (0.845 * W) (0.90 * H) 300 gold gold_deep
          @ ingot (0.640 * W) (0.94 * H) 210 (mix (Rgb gold) (Hex ''#ffffff'') 0.12) gold_deep
          @ concat
              (List.map
                 (\<lambda>(cx, cy, s, col, alp).
                    let (pts, tail) = cloud_curl_pts cx cy s in
                    [Line pts (rgba col alp) 11 True, Line tail (rgba col (py_int (alp * 0.85))) 11 True])
                 [(0.600 * W, 0.52 * H, 42, verm, 200),
                  (0.905 * W, 0.58 * H, 60, verm, 190),
                  (0.855 * W, 0.16 * H, 44, mix (Rgb verm) (Rgb gold) 0.4, 170)])
          @ concat
              (List.map
                 (\<lambda>i.
                    let bx = 0.925 * W + sin (of_int i * 0.9) * 26;
                        by = 0.80 * H + of_int i * 46 in
                    [Ellipse (bx - 17, by - 17) (bx + 17, by + 17)
                       (rgba (mix (Rgb jade) (Hex ''#ffffff'') (0.08 * of_int (i mod 2))) 240),
                     Ellipse (bx - 6, by - 8) (bx + 4, by + 2)
                       (rgba (mix (Rgb jade) (Hex ''#ffffff'') 0.6) 160)])
                 [0..4])
          @ m6) }"

definition fortune_confetti :: "'g studio \<Rightarrow> rgb \<Rightarrow> rgb \<Rightarrow> rgb \<Rightarrow> ('g, mark list) state" where
  "fortune_confetti S gold verm jade =
     do {
       m6 \<leftarrow>
         repeated 26
           (do {
              u1 \<leftarrow> uniform S 0.56 0.98;
              u2 \<leftarrow> uniform S 0.08 0.95;
              let x = u1 * W;
              let y = u2 * H;
              r \<leftarrow> uniform S 3 8;
              u4 \<leftarrow> s_randint S 0 2;
              let col = [gold, verm, jade] ! nat u4;
              u5 \<leftarrow> s_randint S 60 140;
              State_Monad.return ([Ellipse (x - r, y - r) (x + r, y + r) (rgba col (of_int u5))]) });
       State_Monad.return (m6) }"

definition fortune_forge_layers :: "'g studio \<Rightarrow> ('g, layer list) state" where
  "fortune_forge_layers S =
     do {
       let gold = colour ''#E8AD38'';
       let gold_deep = colour ''#B97F1E'';
       let verm = colour ''#C8402F'';
       let jade = colour ''#3E7C5F'';
       treasure \<leftarrow> fortune_treasure S gold gold_deep verm jade;
       confetti \<leftarrow> fortune_confetti S gold verm jade;
       State_Monad.return
         (glow (0.76 * W) (0.34 * H) (0.5 * W) (colour ''#FFF6DC'') 80 1
          @ glow (0.88 * W) (0.80 * H) (0.36 * W) (colour ''#F0B64E'') 70 1
          @ glow (0.70 * W) (0.18 * H) (0.30 * W) (colour ''#E8604C'') 26 1
          @ comp
              (concat
                 (List.map
                    (\<lambda>(cx, cy, s).
                       let (pts, tail) = cloud_curl_pts cx cy s in
                       [Line pts (rgba (colour ''#E4C493'') 70) 9 True,
                        Line tail (rgba (colour ''#E4C493'') 60) 9 True])
                    [(0.10 * W, 0.78 * H, 60), (0.30 * W, 0.22 * H, 46), (0.44 * W, 0.60 * H, 40)]))
              3
          @ mascot_programmer (0.718 * W) (0.41 * H) 152 (colour ''#F3CFAE'') (colour ''#3A2A22'')
              (colour ''#B23A2C'') (colour ''#E8AD38'') (Some (colour ''#4A3226''))
          @ comp treasure 0.6
          @ comp confetti 1.5) }"

definition scene_fortune_forge :: "'g studio \<Rightarrow> picture res" where
  "scene_fortune_forge S =
     scene S 20260118 (gradient 2560 1440
       [(0.0, ''#FFFBEF''), (0.5, ''#FDF2D8''), (0.85, ''#F8E3BC''), (1.0, ''#F3D6A2'')]
       ''d1'') (fortune_forge_layers S)"

text \<open>A tower of the skyline and the place of the next one.\<close>

definition tower :: "real \<Rightarrow> real \<Rightarrow> real \<Rightarrow> real \<Rightarrow> rgb \<Rightarrow> string \<Rightarrow> mark list \<times> real" where
  "tower base_y x w h col style =
     (let pts =
        [(x, base_y), (x, base_y - h)]
        @ (if style = ''step''
             then [(x + w * 0.18, base_y - h), (x + w * 0.18, base_y - h * 1.12),
                   (x + w * 0.82, base_y - h * 1.12), (x + w * 0.82, base_y - h)]
           else if style = ''spire''
             then [(x + w * 0.30, base_y - h), (x + w * 0.5, base_y - h * 1.38), (x + w * 0.70, base_y - h)]
           else if style = ''dome''
             then ellipse_poly (x + w / 2) (base_y - h) (w / 2) (w * 0.62) 72 pi (2 * pi) 0
           else if style = ''slant'' then [(x + w * 0.85, base_y - h * 1.06)]
           else [])
        @ [(x + w, if style \<noteq> ''slant'' then base_y - h else base_y - h * 0.9), (x + w, base_y)] in
      ([Polygon pts (rgba col 255)], x + w))"

fun tower_row :: "real \<Rightarrow> real \<Rightarrow> real \<Rightarrow> (real \<times> real \<times> string \<times> rgb) list \<Rightarrow> mark list" where
  "tower_row base_y gap x [] = []"
| "tower_row base_y gap x ((w, h, st, col) # rest) =
     (case tower base_y x (w * 1.5) (h * 1.05) col st of
        (ms, x') \<Rightarrow> ms @ tower_row base_y gap (x' + gap) rest)"

definition crimson_back :: "real \<Rightarrow> rgb \<Rightarrow> mark list" where
  "crimson_back base_y pale =
     tower_row base_y 18 (0.535 * W)
       (List.map (\<lambda>(w, h, st). (w, h, st, pale))
         [(120, 300, ''flat''), (90, 420, ''slant''), (150, 260, ''dome''), (80, 520, ''spire''),
          (130, 340, ''step''), (100, 240, ''flat''), (140, 400, ''slant''), (95, 300, ''dome''),
          (120, 360, ''step'')])"

definition crimson_mid :: "real \<Rightarrow> rgb \<Rightarrow> rgb \<Rightarrow> mark list" where
  "crimson_mid base_y mid light =
     tower_row base_y 26 (0.56 * W)
       [(110, 430, ''step'', light), (85, 600, ''spire'', mid), (140, 380, ''dome'', light),
        (95, 700, ''slant'', mid), (120, 470, ''step'', light), (80, 560, ''spire'', mid),
        (150, 350, ''flat'', light), (105, 640, ''slant'', mid)]"

text \<open>The front row has bands of windows.\<close>

fun front_row :: "real \<Rightarrow> rgb \<Rightarrow> real \<Rightarrow> (real \<times> real \<times> string) list \<Rightarrow> mark list" where
  "front_row base_y deep x [] = []"
| "front_row base_y deep x ((w, h, st) # rest) =
     (case tower base_y x (w * 1.5) (h * 1.05) deep st of
        (ms, x') \<Rightarrow>
          ms
          @ List.map
              (\<lambda>fy. Rectangle (x + 14, of_int fy) (x + w * 1.5 - 14, of_int fy + 12)
                 (rgba (colour ''#F6D9D4'') 150))
              (py_range (py_int (base_y - h * 1.05 + 60)) (py_int (base_y - 60)) 92)
          @ front_row base_y deep (x' + 34) rest)"

definition crimson_front :: "real \<Rightarrow> rgb \<Rightarrow> mark list" where
  "crimson_front base_y deep =
     front_row base_y deep (0.585 * W)
       [(130, 640, ''step''), (95, 820, ''spire''), (160, 520, ''dome''), (110, 900, ''slant''),
        (135, 600, ''step''), (100, 740, ''spire''), (150, 480, ''dome'')]"

definition crimson_birds :: "'g studio \<Rightarrow> rgb \<Rightarrow> rgb \<Rightarrow> ('g, mark list) state" where
  "crimson_birds S deep mid =
     do {
       m5 \<leftarrow>
         repeated 14
           (do {
              u1 \<leftarrow> uniform S 0.56 0.98;
              u2 \<leftarrow> uniform S 0.08 0.55;
              let x = u1 * W;
              let y = u2 * H;
              r \<leftarrow> uniform S 3 7;
              u4 \<leftarrow> s_randint S 50 110;
              State_Monad.return ([Ellipse (x - r, y - r) (x + r, y + r) (rgba mid (of_int u4))]) });
       State_Monad.return
         (concat
            (List.map
               (\<lambda>(bx, by, s).
                  [Line
                     (cubic (bx - s, by) (bx - s * 0.4, by - s * 0.7) (bx + s * 0.4, by - s * 0.7)
                        (bx + s, by) 16)
                     (rgba deep 170) 5 True])
               [(0.60 * W, 0.20 * H, 22), (0.64 * W, 0.16 * H, 16), (0.90 * W, 0.14 * H, 20),
                (0.86 * W, 0.22 * H, 14)])
          @ m5) }"

definition crimson_horizon_layers :: "'g studio \<Rightarrow> ('g, layer list) state" where
  "crimson_horizon_layers S =
     do {
       let sun_c = colour ''#F2A3A0'';
       let deep = colour ''#B92B38'';
       let mid = colour ''#D3606A'';
       let light = colour ''#E89B9B'';
       let base_y = 0.985 * H;
       birds \<leftarrow> crimson_birds S deep mid;
       State_Monad.return
         (glow (0.74 * W) (0.30 * H) (0.42 * W) (colour ''#FFFFFF'') 80 1
          @ comp
              ([Ellipse (0.74 * W - 150, 0.28 * H - 150) (0.74 * W + 150, 0.28 * H + 150)
                  (rgba (mix (Rgb sun_c) (Hex ''#ffffff'') 0.25) 255)]
               @ concat
                   (List.map
                      (\<lambda>(rr, aa).
                         [Ring (0.74 * W - rr, 0.28 * H - rr) (0.74 * W + rr, 0.28 * H + rr) (rgba sun_c aa) 6])
                      [(210, 70), (280, 45)]))
              1.5
          @ glow (0.74 * W) (0.28 * H) 320 sun_c 46 1
          @ comp
              (let hills = smooth_path
                             [((0, 0.74 * H), (0.18 * W, 0.68 * H), (0.36 * W, 0.72 * H), (0.52 * W, 0.66 * H)),
                              ((0.52 * W, 0.66 * H), (0.72 * W, 0.60 * H), (0.88 * W, 0.66 * H), (W, 0.62 * H)),
                              ((W, 0.62 * H), (W, 0.80 * H), (0.5 * W, 0.82 * H), (0, 0.80 * H))] in
               [Polygon hills (rgba (colour ''#EFCFC9'') 110)])
              6
          @ comp (let pale = colour ''#F3C2BC'' in crimson_back base_y pale) 1.2
          @ comp (crimson_mid base_y mid light) 0.8
          @ comp
              (let rail = cubic (0.60 * W, 0.86 * H) (0.75 * W, 0.78 * H) (0.90 * W, 0.80 * H)
                            (1.02 * W, 0.72 * H) 60 in
               crimson_front base_y deep
               @ [Line rail (rgba (mix (Rgb deep) (Hex ''#000000'') 0.1) 200) 12 True])
              0.6
          @ comp birds 1.0) }"

definition scene_crimson_horizon :: "'g studio \<Rightarrow> picture res" where
  "scene_crimson_horizon S =
     scene S 20260119 (gradient 2560 1440
       [(0.0, ''#FFFAF8''), (0.5, ''#FBECE9''), (0.85, ''#F5D8D3''), (1.0, ''#F0C9C3'')]
       ''v'') (crimson_horizon_layers S)"

definition sprig :: "real \<Rightarrow> real \<Rightarrow> real \<Rightarrow> real \<Rightarrow> int \<Rightarrow> rgb \<Rightarrow> rgb \<Rightarrow> real \<Rightarrow> mark list" where
  "sprig x y len angle n col col2 leaf_w =
     (let ca = cos angle;
          sa = sin angle;
          tip = (x + ca * len, y + sa * len);
          bend = (x + ca * len * 0.5 - sa * len * 0.12, y + sa * len * 0.5 + ca * len * 0.12);
          stem = cubic (x, y) bend (fst bend + ca * 10, snd bend + sa * 10) tip 40 in
      [Line stem (rgba (mix (Rgb col) (Hex ''#000000'') 0.12) 230) 7 True]
      @ concat
          (List.map
             (\<lambda>i.
                let t = 0.18 + 0.78 * of_int i / of_int (max 1 (n - 1));
                    px = x + ca * len * t - sa * len * 0.10 * sin (t * pi);
                    py = y + sa * len * t + ca * len * 0.10 * sin (t * pi);
                    ll = len * (0.20 - 0.10 * t) in
                concat
                  (List.map
                     (\<lambda>sgn.
                        let la = angle + of_int sgn * (1.15 - 0.4 * t) in
                        [Polygon (leaf_pts px py ll (ll * leaf_w * 2.2) la 0.1)
                           (rgba (if (i + sgn) mod 2 = 0 then col else col2) 245)])
                     [- 1, 1]))
             [0..n - 1]))"

definition sage_pollen :: "'g studio \<Rightarrow> rgb \<Rightarrow> ('g, mark list) state" where
  "sage_pollen S sage2 =
     do {
       m5 \<leftarrow>
         repeated 18
           (do {
              u1 \<leftarrow> uniform S 0.55 0.98;
              u2 \<leftarrow> uniform S 0.10 0.85;
              let x = u1 * W;
              let y = u2 * H;
              r \<leftarrow> uniform S 2.5 6;
              u4 \<leftarrow> s_randint S 60 130;
              State_Monad.return ([Ellipse (x - r, y - r) (x + r, y + r) (rgba sage2 (of_int u4))]) });
       m10 \<leftarrow>
         repeated 6
           (do {
              u6 \<leftarrow> uniform S 0.05 0.45;
              u7 \<leftarrow> uniform S 0.15 0.9;
              let x = u6 * W;
              let y = u7 * H;
              r \<leftarrow> uniform S 2 5;
              u9 \<leftarrow> s_randint S 25 50;
              State_Monad.return ([Ellipse (x - r, y - r) (x + r, y + r) (rgba sage2 (of_int u9))]) });
       State_Monad.return (m5 @ m10) }"

definition sage_breeze_layers :: "'g studio \<Rightarrow> ('g, layer list) state" where
  "sage_breeze_layers S =
     do {
       let sage = colour ''#47735F'';
       let sage2 = colour ''#7A9B84'';
       pollen \<leftarrow> sage_pollen S sage2;
       State_Monad.return
         (paper_texture ''#8a946f'' 7 11 3
          @ glow (0.76 * W) (0.30 * H) (0.5 * W) (colour ''#FFFFFF'') 60 1
          @ glow (0.88 * W) (0.85 * H) (0.35 * W) (colour ''#B9CBA8'') 55 1
          @ [Faded
               (sprig (0.10 * W) (0.95 * H) 330 (- 1.25) 6 sage2 sage2 0.30
                @ sprig (0.30 * W) (0.98 * H) 260 (- 1.05) 5 sage2 sage2 0.30)
               0.45 (comp_blur 1.5)]
          @ man_bust (0.722 * W) (0.40 * H) 150 (colour ''#EDCBAA'') (colour ''#3B352E'') (colour ''#57765F'')
              (Some (colour ''#EFF0E2'')) ''shirt''
          @ comp
              (let bx = 0.722 * W;
                   by = 0.90 * H;
                   bw = 520;
                   cover_l = [(bx - bw / 2 - 12, by - 66), (bx, by - 56), (bx, by + 34),
                              (bx - bw / 2 - 12, by + 24)];
                   cover_r = [(bx + bw / 2 + 12, by - 66), (bx, by - 56), (bx, by + 34),
                              (bx + bw / 2 + 12, by + 24)];
                   page_l = [(bx - bw / 2, by - 78), (bx, by - 68), (bx, by + 22), (bx - bw / 2, by + 12)];
                   page_r = [(bx + bw / 2, by - 78), (bx, by - 68), (bx, by + 22), (bx + bw / 2, by + 12)] in
               [Polygon cover_l (rgba (mix (Rgb sage) (Hex ''#000000'') 0.18) 255),
                Polygon cover_r (rgba (mix (Rgb sage) (Hex ''#000000'') 0.18) 255),
                Polygon page_l (rgba (colour ''#FCFBF2'') 255),
                Polygon page_r (rgba (colour ''#F2F0E0'') 255),
                Line [(bx, by - 68), (bx, by + 22)] (rgba (mix (Rgb sage) (Hex ''#000000'') 0.05) 200) 5 False]
               @ concat
                   (List.map
                      (\<lambda>i.
                         let t = of_int i / 2;
                             yy0 = by - 60 + of_int i * 22 in
                         [Line [(bx - bw * 0.42, yy0 - 6 * (1 - t)), (bx - bw * 0.07, yy0 + 2)]
                            (rgba sage2 110) 6 False,
                          Line [(bx + bw * 0.07, yy0 + 2), (bx + bw * 0.42, yy0 - 6 * (1 - t))]
                            (rgba sage2 110) 6 False])
                      [0..2]))
              0.5
          @ comp
              (sprig (0.60 * W) (0.99 * H) 380 (- 1.35) 7 sage sage2 0.30
               @ sprig (0.86 * W) (1.0 * H) 430 (- 1.15) 8 sage sage2 0.30
               @ sprig (0.94 * W) (0.99 * H) 340 (- 1.45) 6 sage2 sage 0.30
               @ sprig (0.665 * W) (0.995 * H) 300 (- 0.9) 5 sage2 sage 0.30)
              0.8
          @ comp pollen 1.5) }"

definition scene_sage_breeze :: "'g studio \<Rightarrow> picture res" where
  "scene_sage_breeze S =
     scene S 20260120 (gradient 2560 1440
       [(0.0, ''#FAFAF3''), (0.55, ''#F2F2E6''), (1.0, ''#E7E9D8'')]
       ''d1'') (sage_breeze_layers S)"


end
