(* ===== verification/ArtScenesTwo.thy ===== *)
theory ArtScenesTwo
  imports ArtScenes
begin

text \<open>
  The other four scenes of the official themes (\<open>scripts/official-theme-art/scenes.py\<close>) and the table
  of all eight.
\<close>

definition pencil :: "real \<Rightarrow> real \<Rightarrow> real \<Rightarrow> real \<Rightarrow> rgb \<Rightarrow> rgb \<Rightarrow> rgb \<Rightarrow> rgb \<Rightarrow> mark list" where
  "pencil cx cy len angle body_c wood_c tip_c eraser_c =
     (let ca = cos angle;
          sa = sin angle;
          wdt = len * 0.075;
          body = List.map (\<lambda>p. placed cx cy angle p)
                   [((- len) / 2, (- wdt) / 2), (len * 0.32, (- wdt) / 2), (len * 0.32, wdt / 2),
                    ((- len) / 2, wdt / 2)];
          wood = List.map (\<lambda>p. placed cx cy angle p)
                   [(len * 0.32, (- wdt) / 2), (len * 0.44, 0), (len * 0.32, wdt / 2)];
          tip = List.map (\<lambda>p. placed cx cy angle p)
                  [(len * 0.40, (- wdt) * 0.22), (len * 0.44, 0), (len * 0.40, wdt * 0.22)];
          era = List.map (\<lambda>p. placed cx cy angle p)
                  [((- len) / 2, (- wdt) / 2), ((- len) * 0.44, (- wdt) / 2), ((- len) * 0.44, wdt / 2),
                   ((- len) / 2, wdt / 2)];
          band = List.map (\<lambda>p. placed cx cy angle p)
                   [((- len) * 0.44, (- wdt) / 2), ((- len) * 0.40, (- wdt) / 2), ((- len) * 0.40, wdt / 2),
                    ((- len) * 0.44, wdt / 2)] in
      [Polygon body (rgba body_c 255),
       Polygon wood (rgba wood_c 255),
       Polygon tip (rgba tip_c 255),
       Polygon era (rgba eraser_c 255),
       Polygon band (rgba (mix (Rgb body_c) (Hex ''#000000'') 0.35) 255)])"

text \<open>Small images that are turned and pasted.\<close>

definition washi :: "'g studio \<Rightarrow> real \<Rightarrow> real \<Rightarrow> real \<Rightarrow> real \<Rightarrow> real \<Rightarrow> rgb \<Rightarrow> rgb \<Rightarrow> string \<Rightarrow> layer list" where
  "washi S cx cy w h angle col pattern_c style =
     (let pad = 12; sw = py_int (w + pad * 2); sh = py_int (h + pad * 2);
          mx = of_int sw / 2; my = of_int sh / 2;
          lay =
            Polygon (superellipse_poly mx my (w / 2) (h / 2) 6 96 0) (rgba col 215)
            # (if style = ''dots''
                 then concat
                        (List.map
                           (\<lambda>i.
                              List.map
                                (\<lambda>j.
                                   Ellipse
                                     (mx + of_int i * w / 6 - 7, my + of_int j * h / 3 - 7)
                                     (mx + of_int i * w / 6 + 7, my + of_int j * h / 3 + 7)
                                     (rgba pattern_c 130))
                                [- 1, 0, 1 :: int])
                           [- 2..2])
               else List.map
                      (\<lambda>i.
                         Line [(mx + of_int i * w / 7 - h, my - h / 2), (mx + of_int i * w / 7 + h, my + h / 2)]
                           (rgba pattern_c 120) 8 False)
                      [- 3..3]);
          deg = angle * 180 / pi; (tw, th) = s_turned S (sw, sh) deg in
      [Turned (sw, sh) lay deg (py_int (cx - of_int tw / 2), py_int (cy - of_int th / 2))])"

definition paper_clip :: "'g studio \<Rightarrow> real \<Rightarrow> real \<Rightarrow> real \<Rightarrow> real \<Rightarrow> rgb \<Rightarrow> layer list" where
  "paper_clip S cx cy s angle col =
     (let span = py_int (s * 1.6); ox = of_int span / 2; oy = of_int span / 2;
          w = s * 0.42; h = s; lw = max 3 (py_int (s * 0.09));
          T = List.map (\<lambda>(px, py). (px + ox, py + oy));
          lay =
            [Line (T (ellipse_poly 0 ((- h) * 0.22) w (h * 0.30) 72 pi (2 * pi) 0)) (rgba col 230) lw False,
             Line (T [(- w, (- h) * 0.22), (- w, h * 0.35)]) (rgba col 230) lw False,
             Line (T [(w, (- h) * 0.22), (w, h * 0.15)]) (rgba col 230) lw False,
             Line (T (ellipse_poly 0 (h * 0.35) w (h * 0.28) 72 0 pi 0)) (rgba col 230) lw False,
             Line (T [(0, (- h) * 0.52), (0, h * 0.10)]) (rgba col 230) lw False];
          deg = angle * 180 / pi; (tw, th) = s_turned S (span, span) deg in
      [Turned (span, span) lay deg (py_int (cx - of_int tw / 2), py_int (cy - of_int th / 2))])"

definition paper_plane :: "real \<Rightarrow> real \<Rightarrow> real \<Rightarrow> real \<Rightarrow> rgb \<Rightarrow> mark list" where
  "paper_plane cx cy s angle col =
     (let ca = cos angle;
          sa = sin angle in
      [Polygon
         [placed cx cy angle (s, 0), placed cx cy angle ((- s) * 0.8, (- s) * 0.55),
          placed cx cy angle ((- s) * 0.35, 0)]
         (rgba col 255),
       Polygon
         [placed cx cy angle (s, 0), placed cx cy angle ((- s) * 0.35, 0),
          placed cx cy angle ((- s) * 0.8, s * 0.55)]
         (rgba (mix (Rgb col) (Hex ''#000000'') 0.12) 255),
       Polygon
         [placed cx cy angle ((- s) * 0.35, 0), placed cx cy angle ((- s) * 0.62, s * 0.12),
          placed cx cy angle ((- s) * 0.5, (- s) * 0.10)]
         (rgba (mix (Rgb col) (Hex ''#000000'') 0.22) 255)])"

definition spark_stationery :: "'g studio \<Rightarrow> rgb \<Rightarrow> rgb \<Rightarrow> rgb \<Rightarrow> rgb \<Rightarrow> rgb \<Rightarrow> ('g, mark list) state" where
  "spark_stationery S teal yellow coral red teal2 =
     do {
       m6 \<leftarrow>
         repeated 14
           (do {
              u1 \<leftarrow> uniform S 0.56 0.97;
              u2 \<leftarrow> uniform S 0.08 0.92;
              let x = u1 * W;
              let y = u2 * H;
              u3 \<leftarrow> uniform S 8 20;
              u4 \<leftarrow> s_randint S 0 2;
              u5 \<leftarrow> s_randint S 110 200;
              State_Monad.return (star4 x y u3 ([teal, yellow, coral] ! nat u4) (of_int u5) 0.18 0) });
       State_Monad.return
         (pencil (0.880 * W) (0.205 * H) 340 (- 0.5) yellow (colour ''#EBCB9B'') (colour ''#4A4A4A'') red
          @ pencil (0.640 * W) (0.885 * H) 300 0.35 teal2 (colour ''#EBCB9B'') (colour ''#4A4A4A'') coral
          @ paper_plane (0.885 * W) (0.62 * H) 90 (- 0.35) red
          @ paper_plane (0.635 * W) (0.30 * H) 66 0.25 coral
          @ m6) }"

definition spark_notebook_layers :: "'g studio \<Rightarrow> ('g, layer list) state" where
  "spark_notebook_layers S =
     do {
       let teal = colour ''#007B78'';
       let yellow = colour ''#F2C94C'';
       let coral = colour ''#F2994A'';
       let red = colour ''#EB5757'';
       let teal2 = colour ''#42D1C6'';
       stationery \<leftarrow> spark_stationery S teal yellow coral red teal2;
       State_Monad.return
         (comp
            (concat
               (List.map (\<lambda>gx. [Line [(of_int gx, 0), (of_int gx, H)] (rgba teal 14) 2 False])
                  (py_range 0 2560 92))
             @ concat
                 (List.map (\<lambda>gy. [Line [(0, of_int gy), (W, of_int gy)] (rgba teal 14) 2 False])
                    (py_range 0 1440 92))
             @ [Line [(0.055 * W, 0), (0.055 * W, H)] (rgba (colour ''#EB5757'') 40) 4 False])
            0.5
          @ glow (0.76 * W) (0.32 * H) (0.48 * W) (colour ''#FFFFFF'') 55 1
          @ anime_adult (0.722 * W) (0.41 * H) 150 (colour ''#F7DAC8'') (colour ''#35ADA4'')
              (colour ''#F2C94C'') (colour ''#007B78'') ''bob''
          @ washi S (0.640 * W) (0.165 * H) 300 84 (- 0.35) teal2 (colour ''#FFFFFF'') ''stripes''
          @ washi S (0.905 * W) (0.80 * H) 320 88 0.28 yellow coral ''dots''
          @ washi S (0.615 * W) (0.70 * H) 240 76 0.42 coral (colour ''#FFFFFF'') ''dots''
          @ comp stationery 0.6
          @ paper_clip S (0.93 * W) (0.42 * H) 64 0.5 teal
          @ paper_clip S (0.60 * W) (0.52 * H) 52 (- 0.4) coral) }"

definition scene_spark_notebook :: "'g studio \<Rightarrow> picture res" where
  "scene_spark_notebook S =
     scene S 20260121 (gradient 2560 1440
       [(0.0, ''#FFFBF0''), (0.55, ''#FCF5E2''), (1.0, ''#F7ECD2'')]
       ''v'') (spark_notebook_layers S)"

definition violet_stars :: "'g studio \<Rightarrow> ('g, mark list) state" where
  "violet_stars S =
     do {
       m5 \<leftarrow>
         repeated 170
           (do {
              u1 \<leftarrow> s_beta S 2.2 1.4;
              let x = u1 * W;
              u2 \<leftarrow> s_beta S 1.6 1.2;
              let y = u2 * H * 0.9;
              r \<leftarrow> uniform S 1.2 4.2;
              a \<leftarrow> s_randint S 60 220;
              State_Monad.return
                ([Ellipse (x - r, y - r) (x + r, y + r) (rgba (colour ''#FFFFFF'') (of_int a))]) });
       m10 \<leftarrow>
         repeated 16
           (do {
              u6 \<leftarrow> uniform S 0.5 0.99;
              let x = u6 * W;
              u7 \<leftarrow> uniform S 0.05 0.75;
              let y = u7 * H;
              u8 \<leftarrow> uniform S 10 26;
              u9 \<leftarrow> s_randint S 140 230;
              State_Monad.return (star4 x y u8 (colour ''#FFFFFF'') (of_int u9) 0.14 0) });
       State_Monad.return (m5 @ m10) }"

definition violet_butterflies :: "'g studio \<Rightarrow> (real \<times> real \<times> real \<times> real) list \<Rightarrow> rgb \<Rightarrow> ('g, mark list) state" where
  "violet_butterflies S flies v1 =
     do {
       m2 \<leftarrow>
         each
           (\<lambda>(cx, cy, s, ang).
              do {
                u1 \<leftarrow> uniform S 0.8 1.1;
                let (polys, body) = butterfly_pts cx cy s ang u1;
                State_Monad.return
                  (concat (List.map (\<lambda>p. [Polygon p (rgba v1 235)]) polys)
                   @ [Polygon body (rgba (mix (Rgb v1) (Hex ''#000000'') 0.3) 255)]) })
           flies;
       State_Monad.return (m2) }"

definition violet_mist :: "'g studio \<Rightarrow> ('g, mark list) state" where
  "violet_mist S =
     do {
       m3 \<leftarrow>
         repeated 9
           (do {
              u1 \<leftarrow> uniform S 0.45 1.0;
              u2 \<leftarrow> uniform S 0.9 1.02;
              let x = u1 * W;
              let y = u2 * H;
              State_Monad.return
                ([Ellipse (x - 320, y - 60) (x + 320, y + 60) (rgba (colour ''#B7A9E8'') 42)]) });
       State_Monad.return (m3) }"

definition violet_starlight_layers :: "'g studio \<Rightarrow> ('g, layer list) state" where
  "violet_starlight_layers S =
     do {
       let mx = 0.845 * W;
       let my = 0.205 * H;
       let mr = 120;
       let flies = [(0.615 * W, 0.30 * H, 46, - 0.4), (0.80 * W, 0.52 * H, 58, 0.3),
                    (0.885 * W, 0.38 * H, 40, - 0.2), (0.67 * W, 0.66 * H, 34, 0.5),
                    (0.93 * W, 0.68 * H, 48, - 0.5), (0.565 * W, 0.55 * H, 30, 0.2)];
       let v1 = colour ''#8F79E0'';
       let v2 = colour ''#C9B8FF'';
       stars \<leftarrow> violet_stars S;
       butterflies \<leftarrow> violet_butterflies S flies v1;
       mist \<leftarrow> violet_mist S;
       State_Monad.return
         (glow (0.80 * W) (0.24 * H) (0.34 * W) (colour ''#EDE7FF'') 90 1
          @ comp
              ([Ellipse (mx - mr, my - mr) (mx + mr, my + mr) (rgba (colour ''#F2EDFF'') 235),
                Ellipse (mx - mr * 0.68, my - mr * 0.5) (mx - mr * 0.1, my + mr * 0.1)
                  (rgba (colour ''#DDD2F5'') 120),
                Ellipse (mx + mr * 0.15, my + mr * 0.25) (mx + mr * 0.6, my + mr * 0.62)
                  (rgba (colour ''#DDD2F5'') 100)])
              2
          @ glow mx my 300 (colour ''#E6DCFF'') 60 1
          @ comp stars 0.8
          @ silhouette_muse (0.715 * W) (0.38 * H) 138 (colour ''#4C3E8F'') (Some (colour ''#D9CCFF''))
          @ comp butterflies 1.0
          @ concat (List.map (\<lambda>(cx, cy, s, ang). glow cx cy (s * 2.6) v2 34 1) flies)
          @ comp mist 26) }"

definition scene_violet_starlight :: "'g studio \<Rightarrow> picture res" where
  "scene_violet_starlight S =
     scene S 20260122 (gradient 2560 1440
       [(0.0, ''#F4F1FF''), (0.38, ''#DDD5F8''), (0.72, ''#A794E3''), (1.0, ''#7A63C4'')]
       ''d1'') (violet_starlight_layers S)"

definition cyan_particles :: "'g studio \<Rightarrow> ('g, mark list) state" where
  "cyan_particles S =
     do {
       m5 \<leftarrow>
         repeated 22
           (do {
              u1 \<leftarrow> uniform S 0.55 0.99;
              u2 \<leftarrow> uniform S 0.08 0.8;
              let x = u1 * W;
              let y = u2 * H;
              r \<leftarrow> uniform S 2.5 7;
              u4 \<leftarrow> s_randint S 50 130;
              State_Monad.return
                ([Ellipse (x - r, y - r) (x + r, y + r) (rgba (colour ''#18B7C6'') (of_int u4))]) });
       m10 \<leftarrow>
         repeated 8
           (do {
              u6 \<leftarrow> uniform S 0.58 0.97;
              u7 \<leftarrow> uniform S 0.10 0.7;
              let x = u6 * W;
              let y = u7 * H;
              u8 \<leftarrow> uniform S 9 20;
              u9 \<leftarrow> s_randint S 110 190;
              State_Monad.return (star4 x y u8 (colour ''#37D7E4'') (of_int u9) 0.18 0) });
       State_Monad.return (m5 @ m10) }"

definition cyan_stage_layers :: "'g studio \<Rightarrow> ('g, layer list) state" where
  "cyan_stage_layers S =
     do {
       particles \<leftarrow> cyan_particles S;
       State_Monad.return
         (glow (0.74 * W) (0.30 * H) (0.5 * W) (colour ''#FFFFFF'') 70 1
          @ comp
              (let stage_c = colour ''#8FD3DF'' in
               [Ellipse (0.48 * W, 0.86 * H) (1.05 * W, 1.10 * H)
                  (rgba (mix (Rgb stage_c) (Hex ''#ffffff'') 0.45) 160)]
               @ concat
                   (List.map
                      (\<lambda>(rr, aa).
                         [Ring (0.74 * W - rr, 0.965 * H - rr * 0.22) (0.74 * W + rr, 0.965 * H + rr * 0.22)
                            (rgba (colour ''#37D7E4'') aa) 6])
                      [(300, 120), (420, 80), (540, 50)]))
              1.5
          @ beam (0.58 * W, (- 0.06) * H) (0.70 * W, 0.92 * H) 90 420 (colour ''#FFFFFF'') 60 30
          @ beam (0.74 * W, (- 0.06) * H) (0.75 * W, 0.95 * H) 110 520 (colour ''#BDF3F8'') 70 34
          @ beam (0.90 * W, (- 0.06) * H) (0.80 * W, 0.92 * H) 90 420 (colour ''#FFFFFF'') 55 30
          @ comp
              (let ring = ring_pts (0.725 * W) (0.56 * H) 430 9 0 (2 * pi) 0.42 in
               [Polygon ring (rgba (colour ''#37D7E4'') 60)])
              4
          @ performer (0.722 * W) (0.42 * H) 148 (colour ''#F3D2BA'') (colour ''#1E3A44'')
              (colour ''#EAFBFD'') (colour ''#18B7C6'')
          @ comp
              (concat
                 (List.map
                    (\<lambda>i.
                       let bx = 0.520 * W + of_int i * 32;
                           bh = 40 + 110 * \<bar>sin (of_int i * 1.7 + 0.6)\<bar> in
                       [Polygon (superellipse_poly bx (0.945 * H - bh / 2) 10 (bh / 2) 5 96 0)
                          (rgba (colour ''#18B7C6'') 70)])
                    [0..11]))
              2
          @ comp particles 1.2) }"

definition scene_cyan_stage :: "'g studio \<Rightarrow> picture res" where
  "scene_cyan_stage S =
     scene S 20260123 (gradient 2560 1440
       [(0.0, ''#F3FDFE''), (0.5, ''#DCF4F8''), (1.0, ''#BDE7EF'')]
       ''d1'') (cyan_stage_layers S)"

definition noir_dust :: "'g studio \<Rightarrow> rgb \<Rightarrow> rgb \<Rightarrow> ('g, mark list) state" where
  "noir_dust S gold gold_deep =
     do {
       m6 \<leftarrow>
         repeated 30
           (do {
              u1 \<leftarrow> uniform S 0.55 0.99;
              u2 \<leftarrow> uniform S 0.08 0.9;
              let x = u1 * W;
              let y = u2 * H;
              r \<leftarrow> uniform S 2 6.5;
              u4 \<leftarrow> s_random S;
              u5 \<leftarrow> s_randint S 70 160;
              State_Monad.return
                ([Ellipse (x - r, y - r) (x + r, y + r)
                    (rgba (if u4 < 0.7 then gold else gold_deep) (of_int u5))]) });
       m11 \<leftarrow>
         repeated 10
           (do {
              u7 \<leftarrow> uniform S 0.58 0.97;
              u8 \<leftarrow> uniform S 0.10 0.75;
              let x = u7 * W;
              let y = u8 * H;
              u9 \<leftarrow> uniform S 8 18;
              u10 \<leftarrow> s_randint S 120 200;
              State_Monad.return (star4 x y u9 gold (of_int u10) 0.18 0) });
       State_Monad.return (m6 @ m11) }"

definition noir_gold_layers :: "'g studio \<Rightarrow> ('g, layer list) state" where
  "noir_gold_layers S =
     do {
       let gold = colour ''#D9B45B'';
       let gold_deep = colour ''#A9822F'';
       let noir = colour ''#211C15'';
       let hem = cubic (0.62 * W, (- 0.02) * H) (0.68 * W, 0.10 * H) (0.72 * W, 0.13 * H)
                   (0.77 * W, 0.135 * H) 24
       @ tl (cubic (0.77 * W, 0.135 * H) (0.80 * W, 0.14 * H) (0.83 * W, 0.13 * H) (0.86 * W, 0.10 * H) 18)
       @ tl (cubic (0.86 * W, 0.10 * H) (0.90 * W, 0.06 * H) (0.95 * W, 0.03 * H) (1.03 * W, 0.02 * H) 24);
         dust \<leftarrow> noir_dust S gold gold_deep;
         State_Monad.return
           (glow (0.74 * W) (0.30 * H) (0.5 * W) (colour ''#FFF8E2'') 80 1
            @ comp
                (let swag = hem @ [(1.03 * W, (- 0.06) * H), (0.62 * W, (- 0.06) * H)];
                     drape = smooth_path
                               [((0.972 * W, 0.0), (0.995 * W, 0.22 * H), (0.975 * W, 0.48 * H),
                                 (1.0 * W, 0.70 * H)),
                                ((1.0 * W, 0.70 * H), (1.035 * W, 0.45 * H), (1.035 * W, 0.2 * H),
                                 (1.015 * W, 0.0))] in
                 [Polygon swag (rgba noir 245)]
                 @ concat
                     (List.map
                        (\<lambda>i.
                           let fx = 0.70 * W + of_int i * 0.075 * W;
                               fold = cubic (fx, 0.02 * H) (fx - 0.012 * W, 0.07 * H)
                                        (fx - 0.005 * W, 0.10 * H) (fx + 0.01 * W, 0.125 * H) 20 in
                           [Line fold (rgba (mix (Rgb noir) (Hex ''#ffffff'') 0.10) 160) 10 True])
                        [0..2])
                 @ [Polygon drape (rgba noir 240)])
                1.2
            @ comp ([Line hem (rgba gold 210) 7 True]) 1.0
            @ comp
                (let fcx = 0.725 * W;
                     fcy = 0.92 * H in
                 concat
                   (List.map
                      (\<lambda>rr.
                         let arc = ellipse_poly fcx fcy (of_int rr) (of_int rr) 72 (pi * 1.18) (pi * 1.82) 0 in
                         [Line arc (rgba gold_deep 90) 5 True])
                      (py_range 200 470 66)))
                1.5
            @ beam (0.60 * W, (- 0.05) * H) (0.70 * W, 0.95 * H) 80 380 (colour ''#FFE9AE'') 80 30
            @ beam (0.88 * W, (- 0.02) * H) (0.77 * W, 0.95 * H) 90 430 (colour ''#FFDF9E'') 70 32
            @ man_bust (0.722 * W) (0.41 * H) 150 (colour ''#E8C3A0'') (colour ''#241F19'') noir
                (Some (colour ''#FBF4E4'')) ''suit''
            @ comp
                ([Polygon
                    [(0.722 * W + 0.62 * 150, 0.41 * H + 1.9 * 180),
                     (0.722 * W + 0.82 * 150, 0.41 * H + 1.86 * 180),
                     (0.722 * W + 0.72 * 150, 0.41 * H + 2.06 * 180)]
                    (rgba gold 255)])
                1.5
            @ comp
                (let ground_curve =
                       smooth_path
                         [((0.52 * W, 1.01 * H), (0.66 * W, 0.92 * H), (0.86 * W, 0.90 * H),
                           (1.02 * W, 0.96 * H)),
                          ((1.02 * W, 0.96 * H), (1.02 * W, 1.03 * H), (0.7 * W, 1.04 * H),
                           (0.52 * W, 1.01 * H))];
                     edge = cubic (0.53 * W, 1.005 * H) (0.66 * W, 0.925 * H) (0.86 * W, 0.905 * H)
                              (1.01 * W, 0.955 * H) 50 in
                 [Polygon ground_curve (rgba noir 235), Line edge (rgba gold 200) 7 True])
                1.0
            @ comp dust 1.2) }"

definition scene_noir_gold :: "'g studio \<Rightarrow> picture res" where
  "scene_noir_gold S =
     scene S 20260124 (gradient 2560 1440
       [(0.0, ''#FDFAF1''), (0.5, ''#F6ECD4''), (1.0, ''#ECDAB4'')]
       ''d1'') (noir_gold_layers S)"

definition scenes :: "'g studio \<Rightarrow> (string \<times> picture res) list" where
  "scenes S =
     [(''official-rose-dawn'', scene_rose_dawn S), (''official-fortune-forge'', scene_fortune_forge S),
      (''official-crimson-horizon'', scene_crimson_horizon S), (''official-sage-breeze'', scene_sage_breeze S),
      (''official-spark-notebook'', scene_spark_notebook S), (''official-violet-starlight'', scene_violet_starlight S),
      (''official-cyan-stage'', scene_cyan_stage S), (''official-noir-gold'', scene_noir_gold S)]"

end
