(* ===== verification/ArtFacts.thy ===== *)
theory ArtFacts
  imports ArtScenesTwo
begin

text \<open>
  Well-formed drawings: colours are bytes, polygons have an inside, lines a width, and the corners of a box
  are in order (Pillow raises for a box that is not). The lemmas here follow the layers of the drawing
  code: colours, curves, figures, and a rule for each way a random number is used.
\<close>

named_theorems art_simps "facts about colours, curves and marks"

section \<open>Well-formed marks\<close>

definition byte :: "int \<Rightarrow> bool" where
  "byte x \<longleftrightarrow> 0 \<le> x \<and> x \<le> 255"

fun rgb_ok :: "rgb \<Rightarrow> bool" where
  "rgb_ok (r, g, b) = (byte r \<and> byte g \<and> byte b)"

fun pixel_ok :: "pixel \<Rightarrow> bool" where
  "pixel_ok (r, g, b, a) = (byte r \<and> byte g \<and> byte b \<and> byte a)"

definition box_ok :: "point \<Rightarrow> point \<Rightarrow> bool" where
  "box_ok p q \<longleftrightarrow> fst p \<le> fst q \<and> snd p \<le> snd q"

fun mark_ok :: "mark \<Rightarrow> bool" where
  "mark_ok (Polygon ps c) = (3 \<le> length ps \<and> pixel_ok c)"
| "mark_ok (Line ps c w j) = (2 \<le> length ps \<and> pixel_ok c \<and> 0 < w)"
| "mark_ok (Ellipse p q c) = (box_ok p q \<and> pixel_ok c)"
| "mark_ok (Ring p q c w) = (box_ok p q \<and> pixel_ok c \<and> 0 < w)"
| "mark_ok (Rectangle p q c) = (box_ok p q \<and> pixel_ok c)"

fun layer_ok :: "layer \<Rightarrow> bool" where
  "layer_ok (Layer ms b) = (list_all mark_ok ms \<and> (case b of None \<Rightarrow> True | Some r \<Rightarrow> 0 \<le> r))"
| "layer_ok (Faded ms f b) = (list_all mark_ok ms \<and> 0 \<le> f \<and> f \<le> 1)"
| "layer_ok (Turned wh ms a p) = list_all mark_ok ms"
| "layer_ok (Texture c a sd sc) = (rgb_ok c \<and> 0 \<le> a \<and> a \<le> 255 \<and> 0 < sc)"

section \<open>Colours\<close>

lemma hex_int_range:
  assumes "hex_int (take 2 s) = Inr n"
  shows "byte n"
proof (cases s)
  case Nil
  then show ?thesis using assms by (simp add: hex_int_def)
next
  case (Cons a as)
  then show ?thesis using assms
    by (cases as) (auto simp: hex_int_def byte_def split: option.splits dest!: hex_value_range)
qed

lemma rgb_ok_colour [simp]: "rgb_ok (colour s)"
  by (auto simp: colour_def hex2rgb_def Let_def byte_def[of 0] split: sum.splits dest!: hex_int_range)

lemma py_round_range:
  assumes "0 \<le> x" and "x \<le> 255"
  shows "byte (py_round x)"
proof -
  define n where "n = \<lfloor>x\<rfloor>"
  have "0 \<le> n" "n \<le> 255" "real_of_int n \<le> x" using assms by (simp_all add: n_def floor_le_iff)
  moreover have "x = 255" if "n = 255" using that assms(2) \<open>real_of_int n \<le> x\<close> by simp
  ultimately show ?thesis unfolding py_round_def Let_def n_def[symmetric] byte_def
    by (cases "n = 255") auto
qed

lemma mix_channel_range:
  assumes "byte a" and "byte b" and "0 \<le> t" and "t \<le> 1"
  shows "byte (mix_channel a b t)"
proof -
  have "0 \<le> (1 - t) * real_of_int a + t * real_of_int b"
    using assms by (intro add_nonneg_nonneg mult_nonneg_nonneg) (auto simp: byte_def)
  moreover have "(1 - t) * real_of_int a + t * real_of_int b \<le> (1 - t) * 255 + t * 255"
    using assms by (intro add_mono mult_left_mono) (auto simp: byte_def)
  ultimately show ?thesis
    unfolding mix_channel_def by (intro py_round_range) (simp_all add: algebra_simps)
qed

lemma rgb_ok_mix [art_simps]:
  "rgb_ok (paint_rgb c1) \<Longrightarrow> rgb_ok (paint_rgb c2) \<Longrightarrow> 0 \<le> t \<Longrightarrow> t \<le> 1 \<Longrightarrow> rgb_ok (mix c1 c2 t)"
  by (cases "paint_rgb c1"; cases "paint_rgb c2") (auto simp: mix_def mix_channel_range)

lemma pixel_ok_rgba [simp]: "pixel_ok (rgba c a) = rgb_ok c"
  by (cases c) (auto simp: byte_def)

declare rgba.simps [simp del]

section \<open>Curves\<close>

lemma length_cubic [simp]: "length (cubic p0 p1 p2 p3 n) = nat (n + 1)"
  by (simp add: cubic_def)

lemma length_ellipse_poly [simp]: "length (ellipse_poly cx cy rx ry n a0 a1 rot) = nat (n + 1)"
  by (simp add: ellipse_poly_def Let_def)

lemma length_superellipse_poly [simp]: "length (superellipse_poly cx cy rx ry pw n rot) = nat n"
  by (simp add: superellipse_poly_def Let_def)

definition path_step :: "point \<times> point \<times> point \<times> point \<Rightarrow> point list \<Rightarrow> point list" where
  "path_step seg pts = (case seg of (p0, p1, p2, p3) \<Rightarrow>
     let part = cubic p0 p1 p2 p3 48 in pts @ (if pts \<noteq> [] then tl part else part))"

lemma smooth_path_fold: "smooth_path segs = fold path_step segs []"
  unfolding smooth_path_def path_step_def by (rule arg_cong[where f = "\<lambda>f. fold f segs []"]) (auto simp: fun_eq_iff)

lemma path_step_length: "length pts \<le> length (path_step seg pts)"
  by (cases seg) (simp add: path_step_def Let_def)

lemma fold_path_length: "length pts \<le> length (fold path_step segs pts)"
  by (induction segs arbitrary: pts) (auto intro: order.trans[OF path_step_length])

lemma smooth_path_length: "49 \<le> length (smooth_path (seg # segs))"
proof -
  have "length (path_step seg []) = 49" by (cases seg) (simp add: path_step_def Let_def)
  then show ?thesis using fold_path_length[of "path_step seg []" segs] by (simp add: smooth_path_fold)
qed

lemma smooth_path_shape [simp]:
  "3 \<le> length (smooth_path (seg # segs))" "2 \<le> length (smooth_path (seg # segs))"
  using smooth_path_length[of seg segs] by linarith+

lemma outlines_shape [simp]:
  "3 \<le> length (face_outline cx cy fw fh turn)" "3 \<le> length (neck_pts cx cy fw fh)"
  "3 \<le> length (shoulders_pts cx y0 wd hg sl)" "3 \<le> length (petal_pts cx cy sz an)"
  "3 \<le> length (leaf_pts cx cy le wd an cu)" "3 \<le> length (ring_pts cx cy r wd a0 a1 sq)"
  "3 \<le> length (anime_fringe cx cy fw fh)"
  by (simp_all add: face_outline_def neck_pts_def shoulders_pts_def petal_pts_def leaf_pts_def ring_pts_def
      anime_fringe_def Let_def)

lemma width_pos [simp]: "0 < max 2 (x::int)" "0 < max 3 (x::int)" "0 < max 4 (x::int)"
  by (simp_all add: max_def)

section \<open>Lists of marks and layers\<close>

lemma list_all_drawn [simp]:
  "list_all P (concat (List.map f xs)) \<longleftrightarrow> (\<forall>x \<in> set xs. list_all P (f x))"
  "list_all P (List.map g xs) \<longleftrightarrow> (\<forall>x \<in> set xs. P (g x))"
  by (auto simp: list_all_iff)

lemma comp_ok [simp]: "list_all layer_ok (comp ms b) = list_all mark_ok ms"
  by (simp add: comp_def comp_blur_def)

lemma glow_ok [art_simps]:
  assumes "0 \<le> r" and "0 \<le> squash" and "rgb_ok c"
  shows "list_all layer_ok (glow cx cy r c a squash)"
  using assms by (auto simp: glow_def Let_def box_ok_def)

lemma beam_ok [art_simps]:
  assumes "rgb_ok c" and "0 \<le> blur"
  shows "list_all layer_ok (beam apex target w0 w1 c a blur)"
  using assms by (cases apex; cases target) (simp add: beam_def Let_def)

lemma star4_ok [art_simps]: "rgb_ok c \<Longrightarrow> list_all mark_ok (star4 cx cy r c a th ro)"
  by (simp add: star4_def Let_def)

section \<open>Random numbers\<close>

text \<open>The documented ranges of the generator.\<close>

definition fair :: "'g studio \<Rightarrow> bool" where
  "fair S \<longleftrightarrow>
     (\<forall>g. 0 \<le> fst (run_state (s_random S) g) \<and> fst (run_state (s_random S) g) < 1)
   \<and> (\<forall>a b g. a \<le> b \<longrightarrow> a \<le> fst (run_state (s_randint S a b) g) \<and> fst (run_state (s_randint S a b) g) \<le> b)
   \<and> (\<forall>a b g. 0 < a \<longrightarrow> 0 < b \<longrightarrow> 0 \<le> fst (run_state (s_beta S a b) g) \<and> fst (run_state (s_beta S a b) g) \<le> 1)"

text \<open>Whatever the state of the generator, the program's value satisfies the predicate.\<close>

definition yields :: "('g, 'a) state \<Rightarrow> ('a \<Rightarrow> bool) \<Rightarrow> bool" where
  "yields m P \<longleftrightarrow> (\<forall>g. P (fst (run_state m g)))"

lemma yieldsD: "yields m P \<Longrightarrow> P (fst (run_state m g))"
  by (simp add: yields_def)

lemma yields_return [simp]: "yields (State_Monad.return x) P = P x"
  by (simp add: yields_def)

lemma yields_bind:
  assumes "yields m Q" and "\<And>x. Q x \<Longrightarrow> yields (f x) P"
  shows "yields (State_Monad.bind m f) P"
  using assms by (simp add: yields_def split: prod.split) (metis fst_conv)

lemma yields_uniform: "fair S \<Longrightarrow> a \<le> b \<Longrightarrow> yields (uniform S a b) (\<lambda>x. a \<le> x \<and> x \<le> b)"
proof -
  assume "fair S" "a \<le> b"
  have "a \<le> a + (b - a) * u \<and> a + (b - a) * u \<le> b" if "0 \<le> u" "u < 1" for u
  proof
    show "a \<le> a + (b - a) * u" using that \<open>a \<le> b\<close> by simp
    have "(b - a) * u \<le> (b - a) * 1" using that \<open>a \<le> b\<close> by (intro mult_left_mono) auto
    then show "a + (b - a) * u \<le> b" by simp
  qed
  then show ?thesis using \<open>fair S\<close>
    unfolding yields_def uniform_def fair_def by (simp split: prod.split) (metis fst_conv)
qed

lemma yields_random: "fair S \<Longrightarrow> yields (s_random S) (\<lambda>x. 0 \<le> x \<and> x < 1)"
  by (simp add: yields_def fair_def)

lemma yields_randint: "fair S \<Longrightarrow> a \<le> b \<Longrightarrow> yields (s_randint S a b) (\<lambda>k. a \<le> k \<and> k \<le> b)"
  by (simp add: yields_def fair_def)

lemma yields_beta: "fair S \<Longrightarrow> 0 < a \<Longrightarrow> 0 < b \<Longrightarrow> yields (s_beta S a b) (\<lambda>x. 0 \<le> x \<and> x \<le> 1)"
  by (simp add: yields_def fair_def)

lemma yields_repeated: "yields m (list_all P) \<Longrightarrow> yields (repeated n m) (list_all P)"
  by (induction n) (auto intro!: yields_bind[where Q = "list_all P"])

lemma yields_each:
  "(\<And>y. y \<in> set ys \<Longrightarrow> yields (f y) (list_all P)) \<Longrightarrow> yields (each f ys) (list_all P)"
  by (induction ys) (auto intro!: yields_bind[where Q = "list_all P"])

end
