(* ===== verification/ArtType.thy ===== *)
theory ArtType
  imports ArtFacts
begin

text \<open>
  Every mark of the figures and scenes is well formed, for every generator with the documented ranges.
\<close>

section \<open>Figures\<close>

lemma parts_ok [art_simps]:
  "rgb_ok color \<Longrightarrow> list_all mark_ok (closed_eye ex ey s color a lashes w)"
  "rgb_ok color \<Longrightarrow> list_all mark_ok (brow ex ey s color a tilt)"
  "rgb_ok color \<Longrightarrow> list_all mark_ok (smile cx y s color a wid)"
  "rgb_ok color \<Longrightarrow> list_all mark_ok (lips cx y s color a)"
  "rgb_ok color \<Longrightarrow> 0 \<le> s \<Longrightarrow> list_all mark_ok (blush ex ey s color a)"
  "rgb_ok color \<Longrightarrow> 0 \<le> s \<Longrightarrow> list_all mark_ok (open_eye ex ey s color a b)"
  by (simp_all add: closed_eye_def brow_def smile_def lips_def blush_def open_eye_def Let_def box_ok_def
     rgb_ok_mix byte_def)

lemma figure_shadow_ok [art_simps]:
  "0 \<le> fw \<Longrightarrow> 0 \<le> fh \<Longrightarrow> byte a \<Longrightarrow> list_all layer_ok (figure_shadow cx cy fw fh 3.9 4.1 a blur dx dy)"
  by (simp add: figure_shadow_def box_ok_def byte_def)

lemma woman_ok [art_simps]:
  "0 \<le> s \<Longrightarrow> rgb_ok skin \<Longrightarrow> rgb_ok hair_c \<Longrightarrow> rgb_ok cloth_c \<Longrightarrow> rgb_ok lip_c \<Longrightarrow> rgb_ok blush_c
   \<Longrightarrow> list_all layer_ok (woman_serene cx cy s skin hair_c cloth_c lip_c blush_c style accent)"
  by (simp add: woman_serene_def Let_def art_simps byte_def box_ok_def)

lemma man_ok [art_simps]:
  "0 \<le> s \<Longrightarrow> rgb_ok skin \<Longrightarrow> rgb_ok hair_c \<Longrightarrow> rgb_ok cloth_c \<Longrightarrow> pred_option rgb_ok collar_c
   \<Longrightarrow> list_all layer_ok (man_bust cx cy s skin hair_c cloth_c collar_c style)"
  by (cases collar_c) (simp_all add: man_bust_def Let_def art_simps byte_def box_ok_def)

lemma anime_ok [art_simps]:
  "0 \<le> s \<Longrightarrow> rgb_ok skin \<Longrightarrow> rgb_ok hair_c \<Longrightarrow> rgb_ok cloth_c \<Longrightarrow> rgb_ok iris_c
   \<Longrightarrow> list_all layer_ok (anime_adult cx cy s skin hair_c cloth_c iris_c style)"
  by (simp add: anime_adult_def Let_def art_simps byte_def box_ok_def)

lemma muse_ok [art_simps]:
  "0 \<le> s \<Longrightarrow> rgb_ok body_c \<Longrightarrow> pred_option rgb_ok rim_c
   \<Longrightarrow> list_all layer_ok (silhouette_muse cx cy s body_c rim_c)"
  by (cases rim_c) (simp_all add: silhouette_muse_def Let_def art_simps byte_def)

lemma mascot_ok [art_simps]:
  "0 \<le> s \<Longrightarrow> rgb_ok skin \<Longrightarrow> rgb_ok hair_c \<Longrightarrow> rgb_ok cloth_c \<Longrightarrow> rgb_ok accent_c \<Longrightarrow> pred_option rgb_ok glasses_c
   \<Longrightarrow> list_all layer_ok (mascot_programmer cx cy s skin hair_c cloth_c accent_c glasses_c)"
  by (cases glasses_c) (simp_all add: mascot_programmer_def Let_def art_simps byte_def box_ok_def)

lemma performer_ok [art_simps]:
  "0 \<le> s \<Longrightarrow> rgb_ok skin \<Longrightarrow> rgb_ok hair_c \<Longrightarrow> rgb_ok cloth_c \<Longrightarrow> rgb_ok glow_c
   \<Longrightarrow> list_all layer_ok (performer cx cy s skin hair_c cloth_c glow_c)"
  by (simp add: performer_def Let_def art_simps byte_def box_ok_def)

section \<open>Random layers\<close>

lemma bind_rules:
  "fair S \<Longrightarrow> a \<le> b \<Longrightarrow> (\<And>x. a \<le> x \<Longrightarrow> x \<le> b \<Longrightarrow> yields (f x) P) \<Longrightarrow> yields (State_Monad.bind (uniform S a b) f) P"
  "fair S \<Longrightarrow> (\<And>x. 0 \<le> x \<Longrightarrow> x < 1 \<Longrightarrow> yields (f x) P) \<Longrightarrow> yields (State_Monad.bind (s_random S) f) P"
  "fair S \<Longrightarrow> i \<le> j \<Longrightarrow> (\<And>k. i \<le> k \<Longrightarrow> k \<le> j \<Longrightarrow> yields (h k) P) \<Longrightarrow> yields (State_Monad.bind (s_randint S i j) h) P"
  "fair S \<Longrightarrow> 0 < a \<Longrightarrow> 0 < b \<Longrightarrow> (\<And>x. 0 \<le> x \<Longrightarrow> x \<le> 1 \<Longrightarrow> yields (f x) P)
     \<Longrightarrow> yields (State_Monad.bind (s_beta S a b) f) P"
  "yields m (list_all Q) \<Longrightarrow> (\<And>xs. list_all Q xs \<Longrightarrow> yields (q xs) (list_all Q))
     \<Longrightarrow> yields (State_Monad.bind (repeated n m) q) (list_all Q)"
  "(\<And>y. y \<in> set ys \<Longrightarrow> yields (r y) (list_all Q)) \<Longrightarrow> (\<And>xs. list_all Q xs \<Longrightarrow> yields (q xs) (list_all Q))
     \<Longrightarrow> yields (State_Monad.bind (each r ys) q) (list_all Q)"
  by (auto intro: yields_bind yields_uniform yields_random yields_randint yields_beta yields_repeated yields_each)

lemma ingot_ok [art_simps]: "rgb_ok gold \<Longrightarrow> rgb_ok deep \<Longrightarrow> 0 \<le> w \<Longrightarrow> list_all mark_ok (ingot cx cy w gold deep)"
  by (simp add: ingot_def Let_def box_ok_def art_simps byte_def)

lemma rose_petals_ok: "fair S \<Longrightarrow> rgb_ok deep \<Longrightarrow> rgb_ok mid \<Longrightarrow> rgb_ok light
    \<Longrightarrow> yields (rose_petals S cx cy r deep mid light) (list_all mark_ok)"
  unfolding rose_petals_def Let_def
  by (intro yields_each) (auto simp: upto_rec1 split: if_splits intro!: yields_each bind_rules)

lemma rose_ok [art_simps]: "fair S \<Longrightarrow> rgb_ok deep \<Longrightarrow> rgb_ok mid \<Longrightarrow> rgb_ok light
    \<Longrightarrow> list_all mark_ok (rose S cx cy r deep mid light sd)"
  using yieldsD[OF rose_petals_ok] by (simp add: rose_def Let_def)

lemma rose_dawn_parts:
  assumes "fair S"
  shows "yields (rose_dawn_petals S) (list_all mark_ok)"
    and "rgb_ok deep \<Longrightarrow> rgb_ok mid \<Longrightarrow> rgb_ok light \<Longrightarrow> yields (rose_dawn_roses S deep mid light) (list_all mark_ok)"
    and "rgb_ok mid \<Longrightarrow> rgb_ok light \<Longrightarrow> yields (rose_dawn_loose_petals S mid light) (list_all mark_ok)"
  subgoal unfolding rose_dawn_petals_def Let_def by (intro bind_rules assms) simp_all
  subgoal unfolding rose_dawn_roses_def Let_def
    by (intro bind_rules assms; (clarify; intro bind_rules assms)?) (simp_all add: art_simps assms)
  subgoal unfolding rose_dawn_loose_petals_def Let_def by (intro bind_rules assms) (simp_all add: box_ok_def)
  done


lemma rose_dawn_ok:
  assumes "fair S"
  shows "yields (rose_dawn_layers S) (list_all layer_ok)"
  unfolding rose_dawn_layers_def Let_def
  by (intro yields_bind[OF rose_dawn_parts(1)] yields_bind[OF rose_dawn_parts(2)]
      yields_bind[OF rose_dawn_parts(3)] assms) (simp_all add: art_simps W_def split_beta)

lemma fortune_parts:
  assumes "fair S" and "rgb_ok gold" and "rgb_ok verm" and "rgb_ok jade"
  shows "rgb_ok gold_deep \<Longrightarrow> yields (fortune_treasure S gold gold_deep verm jade) (list_all mark_ok)"
    and "yields (fortune_confetti S gold verm jade) (list_all mark_ok)"
  subgoal unfolding fortune_treasure_def Let_def
    by (intro bind_rules assms)
      (simp_all add: assms art_simps box_ok_def coin_pts_def cloud_curl_pts_def Let_def upto_rec1)
  subgoal unfolding fortune_confetti_def Let_def
    by (intro bind_rules assms) (auto simp: assms box_ok_def nth_Cons' )
  done

lemma fortune_forge_ok:
  assumes "fair S"
  shows "yields (fortune_forge_layers S) (list_all layer_ok)"
  unfolding fortune_forge_layers_def Let_def
  by (intro yields_bind[OF fortune_parts(1)] yields_bind[OF fortune_parts(2)] assms)
    (simp_all add: art_simps W_def cloud_curl_pts_def Let_def)

lemma tower_ok: "rgb_ok col \<Longrightarrow> tower base_y x w h col st = (ms, x') \<Longrightarrow> list_all mark_ok ms"
  by (auto simp: tower_def Let_def)

declare tower_row.simps [simp del] front_row.simps [simp del]

lemma tower_row_ok:
  "\<forall>t \<in> set ts. rgb_ok (snd (snd (snd t))) \<Longrightarrow> list_all mark_ok (tower_row base_y gap x ts)"
  by (induction base_y gap x ts rule: tower_row.induct)
    (auto simp: tower_row.simps dest: tower_ok simp del: rgb_ok.simps split: prod.splits)

lemma front_row_ok:
  "rgb_ok deep \<Longrightarrow> \<forall>t \<in> set ts. 20 \<le> fst t \<Longrightarrow> list_all mark_ok (front_row base_y deep x ts)"
  by (induction base_y deep x ts rule: front_row.induct)
    (auto simp: front_row.simps box_ok_def dest: tower_ok simp del: rgb_ok.simps split: prod.splits)

lemma crimson_rows_ok [art_simps]:
  "rgb_ok pale \<Longrightarrow> list_all mark_ok (crimson_back base_y pale)"
  "rgb_ok mid \<Longrightarrow> rgb_ok light \<Longrightarrow> list_all mark_ok (crimson_mid base_y mid light)"
  "rgb_ok deep \<Longrightarrow> list_all mark_ok (crimson_front base_y deep)"
  unfolding crimson_back_def crimson_mid_def crimson_front_def
  by (auto intro!: tower_row_ok front_row_ok simp del: rgb_ok.simps)

lemma crimson_birds_ok:
  assumes "fair S" and "rgb_ok deep" and "rgb_ok mid"
  shows "yields (crimson_birds S deep mid) (list_all mark_ok)"
  unfolding crimson_birds_def Let_def by (intro bind_rules assms) (simp_all add: assms box_ok_def)

lemma crimson_horizon_ok:
  assumes "fair S"
  shows "yields (crimson_horizon_layers S) (list_all layer_ok)"
  unfolding crimson_horizon_layers_def Let_def
  by (intro yields_bind[OF crimson_birds_ok] assms) (simp_all add: art_simps W_def box_ok_def)

lemma sprig_ok [art_simps]: "rgb_ok col \<Longrightarrow> rgb_ok col2 \<Longrightarrow> list_all mark_ok (sprig x y l an n col col2 lw)"
  by (simp add: sprig_def Let_def art_simps)

lemma sage_pollen_ok: "fair S \<Longrightarrow> rgb_ok sage2 \<Longrightarrow> yields (sage_pollen S sage2) (list_all mark_ok)"
  unfolding sage_pollen_def Let_def by (intro bind_rules) (simp_all add: box_ok_def)

lemma sage_breeze_ok:
  assumes "fair S"
  shows "yields (sage_breeze_layers S) (list_all layer_ok)"
  unfolding sage_breeze_layers_def Let_def
  by (intro yields_bind[OF sage_pollen_ok] assms) (simp_all add: art_simps W_def paper_texture_def)

lemma stationery_ok [art_simps]:
  "rgb_ok a \<Longrightarrow> rgb_ok b \<Longrightarrow> rgb_ok c \<Longrightarrow> rgb_ok d \<Longrightarrow> list_all mark_ok (pencil cx cy l an a b c d)"
  "rgb_ok a \<Longrightarrow> list_all mark_ok (paper_plane cx cy s an a)"
  "rgb_ok a \<Longrightarrow> rgb_ok b \<Longrightarrow> list_all layer_ok (washi S cx cy w h an a b style)"
  "rgb_ok a \<Longrightarrow> list_all layer_ok (paper_clip S cx cy s an a)"
  by (simp_all add: pencil_def paper_plane_def washi_def paper_clip_def Let_def art_simps box_ok_def
      split: prod.split)

lemma spark_stationery_ok:
  assumes "fair S" and "rgb_ok teal" and "rgb_ok yellow" and "rgb_ok coral" and "rgb_ok red" and "rgb_ok teal2"
  shows "yields (spark_stationery S teal yellow coral red teal2) (list_all mark_ok)"
  unfolding spark_stationery_def Let_def
  by (intro bind_rules assms) (auto simp: assms art_simps nth_Cons' intro!: star4_ok)

lemma spark_notebook_ok:
  assumes "fair S"
  shows "yields (spark_notebook_layers S) (list_all layer_ok)"
  unfolding spark_notebook_layers_def Let_def
  by (intro yields_bind[OF spark_stationery_ok] assms) (simp_all add: art_simps W_def)

lemma violet_parts:
  assumes "fair S"
  shows "yields (violet_stars S) (list_all mark_ok)"
    and "rgb_ok v1 \<Longrightarrow> yields (violet_butterflies S flies v1) (list_all mark_ok)"
    and "yields (violet_mist S) (list_all mark_ok)"
  subgoal unfolding violet_stars_def Let_def
    by (intro bind_rules assms) (simp_all add: box_ok_def star4_ok)
  subgoal unfolding violet_butterflies_def Let_def
    by (intro bind_rules assms; (clarify; intro bind_rules assms)?)
      (auto simp: butterfly_pts_def art_simps)
  subgoal unfolding violet_mist_def Let_def by (intro bind_rules assms) (simp_all add: box_ok_def)
  done

lemma violet_starlight_ok:
  assumes "fair S"
  shows "yields (violet_starlight_layers S) (list_all layer_ok)"
  unfolding violet_starlight_layers_def Let_def
  by (intro yields_bind[OF violet_parts(1)] yields_bind[OF violet_parts(2)] yields_bind[OF violet_parts(3)] assms)
    (simp_all add: art_simps W_def H_def box_ok_def)

lemma cyan_particles_ok: "fair S \<Longrightarrow> yields (cyan_particles S) (list_all mark_ok)"
  unfolding cyan_particles_def Let_def by (intro bind_rules) (simp_all add: box_ok_def star4_ok)

lemma cyan_stage_ok:
  assumes "fair S"
  shows "yields (cyan_stage_layers S) (list_all layer_ok)"
  unfolding cyan_stage_layers_def Let_def
  by (intro yields_bind[OF cyan_particles_ok] assms) (simp_all add: art_simps W_def H_def box_ok_def)

lemma noir_dust_ok: "fair S \<Longrightarrow> rgb_ok gold \<Longrightarrow> rgb_ok gold_deep \<Longrightarrow> yields (noir_dust S gold gold_deep) (list_all mark_ok)"
  unfolding noir_dust_def Let_def by (intro bind_rules) (simp_all add: box_ok_def star4_ok)

lemma noir_gold_ok:
  assumes "fair S"
  shows "yields (noir_gold_layers S) (list_all layer_ok)"
  unfolding noir_gold_layers_def Let_def
  by (intro yields_bind[OF noir_dust_ok] assms) (simp_all add: art_simps W_def H_def box_ok_def)

end
