(* ===== verification/ArtLayout.thy ===== *)
theory ArtLayout
  imports ArtType
begin

text \<open>
  Where the scenes draw. A curve stays in the convex hull of its control points, stated for half planes; from it
  bounds of the outlines and figures, and the layout contract of the themes: what reaches the left 52 % of the
  width is faint, and the faces are inside the key content box.
\<close>

section \<open>Curves and half planes\<close>

text \<open>The half plane of the points at least \<open>c\<close> in the direction \<open>(u, v)\<close>.\<close>

definition beyond :: "real \<Rightarrow> real \<Rightarrow> real \<Rightarrow> point \<Rightarrow> bool" where
  "beyond u v c p \<longleftrightarrow> c \<le> u * fst p + v * snd p"

definition seg_beyond :: "real \<Rightarrow> real \<Rightarrow> real \<Rightarrow> point \<times> point \<times> point \<times> point \<Rightarrow> bool" where
  "seg_beyond u v c seg = (case seg of (p0, p1, p2, p3) \<Rightarrow>
     beyond u v c p0 \<and> beyond u v c p1 \<and> beyond u v c p2 \<and> beyond u v c p3)"

lemma bernstein_bound:
  fixes t :: real
  assumes "0 \<le> t" and "t \<le> 1" and "c \<le> a0" and "c \<le> a1" and "c \<le> a2" and "c \<le> a3"
  shows "c \<le> (1 - t) ^ 3 * a0 + 3 * (1 - t)\<^sup>2 * t * a1 + 3 * (1 - t) * t\<^sup>2 * a2 + t ^ 3 * a3"
proof -
  have one: "(1 - t) ^ 3 + 3 * (1 - t)\<^sup>2 * t + 3 * (1 - t) * t\<^sup>2 + t ^ 3 = 1"
    by (simp add: power2_eq_square power3_eq_cube algebra_simps)
  have "c = ((1 - t) ^ 3 + 3 * (1 - t)\<^sup>2 * t + 3 * (1 - t) * t\<^sup>2 + t ^ 3) * c" unfolding one by simp
  also have "\<dots> = (1 - t) ^ 3 * c + 3 * (1 - t)\<^sup>2 * t * c + 3 * (1 - t) * t\<^sup>2 * c + t ^ 3 * c"
    by (simp add: distrib_right)
  also have "\<dots> \<le> (1 - t) ^ 3 * a0 + 3 * (1 - t)\<^sup>2 * t * a1 + 3 * (1 - t) * t\<^sup>2 * a2 + t ^ 3 * a3"
    using assms by (intro add_mono mult_left_mono) auto
  finally show ?thesis .
qed

lemma cubic_beyond:
  assumes "seg_beyond u v c (p0, p1, p2, p3)" and "0 < n" and "p \<in> set (cubic p0 p1 p2 p3 n)"
  shows "beyond u v c p"
proof -
  from assms(3) obtain i where i: "0 \<le> i" "i \<le> n"
    and p: "p = (let t = of_int i / of_int n; mt = 1 - t in
        (mt ^ 3 * fst p0 + 3 * mt\<^sup>2 * t * fst p1 + 3 * mt * t\<^sup>2 * fst p2 + t ^ 3 * fst p3,
         mt ^ 3 * snd p0 + 3 * mt\<^sup>2 * t * snd p1 + 3 * mt * t\<^sup>2 * snd p2 + t ^ 3 * snd p3))"
    unfolding cubic_def by auto
  define t where "t = real_of_int i / real_of_int n"
  have t: "0 \<le> t" "t \<le> 1" using i assms(2) by (simp_all add: t_def)
  have "c \<le> (1 - t) ^ 3 * (u * fst p0 + v * snd p0) + 3 * (1 - t)\<^sup>2 * t * (u * fst p1 + v * snd p1)
      + 3 * (1 - t) * t\<^sup>2 * (u * fst p2 + v * snd p2) + t ^ 3 * (u * fst p3 + v * snd p3)"
    using assms(1) by (intro bernstein_bound t) (simp_all add: seg_beyond_def beyond_def)
  then show ?thesis unfolding beyond_def p Let_def t_def[symmetric] by (simp add: algebra_simps)
qed

lemma set_tl: "x \<in> set (tl xs) \<Longrightarrow> x \<in> set xs"
  by (cases xs) auto

lemma path_step_beyond:
  assumes "seg_beyond u v c seg" and "\<forall>p \<in> set pts. beyond u v c p"
  shows "\<forall>p \<in> set (path_step seg pts). beyond u v c p"
proof -
  obtain p0 p1 p2 p3 where seg: "seg = (p0, p1, p2, p3)" by (cases seg)
  have "\<forall>p \<in> set (cubic p0 p1 p2 p3 48). beyond u v c p" using assms(1) cubic_beyond[of u v c p0 p1 p2 p3 48] seg by auto
  then show ?thesis using assms(2) seg by (auto simp: path_step_def Let_def dest: set_tl)
qed

lemma fold_path_beyond:
  "\<forall>seg \<in> set segs. seg_beyond u v c seg \<Longrightarrow> \<forall>p \<in> set pts. beyond u v c p
    \<Longrightarrow> \<forall>p \<in> set (fold path_step segs pts). beyond u v c p"
proof (induction segs arbitrary: pts)
  case (Cons seg segs)
  have "\<forall>p \<in> set (path_step seg pts). beyond u v c p" using Cons.prems by (intro path_step_beyond) simp_all
  moreover have "\<forall>seg \<in> set segs. seg_beyond u v c seg" using Cons.prems(1) by simp
  ultimately show ?case using Cons.IH by simp
qed simp

lemma smooth_path_beyond:
  assumes "\<forall>seg \<in> set segs. seg_beyond u v c seg" and "p \<in> set (smooth_path segs)"
  shows "beyond u v c p"
  using fold_path_beyond[OF assms(1), of "[]"] assms(2) by (simp add: smooth_path_fold)

section \<open>How far left an outline reaches\<close>

named_theorems layout "bounds of outlines, marks and layers"

definition right_of :: "real \<Rightarrow> point list \<Rightarrow> bool" where
  "right_of x0 ps \<longleftrightarrow> (\<forall>p \<in> set ps. x0 \<le> fst p)"

lemma right_of_list [simp]:
  "right_of x0 []" "right_of x0 (p # ps) \<longleftrightarrow> x0 \<le> fst p \<and> right_of x0 ps"
  "right_of x0 (ps @ qs) \<longleftrightarrow> right_of x0 ps \<and> right_of x0 qs"
  by (auto simp: right_of_def)

lemma right_of_less: "right_of x0 ps \<Longrightarrow> x1 \<le> x0 \<Longrightarrow> right_of x1 ps"
  by (force simp: right_of_def)

lemma right_of_tl: "right_of x0 ps \<Longrightarrow> right_of x0 (tl ps)"
  by (auto simp: right_of_def dest: set_tl)

lemma right_cubic [layout]:
  "x0 \<le> fst p0 \<Longrightarrow> x0 \<le> fst p1 \<Longrightarrow> x0 \<le> fst p2 \<Longrightarrow> x0 \<le> fst p3 \<Longrightarrow> 0 < n \<Longrightarrow> right_of x0 (cubic p0 p1 p2 p3 n)"
  using cubic_beyond[of 1 0 x0 p0 p1 p2 p3 n] by (auto simp: right_of_def seg_beyond_def beyond_def)

lemma right_path [layout]:
  assumes "\<forall>(p0, p1, p2, p3) \<in> set segs. x0 \<le> fst p0 \<and> x0 \<le> fst p1 \<and> x0 \<le> fst p2 \<and> x0 \<le> fst p3"
  shows "right_of x0 (smooth_path segs)"
proof -
  have "\<forall>seg \<in> set segs. seg_beyond 1 0 x0 seg" using assms by (auto simp: seg_beyond_def beyond_def)
  then show ?thesis using smooth_path_beyond[of segs 1 0 x0] by (auto simp: right_of_def beyond_def)
qed

lemma abs_turn: "- \<bar>x\<bar> - \<bar>y\<bar> \<le> x * cos r - y * sin (r::real)"
proof -
  have "\<bar>x * cos r\<bar> \<le> \<bar>x\<bar> * 1" "\<bar>y * sin r\<bar> \<le> \<bar>y\<bar> * 1"
    unfolding abs_mult by (intro mult_left_mono abs_cos_le_one abs_sin_le_one abs_ge_zero)+
  then show ?thesis by linarith
qed

lemma fst_placed: "fst (placed cx cy an p) = cx + fst p * cos an - snd p * sin an"
  by (cases p) (simp add: placed_def)

lemma right_placed:
  assumes "\<forall>p \<in> set ps. \<bar>fst p\<bar> \<le> a \<and> \<bar>snd p\<bar> \<le> b" and "x0 \<le> cx - a - b"
  shows "right_of x0 (List.map (placed cx cy an) ps)"
  unfolding right_of_def
proof
  fix q assume "q \<in> set (List.map (placed cx cy an) ps)"
  then obtain p where p: "p \<in> set ps" "q = placed cx cy an p" by auto
  have "\<bar>fst p\<bar> \<le> a" "\<bar>snd p\<bar> \<le> b" using assms(1) p(1) by auto
  then show "x0 \<le> fst q" using abs_turn[of "fst p" "snd p" an] assms(2)
    unfolding p(2) fst_placed by linarith
qed

lemma path_in_box:
  assumes "\<forall>(p0, p1, p2, p3) \<in> set segs. \<forall>q \<in> {p0, p1, p2, p3}. \<bar>fst q\<bar> \<le> a \<and> \<bar>snd q\<bar> \<le> b"
  shows "\<forall>p \<in> set (smooth_path segs). \<bar>fst p\<bar> \<le> a \<and> \<bar>snd p\<bar> \<le> b"
proof -
  have s: "\<forall>seg \<in> set segs. seg_beyond 1 0 (- a) seg \<and> seg_beyond (- 1) 0 (- a) seg
      \<and> seg_beyond 0 1 (- b) seg \<and> seg_beyond 0 (- 1) (- b) seg"
  proof
    fix seg assume seg: "seg \<in> set segs"
    obtain p0 p1 p2 p3 where e: "seg = (p0, p1, p2, p3)" by (cases seg)
    have b: "\<bar>fst q\<bar> \<le> a \<and> \<bar>snd q\<bar> \<le> b" if "q \<in> {p0, p1, p2, p3}" for q
      using bspec[OF assms seg] that unfolding e by (simp, elim disjE) simp_all
    show "seg_beyond 1 0 (- a) seg \<and> seg_beyond (- 1) 0 (- a) seg
      \<and> seg_beyond 0 1 (- b) seg \<and> seg_beyond 0 (- 1) (- b) seg"
      using b[of p0] b[of p1] b[of p2] b[of p3] by (simp add: e seg_beyond_def beyond_def abs_le_iff)
  qed
  show ?thesis
  proof
    fix p assume p: "p \<in> set (smooth_path segs)"
    have "beyond 1 0 (- a) p" "beyond (- 1) 0 (- a) p" "beyond 0 1 (- b) p" "beyond 0 (- 1) (- b) p"
      using s by (auto intro: smooth_path_beyond[OF _ p])
    then show "\<bar>fst p\<bar> \<le> a \<and> \<bar>snd p\<bar> \<le> b" by (auto simp: beyond_def)
  qed
qed

lemma right_shapes [layout]:
  "0 \<le> sz \<Longrightarrow> x0 \<le> cx - 1.88 * sz \<Longrightarrow> right_of x0 (petal_pts cx cy sz an)"
  "0 \<le> le \<Longrightarrow> 0 \<le> wd \<Longrightarrow> 0 \<le> cu \<Longrightarrow> cu \<le> 1 \<Longrightarrow> x0 \<le> cx - le - wd \<Longrightarrow> right_of x0 (leaf_pts cx cy le wd an cu)"
  subgoal unfolding petal_pts_def Let_def
    by (rule right_placed[of _ "1.26 * sz" "0.62 * sz"], rule path_in_box) (auto simp: abs_le_iff)
  subgoal unfolding leaf_pts_def Let_def
    apply (rule right_placed[of _ le wd], rule path_in_box)
    apply (auto simp: abs_le_iff mult_left_le_one_le intro: order.trans[of _ 0])
    done
  done

lemma right_ellipse [layout]:
  assumes "x0 \<le> cx - \<bar>rx\<bar> - \<bar>ry\<bar>"
  shows "right_of x0 (ellipse_poly cx cy rx ry n a0 a1 rot)"
proof -
  have "x0 \<le> cx + (rx * cos t * cos rot - ry * sin t * sin rot)" for t
  proof -
    have "\<bar>rx * cos t\<bar> \<le> \<bar>rx\<bar> * 1" "\<bar>ry * sin t\<bar> \<le> \<bar>ry\<bar> * 1"
      unfolding abs_mult by (intro mult_left_mono abs_cos_le_one abs_sin_le_one abs_ge_zero)+
    then show ?thesis using abs_turn[of "rx * cos t" "ry * sin t" rot] assms by linarith
  qed
  then show ?thesis by (auto simp: right_of_def ellipse_poly_def Let_def)
qed

section \<open>Marks and figures\<close>

fun mark_right :: "real \<Rightarrow> mark \<Rightarrow> bool" where
  "mark_right x0 (Polygon ps c) = right_of x0 ps"
| "mark_right x0 (Line ps c w j) = right_of (x0 + of_int w / 2) ps"
| "mark_right x0 (Ellipse p q c) = (x0 \<le> fst p)"
| "mark_right x0 (Ring p q c w) = (x0 \<le> fst p)"
| "mark_right x0 (Rectangle p q c) = (x0 \<le> fst p)"

fun alpha_of :: "mark \<Rightarrow> int" where
  "alpha_of (Polygon ps (r, g, b, a)) = a"
| "alpha_of (Line ps (r, g, b, a) w j) = a"
| "alpha_of (Ellipse p q (r, g, b, a)) = a"
| "alpha_of (Ring p q (r, g, b, a) w) = a"
| "alpha_of (Rectangle p q (r, g, b, a)) = a"

fun layer_right :: "real \<Rightarrow> layer \<Rightarrow> bool" where
  "layer_right x0 (Layer ms b) = list_all (mark_right x0) ms"
| "layer_right x0 (Faded ms f b) = list_all (mark_right x0) ms"
| "layer_right x0 (Turned wh ms a p) = (x0 \<le> of_int (fst p))"
| "layer_right x0 (Texture c a sd sc) = False"

lemma py_int_le: "0 \<le> y \<Longrightarrow> real_of_int (py_int y) \<le> y"
  by (simp add: py_int_def)

lemma right_width [layout]:
  "0 \<le> y \<Longrightarrow> right_of (x0 + 1 + y / 2) ps \<Longrightarrow> right_of (x0 + real_of_int (max 2 (py_int y)) / 2) ps"
  "0 \<le> y \<Longrightarrow> right_of (x0 + 3 / 2 + y / 2) ps \<Longrightarrow> right_of (x0 + real_of_int (max 3 (py_int y)) / 2) ps"
  "0 \<le> y \<Longrightarrow> right_of (x0 + 2 + y / 2) ps \<Longrightarrow> right_of (x0 + real_of_int (max 4 (py_int y)) / 2) ps"
  by (rule right_of_less, assumption, use py_int_le[of y] in linarith)+

lemma right_outlines [layout]:
  "0 \<le> fw \<Longrightarrow> 0 \<le> turn \<Longrightarrow> turn \<le> 1 \<Longrightarrow> x0 \<le> cx - 1.02 * fw \<Longrightarrow> right_of x0 (face_outline cx cy fw fh turn)"
  "0 \<le> fw \<Longrightarrow> x0 \<le> cx - 0.42 * fw \<Longrightarrow> right_of x0 (neck_pts cx cy fw fh)"
  "0 \<le> wd \<Longrightarrow> x0 \<le> cx - 0.51 * wd \<Longrightarrow> right_of x0 (shoulders_pts cx y0 wd hg sl)"
  subgoal unfolding face_outline_def Let_def using mult_left_le_one_le[of fw turn] by (intro right_path) auto
  subgoal unfolding neck_pts_def Let_def by (rule right_path) auto
  subgoal unfolding shoulders_pts_def Let_def by (rule right_path) auto
  done

lemma right_lash:
  assumes "10 \<le> s" and "x0 \<le> ex - s" and "0 \<le> k"
  shows "right_of (x0 + real_of_int (max 2 (py_int (4 * s / 125))) / 2)
    [(ex - 4 * s / 25 + 33 * s * k / 100, y), (ex + 33 * s * k / 100 - 11 * s / 100, y')]"
proof -
  have "0 \<le> s * k" using assms by simp
  then have "x0 + 1 + (4 * s / 125) / 2 \<le> ex - 4 * s / 25 + 33 * s * k / 100"
    "x0 + 1 + (4 * s / 125) / 2 \<le> ex + 33 * s * k / 100 - 11 * s / 100"
    using assms by linarith+
  then show ?thesis using assms by (intro right_width) auto
qed

lemma right_closed_eye [layout]:
  assumes "10 \<le> s" and "x0 \<le> ex - s"
  shows "list_all (mark_right x0) (closed_eye ex ey s c a lashes (4 / 25))"
  unfolding closed_eye_def Let_def using right_lash[OF assms] assms
  by (simp add: layout)

lemma right_parts [layout]:
  assumes "10 \<le> s" and "x0 \<le> ex - s"
  shows "list_all (mark_right x0) (brow ex ey s c a tilt)"
    and "list_all (mark_right x0) (lips ex ey s c a)"
    and "list_all (mark_right x0) (blush ex ey s c a)"
    and "list_all (mark_right x0) (open_eye ex ey s c a sp)"
  using assms by (simp_all add: brow_def lips_def blush_def open_eye_def Let_def layout)

lemma right_smile [layout]:
  assumes "10 \<le> s" and "x0 \<le> ex - s" and "0 \<le> wid" and "wid \<le> 1 / 2"
  shows "list_all (mark_right x0) (smile ex ey s c a wid)"
proof -
  have "0 \<le> wid * s" "wid * s \<le> s / 2"
    using assms mult_right_mono[of wid "1 / 2" s] by simp_all
  then have "x0 + 1 + (4 * s / 125) / 2 \<le> ex - wid * s" "x0 + 1 + (4 * s / 125) / 2 \<le> ex + wid * s"
    using assms by linarith+
  then show ?thesis using assms unfolding smile_def Let_def
    by (simp, intro right_width right_cubic) auto
qed

lemma right_woman [layout]:
  "10 \<le> s \<Longrightarrow> x0 \<le> cx - 3 * s
   \<Longrightarrow> list_all (layer_right x0) (woman_serene cx cy s skin hair_c cloth_c lip_c blush_c style accent)"
  by (simp add: woman_serene_def figure_shadow_def comp_def Let_def layout)

lemma width_le [layout]:
  "0 \<le> y \<Longrightarrow> x0 + 1 + y / 2 \<le> z \<Longrightarrow> x0 + real_of_int (max 2 (py_int y)) / 2 \<le> z"
  "0 \<le> y \<Longrightarrow> x0 + 3 / 2 + y / 2 \<le> z \<Longrightarrow> x0 + real_of_int (max 3 (py_int y)) / 2 \<le> z"
  "0 \<le> y \<Longrightarrow> x0 + 2 + y / 2 \<le> z \<Longrightarrow> x0 + real_of_int (max 4 (py_int y)) / 2 \<le> z"
  using py_int_le[of y] by linarith+

lemma right_superellipse [layout]:
  assumes "x0 \<le> cx - \<bar>rx\<bar> - \<bar>ry\<bar>" and "0 < pw"
  shows "right_of x0 (superellipse_poly cx cy rx ry pw n rot)"
proof -
  have unit: "\<bar>copysign (\<bar>c\<bar> powr (2 / pw)) c\<bar> \<le> 1" if "\<bar>c\<bar> \<le> 1" for c
    using that assms(2) by (simp add: copysign_def powr_le1)
  have "x0 \<le> cx + (rx * copysign (\<bar>cos t\<bar> powr (2 / pw)) (cos t) * cos rot
      - ry * copysign (\<bar>sin t\<bar> powr (2 / pw)) (sin t) * sin rot)" (is "_ \<le> cx + (?x * _ - ?y * _)") for t
  proof -
    have "\<bar>?x\<bar> \<le> \<bar>rx\<bar> * 1" "\<bar>?y\<bar> \<le> \<bar>ry\<bar> * 1"
      unfolding abs_mult by (intro mult_left_mono unit abs_cos_le_one abs_sin_le_one abs_ge_zero)+
    then show ?thesis using abs_turn[of ?x ?y rot] assms(1) by linarith
  qed
  then show ?thesis by (auto simp: right_of_def superellipse_poly_def Let_def)
qed

lemma right_fringe [layout]:
  assumes "0 \<le> fw" and "x0 \<le> cx - 2 * fw"
  shows "right_of x0 (anime_fringe cx cy fw fh)"
proof -
  have "x0 \<le> cx + 51 * fw / 50 - 51 * fw * (real_of_int y + c) / 175" if "y \<le> 6" "c \<le> 1" for y c
  proof -
    have "fw * (real_of_int y + c) \<le> fw * 7" using that assms by (intro mult_left_mono) auto
    then show ?thesis using assms by simp
  qed
  then show ?thesis using assms unfolding anime_fringe_def Let_def
    by (auto simp: right_of_def[of _ "concat _"] intro!: right_of_tl right_cubic)
qed

lemma right_figures [layout]:
  assumes "10 \<le> s" and "x0 \<le> cx - 3 * s"
  shows "list_all (layer_right x0) (man_bust cx cy s skin hair_c cloth_c collar style)"
    and "list_all (layer_right x0) (anime_adult cx cy s skin hair_c cloth_c iris_c style)"
    and "list_all (layer_right x0) (silhouette_muse cx cy s body_c rim_c)"
    and "list_all (layer_right x0) (mascot_programmer cx cy s skin hair_c cloth_c accent_c glasses_c)"
    and "list_all (layer_right x0) (performer cx cy s skin hair_c cloth_c glow_c)"
  using assms
  by (simp_all add: man_bust_def anime_adult_def silhouette_muse_def mascot_programmer_def performer_def
      figure_shadow_def comp_def Let_def layout split: option.split)

end
