(* ===== verification/ArtQuiet.thy ===== *)
theory ArtQuiet
  imports ArtLayout
begin

text \<open>
  The left of the canvas, from 0 to 52 % of the width. A mark is quiet when it stays to the right of that zone or is
  faint: at most 110 of 255 opaque. Blurring is not considered, it only makes edges softer.
\<close>

section \<open>Quiet marks\<close>

definition quiet :: "mark \<Rightarrow> bool" where
  "quiet m \<longleftrightarrow> mark_right (0.52 * W) m \<or> alpha_of m \<le> 110"

fun layer_quiet :: "layer \<Rightarrow> bool" where
  "layer_quiet (Layer ms b) = list_all quiet ms"
| "layer_quiet (Faded ms f b) = list_all (\<lambda>m. mark_right (0.52 * W) m \<or> py_int (of_int (alpha_of m) * f) \<le> 110) ms"
| "layer_quiet (Turned wh ms a p) = (0.52 * W \<le> of_int (fst p))"
| "layer_quiet (Texture c a sd sc) = (a \<le> 110)"

text \<open>A turned image does not grow beyond its width and height together.\<close>

definition fits_when_turned :: "'g studio \<Rightarrow> bool" where
  "fits_when_turned S \<longleftrightarrow> (\<forall>w h d. 0 \<le> w \<longrightarrow> 0 \<le> h \<longrightarrow>
     0 \<le> fst (s_turned S (w, h) d) \<and> fst (s_turned S (w, h) d) \<le> w + h + 2)"

lemma alpha_rgba: "(case rgba c a of (r, g, b, x) \<Rightarrow> x) = max 0 (min 255 (py_int a))"
  by (cases c) (simp add: rgba.simps)

lemma alpha_faint [layout]:
  assumes "a \<le> 110"
  shows "alpha_of (Polygon ps (rgba c a)) \<le> 110" "alpha_of (Line ps (rgba c a) w j) \<le> 110"
    "alpha_of (Ellipse p q (rgba c a)) \<le> 110" "alpha_of (Ring p q (rgba c a) w) \<le> 110"
    "alpha_of (Rectangle p q (rgba c a)) \<le> 110"
proof -
  have "py_int a \<le> 110" using assms by (auto simp: py_int_def floor_le_iff ceiling_le_iff)
  then show "alpha_of (Polygon ps (rgba c a)) \<le> 110" "alpha_of (Line ps (rgba c a) w j) \<le> 110"
    "alpha_of (Ellipse p q (rgba c a)) \<le> 110" "alpha_of (Ring p q (rgba c a) w) \<le> 110"
    "alpha_of (Rectangle p q (rgba c a)) \<le> 110"
    by (cases c; simp add: rgba.simps)+
qed

lemma quiet_right: "mark_right (0.52 * W) m \<Longrightarrow> quiet m"
  by (simp add: quiet_def)

lemma layers_quiet_right: "list_all (layer_right (0.52 * W)) ls \<Longrightarrow> list_all layer_quiet ls"
proof (induction ls)
  case (Cons l ls)
  have "list_all quiet ms" if "list_all (mark_right (0.52 * W)) ms" for ms
    using that by (auto simp: list_all_iff quiet_def)
  then show ?case using Cons by (cases l) (auto simp: list_all_iff)
qed simp

lemma comp_quiet [simp]: "list_all layer_quiet (comp ms b) = list_all quiet ms"
  by (simp add: comp_def)

lemma glow_quiet [layout]:
  assumes "0 \<le> a" and "a \<le> 110"
  shows "list_all layer_quiet (glow cx cy r c a squash)"
proof -
  have "a * (1 - real_of_int i / 28) powr (8 / 5) \<le> 110" if "1 \<le> i" "i \<le> 28" for i
  proof -
    have "(1 - real_of_int i / 28) powr (8 / 5) \<le> 1" using that by (intro powr_le1) auto
    then have "a * (1 - real_of_int i / 28) powr (8 / 5) \<le> a * 1" using assms(1) by (rule mult_left_mono)
    then show ?thesis using assms(2) by simp
  qed
  then show ?thesis by (auto simp: glow_def Let_def quiet_def layout)
qed

lemma beam_quiet [layout]: "a \<le> 110 \<Longrightarrow> list_all layer_quiet (beam apex target w0 w1 c a blur)"
  by (cases apex; cases target) (simp add: beam_def Let_def quiet_def layout)

section \<open>Ornaments\<close>

lemma right_star [layout]:
  assumes "0 \<le> r" and "0 \<le> th" and "th \<le> 1" and "x0 \<le> cx - r"
  shows "list_all (mark_right x0) (star4 cx cy r c a th ro)"
proof -
  have "x0 \<le> cx + q * cos t" if "0 \<le> q" "q \<le> r" for q t
  proof -
    have "\<bar>q * cos t\<bar> \<le> q * 1" using that(1) unfolding abs_mult by (intro mult_mono) auto
    then show ?thesis using that(2) assms(4) by linarith
  qed
  moreover have "0 \<le> r * th" "r * th \<le> r" using assms mult_left_le[of th r] by simp_all
  ultimately show ?thesis using assms(1) by (auto simp: star4_def Let_def right_of_def)
qed

lemma right_ingot [layout]: "100 \<le> w \<Longrightarrow> x0 \<le> cx - w \<Longrightarrow> list_all (mark_right x0) (ingot cx cy w gold deep)"
  by (simp add: ingot_def Let_def layout)

lemma right_cloud [layout]:
  assumes "0 \<le> sz" and "x0 \<le> cx - sz"
  shows "right_of x0 (fst (cloud_curl_pts cx cy sz))" and "right_of x0 (snd (cloud_curl_pts cx cy sz))"
proof -
  have k: "x0 \<le> cx + sz * k * cos t" if "0 \<le> k" "k \<le> 1" for k t
  proof -
    have "\<bar>sz * k * cos t\<bar> \<le> sz * 1 * 1"
      using that assms(1) unfolding abs_mult by (intro mult_mono) auto
    then show ?thesis using assms(2) by linarith
  qed
  have p: "x0 \<le> cx + sz * (1 - 18 * real_of_int i / 2225) * cos t" if "0 \<le> i" "i \<le> 89" for i t
    using that by (intro k) auto
  then show "right_of x0 (fst (cloud_curl_pts cx cy sz))"
    by (auto simp: cloud_curl_pts_def Let_def right_of_def intro!: p)
  show "right_of x0 (snd (cloud_curl_pts cx cy sz))"
    using assms p[of 0] unfolding cloud_curl_pts_def Let_def snd_conv
    by (intro right_path) (auto simp: upto_rec1)
qed

lemma right_coin [layout]:
  assumes "0 \<le> r" and "x0 \<le> cx - 2 * r"
  shows "right_of x0 (fst (coin_pts cx cy r rot))" and "right_of x0 (snd (coin_pts cx cy r rot))"
  using assms by (auto simp: coin_pts_def intro!: layout)

section \<open>Scenes\<close>

lemma quiet_list_right: "list_all (mark_right (0.52 * W)) ms \<Longrightarrow> list_all quiet ms"
  by (auto simp: list_all_iff quiet_def)

lemma right_rose_petals:
  assumes "fair S" and "0 \<le> r" and "x0 \<le> cx - 2 * r"
  shows "yields (rose_petals S cx cy r deep mid light) (list_all (mark_right x0))"
proof -
  have petal: "right_of x0 (petal_pts (cx + cos t * r * k * 0.34) y (r * k * 0.72) z)"
    if "0 \<le> k" "k \<le> 1" for k t y z
  proof -
    have rk: "0 \<le> r * k" "r * k \<le> r" using that assms(2) mult_left_le[of k r] by simp_all
    have "\<bar>cos t * (r * k)\<bar> \<le> 1 * (r * k)" using that assms(2) unfolding abs_mult by (intro mult_mono) auto
    then have low: "- (r * k) \<le> cos t * (r * k)" by linarith
    have "x0 \<le> cx + A * 0.34 - 1.88 * (B * 0.72)" if "- B \<le> A" "0 \<le> B" "B \<le> r" for A B
      using that assms(3) by simp
    from this[OF low rk] have "x0 \<le> cx + cos t * r * k * 0.34 - 1.88 * (r * k * 0.72)" by (simp add: mult.assoc)
    then show ?thesis using rk assms(2) that by (intro right_shapes) simp_all
  qed
  show ?thesis unfolding rose_petals_def Let_def
  proof (rule yields_each, goal_cases)
    case (1 y)
    obtain i k c where y: "y = (i, k, c)" by (cases y)
    have "(k, c) \<in> set [(1.0, mid), (0.72, light), (0.46, mid), (0.26, deep)]"
      using 1 unfolding y by (rule set_zip_rightD)
    then have k: "0 \<le> k" "k \<le> 1" by auto
    show ?case
      unfolding y prod.case
      by (intro yields_each bind_rules assms(1); (simp only: yields_return list.pred_inject mark_right.simps)?;
          (intro conjI TrueI petal k)?; simp)
  qed
qed

lemma right_rose [layout]:
  assumes "fair S" and "20 \<le> r" and "x0 \<le> cx - 2 * r"
  shows "list_all (mark_right x0) (rose S cx cy r deep mid light sd)"
proof -
  have spiral: "x0 + 1 + (r / 20) / 2 \<le> cx + cos t * r * 0.20 * k" if "0 \<le> k" "k \<le> 1" for k t
  proof -
    have "\<bar>cos t * (r * k)\<bar> \<le> 1 * (r * 1)" using that assms(2) unfolding abs_mult by (intro mult_mono) auto
    then show ?thesis using assms by (simp add: mult_ac)
  qed
  then show ?thesis
    using yieldsD[OF right_rose_petals[OF assms(1), of r x0 cx cy deep mid light]] assms
    by (auto simp: rose_def Let_def right_of_def intro!: width_le)
qed

lemma rose_dawn_quiet_parts:
  assumes "fair S"
  shows "yields (rose_dawn_petals S) (list_all quiet)"
    and "yields (rose_dawn_roses S deep mid light) (list_all quiet)"
    and "yields (rose_dawn_loose_petals S mid light) (list_all quiet)"
  subgoal unfolding rose_dawn_petals_def Let_def by (intro bind_rules assms) (simp_all add: quiet_def layout)
  subgoal
  proof -
    have leaf: "right_of (0.52 * W) (leaf_pts (cx + cos t * r * 0.9) y (r * 0.85) (r * 0.30) t 0.35)"
      if "0 \<le> r" "0.52 * W \<le> cx - 2.05 * r" for cx y r t
    proof -
      have "\<bar>cos t * r\<bar> \<le> 1 * r" using that unfolding abs_mult by (intro mult_mono) auto
      then have low: "- r \<le> cos t * r" by linarith
      have "0.52 * W \<le> cx + A * 0.9 - r * 0.85 - r * 0.30" if "- r \<le> A" for A
        using that \<open>0 \<le> r\<close> \<open>0.52 * W \<le> cx - 2.05 * r\<close> by simp
      from this[OF low] have "0.52 * W \<le> cx + cos t * r * 0.9 - r * 0.85 - r * 0.30" .
      then show ?thesis using that(1) by (intro right_shapes) simp_all
    qed
    show ?thesis unfolding rose_dawn_roses_def Let_def
      by (intro bind_rules assms; (clarify; intro bind_rules assms)?)
        (auto simp: assms quiet_def layout W_def intro!: quiet_list_right right_rose leaf[simplified W_def, simplified])
  qed
  subgoal unfolding rose_dawn_loose_petals_def Let_def
    by (intro bind_rules assms) (simp_all add: quiet_def layout W_def)
  done

lemma rose_dawn_quiet: "fair S \<Longrightarrow> yields (rose_dawn_layers S) (list_all layer_quiet)"
  unfolding rose_dawn_layers_def Let_def
  by (intro yields_bind[OF rose_dawn_quiet_parts(1)] yields_bind[OF rose_dawn_quiet_parts(2)]
      yields_bind[OF rose_dawn_quiet_parts(3)])
    (simp_all add: layout layers_quiet_right right_woman W_def split_beta quiet_def)

lemma bead_low: "130 \<le> a \<Longrightarrow> 0 \<le> a + 130 * sin (t::real)"
  using sin_ge_minus_one[of t] by linarith

lemma fortune_quiet_parts:
  assumes "fair S"
  shows "yields (fortune_treasure S gold gold_deep verm jade) (list_all quiet)"
    and "yields (fortune_confetti S gold verm jade) (list_all quiet)"
  subgoal unfolding fortune_treasure_def Let_def
    by (intro bind_rules assms)
      (auto simp: split_beta W_def quiet_def layout upto_rec1 bead_low intro!: quiet_list_right right_star right_ingot)
  subgoal unfolding fortune_confetti_def Let_def by (intro bind_rules assms) (simp_all add: quiet_def W_def)
  done

lemma fortune_forge_quiet: "fair S \<Longrightarrow> yields (fortune_forge_layers S) (list_all layer_quiet)"
  unfolding fortune_forge_layers_def Let_def
  by (intro yields_bind[OF fortune_quiet_parts(1)] yields_bind[OF fortune_quiet_parts(2)])
    (simp_all add: layout layers_quiet_right W_def split_beta quiet_def)

lemma right_upright_ellipse:
  assumes "x0 \<le> cx - \<bar>rx\<bar>"
  shows "right_of x0 (ellipse_poly cx cy rx ry n a0 a1 0)"
proof -
  have "x0 \<le> cx + rx * cos t" for t
  proof -
    have "\<bar>rx * cos t\<bar> \<le> \<bar>rx\<bar> * 1" unfolding abs_mult by (intro mult_left_mono abs_cos_le_one abs_ge_zero)
    then show ?thesis using assms by linarith
  qed
  then show ?thesis by (auto simp: right_of_def ellipse_poly_def Let_def)
qed

lemma tower_right:
  assumes "0 \<le> w" and "x0 \<le> x" and "tower base_y x w h col st = (ms, x')"
  shows "list_all (mark_right x0) ms \<and> x' = x + w"
proof -
  have "right_of x0 (ellipse_poly (x + w / 2) y (w / 2) z 72 pi (2 * pi) 0)" for y z
    using assms by (intro right_upright_ellipse) simp
  then show ?thesis using assms by (auto simp: tower_def Let_def)
qed

lemma tower_row_right:
  "\<forall>t \<in> set ts. 0 \<le> fst t \<Longrightarrow> x0 \<le> x \<Longrightarrow> 0 \<le> gap \<Longrightarrow> list_all (mark_right x0) (tower_row base_y gap x ts)"
proof (induction base_y gap x ts rule: tower_row.induct)
  case (2 base_y gap x w h st col rest)
  obtain ms x' where t: "tower base_y x (w * 1.5) (h * 1.05) col st = (ms, x')" by force
  have "list_all (mark_right x0) ms \<and> x' = x + w * 1.5" using 2(2,3) by (intro tower_right[OF _ _ t]) auto
  then show ?case unfolding tower_row.simps t prod.case using 2(2-4) 2(1)[OF t[symmetric]] by simp
qed (simp add: tower_row.simps)

lemma front_row_right:
  "\<forall>t \<in> set ts. 0 \<le> fst t \<Longrightarrow> x0 \<le> x \<Longrightarrow> list_all (mark_right x0) (front_row base_y deep x ts)"
proof (induction base_y deep x ts rule: front_row.induct)
  case (2 base_y deep x w h st rest)
  obtain ms x' where t: "tower base_y x (w * 1.5) (h * 1.05) deep st = (ms, x')" by force
  have "list_all (mark_right x0) ms \<and> x' = x + w * 1.5" using 2(2,3) by (intro tower_right[OF _ _ t]) auto
  then show ?case unfolding front_row.simps t prod.case using 2(2-3) 2(1)[OF t[symmetric]] by simp
qed (simp add: front_row.simps)

lemma crimson_rows_quiet:
  "list_all quiet (crimson_back base_y pale)" "list_all quiet (crimson_mid base_y mid light)"
  "list_all quiet (crimson_front base_y deep)"
  unfolding crimson_mid_def crimson_back_def crimson_front_def
  by (intro quiet_list_right tower_row_right front_row_right; simp add: W_def)+

lemma crimson_birds_quiet: "fair S \<Longrightarrow> yields (crimson_birds S deep mid) (list_all quiet)"
  unfolding crimson_birds_def Let_def
  by (intro bind_rules) (simp_all add: quiet_def layout W_def)

lemma crimson_horizon_quiet: "fair S \<Longrightarrow> yields (crimson_horizon_layers S) (list_all layer_quiet)"
  unfolding crimson_horizon_layers_def Let_def
  by (intro yields_bind[OF crimson_birds_quiet])
    (simp_all add: layout crimson_rows_quiet W_def quiet_def)

lemma right_sprig_leaf:
  assumes c: "0 \<le> ca" and sn: "sa \<le> 0" and le: "0 \<le> le" and lw: "0 \<le> lw" "lw \<le> 1 / 2"
    and t: "0 \<le> t" "t \<le> 1" and x: "x0 \<le> x - le / 2"
  shows "right_of x0 (leaf_pts (x + ca * le * t - sa * le * 0.10 * sin (t * pi)) y
    (le * (0.20 - 0.10 * t)) (le * (0.20 - 0.10 * t) * lw * 2.2) la 0.1)"
proof -
  have "0 \<le> sin (t * pi)" using t mult_left_le_one_le[of pi t] pi_ge_zero by (intro sin_ge_zero) simp_all
  then have s: "sa * le * 0.10 * sin (t * pi) \<le> 0" using sn le by (simp add: mult_nonpos_nonneg)
  have p: "0 \<le> ca * le * t" using c le t by simp
  define ll where "ll = le * (0.20 - 0.10 * t)"
  have ll: "0 \<le> ll" "ll \<le> le * 0.20" using le t unfolding ll_def by (simp, intro mult_left_mono) auto
  have "ll * lw \<le> ll * (1 / 2)" using ll lw by (intro mult_left_mono) auto
  then have "x0 \<le> x + P - Q - ll - ll * lw * 2.2" if "0 \<le> P" "Q \<le> 0" for P Q
    using that ll x by simp
  from this[OF p s] show ?thesis using ll lw unfolding ll_def[symmetric] by (intro right_shapes) simp_all
qed

lemma cos_three_halves: "0 \<le> cos (3 / 2 :: real)"
proof -
  have low: "1 - x\<^sup>2 / 2 \<le> cos x" if "0 \<le> x" for x :: real
  proof -
    have "\<bar>sin (x / 2)\<bar> \<le> x / 2" using that abs_sin_x_le_abs_x[of "x / 2"] by simp
    then have "(sin (x / 2))\<^sup>2 \<le> (x / 2)\<^sup>2" using that by (simp add: abs_le_square_iff[symmetric])
    then show ?thesis using cos_double_sin[of "x / 2"] by (simp add: power_divide)
  qed
  have "23 / 32 \<le> cos (3 / 4 :: real)" using low[of "3 / 4"] by (simp add: power_divide)
  then have "(23 / 32)\<^sup>2 \<le> (cos (3 / 4 :: real))\<^sup>2" by (intro power_mono) auto
  then show ?thesis using cos_double_cos[of "3 / 4 :: real"] by (simp add: power_divide)
qed

lemma right_sprig [layout]:
  assumes an: "- 3 / 2 \<le> an" "an \<le> 0" and le: "200 \<le> le" and lw: "0 \<le> lw" "lw \<le> 1 / 2"
    and x: "x0 \<le> x - le / 2"
  shows "list_all (mark_right x0) (sprig x y le an n col col2 lw)"
proof -
  have "cos (3 / 2) \<le> cos (- an)" using an pi_ge_two by (intro cos_monotone_0_pi_le) linarith+
  then have c: "0 \<le> cos an" using cos_three_halves by simp
  have "0 \<le> sin (- an)" using an pi_ge_two by (intro sin_ge_zero) linarith+
  then have sn: "sin an \<le> 0" by simp
  have t: "0 \<le> 0.18 + 0.78 * real_of_int i / real_of_int (max 1 (n - 1))"
    "0.18 + 0.78 * real_of_int i / real_of_int (max 1 (n - 1)) \<le> 1" if "i \<in> {0..n - 1}" for i
  proof -
    have "0 \<le> real_of_int i / real_of_int (max 1 (n - 1))" "real_of_int i / real_of_int (max 1 (n - 1)) \<le> 1"
      using that by (auto simp: divide_le_eq_1)
    then show "0 \<le> 0.18 + 0.78 * real_of_int i / real_of_int (max 1 (n - 1))"
      "0.18 + 0.78 * real_of_int i / real_of_int (max 1 (n - 1)) \<le> 1" by (simp_all add: field_simps)
  qed
  have low: "x0 + 7 / 2 \<le> x + P * k - Q * j + R" if "0 \<le> P" "Q \<le> 0" "0 \<le> R" "0 \<le> k" "0 \<le> j" for P Q R k j
  proof -
    have "0 \<le> P * k" "Q * j \<le> 0" using that by (simp_all add: mult_nonpos_nonneg)
    then show ?thesis using that(3) x le by linarith
  qed
  have "0 \<le> cos an * le" "sin an * le \<le> 0" "0 \<le> cos an * 10" using c sn le by (simp_all add: mult_nonpos_nonneg)
  from low[OF this(1,2), of 0 "1 / 2" "3 / 25"] low[OF this, of "1 / 2" "3 / 25"] low[OF this(1,2), of 0 1 0] x le
  have stem: "right_of (x0 + 7 / 2) (cubic (x, y)
      (x + cos an * le * 0.5 - sin an * le * 0.12, b) (x + cos an * le * 0.5 - sin an * le * 0.12 + cos an * 10, d)
      (x + cos an * le, e) 40)" for b d e
    by (intro right_cubic) simp_all
  show ?thesis
    using stem right_sprig_leaf[OF c sn _ lw t x] le unfolding sprig_def Let_def by (simp add: mult_ac)
qed

lemma faded_quiet [layout]:
  assumes "0 \<le> a" and "a \<le> 245"
  shows "py_int (real_of_int (alpha_of (Polygon ps (rgba c a))) * 9 / 20) \<le> 110"
    and "py_int (real_of_int (alpha_of (Line ps (rgba c a) w j)) * 9 / 20) \<le> 110"
proof -
  have "real_of_int (max 0 (min 255 (py_int a))) \<le> 245" "0 \<le> real_of_int (max 0 (min 255 (py_int a)))"
    using assms py_int_le[of a] by auto
  then have "py_int (real_of_int (max 0 (min 255 (py_int a))) * 9 / 20) \<le> 110"
    by (simp add: py_int_def floor_le_iff)
  then show "py_int (real_of_int (alpha_of (Polygon ps (rgba c a))) * 9 / 20) \<le> 110"
    "py_int (real_of_int (alpha_of (Line ps (rgba c a) w j)) * 9 / 20) \<le> 110"
    by (cases c; simp add: rgba.simps)+
qed

lemma sage_pollen_quiet: "fair S \<Longrightarrow> yields (sage_pollen S sage2) (list_all quiet)"
  unfolding sage_pollen_def Let_def by (intro bind_rules) (simp_all add: quiet_def layout W_def)

lemma sprig_faded:
  "list_all (\<lambda>m. mark_right x0 m \<or> py_int (real_of_int (alpha_of m) * 9 / 20) \<le> 110) (sprig x y le an n col col2 lw)"
  by (simp add: sprig_def Let_def layout)

lemma sage_breeze_quiet: "fair S \<Longrightarrow> yields (sage_breeze_layers S) (list_all layer_quiet)"
  unfolding sage_breeze_layers_def Let_def
  by (intro yields_bind[OF sage_pollen_quiet])
    (simp_all add: layout layers_quiet_right quiet_list_right W_def quiet_def paper_texture_def sprig_faded)

lemma placed_low: "\<bar>a\<bar> \<le> p \<Longrightarrow> \<bar>b\<bar> \<le> q \<Longrightarrow> x0 \<le> cx - p - q \<Longrightarrow> x0 \<le> fst (placed cx cy an (a, b))"
  using right_placed[of "[(a, b)]" p q x0 cx cy an] by simp

lemma right_pencil [layout]:
  assumes "0 \<le> le" and "x0 \<le> cx - le"
  shows "list_all (mark_right x0) (pencil cx cy le an c1 c2 c3 c4)"
  using assms unfolding pencil_def Let_def
  by (auto intro!: placed_low[of _ "le / 2" _ "3 * le / 80"] simp: abs_le_iff)

lemma right_plane [layout]:
  assumes "0 \<le> s" and "x0 \<le> cx - 2 * s"
  shows "list_all (mark_right x0) (paper_plane cx cy s an c)"
proof -
  have "x0 \<le> fst (placed cx cy an (s * a, s * b))" if "\<bar>a\<bar> \<le> 1" "\<bar>b\<bar> \<le> 1" for a b
  proof -
    have "right_of x0 (List.map (placed cx cy an) [(s * a, s * b)])"
      using that assms mult_left_le[of "\<bar>a\<bar>" s] mult_left_le[of "\<bar>b\<bar>" s]
      by (intro right_placed[of _ s s]) (auto simp: abs_mult)
    then show ?thesis by simp
  qed
  from this[of 1 0] this[of "- 4 / 5" "- 11 / 20"] this[of "- 7 / 20" 0] this[of "- 4 / 5" "11 / 20"]
    this[of "- 31 / 50" "3 / 25"] this[of "- 1 / 2" "- 1 / 10"]
  show ?thesis by (simp add: paper_plane_def Let_def mult.commute)
qed

lemma py_int_ge: "0 \<le> y \<Longrightarrow> y - 1 \<le> real_of_int (py_int y)"
  by (simp add: py_int_def)

lemma pasted_right:
  assumes "fits_when_turned S" and "0 \<le> w" and "0 \<le> h" and "x0 \<le> cx - (of_int w + of_int h) / 2 - 2" and "0 \<le> x0"
  shows "x0 \<le> real_of_int (py_int (cx - real_of_int (fst (s_turned S (w, h) d)) / 2))"
proof -
  have "real_of_int (fst (s_turned S (w, h) d)) \<le> of_int w + of_int h + 2"
    using assms(1-3) unfolding fits_when_turned_def by (metis of_int_add of_int_le_iff of_int_numeral)
  moreover have "x0 + 1 \<le> cx - t / 2" if "t \<le> of_int w + of_int h + 2" for t :: real
    using that assms(4) by (simp add: field_simps)
  ultimately have "x0 + 1 \<le> cx - real_of_int (fst (s_turned S (w, h) d)) / 2" by blast
  then show ?thesis using py_int_ge[of "cx - real_of_int (fst (s_turned S (w, h) d)) / 2"] assms(5) by linarith
qed

lemma washi_quiet [layout]:
  assumes "fits_when_turned S" and "0 \<le> w" and "0 \<le> h" and "0.52 * W \<le> cx - (w + h) / 2 - 26"
  shows "list_all layer_quiet (washi S cx cy w h an c1 c2 style)"
proof -
  have "real_of_int (py_int (w + 24)) \<le> w + 24" "real_of_int (py_int (h + 24)) \<le> h + 24"
    using assms(2,3) by (intro py_int_le; simp)+
  moreover have "0 \<le> py_int (w + 24)" "0 \<le> py_int (h + 24)" using assms(2,3) by (simp_all add: py_int_def)
  moreover have "0.52 * W \<le> cx - (a + b) / 2 - 2" if "a \<le> w + 24" "b \<le> h + 24" for a b
    using that assms(4) by (simp add: field_simps)
  ultimately have "0.52 * W \<le> real_of_int (py_int (cx - real_of_int (fst (s_turned S (py_int (w + 24), py_int (h + 24)) d)) / 2))" for d
    using assms(1) by (intro pasted_right) (auto simp: W_def)
  then show ?thesis by (simp add: washi_def Let_def split_beta)
qed

lemma clip_quiet [layout]:
  assumes "fits_when_turned S" and "0 \<le> s" and "0.52 * W \<le> cx - 1.6 * s - 2"
  shows "list_all layer_quiet (paper_clip S cx cy s an c)"
proof -
  have "real_of_int (py_int (8 * s / 5)) \<le> 8 * s / 5" "0 \<le> py_int (8 * s / 5)"
    using assms(2) py_int_le[of "8 * s / 5"] by (simp_all add: py_int_def)
  then have "0.52 * W \<le> real_of_int (py_int (cx - real_of_int (fst (s_turned S (py_int (8 * s / 5), py_int (8 * s / 5)) d)) / 2))" for d
    using assms by (intro pasted_right) (auto simp: W_def)
  then show ?thesis by (simp add: paper_clip_def Let_def split_beta mult_ac)
qed

lemma spark_stationery_quiet: "fair S \<Longrightarrow> yields (spark_stationery S teal yellow coral red teal2) (list_all quiet)"
  unfolding spark_stationery_def Let_def
  by (intro bind_rules) (auto simp: W_def intro!: quiet_list_right right_star right_pencil right_plane)

lemma spark_notebook_quiet:
  "fair S \<Longrightarrow> fits_when_turned S \<Longrightarrow> yields (spark_notebook_layers S) (list_all layer_quiet)"
  unfolding spark_notebook_layers_def Let_def
  by (intro yields_bind[OF spark_stationery_quiet])
    (simp_all add: layout layers_quiet_right W_def quiet_def)

lemma noir_dust_quiet: "fair S \<Longrightarrow> yields (noir_dust S gold gold_deep) (list_all quiet)"
  unfolding noir_dust_def Let_def
  by (intro bind_rules) (auto simp: W_def quiet_def layout intro!: quiet_list_right right_star)

lemma noir_gold_quiet: "fair S \<Longrightarrow> yields (noir_gold_layers S) (list_all layer_quiet)"
  unfolding noir_gold_layers_def Let_def
  by (intro yields_bind[OF noir_dust_quiet])
    (simp_all add: layout layers_quiet_right right_of_tl W_def quiet_def)

end
