(* ===== verification/ThemeBuild.thy ===== *)
theory ThemeBuild
  imports Dirs Json "HOL-Library.List_Lexorder" "HOL-Library.Char_ord"
begin

text \<open>
  Building the theme images (\<open>scripts/official-theme-art/build.py\<close> with \<open>save_webp\<close> and
  \<open>make_thumb\<close> of \<open>artkit.py\<close>). The scenes are drawn by
  libraries: a drawing has its size and, for each quality, the bytes of its image and of its
  thumbnail. The loops that lower the quality to meet a budget are recursions that end.
\<close>

section \<open>Encoding within a budget\<close>

record drawing =
  d_size :: "int \<times> int"
  d_webp :: "int \<Rightarrow> string"
  d_thumb :: "int \<Rightarrow> string"

text \<open>The \<open>while True\<close> loops: the image is written at a quality, and again at a lower one while it
  is over the target and the quality above the least.\<close>

function webp_loop :: "(int \<Rightarrow> string) \<Rightarrow> path \<Rightarrow> int option \<Rightarrow> int \<Rightarrow> dirs \<Rightarrow> int res \<times> dirs" where
  "webp_loop enc p target q t =
     (case write_bytes p (enc q) t of
        Inl e \<Rightarrow> (Inl e, t)
      | Inr t' \<Rightarrow>
          let size = int (length (enc q)) in
          if target = None \<or> size \<le> the target \<or> q \<le> 40 then (Inr size, t')
          else webp_loop enc p target (q - 6) t')"
  by pat_completeness auto
termination
  by (relation "measure (\<lambda>(enc, p, target, q, t). nat (q - 34))") auto

function thumb_loop :: "(int \<Rightarrow> string) \<Rightarrow> path \<Rightarrow> int \<Rightarrow> int \<Rightarrow> dirs \<Rightarrow> int res \<times> dirs" where
  "thumb_loop enc p target q t =
     (case write_bytes p (enc q) t of
        Inl e \<Rightarrow> (Inl e, t)
      | Inr t' \<Rightarrow>
          let size = int (length (enc q)) in
          if size \<le> target \<or> q \<le> 30 then (Inr size, t')
          else thumb_loop enc p target (q - 8) t')"
  by pat_completeness auto
termination
  by (relation "measure (\<lambda>(enc, p, target, q, t). nat (q - 22))") auto

declare webp_loop.simps [simp del] thumb_loop.simps [simp del]

definition save_webp :: "drawing \<Rightarrow> path \<Rightarrow> int \<Rightarrow> int option \<Rightarrow> (dirs, int) prog" where
  "save_webp img p quality target =
     pseq (edit_files (make_dirs (butlast p))) (webp_loop (d_webp img) p target quality)"

definition make_thumb :: "drawing \<Rightarrow> path \<Rightarrow> int \<Rightarrow> int \<Rightarrow> (dirs, int) prog" where
  "make_thumb img p quality target = thumb_loop (d_thumb img) p target quality"

definition sha256_file :: "(string \<Rightarrow> string) \<Rightarrow> path \<Rightarrow> (dirs, string) prog" where
  "sha256_file digest p = tries (\<lambda>t. rbind (read_bytes t p) (\<lambda>b. Inr (digest b)))"

section \<open>The build\<close>

definition canvas :: "int \<times> int" where
  "canvas = (2560, 1440)"

definition bg_budget :: int where
  "bg_budget = 2359296"

definition thumb_budget :: int where
  "thumb_budget = 122880"

text \<open>What is reported of a theme.\<close>

definition report_entry :: "int \<Rightarrow> string \<Rightarrow> int \<Rightarrow> string \<Rightarrow> json" where
  "report_entry bg_size bg_hash th_size th_hash = JObj
     [(''background_bytes'', JInt bg_size), (''background_ok'', JBool (bg_size \<le> bg_budget)),
      (''background_sha256'', JStr bg_hash), (''preview_bytes'', JInt th_size),
      (''preview_ok'', JBool (th_size \<le> thumb_budget)), (''preview_sha256'', JStr th_hash)]"

definition build_theme :: "(string \<Rightarrow> string) \<Rightarrow> (string \<times> drawing) list \<Rightarrow> path \<Rightarrow> string \<Rightarrow> (dirs, json) prog" where
  "build_theme digest scenes out tid =
     (case map_of scenes tid of
        None \<Rightarrow> raise (ExitErr ''2'')
      | Some img \<Rightarrow>
          let tdir = child out tid; bg = child tdir ''background.webp''; th = child tdir ''preview.webp'' in
          pseq (require (d_size img = canvas) (AssertErr ''img.size''))
         (pbind (save_webp img bg 82 (Some bg_budget)) (\<lambda>bg_size.
          pbind (make_thumb img th 76 thumb_budget) (\<lambda>th_size.
          pbind (sha256_file digest bg) (\<lambda>bg_hash.
          pbind (sha256_file digest th) (\<lambda>th_hash.
          ret (report_entry bg_size bg_hash th_size th_hash)))))))"

text \<open>\<open>report[tid] = ...\<close> for every id: a repeated id is built again and reported once.\<close>

fun build_all :: "(string \<Rightarrow> string) \<Rightarrow> (string \<times> drawing) list \<Rightarrow> path \<Rightarrow> string list
     \<Rightarrow> (string \<times> json) list \<Rightarrow> (dirs, (string \<times> json) list) prog" where
  "build_all digest scenes out [] report = ret report"
| "build_all digest scenes out (tid # ids) report =
     pbind (build_theme digest scenes out tid) (\<lambda>entry.
     build_all digest scenes out ids (AList.update tid entry report))"

definition art_main :: "(string \<Rightarrow> string) \<Rightarrow> (json \<Rightarrow> string) \<Rightarrow> (string \<times> drawing) list \<Rightarrow> path \<Rightarrow> string list
     \<Rightarrow> (dirs, unit) prog" where
  "art_main digest dumps scenes out themes =
     (let ids = (if themes \<noteq> [] then themes else sort (map fst scenes)) in
      pbind (build_all digest scenes out ids []) (\<lambda>report.
      edit_files (write_bytes (child out ''report.json'') (dumps (JObj report)))))"

section \<open>The budget loops\<close>

lemma write_bytes_again:
  "write_bytes p b t = Inr t' \<Longrightarrow> \<exists>t''. write_bytes p c t' = Inr t''"
  by (auto simp: write_bytes_def dir_at_def update_conv' split: if_splits)

text \<open>A loop ends with the first quality of its sequence that meets the target, or the first at or
  below the least.\<close>

lemma webp_loop_result:
  assumes "write_bytes p (enc q) t = Inr u"
  shows "\<exists>k t'. webp_loop enc p (Some b) q t = (Inr (int (length (enc (q - 6 * int k)))), t')
    \<and> map_of t' = (map_of t)(p \<mapsto> File (enc (q - 6 * int k)))
    \<and> (int (length (enc (q - 6 * int k))) \<le> b \<or> q - 6 * int k \<le> 40)
    \<and> (\<forall>j<k. b < int (length (enc (q - 6 * int j))) \<and> 40 < q - 6 * int j)"
  using assms
proof (induction "nat (q - 34)" arbitrary: q t u rule: less_induct)
  case less
  show ?case
  proof (cases "int (length (enc q)) \<le> b \<or> q \<le> 40")
    case True
    then show ?thesis using less.prems write_bytes_Inr[OF less.prems]
      by (intro exI[of _ 0]) (auto simp: webp_loop.simps[of enc p "Some b" q t])
  next
    case False
    obtain v where "write_bytes p (enc (q - 6)) u = Inr v" using write_bytes_again[OF less.prems] by blast
    moreover have "nat (q - 6 - 34) < nat (q - 34)" using False by simp
    ultimately obtain k t' where k: "webp_loop enc p (Some b) (q - 6) u = (Inr (int (length (enc (q - 6 - 6 * int k)))), t')"
      "map_of t' = (map_of u)(p \<mapsto> File (enc (q - 6 - 6 * int k)))"
      "int (length (enc (q - 6 - 6 * int k))) \<le> b \<or> q - 6 - 6 * int k \<le> 40"
      "\<forall>j<k. b < int (length (enc (q - 6 - 6 * int j))) \<and> 40 < q - 6 - 6 * int j"
      using less.hyps by blast
    have shift: "q - 6 - 6 * int j = q - 6 * int (Suc j)" for j by simp
    have "\<forall>j<Suc k. b < int (length (enc (q - 6 * int j))) \<and> 40 < q - 6 * int j"
      using k(4) False unfolding shift by (auto simp: less_Suc_eq_0_disj)
    then show ?thesis
      using k(1-3) False less.prems write_bytes_Inr[OF less.prems] unfolding shift
      by (intro exI[of _ "Suc k"] exI[of _ t']) (simp add: webp_loop.simps[of enc p "Some b" q t])
  qed
qed

lemma thumb_loop_result:
  assumes "write_bytes p (enc q) t = Inr u"
  shows "\<exists>q' t'. thumb_loop enc p b q t = (Inr (int (length (enc q'))), t') \<and> q' \<le> q
    \<and> map_of t' = (map_of t)(p \<mapsto> File (enc q')) \<and> (int (length (enc q')) \<le> b \<or> q' \<le> 30)"
  using assms
proof (induction "nat (q - 22)" arbitrary: q t u rule: less_induct)
  case less
  show ?case
  proof (cases "int (length (enc q)) \<le> b \<or> q \<le> 30")
    case True
    then show ?thesis using less.prems write_bytes_Inr[OF less.prems]
      by (intro exI[of _ q]) (auto simp: thumb_loop.simps[of enc p b q t])
  next
    case False
    obtain v where "write_bytes p (enc (q - 8)) u = Inr v" using write_bytes_again[OF less.prems] by blast
    moreover have "nat (q - 8 - 22) < nat (q - 22)" using False by simp
    ultimately obtain q' t' where "thumb_loop enc p b (q - 8) u = (Inr (int (length (enc q'))), t')" "q' \<le> q - 8"
      "map_of t' = (map_of u)(p \<mapsto> File (enc q'))" "int (length (enc q')) \<le> b \<or> q' \<le> 30"
      using less.hyps by blast
    then show ?thesis using False less.prems write_bytes_Inr[OF less.prems]
      by (intro exI[of _ q'] exI[of _ t']) (simp add: thumb_loop.simps[of enc p b q t])
  qed
qed

lemma loops_write:
  "webp_loop enc p target q t = (Inr n, t') \<Longrightarrow> \<exists>u. write_bytes p (enc q) t = Inr u"
  "thumb_loop enc p b q t = (Inr n, t') \<Longrightarrow> \<exists>u. write_bytes p (enc q) t = Inr u"
  by (simp_all add: webp_loop.simps[of enc p target q t] thumb_loop.simps[of enc p b q t] split: sum.splits)

section \<open>Reports and files\<close>

text \<open>A report entry says what is on disk.\<close>

definition entry_true :: "(string \<Rightarrow> string) \<Rightarrow> path \<Rightarrow> dirs \<Rightarrow> string \<Rightarrow> json \<Rightarrow> bool" where
  "entry_true digest out t tid e \<longleftrightarrow>
     (\<exists>b c. map_of t (child (child out tid) ''background.webp'') = Some (File b)
        \<and> map_of t (child (child out tid) ''preview.webp'') = Some (File c)
        \<and> e = report_entry (int (length b)) (digest b) (int (length c)) (digest c))"

lemma build_theme_ok:
  assumes "build_theme digest scenes out tid t = (Inr e, t')"
  shows "only_below (child out tid) t t'" and "entry_true digest out t' tid e"
proof -
  let ?d = "child out tid"
  let ?bg = "child ?d ''background.webp''" and ?th = "child ?d ''preview.webp''"
  from assms obtain img where img: "map_of scenes tid = Some img"
    by (auto simp: build_theme_def ok_simps split: option.splits)
  from assms obtain u v n m b0 c0 where
    dirs: "make_dirs ?d t = Inr u" and bg: "webp_loop (d_webp img) ?bg (Some bg_budget) 82 u = (Inr n, v)"
    and th: "thumb_loop (d_thumb img) ?th thumb_budget 76 v = (Inr m, t')"
    and e: "map_of t' ?bg = Some (File b0)" "map_of t' ?th = Some (File c0)"
      "report_entry n (digest b0) m (digest c0) = e"
    unfolding build_theme_def img option.case Let_def save_webp_def make_thumb_def sha256_file_def
    by (simp only: ok_simps rbind_Inr_iff read_bytes_Inr butlast_child) (elim exE conjE, simp)
  obtain b where b: "n = int (length b)" "map_of v = (map_of u)(?bg \<mapsto> File b)"
    using loops_write(1)[OF bg] webp_loop_result[of ?bg "d_webp img" 82 u _ bg_budget] bg by fastforce
  obtain c where c: "m = int (length c)" "map_of t' = (map_of v)(?th \<mapsto> File c)"
    using loops_write(2)[OF th] thumb_loop_result[of ?th "d_thumb img" 76 v _ thumb_budget] th by fastforce
  show "only_below ?d t t'"
    using only_below_dirs[OF dirs, of ?d] only_below_write[OF b(2), of ?d] only_below_write[OF c(2), of ?d]
    by (blast intro: only_below_trans below_child below_refl)
  show "entry_true digest out t' tid e"
    using e by (auto simp: entry_true_def b c)
qed

text \<open>C38. The background kept for a theme is the one of the first quality, of 82, 76, 70 and so on,
  that meets the budget or is at most 40: the loop ends, at 35 or above, and every better quality
  was over the budget.\<close>

theorem background_first_fit:
  assumes "make_dirs (butlast p) t = Inr u" and "write_bytes p (d_webp img 82) u = Inr v"
  shows "\<exists>k t'. save_webp img p 82 (Some budget) t = (Inr (int (length (d_webp img (82 - 6 * int k)))), t')
    \<and> read_bytes t' p = Inr (d_webp img (82 - 6 * int k)) \<and> 35 \<le> 82 - 6 * int k
    \<and> (int (length (d_webp img (82 - 6 * int k))) \<le> budget \<or> 82 - 6 * int k \<le> 40)
    \<and> (\<forall>j<k. budget < int (length (d_webp img (82 - 6 * int j))))"
proof -
  obtain k t' where k: "webp_loop (d_webp img) p (Some budget) 82 u = (Inr (int (length (d_webp img (82 - 6 * int k)))), t')"
    "map_of t' = (map_of u)(p \<mapsto> File (d_webp img (82 - 6 * int k)))"
    "int (length (d_webp img (82 - 6 * int k))) \<le> budget \<or> 82 - 6 * int k \<le> 40"
    "\<forall>j<k. budget < int (length (d_webp img (82 - 6 * int j))) \<and> 40 < 82 - 6 * int j"
    using webp_loop_result[of p "d_webp img" 82 u v budget, OF assms(2)] by blast
  have "35 \<le> 82 - 6 * int k"
  proof (cases k)
    case (Suc j)
    then have "40 < 82 - 6 * int j" using k(4) by blast
    then show ?thesis using Suc by simp
  qed simp
  then show ?thesis using k assms(1)
    by (intro exI[of _ k] exI[of _ t']) (simp add: save_webp_def pseq_run edit_files_run read_bytes_def)
qed

section \<open>Report and ledger\<close>

lemma build_all_ok:
  assumes "build_all digest scenes out ids report t = (Inr r, t')"
    and "\<forall>tid e. map_of report tid = Some e \<longrightarrow> entry_true digest out t tid e"
  shows "only_below out t t' \<and> (\<forall>tid e. map_of r tid = Some e \<longrightarrow> entry_true digest out t' tid e)
    \<and> (\<forall>tid. tid \<in> set ids \<or> map_of report tid \<noteq> None \<longrightarrow> map_of r tid \<noteq> None)"
  using assms
proof (induction ids arbitrary: report t)
  case Nil
  then show ?case by (simp add: ok_simps)
next
  case (Cons a ids)
  from Cons.prems(1) obtain e u where e: "build_theme digest scenes out a t = (Inr e, u)"
    and rest: "build_all digest scenes out ids (AList.update a e report) u = (Inr r, t')"
    by (auto simp: ok_simps)
  note b = build_theme_ok[OF e]
  have "entry_true digest out u tid f" if "map_of (AList.update a e report) tid = Some f" for tid f
  proof (cases "tid = a")
    case True
    then show ?thesis using that b(2) by (simp add: update_conv')
  next
    case False
    then have "entry_true digest out t tid f" using that Cons.prems(2) by (simp add: update_conv')
    moreover have "\<not> below (child out a) (child (child out tid) n)" for n
      using False by (simp add: below_def child_def)
    ultimately show ?thesis unfolding entry_true_def using only_below_file[OF b(1)] by blast
  qed
  then have "\<forall>tid f. map_of (AList.update a e report) tid = Some f \<longrightarrow> entry_true digest out u tid f" by blast
  from Cons.IH[OF rest this] have "only_below out u t'"
    "\<forall>tid e. map_of r tid = Some e \<longrightarrow> entry_true digest out t' tid e"
    "\<forall>tid. tid \<in> set ids \<or> map_of (AList.update a e report) tid \<noteq> None \<longrightarrow> map_of r tid \<noteq> None" by simp_all
  moreover have "only_below out t u" using only_below_weaken[OF b(1) below_child[OF below_refl]] .
  ultimately show ?case by (auto simp: update_conv' intro: only_below_trans)
qed

lemma art_main_ok:
  assumes "art_main digest dumps scenes out themes t = (Inr (), t')"
  shows "\<exists>report. map_of t' (child out ''report.json'') = Some (File (dumps (JObj report)))
    \<and> (\<forall>tid e. map_of report tid = Some e \<longrightarrow> entry_true digest out t' tid e)"
proof -
  from assms obtain report u where build: "build_all digest scenes out
      (if themes \<noteq> [] then themes else sort (map fst scenes)) [] t = (Inr report, u)"
    and w: "write_bytes (child out ''report.json'') (dumps (JObj report)) u = Inr t'"
    by (auto simp: art_main_def Let_def ok_simps)
  have u: "\<forall>tid e. map_of report tid = Some e \<longrightarrow> entry_true digest out u tid e"
    using build_all_ok[OF build] by simp
  have "child out ''report.json'' \<noteq> child (child out tid) n" for tid n
    by (simp add: child_def)
  then have "entry_true digest out t' tid e" if "entry_true digest out u tid e" for tid e
    using that write_bytes_Inr[OF w] by (auto simp: entry_true_def fun_upd_def)
  then show ?thesis using u write_bytes_Inr[OF w] by (intro exI[of _ report]) auto
qed

section \<open>Witnesses\<close>

definition demo_drawing :: drawing where
  "demo_drawing = \<lparr>d_size = canvas, d_webp = (\<lambda>q. if q \<le> 70 then ''small'' else ''much larger''),
     d_thumb = (\<lambda>q. ''thumb'')\<rparr>"

theorem background_first_fit_witness:
  "\<exists>k t'. save_webp demo_drawing [''out'', ''a.webp''] 82 (Some 6) [] = (Inr (int (length (d_webp demo_drawing (82 - 6 * int k)))), t')
    \<and> int (length (d_webp demo_drawing (82 - 6 * int k))) \<le> 6"
proof -
  have d: "make_dirs (butlast [''out'', ''a.webp'']) [] = Inr [([''out''], Dir)]"
    "write_bytes [''out'', ''a.webp''] (d_webp demo_drawing 82) [([''out''], Dir)]
      = Inr [([''out''], Dir), ([''out'', ''a.webp''], File ''much larger'')]" by code_simp+
  obtain k t' where k: "save_webp demo_drawing [''out'', ''a.webp''] 82 (Some 6) []
      = (Inr (int (length (d_webp demo_drawing (82 - 6 * int k)))), t')"
    "int (length (d_webp demo_drawing (82 - 6 * int k))) \<le> 6 \<or> 82 - 6 * int k \<le> 40"
    using background_first_fit[OF d, of 6] by blast
  moreover have "int (length (d_webp demo_drawing q)) \<le> 6" if "q \<le> 70" for q
    using that by (simp add: demo_drawing_def)
  ultimately show ?thesis by force
qed

end
