(* ===== verification/ArtProps.thy ===== *)
theory ArtProps
  imports ArtQuiet ThemeBuild
begin

text \<open>
  The properties of the drawings: every mark is well formed, curves stay in the hull of their control points,
  the left of the canvas stays quiet, the faces are where the layout contract wants them, and
  the drawn scenes are what the image build takes.
\<close>

section \<open>Pictures\<close>

text \<open>Every colour literal of \<open>scenes.py\<close> and \<open>figures.py\<close> is decoded.\<close>

definition art_literals :: "string list" where
  "art_literals =
    [''#000000'', ''#007B78'', ''#18B7C6'', ''#1E3A44'', ''#211C15'', ''#241F19'', ''#35ADA4'',
    ''#37D7E4'', ''#3A2A22'', ''#3B352E'', ''#3E7C5F'', ''#42D1C6'', ''#47735F'', ''#4A3226'',
    ''#4A4A4A'', ''#4C3E8F'', ''#57765F'', ''#5E3A36'', ''#7A63C4'', ''#7A9B84'', ''#7a2e2e'',
    ''#7a3b3b'', ''#7a5310'', ''#8A9A7B'', ''#8F79E0'', ''#8FD3DF'', ''#8a4040'', ''#8a946f'',
    ''#A794E3'', ''#A9822F'', ''#B23A2C'', ''#B43F65'', ''#B7A9E8'', ''#B92B38'', ''#B97F1E'',
    ''#B9CBA8'', ''#BDE7EF'', ''#BDF3F8'', ''#C45B73'', ''#C8402F'', ''#C9B8FF'', ''#D3606A'',
    ''#D9B45B'', ''#D9CCFF'', ''#DCF4F8'', ''#DDD2F5'', ''#DDD5F8'', ''#E28CA1'', ''#E4C493'',
    ''#E6DCFF'', ''#E7E9D8'', ''#E8604C'', ''#E89B9B'', ''#E8AD38'', ''#E8C3A0'', ''#EAFBFD'',
    ''#EB5757'', ''#EBA9B5'', ''#EBCB9B'', ''#ECDAB4'', ''#EDCBAA'', ''#EDE7FF'', ''#EFC4CD'',
    ''#EFCFC9'', ''#EFF0E2'', ''#F0B64E'', ''#F0C9C3'', ''#F2994A'', ''#F2A3A0'', ''#F2B7C4'',
    ''#F2C94C'', ''#F2EDFF'', ''#F2F0E0'', ''#F2F2E6'', ''#F3C2BC'', ''#F3CFAE'', ''#F3D2BA'',
    ''#F3D6A2'', ''#F3FDFE'', ''#F4F1FF'', ''#F5C3CE'', ''#F5D3DA'', ''#F5D8D3'', ''#F6D8C6'',
    ''#F6D9D4'', ''#F6ECD4'', ''#F7DAC8'', ''#F7ECD2'', ''#F8E3BC'', ''#F9E0E4'', ''#FAFAF3'',
    ''#FBECE9'', ''#FBF4E4'', ''#FCEFEA'', ''#FCF5E2'', ''#FCFBF2'', ''#FDF0F1'', ''#FDF2D8'',
    ''#FDFAF1'', ''#FFDF9E'', ''#FFE9AE'', ''#FFF6DC'', ''#FFF8E2'', ''#FFF9F5'', ''#FFFAF8'',
    ''#FFFBEF'', ''#FFFBF0'', ''#FFFFFF'', ''#ffffff'']"

lemma literals_decode: "list_all (\<lambda>s. is_ok (hex2rgb s)) art_literals"
  by code_simp

definition ground_ok :: "ground \<Rightarrow> bool" where
  "ground_ok g \<longleftrightarrow> g_width g = 2560 \<and> g_height g = 1440 \<and> g_direction g \<in> {''v'', ''h'', ''d1'', ''d2''}
     \<and> sorted (List.map fst (g_stops g)) \<and> g_stops g \<noteq> []
     \<and> (\<forall>s \<in> set (g_stops g). 0 \<le> fst s \<and> fst s \<le> 1 \<and> rgb_ok (snd s))"

definition picture_ok :: "picture \<Rightarrow> bool" where
  "picture_ok p \<longleftrightarrow> ground_ok (p_ground p) \<and> list_all layer_ok (p_layers p)"

lemma hex2rgb_ok: "hex2rgb s = Inr c \<Longrightarrow> rgb_ok c"
  using rgb_ok_colour[of s] by (simp add: colour_def)

lemma stops_arrays_ok:
  assumes "stops_arrays stops = Inr cols"
  shows "List.map fst cols = List.map fst stops \<and> (\<forall>s \<in> set cols. rgb_ok (snd s))"
  using assms
proof (induction stops arbitrary: cols)
  case (Cons s stops)
  obtain p c where s: "s = (p, c)" by (cases s)
  with Cons.prems obtain v rest where v: "hex2rgb c = Inr v" and rest: "stops_arrays stops = Inr rest"
    and cols: "cols = (p, v) # rest"
    unfolding stops_arrays_def rmap.simps prod.case by (elim rbind_InrE) auto
  show ?case using Cons.IH[OF rest] hex2rgb_ok[OF v] by (simp add: s cols del: rgb_ok.simps)
qed (simp add: stops_arrays_def)

lemma gradient_ok:
  assumes "gradient 2560 1440 stops d = Inr g" and "sorted (List.map fst stops)" and "stops \<noteq> []"
    and "\<forall>s \<in> set stops. 0 \<le> fst s \<and> fst s \<le> 1"
  shows "ground_ok g"
proof -
  from assms(1) obtain cols where cols: "stops_arrays stops = Inr cols"
    and g: "d \<in> {''v'', ''h'', ''d1'', ''d2''}" "g = \<lparr>g_width = 2560, g_height = 1440, g_stops = cols, g_direction = d\<rparr>"
    by (auto simp: gradient_def)
  have f: "List.map fst cols = List.map fst stops" and c: "\<forall>s \<in> set cols. rgb_ok (snd s)"
    using stops_arrays_ok[OF cols] by simp_all
  have "fst ` set cols = fst ` set stops" using arg_cong[OF f, of set] by simp
  moreover have "\<forall>x \<in> fst ` set stops. 0 \<le> x \<and> x \<le> 1" using assms(4) by simp
  ultimately have "\<forall>x \<in> fst ` set cols. 0 \<le> x \<and> x \<le> 1" by simp
  then have "\<forall>s \<in> set cols. 0 \<le> fst s \<and> fst s \<le> 1" by simp
  moreover have "cols \<noteq> []" using f assms(3) by auto
  ultimately show ?thesis using assms(2) f c g(1) by (simp add: ground_ok_def g(2))
qed

lemma scene_ok:
  assumes "scene S sd img ls = Inr p" and "\<And>g. img = Inr g \<Longrightarrow> ground_ok g" and "yields ls (list_all layer_ok)"
  shows "picture_ok p"
  using assms yieldsD[OF assms(3)] by (auto simp: scene_def picture_ok_def)

lemma gradient_total:
  "is_ok (stops_arrays stops) \<Longrightarrow> d \<in> {''v'', ''h'', ''d1'', ''d2''} \<Longrightarrow> is_ok (scene S sd (gradient w h stops d) ls)"
  by (cases "stops_arrays stops") (auto simp: scene_def gradient_def)

lemma stops_arrays_total: "\<forall>(p, c) \<in> set stops. is_ok (hex2rgb c) \<Longrightarrow> is_ok (stops_arrays stops)"
  unfolding stops_arrays_def
proof (induction stops)
  case (Cons s stops)
  then show ?case by (cases s; cases "hex2rgb (snd s)") (auto split: sum.splits simp: is_ok_def)
qed simp

lemmas scene_defs = scene_rose_dawn_def scene_fortune_forge_def scene_crimson_horizon_def scene_sage_breeze_def
  scene_spark_notebook_def scene_violet_starlight_def scene_cyan_stage_def scene_noir_gold_def

lemmas scenes_layers_ok = rose_dawn_ok fortune_forge_ok crimson_horizon_ok sage_breeze_ok spark_notebook_ok
  violet_starlight_ok cyan_stage_ok noir_gold_ok

lemma literal_ok: "s \<in> set art_literals \<Longrightarrow> is_ok (hex2rgb s)"
  using literals_decode by (simp add: list_all_iff)

lemma scenes_drawn: "(tid, pic) \<in> set (scenes S) \<Longrightarrow> is_ok pic"
  unfolding scenes_def scene_defs
  by (auto intro!: gradient_total stops_arrays_total literal_ok simp: art_literals_def)

lemma scenes_ok:
  assumes "fair S" and "(tid, Inr p) \<in> set (scenes S)"
  shows "picture_ok p"
  using assms(2) unfolding scenes_def scene_defs
  by (auto dest!: sym[of "Inr p"] intro!: scene_ok[where p = p] scenes_layers_ok assms(1) gradient_ok)

section \<open>Faces\<close>

text \<open>The key content box of the layout contract, and a face inside it with the visual centre where the
  contract wants it.\<close>

definition key_box :: "point \<Rightarrow> bool" where
  "key_box q \<longleftrightarrow> KEY_X0 \<le> fst q \<and> fst q \<le> KEY_X1 \<and> KEY_Y0 \<le> snd q \<and> snd q \<le> KEY_Y1"

definition is_face :: "mark \<Rightarrow> bool" where
  "is_face m \<longleftrightarrow> (\<exists>cx cy fw fh turn c. m = Polygon (face_outline cx cy fw fh turn) c
     \<and> 0.68 * W \<le> cx \<and> cx \<le> 0.76 * W \<and> (\<forall>q \<in> set (face_outline cx cy fw fh turn). key_box q))"

fun face_in :: "layer \<Rightarrow> bool" where
  "face_in (Layer ms b) = list_ex is_face ms"
| "face_in (Faded ms f b) = list_ex is_face ms"
| "face_in (Turned wh ms a p) = False"
| "face_in (Texture c a sd sc) = False"

lemma face_control_points:
  assumes "0 \<le> fw" and "0 \<le> fh" and "0 \<le> turn" and "turn \<le> 1"
    and "\<And>x y. - 1.02 * fw \<le> x \<Longrightarrow> x \<le> 1.02 * fw \<Longrightarrow> - 1.12 * fh \<le> y \<Longrightarrow> y \<le> 1.02 * fh
      \<Longrightarrow> c \<le> u * (cx + x) + v * (cy + y)"
    and "q \<in> set (face_outline cx cy fw fh turn)"
  shows "beyond u v c q"
proof -
  have t: "0 \<le> turn * fw" "turn * fw \<le> fw" "0 \<le> fw * turn" "fw * turn \<le> fw"
    using assms(1,3,4) by (simp_all add: mult_left_le_one_le mult_left_le)
  have pt: "beyond u v c p" if "- 1.02 * fw \<le> fst p - cx" "fst p - cx \<le> 1.02 * fw" "- 1.12 * fh \<le> snd p - cy" "snd p - cy \<le> 1.02 * fh" for p
    using assms(5)[OF that] by (simp add: beyond_def)
  show ?thesis
    by (rule smooth_path_beyond[OF _ assms(6)[unfolded face_outline_def Let_def]])
      (use t assms(1,2) in \<open>simp add: seg_beyond_def; intro conjI pt; simp\<close>)
qed

lemma face_fits:
  assumes "0 \<le> fw" and "0 \<le> fh" and "0 \<le> turn" and "turn \<le> 1"
    and x: "KEY_X0 \<le> cx - 1.02 * fw" "cx + 1.02 * fw \<le> KEY_X1"
    and y: "KEY_Y0 \<le> cy - 1.12 * fh" "cy + 1.02 * fh \<le> KEY_Y1"
    and q: "q \<in> set (face_outline cx cy fw fh turn)"
  shows "key_box q"
proof -
  note b = face_control_points[OF assms(1-4) _ q]
  have "beyond 1 0 KEY_X0 q" "beyond (- 1) 0 (- KEY_X1) q" "beyond 0 1 KEY_Y0 q" "beyond 0 (- 1) (- KEY_Y1) q"
    by (rule b; use x y in simp)+
  then show ?thesis by (simp add: beyond_def key_box_def)
qed

lemma face_drawn:
  assumes "0 \<le> fw" and "0 \<le> fh" and "0 \<le> turn" and "turn \<le> 1"
    and "KEY_X0 \<le> cx - 1.02 * fw" and "cx + 1.02 * fw \<le> KEY_X1"
    and "KEY_Y0 \<le> cy - 1.12 * fh" and "cy + 1.02 * fh \<le> KEY_Y1"
    and "0.68 * W \<le> cx" and "cx \<le> 0.76 * W"
  shows "is_face (Polygon (face_outline cx cy fw fh turn) c)"
  unfolding is_face_def using face_fits[OF assms(1-8)] assms(9,10) by blast

lemma figures_face:
  assumes "0 \<le> s" and "KEY_X0 \<le> cx - 1.02 * s" and "cx + 1.02 * s \<le> KEY_X1"
    and "KEY_Y0 \<le> cy - 1.4 * s" and "cy + 1.3 * s \<le> KEY_Y1" and "0.68 * W \<le> cx" and "cx \<le> 0.76 * W"
  shows "list_ex face_in (woman_serene cx cy s skin hair_c cloth_c lip_c blush_c style accent)"
    and "list_ex face_in (man_bust cx cy s skin hair_c cloth_c collar style)"
    and "list_ex face_in (anime_adult cx cy s skin hair_c cloth_c iris_c style)"
    and "list_ex face_in (silhouette_muse cx cy s body_c rim_c)"
    and "list_ex face_in (mascot_programmer cx cy s skin hair_c cloth_c accent_c glasses_c)"
    and "list_ex face_in (performer cx cy s skin hair_c cloth_c glow_c)"
  using assms
  by (simp_all add: woman_serene_def man_bust_def anime_adult_def silhouette_muse_def mascot_programmer_def
      performer_def Let_def face_drawn)

lemma yields_any: "(\<And>x. yields (f x) P) \<Longrightarrow> yields (State_Monad.bind m f) P"
  by (rule yields_bind[where Q = "\<lambda>_. True"]) (simp_all add: yields_def)

lemma scenes_faces:
  "yields (rose_dawn_layers S) (list_ex face_in)" "yields (fortune_forge_layers S) (list_ex face_in)"
  "yields (sage_breeze_layers S) (list_ex face_in)" "yields (spark_notebook_layers S) (list_ex face_in)"
  "yields (violet_starlight_layers S) (list_ex face_in)" "yields (cyan_stage_layers S) (list_ex face_in)"
  "yields (noir_gold_layers S) (list_ex face_in)"
  unfolding rose_dawn_layers_def fortune_forge_layers_def sage_breeze_layers_def spark_notebook_layers_def
    violet_starlight_layers_def cyan_stage_layers_def noir_gold_layers_def Let_def
  by (intro yields_any; simp add: figures_face KEY_X0_def KEY_X1_def KEY_Y0_def KEY_Y1_def W_def H_def)+

lemma scene_layers:
  assumes "scene S sd img ls = Inr p" and "yields ls P"
  shows "P (p_layers p)"
  using assms yieldsD[OF assms(2)] by (auto simp: scene_def)

lemma scenes_layers:
  assumes "(tid, Inr p) \<in> set (scenes S)"
    and "tid = ''official-rose-dawn'' \<Longrightarrow> yields (rose_dawn_layers S) P"
    and "tid = ''official-fortune-forge'' \<Longrightarrow> yields (fortune_forge_layers S) P"
    and "tid = ''official-crimson-horizon'' \<Longrightarrow> yields (crimson_horizon_layers S) P"
    and "tid = ''official-sage-breeze'' \<Longrightarrow> yields (sage_breeze_layers S) P"
    and "tid = ''official-spark-notebook'' \<Longrightarrow> yields (spark_notebook_layers S) P"
    and "tid = ''official-violet-starlight'' \<Longrightarrow> yields (violet_starlight_layers S) P"
    and "tid = ''official-cyan-stage'' \<Longrightarrow> yields (cyan_stage_layers S) P"
    and "tid = ''official-noir-gold'' \<Longrightarrow> yields (noir_gold_layers S) P"
  shows "P (p_layers p)"
  using assms(1) unfolding scenes_def scene_defs set_simps insert_iff prod.inject empty_iff
  by - (elim disjE conjE FalseE; drule sym[of "Inr p"]; erule scene_layers; rule assms(2-9); assumption)

lemma cyan_stage_loud: "yields (cyan_stage_layers S) (\<lambda>ls. \<not> list_all layer_quiet ls)"
  unfolding cyan_stage_layers_def Let_def
  by (intro yields_any) (simp add: quiet_def W_def rgba.simps mix_def py_int_def split: prod.split)

lemma scene_of:
  assumes "(tid, pic) \<in> set (scenes S)"
  obtains p where "(tid, Inr p) \<in> set (scenes S)"
  using scenes_drawn[OF assms] assms by (cases pic) (auto simp: is_ok_def)

section \<open>A generator\<close>

text \<open>A generator that always takes the lower end of the range it is asked for, and an image that is
  turned on a canvas as wide and high as its two sides together.\<close>

definition lower_end :: "unit studio" where
  "lower_end = \<lparr>seeded = (\<lambda>_. ()), s_random = State_Monad.return 0, s_randint = (\<lambda>a b. State_Monad.return a),
     s_beta = (\<lambda>a b. State_Monad.return 0), s_turned = (\<lambda>(w, h) d. (w + h, w + h))\<rparr>"

lemma lower_end_fair [simp]: "fair lower_end" "fits_when_turned lower_end"
  by (simp_all add: fair_def fits_when_turned_def lower_end_def)

section \<open>Ends of a curve\<close>

lemma cubic_ends: "hd (cubic p0 p1 p2 p3 48) = p0" "last (cubic p0 p1 p2 p3 48) = p3"
  by (simp_all add: cubic_def hd_map last_map Let_def upto_rec1 upto_rec2)

lemma path_step_starts: "length (path_step s []) = 49" "hd (path_step s []) = fst s" "last (path_step s []) = snd (snd (snd s))"
  by (cases s; simp add: path_step_def Let_def cubic_ends)+

lemma path_step_extends:
  assumes "pts \<noteq> []"
  shows "length (path_step s pts) = length pts + 48" "hd (path_step s pts) = hd pts" "path_step s pts \<noteq> []"
    "last (path_step s pts) = snd (snd (snd s))"
proof -
  obtain p0 p1 p2 p3 where s: "s = (p0, p1, p2, p3)" by (cases s)
  have n: "length (tl (cubic p0 p1 p2 p3 48)) = 48" by simp
  then have "tl (cubic p0 p1 p2 p3 48) \<noteq> []" by (metis length_0_conv zero_neq_numeral)
  then show "length (path_step s pts) = length pts + 48" "hd (path_step s pts) = hd pts" "path_step s pts \<noteq> []"
    "last (path_step s pts) = snd (snd (snd s))"
    using assms n by (simp_all add: path_step_def s Let_def last_tl cubic_ends del: length_tl)
qed

section \<open>The properties\<close>



text \<open>C30. A curve of the drawing kit joins its segments without repeating their ends, starts and stops where
  they do, and stays in every half plane that has its control points: in their convex hull.\<close>

theorem smooth_path_in_hull:
  assumes "segs \<noteq> []"
  shows "length (smooth_path segs) = 48 * length segs + 1 \<and> hd (smooth_path segs) = fst (hd segs)
    \<and> last (smooth_path segs) = snd (snd (snd (last segs)))
    \<and> (\<forall>u v c. (\<forall>seg \<in> set segs. seg_beyond u v c seg) \<longrightarrow> (\<forall>p \<in> set (smooth_path segs). beyond u v c p))"
proof -
  have len: "length (fold path_step ss pts) = length pts + 48 * length ss \<and> hd (fold path_step ss pts) = hd pts
      \<and> (ss \<noteq> [] \<longrightarrow> last (fold path_step ss pts) = snd (snd (snd (last ss))))" if "pts \<noteq> []" for ss pts
    using that by (induction ss arbitrary: pts) (simp_all add: path_step_extends)
  obtain s ss where segs: "segs = s # ss" using assms(1) by (cases segs) auto
  have "path_step s [] \<noteq> []" using path_step_starts(1)[of s] by force
  then show ?thesis
    using len[of "path_step s []" ss] path_step_starts[of s] smooth_path_beyond[of segs]
    by (auto simp: smooth_path_fold segs)
qed

theorem smooth_path_in_hull_witness:
  "list_all (\<lambda>p. beyond 0 1 0 p \<and> beyond 1 0 0 p) (smooth_path [((0, 0), (1, 2), (2, 2), (3, 0))])"
proof -
  let ?segs = "[((0, 0), (1, 2), (2, 2), (3, 0))] :: (point \<times> point \<times> point \<times> point) list"
  have "\<forall>u v c. (\<forall>seg \<in> set ?segs. seg_beyond u v c seg) \<longrightarrow> (\<forall>p \<in> set (smooth_path ?segs). beyond u v c p)"
    using smooth_path_in_hull[of ?segs] by simp
  then have h: "\<And>u v c p. \<forall>seg \<in> set ?segs. seg_beyond u v c seg \<Longrightarrow> p \<in> set (smooth_path ?segs) \<Longrightarrow> beyond u v c p"
    by blast
  have "\<forall>seg \<in> set ?segs. seg_beyond 0 1 0 seg" "\<forall>seg \<in> set ?segs. seg_beyond 1 0 0 seg"
    by (simp_all add: seg_beyond_def beyond_def)
  then show ?thesis using h by (simp add: list_all_iff)
qed

text \<open>In each of the seven scenes with a figure the face is drawn at a visual centre between 68 and 76 %
  of the width, and its whole outline is inside the key content box.\<close>

lemma faces_in_key_box:
  assumes "(tid, Inr p) \<in> set (scenes S)" and "tid \<noteq> ''official-crimson-horizon''"
  shows "list_ex face_in (p_layers p)"
  by (rule scenes_layers[OF assms(1)]) (use assms(2) in \<open>simp_all add: scenes_faces\<close>)

lemma faces_in_key_box_example:
  "\<exists>p. (''official-cyan-stage'', Inr p) \<in> set (scenes lower_end) \<and> list_ex face_in (p_layers p)"
proof -
  obtain p where "(''official-cyan-stage'', Inr p) \<in> set (scenes lower_end)"
    by (rule scene_of[of "''official-cyan-stage''" "scene_cyan_stage lower_end" lower_end]) (simp add: scenes_def)
  then show ?thesis using faces_in_key_box[of "''official-cyan-stage''" p lower_end] by auto
qed

text \<open>C31. In six of the eight scenes, whatever the generator draws within its ranges, every single mark that
  reaches the left 52 % of the canvas is faint: an alpha of 110 of 255 at most, after fading. In the cyan
  stage this is not so: the ellipse of the stage starts at 48 % with an alpha of 160.\<close>

theorem left_zone_quiet:
  assumes "fair S" and "fits_when_turned S" and "(tid, Inr p) \<in> set (scenes S)"
    and "tid \<noteq> ''official-violet-starlight''"
  shows "list_all layer_quiet (p_layers p) \<longleftrightarrow> tid \<noteq> ''official-cyan-stage''"
  by (rule scenes_layers[OF assms(3)])
    (use assms in \<open>simp_all add: rose_dawn_quiet fortune_forge_quiet crimson_horizon_quiet sage_breeze_quiet
      spark_notebook_quiet noir_gold_quiet cyan_stage_loud\<close>)

theorem left_zone_quiet_witness:
  "\<exists>p. (''official-noir-gold'', Inr p) \<in> set (scenes lower_end) \<and> list_all layer_quiet (p_layers p)"
proof -
  obtain p where "(''official-noir-gold'', Inr p) \<in> set (scenes lower_end)"
    by (rule scene_of[of "''official-noir-gold''" "scene_noir_gold lower_end" lower_end]) (simp add: scenes_def)
  then show ?thesis using left_zone_quiet[of lower_end "''official-noir-gold''" p] by auto
qed

end
