(* ===== verification/ThemeLedger.thy ===== *)
theory ThemeLedger
  imports ThemeBuild
begin

text \<open>
  The ledger of the theme images (\<open>provenance.py\<close>): two documents, English and Chinese, with a row
  for every official theme that has the digests of its two images as the build reported them. The
  files are opened without an encoding; they are taken to be UTF-8, as the texts are not ASCII.
\<close>

section \<open>The ledger\<close>

text \<open>UTF-8 of the characters U+0080 to U+FFFF.\<close>

definition bmp :: "int list \<Rightarrow> string" where
  "bmp cps = concat (map (\<lambda>c.
     (if c < 2048 then [char_of (192 + c div 64)] else [char_of (224 + c div 4096), char_of (128 + c div 64 mod 64)])
     @ [char_of (128 + c mod 64)]) cps)"

text \<open>\<open>SCENES\<close> and \<open>NAMES\<close>.\<close>

definition scene_table :: "(string \<times> string \<times> int) list" where
  "scene_table =
     [(''official-rose-dawn'', ''scene_rose_dawn'', 20260117),
      (''official-fortune-forge'', ''scene_fortune_forge'', 20260118),
      (''official-crimson-horizon'', ''scene_crimson_horizon'', 20260119),
      (''official-sage-breeze'', ''scene_sage_breeze'', 20260120),
      (''official-spark-notebook'', ''scene_spark_notebook'', 20260121),
      (''official-violet-starlight'', ''scene_violet_starlight'', 20260122),
      (''official-cyan-stage'', ''scene_cyan_stage'', 20260123),
      (''official-noir-gold'', ''scene_noir_gold'', 20260124)]"

definition scene_names :: "(string \<times> string) list" where
  "scene_names =
     [(''official-rose-dawn'', ''Rose Dawn / '' @ bmp [29611, 29808, 26216, 20809]),
      (''official-fortune-forge'', ''Fortune Forge / '' @ bmp [40511, 36816, 24037, 22346]),
      (''official-crimson-horizon'', ''Crimson Horizon / '' @ bmp [36196, 26332, 26032, 22478]),
      (''official-sage-breeze'', ''Sage Breeze / '' @ bmp [40736, 23614, 33609, 28165, 39118]),
      (''official-spark-notebook'', ''Spark Notebook / '' @ bmp [28789, 24863, 25163, 36134]),
      (''official-violet-starlight'', ''Violet Starlight / '' @ bmp [32043, 26332, 26143, 22812]),
      (''official-cyan-stage'', ''Cyan Stage / '' @ bmp [38738, 23706, 33310, 21488]),
      (''official-noir-gold'', ''Noir Gold / '' @ bmp [40657, 37329, 24207, 26354])]"

definition ledger_intro :: "string list" where
  "ledger_intro =
     [''# Official Theme Asset Provenance'' @ nl,
      ''All eight official Reasonix themes ship with **original** artwork generated procedurally'',
      ''from scratch with the scripts in `scripts/official-theme-art/` (numpy + Pillow, fixed seeds,'',
      ''fully reproducible). The visual *direction* was inspired by the MIT-licensed'',
      ''[Codex-Dream-Skin](https://github.com/Fei-Away/Codex-Dream-Skin) concept gallery, but:'' @ nl,
      ''- **No pixels, layouts, UI mockery, text, logos or watermarks were copied** from the reference'',
      ''  project or any third party. Every background is re-authored code output.'',
      ''- All depicted people are **original fictional adults** drawn by the generator: an illustrated'',
      ''  muse (Rose Dawn), a lucky programmer mascot (Fortune Forge), a reader (Sage Breeze), an anime'',
      ''  adult (Spark Notebook), a silhouette muse (Violet Starlight), a digital performer (Cyan Stage)'',
      ''  and a gentleman (Noir Gold). Crimson Horizon contains no people.'',
      ''- Backgrounds contain no windows, sidebars, cards, buttons, inputs or readable text, and are'',
      ''  stripped of EXIF/author metadata.'' @ nl,
      ''Assets are released under the MIT License as part of the Reasonix repository,'',
      [CHR 0xC2, CHR 0xA9] @ '' Reasonix Contributors. Human review: Reasonix Contributors (release PR review).'' @ nl]"

text \<open>What is recorded of a theme: its id, name, generator and the two digests of the report.\<close>

definition scene_prompt :: "string \<Rightarrow> int \<Rightarrow> string" where
  "scene_prompt fn seed =
     ''scripts/official-theme-art/scenes.py::'' @ fn @ '' (seed '' @ int_text seed
     @ '', 2560'' @ [CHR 0xC3, CHR 0x97] @ ''1440 canvas, low-info left 0'' @ [CHR 0xE2, CHR 0x80, CHR 0x93] @ ''52%, key content x 62'' @ [CHR 0xE2, CHR 0x80, CHR 0x93] @ ''88% / y 16'' @ [CHR 0xE2, CHR 0x80, CHR 0x93] @ ''72%)''"

definition ledger_row :: "json \<Rightarrow> string \<Rightarrow> (string \<times> string \<times> string \<times> string \<times> string) res" where
  "ledger_row report tid =
     (case map_of scene_table tid of
        None \<Rightarrow> Inl (KeyErr tid)
      | Some (fn, seed) \<Rightarrow>
          rbind (jidx report tid) (\<lambda>r.
          rbind (case map_of scene_names tid of None \<Rightarrow> Inl (KeyErr tid) | Some n \<Rightarrow> Inr n) (\<lambda>name.
          rbind (rbind (jidx r ''background_sha256'') jstr) (\<lambda>bg.
          rbind (rbind (jidx r ''preview_sha256'') jstr) (\<lambda>pv.
          Inr (tid, name, scene_prompt fn seed, bg, pv))))))"

definition row_line :: "string \<times> string \<times> string \<times> string \<times> string \<Rightarrow> string" where
  "row_line = (\<lambda>(tid, name, prompt, bg, pv).
     ''| '' @ name @ '' (`'' @ tid @ ''`) | `'' @ prompt @ ''` | `'' @ bg @ ''` | `'' @ pv @ ''` |'')"

definition ledger_text :: "string \<Rightarrow> (string \<times> string \<times> string \<times> string \<times> string) list \<Rightarrow> string" where
  "ledger_text today rows =
     join_with nl
       (ledger_intro
        @ [''Generation date: '' @ today @ nl,
           ''| Theme | Generator (final prompt equivalent) | background.webp SHA-256 | preview.webp SHA-256 |'',
           ''| --- | --- | --- | --- |'']
        @ map row_line rows @ [[]])"

definition ledger_zh_intro :: "string list" where
  "ledger_zh_intro =
     [''# '' @ bmp [23448, 26041, 20027, 39064, 32032, 26448, 26469, 28304, 19982, 35768, 21487, 35760, 24405] @ nl,
      bmp [20843, 27454] @ '' Reasonix ''
        @ bmp [23448, 26041, 20027, 39064, 30340, 20840, 37096, 22270, 29255, 22343, 20026] @ ''**''
        @ bmp [21407, 21019] @ ''**'' @ bmp [65292, 30001] @ '' `scripts/official-theme-art/` ''
        @ bmp [20013, 30340, 33050, 26412],
      bmp [20174, 38646, 31243, 24207, 21270, 29983, 25104, 65288] @ ''numpy + Pillow''
        @ bmp [65292, 22266, 23450, 38543, 26426, 31181, 23376, 65292, 21487, 23436, 20840, 22797, 29616, 65289, 12290, 35270, 35273]
        @ ''*'' @ bmp [26041, 21521] @ ''*'' @ bmp [21442, 32771, 20102] @ '' MIT '' @ bmp [35768, 21487, 30340],
      ''[Codex-Dream-Skin](https://github.com/Fei-Away/Codex-Dream-Skin) ''
        @ bmp [27010, 24565, 22270, 24211, 65292, 20294, 26159, 65306] @ nl,
      ''- **''
        @ bmp [26410, 22797, 21046, 21442, 32771, 39033, 30446, 25110, 20219, 20309, 31532, 19977, 26041, 32032, 26448, 30340, 20219, 20309, 20687, 32032]
        @ ''**''
        @ bmp [12289, 24067, 23616, 12289, 30028, 38754, 20803, 32032, 12289, 25991, 23383, 12289, 26631, 24535, 25110, 27700, 21360, 65307],
      ''  ''
        @ bmp [25152, 26377, 32972, 26223, 22343, 20026, 20195, 30721, 37325, 26032, 29983, 25104, 30340, 29420, 31435, 32032, 26448, 12290],
      ''- '' @ bmp [22270, 20013, 20154, 29289, 22343, 20026, 29983, 25104, 22120, 32472, 21046, 30340]
        @ ''**'' @ bmp [21407, 21019, 34394, 26500, 25104, 24180, 20154] @ ''**''
        @ bmp [65306, 25554, 30011, 22899, 24615, 65288, 29611, 29808, 26216, 20809, 65289, 12289, 21513, 31077, 31243, 24207, 21592, 65288, 40511, 36816, 24037, 22346, 65289, 12289],
      ''  ''
        @ bmp [35835, 32773, 65288, 40736, 23614, 33609, 28165, 39118, 65289, 12289, 21160, 28459, 20154, 29289, 65288, 28789, 24863, 25163, 36134, 65289, 12289, 21098, 24433, 22899, 24615, 65288, 32043, 26332, 26143, 22812, 65289, 12289, 25968, 23383, 34920, 28436, 32773, 65288, 38738, 23706, 33310, 21488, 65289, 12289],
      ''  ''
        @ bmp [32453, 22763, 65288, 40657, 37329, 24207, 26354, 65289, 12290, 36196, 26332, 26032, 22478, 19981, 21547, 20154, 29289, 12290],
      ''- ''
        @ bmp [32972, 26223, 20013, 19981, 21547, 31383, 21475, 12289, 20391, 26639, 12289, 21345, 29255, 12289, 25353, 38062, 12289, 36755, 20837, 26694, 25110, 21487, 35835, 25991, 23383, 65292, 24182, 24050, 21435, 38500]
        @ '' EXIF '' @ bmp [31561, 20803, 25968, 25454, 12290] @ nl,
      bmp [32032, 26448, 38543] @ '' Reasonix '' @ bmp [20179, 24211, 20197] @ '' MIT ''
        @ bmp [35768, 21487, 21457, 24067, 65292, 169] @ '' Reasonix Contributors''
        @ bmp [12290, 20154, 24037, 23457, 26680, 65306] @ ''Reasonix Contributors'' @ bmp [65288, 21457, 24067]
        @ '' PR '' @ bmp [23457, 26680, 65289, 12290] @ nl]"

definition row_zh_line :: "string \<times> string \<times> string \<times> string \<times> string \<Rightarrow> string" where
  "row_zh_line = (\<lambda>(tid, name, prompt, bg, pv).
     ''| '' @ name @ bmp [65288] @ ''`'' @ tid @ ''`'' @ bmp [65289] @ '' | `'' @ prompt @ ''` | `'' @ bg @ ''` | `'' @ pv @ ''` |'')"

definition ledger_zh_text :: "string \<Rightarrow> (string \<times> string \<times> string \<times> string \<times> string) list \<Rightarrow> string" where
  "ledger_zh_text today rows =
     join_with nl
       (ledger_zh_intro
        @ [bmp [29983, 25104, 26085, 26399, 65306] @ today @ nl,
           ''| '' @ bmp [20027, 39064] @ '' | ''
        @ bmp [29983, 25104, 22120, 65288, 26368, 32456, 25552, 31034, 35789, 31561, 20215, 29289, 65289]
        @ '' | background.webp SHA-256 | preview.webp SHA-256 |'',
           ''| --- | --- | --- | --- |'']
        @ map row_zh_line rows @ [[]])"

text \<open>The script.\<close>

definition provenance_main ::
    "(string \<Rightarrow> json res) \<Rightarrow> string \<Rightarrow> path \<Rightarrow> path \<Rightarrow> (dirs, unit) prog" where
  "provenance_main loads today out docs =
     pbind (tries (\<lambda>t. rbind (read_bytes t (child out ''report.json'')) loads)) (\<lambda>report.
     pbind (lift (rmap (ledger_row report) (sort (map fst scene_table)))) (\<lambda>rows.
     pseq (edit_files (write_bytes (child docs ''THEME_ASSETS.md'') (ledger_text today rows)))
    (edit_files (write_bytes (child docs ''THEME_ASSETS.zh-CN.md'') (ledger_zh_text today rows)))))"

section \<open>The ledger records the images\<close>

lemma ledger_row_ok:
  assumes "ledger_row (JObj report) tid = Inr row" and "(tid, fn, seed) \<in> set scene_table"
  obtains name e bg pv where "map_of report tid = Some e" "map_of scene_names tid = Some name"
    "jidx e ''background_sha256'' = Inr (JStr bg)" "jidx e ''preview_sha256'' = Inr (JStr pv)"
    "row = (tid, name, scene_prompt fn seed, bg, pv)"
proof -
  have "distinct (map fst scene_table)" by code_simp
  then have "map_of scene_table tid = Some (fn, seed)" using assms(2) by simp
  with assms(1) show thesis
    by (auto simp: ledger_row_def jidx_def[of "JObj report"] jstr_def intro!: that
        split: option.splits json.splits)
qed

text \<open>C39. After a build of the images and a run of the ledger script, the ledger has for every
  official theme a row with the digests of the two images that are on disk.\<close>

theorem ledger_matches_images:
  assumes "art_main digest dumps scenes out themes t = (Inr (), t1)"
    and "provenance_main loads today out docs t1 = (Inr (), t2)"
    and "\<And>j. loads (dumps j) = Inr j" and "(tid, fn, seed) \<in> set scene_table"
  shows "\<exists>rows name b c. read_bytes t2 (child docs ''THEME_ASSETS.md'') = Inr (ledger_text today rows)
    \<and> (tid, name, scene_prompt fn seed, digest b, digest c) \<in> set rows
    \<and> read_bytes t1 (child (child out tid) ''background.webp'') = Inr b
    \<and> read_bytes t1 (child (child out tid) ''preview.webp'') = Inr c"
proof -
  obtain report where r: "map_of t1 (child out ''report.json'') = Some (File (dumps (JObj report)))"
    and true: "\<forall>tid e. map_of report tid = Some e \<longrightarrow> entry_true digest out t1 tid e"
    using art_main_ok[OF assms(1)] by blast
  from assms(2) obtain j rows u where j: "rbind (read_bytes t1 (child out ''report.json'')) loads = Inr j"
    and rows: "rmap (ledger_row j) (sort (map fst scene_table)) = Inr rows"
    and en: "write_bytes (child docs ''THEME_ASSETS.md'') (ledger_text today rows) t1 = Inr u"
    and zh: "write_bytes (child docs ''THEME_ASSETS.zh-CN.md'') (ledger_zh_text today rows) u = Inr t2"
    by (auto simp: provenance_main_def ok_simps)
  have "j = JObj report" using j r assms(3) by (simp add: read_bytes_def)
  moreover have "tid \<in> set (sort (map fst scene_table))" using assms(4) by force
  ultimately obtain row where row: "ledger_row (JObj report) tid = Inr row" "row \<in> set rows"
    using rmap_Inr_mem[OF rows] by blast
  obtain name e bg pv where e: "map_of report tid = Some e" "jidx e ''background_sha256'' = Inr (JStr bg)"
    "jidx e ''preview_sha256'' = Inr (JStr pv)" "row = (tid, name, scene_prompt fn seed, bg, pv)"
    using ledger_row_ok[OF row(1) assms(4)] by metis
  obtain b c where bc: "map_of t1 (child (child out tid) ''background.webp'') = Some (File b)"
    "map_of t1 (child (child out tid) ''preview.webp'') = Some (File c)"
    "e = report_entry (int (length b)) (digest b) (int (length c)) (digest c)"
    using true e(1) unfolding entry_true_def by blast
  have "bg = digest b" "pv = digest c" using e(2,3) by (simp_all add: bc(3) report_entry_def jidx_def)
  moreover have "map_of t2 (child docs ''THEME_ASSETS.md'') = Some (File (ledger_text today rows))"
    using write_bytes_Inr[OF en] write_bytes_Inr[OF zh] by simp
  ultimately show ?thesis using e(4) row(2) bc(1,2) by (auto simp: read_bytes_def)
qed

end
