(* ===== verification/ArtBuild.thy ===== *)
theory ArtBuild
  imports ArtProps ThemeLedger
begin

text \<open>
  The drawn scenes through the image build and the ledger: \<open>build.py\<close> calls the scenes of \<open>scenes.py\<close>, and
  \<open>provenance.py\<close> lists them with the images on disk. Rasterising and encoding a picture is Pillow's.
\<close>

section \<open>Folders the scripts can write to\<close>

text \<open>What \<open>build.py\<close> needs of its output folder: it exists with its ancestors, a theme's folder is a folder or
  is not there, and no folder stands where an image or the report goes.\<close>

definition image_names :: "string list" where
  "image_names = [''background.webp'', ''preview.webp'']"

definition out_ready :: "dirs \<Rightarrow> path \<Rightarrow> string set \<Rightarrow> bool" where
  "out_ready t out tids \<longleftrightarrow> (\<forall>q. below q out \<longrightarrow> dir_at t q)
     \<and> map_of t (child out ''report.json'') \<noteq> Some Dir \<and> ''report.json'' \<notin> tids
     \<and> (\<forall>tid \<in> tids. (map_of t (child out tid) = None \<or> map_of t (child out tid) = Some Dir)
         \<and> (\<forall>n \<in> set image_names. map_of t (child (child out tid) n) \<noteq> Some Dir))"

text \<open>What a run leaves alone.\<close>

definition outside_kept :: "path \<Rightarrow> dirs \<Rightarrow> dirs \<Rightarrow> bool" where
  "outside_kept out t t' \<longleftrightarrow> (\<forall>q. \<not> below out q \<longrightarrow> map_of t' q = map_of t q)"

lemma outside_kept_trans: "outside_kept out t u \<Longrightarrow> outside_kept out u v \<Longrightarrow> outside_kept out t v"
  by (simp add: outside_kept_def)

lemma make_dirs_runs:
  assumes "\<And>k. 0 < k \<Longrightarrow> k \<le> length p \<Longrightarrow> map_of t (take k p) = None \<or> map_of t (take k p) = Some Dir"
  shows "\<exists>t'. make_dirs p t = Inr t'
    \<and> (\<forall>q. map_of t' q = (if \<exists>k. 0 < k \<and> k \<le> length p \<and> q = take k p then Some Dir else map_of t q))"
proof -
  define step where "step k t = (case map_of t (take k p) of
      None \<Rightarrow> Inr (AList.update (take k p) Dir t)
    | Some Dir \<Rightarrow> Inr t
    | Some (File _) \<Rightarrow> Inl (OSErr (path_str (take k p))))" for k t
  have "\<exists>t'. rfold step [1..<Suc m] t = Inr t'
      \<and> (\<forall>q. map_of t' q = (if \<exists>k. 0 < k \<and> k \<le> m \<and> q = take k p then Some Dir else map_of t q))"
    if "m \<le> length p" for m
    using that
  proof (induction m)
    case (Suc m)
    then obtain u where u: "rfold step [1..<Suc m] t = Inr u"
      and at: "\<forall>q. map_of u q = (if \<exists>k. 0 < k \<and> k \<le> m \<and> q = take k p then Some Dir else map_of t q)" by auto
    have split: "[1..<Suc (Suc m)] = [1..<Suc m] @ [Suc m]" by simp
    have new: "\<not> (\<exists>k. 0 < k \<and> k \<le> m \<and> take (Suc m) p = take k p)"
      using Suc.prems by (auto dest!: arg_cong[where f = length])
    have "map_of t (take (Suc m) p) = None \<or> map_of t (take (Suc m) p) = Some Dir"
      using Suc.prems assms[of "Suc m"] by simp
    then obtain v where v: "step (Suc m) u = Inr v" "map_of v = (map_of u)(take (Suc m) p \<mapsto> Dir)"
      using at new by (force simp: step_def update_conv' map_upd_triv)
    have last: "(\<exists>k. 0 < k \<and> k \<le> Suc m \<and> q = take k p) \<longleftrightarrow> q = take (Suc m) p \<or> (\<exists>k. 0 < k \<and> k \<le> m \<and> q = take k p)" for q
      by (metis le_Suc_eq le_refl zero_less_Suc)
    have "map_of v q = (if \<exists>k. 0 < k \<and> k \<le> Suc m \<and> q = take k p then Some Dir else map_of t q)" for q
      unfolding v(2) fun_upd_apply last at[rule_format, of q] by argo
    then show ?case using u v(1) unfolding split rfold_append by (intro exI[of _ v]) simp
  qed simp
  from this[of "length p"] show ?thesis unfolding make_dirs_def step_def[abs_def] by simp
qed

lemma below_take: "below (take k p) p"
  by (simp add: below_def min_def)

lemma below_child_cases: "below q (child p n) \<Longrightarrow> q = child p n \<or> below q p"
  by (cases "length q \<le> length p") (auto simp: below_def child_def)

lemma write_bytes_runs:
  "p \<noteq> [] \<Longrightarrow> map_of t p \<noteq> Some Dir \<Longrightarrow> dir_at t (butlast p) \<Longrightarrow> \<exists>t'. write_bytes p b t = Inr t'"
  by (simp add: write_bytes_def)

lemma webp_loop_runs:
  assumes "p \<noteq> []" and "map_of t p \<noteq> Some Dir" and "dir_at t (butlast p)"
  shows "\<exists>n t' b. webp_loop enc p (Some m) q t = (Inr n, t') \<and> map_of t' = (map_of t)(p \<mapsto> File b)"
    and "\<exists>n t' b. thumb_loop enc p m q t = (Inr n, t') \<and> map_of t' = (map_of t)(p \<mapsto> File b)"
  using write_bytes_runs[OF assms, of "enc q"] webp_loop_result[of p enc q t _ m] thumb_loop_result[of p enc q t _ m]
  by meson+

lemma below_long: "below q p \<Longrightarrow> length q \<le> length p"
  by (metis below_def length_take min.cobounded1 min_def)

section \<open>A theme\<close>

lemma theme_folder_runs:
  assumes "out_ready t out tids" and "tid \<in> tids"
  shows "\<exists>u. make_dirs (child out tid) t = Inr u \<and> map_of u = (map_of t)(child out tid \<mapsto> Dir)"
proof -
  have anc: "map_of t (take k (child out tid)) = Some Dir" if "0 < k" "k \<le> length out" for k
  proof -
    have "take k (child out tid) = take k out" "take k out \<noteq> []" using that by (auto simp: child_def)
    then show ?thesis using assms(1) below_take[of k out] by (auto simp: out_ready_def dir_at_def)
  qed
  have top: "take k (child out tid) = child out tid" if "\<not> k \<le> length out" for k
    using that by (simp add: child_def)
  have "map_of t (child out tid) = None \<or> map_of t (child out tid) = Some Dir"
    using assms by (auto simp: out_ready_def)
  then have "\<exists>u. make_dirs (child out tid) t = Inr u \<and> (\<forall>q. map_of u q
      = (if \<exists>k. 0 < k \<and> k \<le> length (child out tid) \<and> q = take k (child out tid) then Some Dir else map_of t q))"
    using anc top by (intro make_dirs_runs) metis
  then obtain u where u: "make_dirs (child out tid) t = Inr u" and at: "\<forall>q. map_of u q
      = (if \<exists>k. 0 < k \<and> k \<le> length (child out tid) \<and> q = take k (child out tid) then Some Dir else map_of t q)" by blast
  have "map_of u q = ((map_of t)(child out tid \<mapsto> Dir)) q" for q
  proof (cases "q = child out tid")
    case True
    have "\<exists>k. 0 < k \<and> k \<le> length (child out tid) \<and> q = take k (child out tid)"
      by (rule exI[of _ "length (child out tid)"]) (simp add: True child_def)
    then show ?thesis using at True by simp
  next
    case False
    then show ?thesis using at anc top by (metis fun_upd_other)
  qed
  then show ?thesis using u by blast
qed

text \<open>A theme whose scene has the size of the canvas is built, and the folders stay ready.\<close>

lemma build_theme_runs:
  assumes r: "out_ready t out tids" and tid: "tid \<in> tids" and img: "map_of scs tid = Some img" "d_size img = canvas"
  shows "\<exists>e t'. build_theme digest scs out tid t = (Inr e, t') \<and> out_ready t' out tids \<and> outside_kept out t t'"
proof -
  let ?d = "child out tid"
  let ?bg = "child ?d ''background.webp''" and ?th = "child ?d ''preview.webp''"
  have ne: "child p a \<noteq> []" for p a by (simp add: child_def)
  obtain u where u: "make_dirs ?d t = Inr u" "map_of u = (map_of t)(?d \<mapsto> Dir)"
    using theme_folder_runs[OF r tid] by blast
  have free: "map_of t ?bg \<noteq> Some Dir" "map_of t ?th \<noteq> Some Dir"
    using r tid by (auto simp: out_ready_def image_names_def)
  have bg: "map_of u ?bg \<noteq> Some Dir" "dir_at u (butlast ?bg)" using free by (simp_all add: u(2) dir_at_def)
  obtain n v b where v: "webp_loop (d_webp img) ?bg (Some bg_budget) 82 u = (Inr n, v)"
    "map_of v = (map_of u)(?bg \<mapsto> File b)" using webp_loop_runs(1)[OF ne bg] by blast
  have th: "map_of v ?th \<noteq> Some Dir" "dir_at v (butlast ?th)" using free by (simp_all add: u(2) v(2) dir_at_def)
  obtain m w c where w: "thumb_loop (d_thumb img) ?th thumb_budget 76 v = (Inr m, w)"
    "map_of w = (map_of v)(?th \<mapsto> File c)" using webp_loop_runs(2)[OF ne th] by blast
  have w_at: "map_of w = (map_of t)(?d \<mapsto> Dir, ?bg \<mapsto> File b, ?th \<mapsto> File c)"
    by (simp add: u(2) v(2) w(2))
  have "build_theme digest scs out tid t = (Inr (report_entry n (digest b) m (digest c)), w)"
    unfolding build_theme_def img option.case Let_def save_webp_def make_thumb_def sha256_file_def butlast_child
    using u(1) v(1) w(1) by (simp add: ok_simps rbind_Inr_iff w_at)
  moreover have "out_ready w out tids"
    using r tid by (auto simp: out_ready_def w_at dir_at_def dest: below_long)
  moreover have "outside_kept out t w"
    by (auto simp: outside_kept_def w_at below_child)
  ultimately show ?thesis by blast
qed

section \<open>The whole build\<close>

text \<open>The pictures as files: a rasteriser and encoder, for every picture that is drawn.\<close>

definition rendered :: "(picture \<Rightarrow> drawing) \<Rightarrow> 'g studio \<Rightarrow> (string \<times> drawing) list" where
  "rendered render S =
     concat (map (\<lambda>(tid, pic). case pic of Inl e \<Rightarrow> [] | Inr p \<Rightarrow> [(tid, render p)]) (scenes S))"

lemma rendered_ids: "map fst (rendered render S) = map fst (scenes S)"
proof -
  have "map fst (concat (map (\<lambda>(tid, pic). case pic of Inl e \<Rightarrow> [] | Inr p \<Rightarrow> [(tid, render p)]) xs)) = map fst xs"
    if "\<forall>(tid, pic) \<in> set xs. is_ok pic" for xs :: "(string \<times> picture res) list"
    using that by (induction xs) (auto simp: is_ok_def split: sum.splits)
  then show ?thesis using scenes_drawn[of _ _ S] by (auto simp: rendered_def)
qed

lemma table_ids: "map fst scene_table = map fst (scenes S)"
  by (simp add: scene_table_def scenes_def)

lemma scene_size:
  "scene S sd (gradient w h stops d) ls = Inr p \<Longrightarrow> g_width (p_ground p) = w \<and> g_height (p_ground p) = h"
  by (auto simp: scene_def gradient_def)

lemma rendered_size:
  assumes "\<And>p. d_size (render p) = (g_width (p_ground p), g_height (p_ground p))"
    and "map_of (rendered render S) tid = Some img"
  shows "d_size img = canvas"
proof -
  obtain p where p: "(tid, Inr p) \<in> set (scenes S)" "img = render p"
    using map_of_SomeD[OF assms(2)] by (auto simp: rendered_def split: sum.splits)
  have "g_width (p_ground p) = 2560 \<and> g_height (p_ground p) = 1440"
    using p(1) unfolding scenes_def scene_defs set_simps insert_iff prod.inject empty_iff
    by - (elim disjE conjE FalseE; drule sym[of "Inr p"]; erule scene_size)
  then show ?thesis by (simp add: p(2) assms(1) canvas_def)
qed

lemma build_all_runs:
  assumes "out_ready t out tids" and "set ids \<subseteq> tids"
    and "\<And>tid. tid \<in> set ids \<Longrightarrow> \<exists>img. map_of scs tid = Some img \<and> d_size img = canvas"
  shows "\<exists>r t'. build_all digest scs out ids report t = (Inr r, t') \<and> out_ready t' out tids \<and> outside_kept out t t'"
  using assms
proof (induction ids arbitrary: t report)
  case Nil
  then show ?case by (simp add: ok_simps outside_kept_def)
next
  case (Cons tid ids)
  obtain img where "map_of scs tid = Some img" "d_size img = canvas" using Cons.prems(3)[of tid] by auto
  then obtain e u where u: "build_theme digest scs out tid t = (Inr e, u)" "out_ready u out tids" "outside_kept out t u"
    using build_theme_runs[OF Cons.prems(1)] Cons.prems(2) by (metis insert_subset list.simps(15))
  obtain r t' where "build_all digest scs out ids (AList.update tid e report) u = (Inr r, t')" "out_ready t' out tids"
    "outside_kept out u t'"
    using Cons.IH[OF u(2), of "AList.update tid e report"] Cons.prems(2,3) by (metis insert_subset list.set_intros(2) list.simps(15))
  then show ?case using u by (auto simp: ok_simps intro: outside_kept_trans)
qed

lemma ledger_row_runs:
  assumes "(tid, fn, seed) \<in> set scene_table" and "map_of report tid = Some e" and "entry_true digest out t tid e"
  shows "\<exists>row. ledger_row (JObj report) tid = Inr row"
proof -
  have "distinct (map fst scene_table)" by code_simp
  then have seed: "map_of scene_table tid = Some (fn, seed)" using assms(1) by simp
  have "list_all (\<lambda>t. map_of scene_names t \<noteq> None) (map fst scene_table)" by code_simp
  then obtain name where "map_of scene_names tid = Some name" using assms(1) by (fastforce simp: list_all_iff)
  then show ?thesis using assms(2,3) seed
    by (auto simp: ledger_row_def entry_true_def report_entry_def jidx_def jstr_def)
qed

text \<open>The build of all the drawn scenes.\<close>

lemma scenes_build:
  assumes "\<And>p. d_size (render p) = (g_width (p_ground p), g_height (p_ground p))"
    and "out_ready t out (set (map fst (scenes S)))"
  obtains r t1 where "art_main digest dumps (rendered render S) out [] t = (Inr (), t1)" "outside_kept out t t1"
    "map_of t1 (child out ''report.json'') = Some (File (dumps (JObj r)))"
    "\<And>tid. tid \<in> set (map fst (scenes S)) \<Longrightarrow> \<exists>e u. map_of r tid = Some e \<and> entry_true digest out u tid e"
proof -
  let ?tids = "set (map fst (scenes S))"
  let ?scs = "rendered render S"
  have ids: "set (sort (map fst ?scs)) = ?tids" by (simp only: set_sort rendered_ids)
  have imgs: "\<exists>img. map_of ?scs tid = Some img \<and> d_size img = canvas" if tid: "tid \<in> ?tids" for tid
  proof -
    have "tid \<in> fst ` set ?scs" using tid rendered_ids[of render S] by (metis list.set_map)
    then obtain img where "map_of ?scs tid = Some img" by (metis map_of_eq_None_iff option.exhaust)
    then show ?thesis using rendered_size[OF assms(1)] by blast
  qed
  obtain r u where run: "build_all digest ?scs out (sort (map fst ?scs)) [] t = (Inr r, u)"
    and u: "out_ready u out ?tids" "outside_kept out t u"
    using build_all_runs[OF assms(2), of "sort (map fst ?scs)" ?scs] ids imgs by (metis order_refl)
  have entry: "\<exists>e u. map_of r tid = Some e \<and> entry_true digest out u tid e" if "tid \<in> ?tids" for tid
    using build_all_ok[OF run] ids that by fastforce
  have "child out ''report.json'' \<noteq> []" "dir_at u (butlast (child out ''report.json''))"
    "map_of u (child out ''report.json'') \<noteq> Some Dir"
    using u(1) by (auto simp: out_ready_def child_def)
  then obtain t1 where t1: "write_bytes (child out ''report.json'') (dumps (JObj r)) u = Inr t1"
    "map_of t1 = (map_of u)(child out ''report.json'' \<mapsto> File (dumps (JObj r)))"
    using write_bytes_runs write_bytes_Inr by metis
  have "art_main digest dumps ?scs out [] t = (Inr (), t1)"
    using run t1(1) by (simp add: art_main_def ok_simps)
  moreover have "outside_kept out t t1" using u(2) by (auto simp: outside_kept_def t1(2) below_child)
  moreover have "map_of t1 (child out ''report.json'') = Some (File (dumps (JObj r)))" by (simp add: t1(2))
  ultimately show thesis using that entry by blast
qed

text \<open>The ledger over a report of all the themes.\<close>

lemma ledger_runs:
  assumes report: "map_of t (child out ''report.json'') = Some (File (dumps (JObj r)))"
    and entry: "\<And>tid. tid \<in> set (map fst scene_table) \<Longrightarrow> \<exists>e u. map_of r tid = Some e \<and> entry_true digest out u tid e"
    and "\<And>j. loads (dumps j) = Inr j" and docs: "dir_at t docs"
    and free: "map_of t (child docs ''THEME_ASSETS.md'') \<noteq> Some Dir" "map_of t (child docs ''THEME_ASSETS.zh-CN.md'') \<noteq> Some Dir"
  shows "\<exists>t'. provenance_main loads today out docs t = (Inr (), t')"
proof -
  have "\<exists>rows. rmap (ledger_row (JObj r)) (sort (map fst scene_table)) = Inr rows"
  proof (rule rmap_total)
    fix tid assume "tid \<in> set (sort (map fst scene_table))"
    then obtain fn seed where "(tid, fn, seed) \<in> set scene_table" "tid \<in> set (map fst scene_table)" by auto
    then show "\<exists>row. ledger_row (JObj r) tid = Inr row" using ledger_row_runs entry by metis
  qed
  then obtain rows where rows: "rmap (ledger_row (JObj r)) (sort (map fst scene_table)) = Inr rows" by blast
  obtain v where v: "write_bytes (child docs ''THEME_ASSETS.md'') (ledger_text today rows) t = Inr v"
    using write_bytes_runs[of "child docs ''THEME_ASSETS.md''" t] docs free(1) by (auto simp: child_def)
  have "map_of v (child docs ''THEME_ASSETS.zh-CN.md'') \<noteq> Some Dir" "dir_at v docs"
    using docs free(2) write_bytes_Inr[OF v] by (auto simp: dir_at_def)
  then obtain t' where w: "write_bytes (child docs ''THEME_ASSETS.zh-CN.md'') (ledger_zh_text today rows) v = Inr t'"
    using write_bytes_runs[of "child docs ''THEME_ASSETS.zh-CN.md''" v] by (auto simp: child_def)
  have "provenance_main loads today out docs t = (Inr (), t')"
    using rows v w by (simp add: provenance_main_def ok_simps report read_bytes_def assms(3))
  then show ?thesis by blast
qed


end
