(* ===== verification/ThemeWitness.thy ===== *)
theory ThemeWitness
  imports ArtBuild ExportWitness
begin

text \<open>
  A run of the image build and of the ledger script over the eight scenes, each drawn as the same
  two byte strings.
\<close>

definition demo_scenes :: "(string \<times> drawing) list" where
  "demo_scenes = map (\<lambda>s. (fst s, demo_drawing)) scene_table"

definition demo_art_tree :: dirs where
  "demo_art_tree = [([''docs''], Dir)]"

definition demo_hash :: "string \<Rightarrow> string" where
  "demo_hash b = ''#'' @ b"

definition demo_entry :: json where
  "demo_entry = report_entry 11 ''#much larger'' 5 ''#thumb''"

definition demo_report :: json where
  "demo_report = JObj (map (\<lambda>tid. (tid, demo_entry)) (sort (map fst scene_table)))"

definition art_dumps :: "json \<Rightarrow> string" where
  "art_dumps = table_dumps [demo_report]"

definition demo_built :: "unit res \<times> dirs" where
  "demo_built = art_main demo_hash art_dumps demo_scenes [''out''] [] demo_art_tree"

definition demo_ledger :: "unit res \<times> dirs" where
  "demo_ledger = provenance_main (table_loads [demo_report]) ''2026-01-17'' [''out''] [''docs''] (snd demo_built)"

lemma demo_built_ok: "fst demo_built = Inr ()"
  by code_simp

lemma demo_ledger_ok: "fst demo_ledger = Inr ()"
proof -
  have "case rbind (read_bytes (snd demo_built) (child [''out''] ''report.json'')) (table_loads [demo_report])
      of Inr j \<Rightarrow> j = demo_report | _ \<Rightarrow> False" by code_simp
  then have read: "rbind (read_bytes (snd demo_built) (child [''out''] ''report.json'')) (table_loads [demo_report])
      = Inr demo_report" by (simp split: sum.splits)
  have "list_all (\<lambda>tid. map_of scene_table tid \<noteq> None \<and> map_of scene_names tid \<noteq> None
      \<and> jidx demo_report tid = Inr demo_entry) (map fst scene_table)" by code_simp
  moreover have "rbind (jidx demo_entry ''background_sha256'') jstr = Inr ''#much larger''"
    "rbind (jidx demo_entry ''preview_sha256'') jstr = Inr ''#thumb''" by code_simp+
  ultimately have "\<exists>row. ledger_row demo_report tid = Inr row" if "tid \<in> set (sort (map fst scene_table))" for tid
    using that by (auto simp: ledger_row_def list_all_iff)
  then obtain rows where rows: "rmap (ledger_row demo_report) (sort (map fst scene_table)) = Inr rows"
    using rmap_total by blast
  have "map_of (snd demo_built) [''docs''] = Some Dir"
    "map_of (snd demo_built) [''docs'', ''THEME_ASSETS.md''] = None"
    "map_of (snd demo_built) [''docs'', ''THEME_ASSETS.zh-CN.md''] = None" by code_simp+
  then show ?thesis
    using read rows by (simp add: demo_ledger_def provenance_main_def prog_simps write_bytes_def dir_at_def child_def update_conv')
qed

theorem ledger_matches_images_witness:
  "\<exists>rows name b c. read_bytes (snd demo_ledger) [''docs'', ''THEME_ASSETS.md''] = Inr (ledger_text ''2026-01-17'' rows)
    \<and> (''official-cyan-stage'', name, scene_prompt ''scene_cyan_stage'' 20260123, demo_hash b, demo_hash c) \<in> set rows"
proof -
  have built: "art_main demo_hash art_dumps demo_scenes [''out''] [] demo_art_tree = (Inr (), snd demo_built)"
    using demo_built_ok by (simp add: demo_built_def prod_eq_iff)
  have ledger: "provenance_main (table_loads [demo_report]) ''2026-01-17'' [''out''] [''docs''] (snd demo_built)
      = (Inr (), snd demo_ledger)"
    using demo_ledger_ok by (simp add: demo_ledger_def prod_eq_iff)
  have texts: "table_loads [demo_report] (art_dumps j) = Inr j" for j
    unfolding art_dumps_def by (rule table_texts) simp
  have "(''official-cyan-stage'', ''scene_cyan_stage'', 20260123) \<in> set scene_table" by (simp add: scene_table_def)
  from ledger_matches_images[OF built ledger texts this] show ?thesis by (auto simp: child_def)
qed

section \<open>The drawn scenes\<close>

definition demo_rendered :: "picture \<Rightarrow> drawing" where
  "demo_rendered p = \<lparr>d_size = (g_width (p_ground p), g_height (p_ground p)), d_webp = (\<lambda>q. ''image''), d_thumb = (\<lambda>q. ''thumb'')\<rparr>"


end
