(* ===== verification/HostLaunch.thy ===== *)
theory HostLaunch
  imports Dirs Json Polling "HOL-Library.Word"
begin

unbundle bit_operations_syntax

text \<open>
  Starting an installed application through LaunchServices
  (\<open>tools/tauri/launch-services-host.py\<close>): what of the caller's environment reaches it, how the
  one native process is identified, and the exit the kernel reports. The process table, the
  kernel's events and the opener process are what the environment shows to each turn of a loop;
  a wait status is a 32-bit word.
\<close>

section \<open>What is forwarded\<close>

type_synonym env = "(string \<times> string) list"

definition migration_phases :: "string list" where
  "migration_phases = [''before-import'', ''after-import'', ''after-undo'']"

definition legacy_name :: string where
  "legacy_name = ''REASONIX_TAURI_LEGACY_UI_SMOKE''"

definition private_legacy_ui_environment :: "string option \<Rightarrow> env \<Rightarrow> env res" where
  "private_legacy_ui_environment ordinary_ui_phase e =
     (case ordinary_ui_phase of
        None \<Rightarrow>
          if map_of e legacy_name \<noteq> None
          then Inl (ValueErr ''legacy UI fixture requires an explicit ordinary migration phase'')
          else Inr []
      | Some p \<Rightarrow>
          if p \<notin> set migration_phases \<or> map_of e legacy_name \<noteq> Some ''private-source''
          then Inl (ValueErr ''ordinary migration requires a fixed phase and private legacy source'')
          else Inr [(legacy_name, ''private-source'')])"

definition terminal_shell :: "path \<Rightarrow> env" where
  "terminal_shell wroot =
     [(''SHELL'', ''/bin/sh''), (''ENV'', ''/dev/null''), (''BASH_ENV'', ''/dev/null''),
      (''ZDOTDIR'', path_str (child wroot ''home''))]"

definition owned_terminal_shell_environment :: "string \<Rightarrow> path \<Rightarrow> env \<Rightarrow> env res" where
  "owned_terminal_shell_environment ph wroot e =
     (if ph \<noteq> ''ui-integrated-terminal'' then Inr []
      else if list_ex (\<lambda>(n, v). map_of e n \<noteq> Some v) (terminal_shell wroot)
      then Inl (ValueErr ''integrated terminal startup environment is not runner-owned'')
      else Inr (terminal_shell wroot))"

definition window_smoke :: string where
  "window_smoke = ''REASONIX_TAURI_NATIVE_WINDOW_SMOKE''"

definition automated_names :: "string list" where
  "automated_names = [window_smoke, ''REASONIX_TAURI_PACKAGE_SMOKE'', ''REASONIX_TAURI_PROFILE_SMOKE'', legacy_name]"

definition launch_phase :: "env \<Rightarrow> string option \<Rightarrow> bool \<Rightarrow> string res" where
  "launch_phase e ordinary_ui_phase diag =
     (if diag
      then if ordinary_ui_phase \<noteq> None \<or> list_ex (\<lambda>n. map_of e n \<noteq> None) automated_names
           then Inl (ValueErr ''ordinary bot diagnostics cannot mix automated smoke phases'')
           else Inr ''ui-bot-diagnostics''
      else case ordinary_ui_phase of
             Some p \<Rightarrow> Inr (''ui-migration-'' @ p)
           | None \<Rightarrow> (case map_of e window_smoke of None \<Rightarrow> Inl (KeyErr window_smoke) | Some v \<Rightarrow> Inr v))"

definition forwarded_names :: "string list" where
  "forwarded_names =
     [''HOME'', ''TMPDIR'', ''REASONIX_HOME'', ''REASONIX_STATE_HOME'', ''REASONIX_CACHE_HOME'',
      ''REASONIX_PREVIEW_SQLITE_EVENTS'', ''REASONIX_TAURI_PACKAGE_SMOKE'', ''REASONIX_TAURI_PROFILE_SMOKE'',
      window_smoke]"

definition env_option :: "string \<times> string \<Rightarrow> string list" where
  "env_option = (\<lambda>(n, v). [''--env'', n @ ''='' @ v])"

text \<open>An absent name stays absent, but \<open>REASONIX_HOME\<close> is passed as empty.\<close>

definition forwarded :: "env \<Rightarrow> env" where
  "forwarded e =
     concat (map (\<lambda>n. case map_of e n of
                        Some v \<Rightarrow> [(n, v)]
                      | None \<Rightarrow> if n = ''REASONIX_HOME'' then [(n, [])] else []) forwarded_names)"

text \<open>\<open>binary.parents[2]\<close>.\<close>

definition app_bundle :: "path \<Rightarrow> path res" where
  "app_bundle binary =
     (if length binary < 3 then Inl (IndexErr (path_str binary)) else Inr (take (length binary - 3) binary))"

definition opener_names :: "string list" where
  "opener_names = [''PATH'', ''LANG'', ''LC_ALL'', ''USER'', ''LOGNAME'']"

definition opener_environment :: "env \<Rightarrow> env" where
  "opener_environment e =
     concat (map (\<lambda>n. case map_of e n of Some v \<Rightarrow> [(n, v)] | None \<Rightarrow> []) opener_names)"

text \<open>The phase, the command of the opener and its environment, as \<open>__init__\<close> makes them.\<close>

definition launch_request ::
    "path \<Rightarrow> path \<Rightarrow> env \<Rightarrow> string option \<Rightarrow> bool \<Rightarrow> (string \<times> string list \<times> env) res" where
  "launch_request binary wroot e ordinary_ui_phase diag =
     rbind (private_legacy_ui_environment ordinary_ui_phase e) (\<lambda>legacy.
     rbind (launch_phase e ordinary_ui_phase diag) (\<lambda>ph.
     rbind (app_bundle binary) (\<lambda>app.
     rbind (owned_terminal_shell_environment ph wroot e) (\<lambda>shell.
     let log = path_str (child wroot ''launch-services-host.log'') in
     Inr (ph,
       [''/usr/bin/open'', ''-n'', ''-W'', path_str app, ''--stdout'', log, ''--stderr'', log]
       @ concat (map env_option (forwarded e @ [(''REASONIX_DESKTOP_BRIDGE_TOKEN'', ''must-be-cleared'')]
                                 @ legacy @ shell)),
       opener_environment e)))))"

section \<open>The native process\<close>

type_synonym process_row = "int \<times> int \<times> string"

record native_host =
  host_binary :: path
  host_phase :: string
  temporary :: path
  pid_of :: "int option"
  code_of :: "int option"
  monitor :: bool
  opener_live :: bool
  killed :: "int list"
  host_files :: dirs

text \<open>One turn of the loop of \<open>__init__\<close>: the process table, whether the kernel accepts the
  registration, and whether the opener has ended.\<close>

record glimpse =
  rows_seen :: "process_row list"
  registers :: bool
  opener_gone :: bool

definition identify :: "path \<Rightarrow> path \<Rightarrow> path \<Rightarrow> process_row list \<Rightarrow> int option" where
  "identify binary sidecar tmp rows =
     (let parents = map (\<lambda>(pid, parent, txt). parent)
            (filter (\<lambda>(pid, parent, txt). starts_with (path_str sidecar @ '' '') txt
                      \<and> has_sub (''--ready-file '' @ path_str tmp @ ''/'') txt) rows) in
      case parents of
        [p] \<Rightarrow> if list_ex (\<lambda>(pid, parent, txt). pid = p \<and> txt = path_str binary) rows then Some p else None
      | _ \<Rightarrow> None)"

definition launch_turn :: "path \<Rightarrow> native_host \<Rightarrow> glimpse \<Rightarrow> (unit res \<times> native_host) option" where
  "launch_turn sidecar h g =
     (case identify (host_binary h) sidecar (temporary h) (rows_seen g) of
        Some p \<Rightarrow>
          Some (if registers g then Inr () else Inl (OSErr ''kqueue''), h\<lparr>pid_of := Some p, monitor := True\<rparr>)
      | None \<Rightarrow>
          if opener_gone g
          then Some (Inl (RuntimeErr ''LaunchServices exited before exact native host identification''),
                 h\<lparr>opener_live := False\<rparr>)
          else None)"

definition launch_loop :: "path \<Rightarrow> native_host \<Rightarrow> (nat \<Rightarrow> glimpse) \<Rightarrow> nat \<Rightarrow> unit res \<times> native_host" where
  "launch_loop sidecar h obs turns =
     (case poll_until (launch_turn sidecar h) obs turns of
        Some x \<Rightarrow> x
      | None \<Rightarrow> (Inl (RuntimeErr ''LaunchServices did not start one private native host''), h))"

text \<open>\<open>close\<close>; \<open>stops\<close> tells whether the terminated opener ends in its five seconds.\<close>

definition close_host :: "bool \<Rightarrow> (native_host, unit) prog" where
  "close_host stops =
     pseq (modify (\<lambda>h. h\<lparr>monitor := False\<rparr>))
       (\<lambda>h. if \<not> opener_live h then (Inr (), h)
            else if stops then (Inr (), h\<lparr>opener_live := False\<rparr>) else (Inl (TimeoutErr ''opener''), h))"

text \<open>\<open>except BaseException: self.close(); raise\<close>.\<close>

definition start_host :: "path \<Rightarrow> (nat \<Rightarrow> glimpse) \<Rightarrow> nat \<Rightarrow> bool \<Rightarrow> (native_host, unit) prog" where
  "start_host sidecar obs turns stops =
     on_raise (\<lambda>h. launch_loop sidecar h obs turns) (\<lambda>e. close_host stops)"

definition kill_host :: "process_row list \<Rightarrow> native_host \<Rightarrow> native_host" where
  "kill_host rows h =
     (case pid_of h of
        None \<Rightarrow> h
      | Some p \<Rightarrow> if list_ex (\<lambda>(pid, parent, txt). pid = p \<and> txt = path_str (host_binary h)) rows
                  then h\<lparr>killed := killed h @ [p]\<rparr> else h)"

section \<open>The exit\<close>

text \<open>\<open>os.WIFEXITED\<close>, \<open>os.WIFSIGNALED\<close> and the values behind them, as macOS defines them.\<close>

type_synonym wait_status = "32 word"

definition if_exited :: "wait_status \<Rightarrow> bool" where
  "if_exited s = (s AND 0x7F = 0)"

definition if_signaled :: "wait_status \<Rightarrow> bool" where
  "if_signaled s = (s AND 0x7F \<noteq> 0 \<and> s AND 0x7F \<noteq> 0x7F)"

definition exit_status :: "wait_status \<Rightarrow> int" where
  "exit_status s = uint (drop_bit 8 s AND 0xFF)"

definition term_signal :: "wait_status \<Rightarrow> int" where
  "term_signal s = uint (s AND 0x7F)"

definition wait_code :: "wait_status \<Rightarrow> int res" where
  "wait_code s =
     (if if_exited s then Inr (exit_status s)
      else if if_signaled s then Inr (- term_signal s)
      else Inl (RuntimeErr ''native host kernel status is not terminal''))"

text \<open>A kernel event: the process it is about, whether it is an exit, and its data.\<close>

type_synonym kevent = "int \<times> bool \<times> wait_status"

definition exit_receipt :: "native_host \<Rightarrow> wait_status \<Rightarrow> int \<Rightarrow> json" where
  "exit_receipt h status code = JObj
     [(''phase'', JStr (host_phase h)),
      (''pid'', case pid_of h of None \<Rightarrow> JNull | Some p \<Rightarrow> JInt p),
      (''rawKernelStatus'', JInt (uint status)), (''exitCode'', JInt code),
      (''signaled'', JBool (if_signaled status))]"

definition receipt_path :: "native_host \<Rightarrow> path" where
  "receipt_path h = child (temporary h) (''launch-services-'' @ host_phase h @ ''-exit.json'')"

definition poll_host :: "(json \<Rightarrow> string) \<Rightarrow> kevent option \<Rightarrow> (native_host, int option) prog" where
  "poll_host dumps event h =
     (if code_of h \<noteq> None \<or> \<not> monitor h then (Inr (code_of h), h)
      else case event of
             None \<Rightarrow> (Inr None, h)
           | Some (ident, exited, status) \<Rightarrow>
               if Some ident \<noteq> pid_of h \<or> \<not> exited
               then (Inl (RuntimeErr ''native host kernel receipt differs from exact PID''), h)
               else case wait_code status of
                      Inl e \<Rightarrow> (Inl e, h)
                    | Inr c \<Rightarrow>
                        let h = h\<lparr>code_of := Some c\<rparr> in
                        (case write_bytes (receipt_path h) (dumps (exit_receipt h status c) @ nl) (host_files h) of
                           Inl e \<Rightarrow> (Inl e, h)
                         | Inr t \<Rightarrow> (Inr (Some c), h\<lparr>host_files := t\<rparr>)))"

text \<open>The loop of \<open>wait\<close> asks once more when its time is over.\<close>

fun wait_loop :: "(json \<Rightarrow> string) \<Rightarrow> (nat \<Rightarrow> kevent option) \<Rightarrow> nat \<Rightarrow> nat \<Rightarrow> (native_host, int) prog" where
  "wait_loop dumps obs k turns =
     pbind (poll_host dumps (obs k)) (\<lambda>c.
     case c of
       Some c \<Rightarrow> ret c
     | None \<Rightarrow> (case turns of 0 \<Rightarrow> raise (TimeoutErr ''wait'') | Suc n \<Rightarrow> wait_loop dumps obs (Suc k) n))"

declare wait_loop.simps [simp del]

definition wait_host :: "(json \<Rightarrow> string) \<Rightarrow> (nat \<Rightarrow> kevent option) \<Rightarrow> nat \<Rightarrow> int res \<Rightarrow> (native_host, int) prog" where
  "wait_host dumps obs turns opener =
     pbind (wait_loop dumps obs 0 turns) (\<lambda>c.
     pbind (lift opener) (\<lambda>status.
     pseq (modify (\<lambda>h. h\<lparr>opener_live := False\<rparr>))
    (pseq (require (status = 0) (RuntimeErr ''LaunchServices opener failed after native host exit''))
    (ret c))))"

section \<open>What the environment can reach\<close>

definition launch_names :: "string list" where
  "launch_names = forwarded_names @ automated_names @ opener_names @ [''SHELL'', ''ENV'', ''BASH_ENV'', ''ZDOTDIR'']"

lemma launch_request_cong:
  assumes agree: "\<forall>n \<in> set launch_names. map_of e n = map_of e' n"
  shows "launch_request binary wroot e ordinary_ui_phase diag = launch_request binary wroot e' ordinary_ui_phase diag"
proof -
  note names = launch_names_def forwarded_names_def automated_names_def opener_names_def
  have names_agree: "map_of e legacy_name = map_of e' legacy_name" "map_of e window_smoke = map_of e' window_smoke"
    using agree by (simp_all add: names)
  have "private_legacy_ui_environment ordinary_ui_phase e = private_legacy_ui_environment ordinary_ui_phase e'"
    unfolding private_legacy_ui_environment_def names_agree by (rule refl)
  moreover have "list_ex (\<lambda>n. map_of e n \<noteq> None) automated_names = list_ex (\<lambda>n. map_of e' n \<noteq> None) automated_names"
    using agree by (simp add: names del: not_None_eq)
  then have "launch_phase e ordinary_ui_phase diag = launch_phase e' ordinary_ui_phase diag"
    unfolding launch_phase_def names_agree by (simp only:)
  moreover have "owned_terminal_shell_environment ph wroot e = owned_terminal_shell_environment ph wroot e'" for ph
    using agree by (simp add: owned_terminal_shell_environment_def terminal_shell_def names)
  moreover have "forwarded e = forwarded e'"
    unfolding forwarded_def using agree by (intro arg_cong[where f = concat] map_cong) (auto simp: launch_names_def)
  moreover have "opener_environment e = opener_environment e'"
    unfolding opener_environment_def using agree
    by (intro arg_cong[where f = concat] map_cong) (auto simp: launch_names_def)
  ultimately show ?thesis
    by (simp add: launch_request_def)
qed

section \<open>Starting\<close>

interpretation launching: deadline_poll "launch_loop sidecar h" "launch_turn sidecar h" id
  "(Inl (RuntimeErr ''LaunchServices did not start one private native host''), h)" for sidecar h
proof
  fix k turns :: nat and obs x
  assume "k < turns" "launch_turn sidecar h (obs k) = Some x" "\<forall>j < k. launch_turn sidecar h (obs j) = None"
  then show "launch_loop sidecar h obs turns = id x"
    using poll_until_hit[of k turns "launch_turn sidecar h" obs x] by (simp add: launch_loop_def)
next
  fix turns :: nat and obs
  assume "\<forall>j < turns. launch_turn sidecar h (obs j) = None"
  then show "launch_loop sidecar h obs turns = (Inl (RuntimeErr ''LaunchServices did not start one private native host''), h)"
    using poll_until_miss[of turns "launch_turn sidecar h" obs] by (simp add: launch_loop_def)
qed

lemma identify_row:
  "identify binary sidecar tmp rows = Some p \<Longrightarrow> \<exists>parent. (p, parent, path_str binary) \<in> set rows"
  by (auto simp: identify_def Let_def list_ex_iff split: list.splits if_splits)

text \<open>The sidecar that names the private folder is the only one, and a child of the process.\<close>

lemma identify_child:
  assumes "identify binary sidecar tmp rows = Some p"
  shows "\<exists>pid txt. filter (\<lambda>(pid, parent, txt). starts_with (path_str sidecar @ '' '') txt
      \<and> has_sub (''--ready-file '' @ path_str tmp @ ''/'') txt) rows = [(pid, p, txt)]"
proof -
  let ?own = "filter (\<lambda>(pid, parent, txt). starts_with (path_str sidecar @ '' '') txt
      \<and> has_sub (''--ready-file '' @ path_str tmp @ ''/'') txt) rows"
  have "map (\<lambda>(pid, parent, txt). parent) ?own = [p]"
    using assms by (auto simp: identify_def Let_def split: list.splits if_splits)
  then obtain r where "?own = [r]" "(\<lambda>(pid, parent, txt). parent) r = p" by auto
  then show ?thesis by (cases r) simp
qed

lemma launch_turn_ok:
  assumes "launch_turn sidecar h g = Some (Inr u, h')"
  shows "\<exists>p. identify (host_binary h) sidecar (temporary h) (rows_seen g) = Some p
    \<and> h' = h\<lparr>pid_of := Some p, monitor := True\<rparr>"
  using assms by (auto simp: launch_turn_def split: option.splits if_splits)

lemma launch_turn_opener: "launch_turn sidecar h g = Some (r, h') \<Longrightarrow> host_binary h' = host_binary h"
  by (auto simp: launch_turn_def split: option.splits if_splits)

section \<open>Exits\<close>

lemma exit_status_range: "0 \<le> exit_status s \<and> exit_status s \<le> 255"
proof -
  have "uint (drop_bit 8 s AND 0xFF) \<le> uint (0xFF :: 32 word)"
    by (rule word_and_le1 [THEN word_le_def [THEN iffD1]])
  then show ?thesis by (simp add: exit_status_def)
qed

lemma term_signal_range:
  assumes "if_signaled s"
  shows "1 \<le> term_signal s \<and> term_signal s \<le> 126"
proof -
  have "uint (s AND 0x7F) \<le> uint (0x7F :: 32 word)"
    by (rule word_and_le1 [THEN word_le_def [THEN iffD1]])
  moreover have "uint (s AND 0x7F) \<noteq> uint (0x7F :: 32 word)" "uint (s AND 0x7F) \<noteq> 0"
    using assms by (auto simp: if_signaled_def word_uint_eq_iff)
  moreover have "0 \<le> uint (s AND 0x7F)" "uint (0x7F :: 32 word) = 127" by simp_all
  ultimately show ?thesis unfolding term_signal_def by linarith
qed

lemma wait_code_range: "wait_code s = Inr c \<Longrightarrow> - 126 \<le> c \<and> c \<le> 255"
  using exit_status_range[of s] term_signal_range[of s] by (auto simp: wait_code_def split: if_splits)

lemma wait_code_zero: "wait_code s = Inr 0 \<longleftrightarrow> if_exited s \<and> exit_status s = 0"
  using term_signal_range[of s] by (auto simp: wait_code_def)

end
