(* ===== verification/HostProps.thy ===== *)
theory HostProps
  imports HostLaunch
begin

text \<open>
  What holds of a launch: the caller's environment reaches the application through a fixed list of
  names only, a failed start leaves nothing watched, and \<open>wait\<close> reports the exit of the one process.
\<close>

section \<open>Waiting\<close>

lemma poll_host_none: "code_of h = None \<Longrightarrow> poll_host dumps None h = (Inr None, h)"
  by (simp add: poll_host_def)

lemma wait_loop_skip:
  assumes "code_of h = None" and "\<forall>i < j. obs (k + i) = None" and "j \<le> turns"
  shows "wait_loop dumps obs k turns h = wait_loop dumps obs (k + j) (turns - j) h"
  using assms(2,3)
proof (induction j arbitrary: k turns)
  case (Suc j)
  obtain n where turns: "turns = Suc n" using Suc.prems(2) by (cases turns) auto
  have "obs k = None" using Suc.prems(1) by (metis add_0_right zero_less_Suc)
  then have "wait_loop dumps obs k turns h = wait_loop dumps obs (Suc k) n h"
    by (simp add: turns wait_loop.simps[of dumps obs k "Suc n"] prog_simps poll_host_none[OF assms(1)])
  moreover have "\<forall>i < j. obs (Suc k + i) = None" using Suc.prems(1) by (metis Suc_less_eq add_Suc_shift)
  ultimately show ?case using Suc.IH[of "Suc k" n] Suc.prems(2) turns by simp
qed simp

lemma wait_loop_quiet:
  assumes "code_of h = None" and "\<forall>i \<le> turns. obs (k + i) = None"
  shows "wait_loop dumps obs k turns h = (Inl (TimeoutErr ''wait''), h)"
proof -
  have "wait_loop dumps obs k turns h = wait_loop dumps obs (k + turns) 0 h"
    using wait_loop_skip[OF assms(1), of turns obs k turns] assms(2) by simp
  then show ?thesis
    using assms by (simp add: wait_loop.simps[of dumps obs "k + turns"] prog_simps poll_host_none)
qed

lemma wait_loop_event:
  assumes "code_of h = None" and "monitor h" and "obs k = Some ev"
  shows "wait_loop dumps obs k turns h = (Inr c, h') \<longleftrightarrow> poll_host dumps (Some ev) h = (Inr (Some c), h')"
proof (cases "poll_host dumps (Some ev) h")
  case (Pair r s)
  have "r \<noteq> Inr None" using Pair assms
    by (auto simp: poll_host_def Let_def split: prod.splits if_splits sum.splits)
  then show ?thesis
    using assms(3) Pair by (auto simp: wait_loop.simps[of dumps obs k turns] prog_simps split: sum.splits option.splits)
qed

lemma poll_host_ok:
  assumes "code_of h = None" and "monitor h"
  shows "poll_host dumps (Some (ident, exited, status)) h = (Inr (Some c), h')
    \<longleftrightarrow> pid_of h = Some ident \<and> exited \<and> wait_code status = Inr c
      \<and> (\<exists>t. write_bytes (receipt_path h) (dumps (exit_receipt h status c) @ nl) (host_files h) = Inr t
           \<and> h' = h\<lparr>code_of := Some c, host_files := t\<rparr>)"
  using assms
  by (auto simp: poll_host_def Let_def receipt_path_def exit_receipt_def split: sum.splits if_splits)

lemma first_event:
  fixes obs :: "nat \<Rightarrow> kevent option" and turns :: nat
  obtains (quiet) "\<forall>i \<le> turns. obs i = None"
    | (event) j ev where "j \<le> turns" "obs j = Some ev" "\<forall>i < j. obs i = None"
proof (cases "\<exists>j. j \<le> turns \<and> obs j \<noteq> None")
  case True
  define j where "j = (LEAST j. j \<le> turns \<and> obs j \<noteq> None)"
  have j: "j \<le> turns \<and> obs j \<noteq> None" unfolding j_def using True by (rule LeastI_ex)
  have "obs i = None" if "i < j" for i
    using not_less_Least[of i "\<lambda>j. j \<le> turns \<and> obs j \<noteq> None"] that j unfolding j_def[symmetric]
    by (cases "obs i") auto
  with j event show thesis by blast
qed (use quiet in blast)

lemma wait_loop_iff:
  assumes "code_of h = None" and "monitor h" and "pid_of h = Some p"
  shows "wait_loop dumps obs 0 turns h = (Inr c, h') \<longleftrightarrow>
    (\<exists>j status t. j \<le> turns \<and> (\<forall>i < j. obs i = None) \<and> obs j = Some (p, True, status) \<and> wait_code status = Inr c
      \<and> write_bytes (receipt_path h) (dumps (exit_receipt h status c) @ nl) (host_files h) = Inr t
      \<and> h' = h\<lparr>code_of := Some c, host_files := t\<rparr>)" (is "?run \<longleftrightarrow> ?spec")
proof (cases rule: first_event[of turns obs])
  case quiet
  then show ?thesis using wait_loop_quiet[OF assms(1), of turns obs 0 dumps] by auto
next
  case (event j ev)
  obtain ident exited status where ev: "ev = (ident, exited, status)" by (cases ev)
  have "?run \<longleftrightarrow> poll_host dumps (Some ev) h = (Inr (Some c), h')"
    using wait_loop_skip[OF assms(1), of j obs 0 turns dumps] wait_loop_event[OF assms(1,2), of obs j ev dumps "turns - j"]
      event by simp
  also have "\<dots> \<longleftrightarrow> pid_of h = Some ident \<and> exited \<and> wait_code status = Inr c
      \<and> (\<exists>t. write_bytes (receipt_path h) (dumps (exit_receipt h status c) @ nl) (host_files h) = Inr t
           \<and> h' = h\<lparr>code_of := Some c, host_files := t\<rparr>)"
    unfolding ev by (rule poll_host_ok[OF assms(1,2)])
  also have "\<dots> \<longleftrightarrow> ?spec"
  proof
    assume "pid_of h = Some ident \<and> exited \<and> wait_code status = Inr c
      \<and> (\<exists>t. write_bytes (receipt_path h) (dumps (exit_receipt h status c) @ nl) (host_files h) = Inr t
           \<and> h' = h\<lparr>code_of := Some c, host_files := t\<rparr>)"
    then show ?spec using event ev assms(3) by auto
  next
    assume ?spec
    then obtain i st t where i: "i \<le> turns" "\<forall>l < i. obs l = None" "obs i = Some (p, True, st)" "wait_code st = Inr c"
      "write_bytes (receipt_path h) (dumps (exit_receipt h st c) @ nl) (host_files h) = Inr t"
      "h' = h\<lparr>code_of := Some c, host_files := t\<rparr>" by blast
    have "i = j" using i(2,3) event(2,3) by (metis linorder_neqE_nat option.distinct(1))
    with i(3) event(2) ev have "ident = p" "exited" "st = status" by auto
    then show "pid_of h = Some ident \<and> exited \<and> wait_code status = Inr c
      \<and> (\<exists>t. write_bytes (receipt_path h) (dumps (exit_receipt h status c) @ nl) (host_files h) = Inr t
           \<and> h' = h\<lparr>code_of := Some c, host_files := t\<rparr>)"
      using i(4-6) assms(3) by auto
  qed
  finally show ?thesis .
qed

section \<open>Properties\<close>

text \<open>C28. Two environments that agree on the names of the launch give the same launch: no other
  variable of the caller, such as a credential or a proxy, reaches the opener or the application or
  decides anything about the launch.\<close>

theorem ambient_not_forwarded:
  assumes "\<forall>n \<in> set launch_names. map_of e n = map_of e' n"
  shows "launch_request binary wroot e ordinary_ui_phase diag = launch_request binary wroot e' ordinary_ui_phase diag"
  using assms by (rule launch_request_cong)

text \<open>A start that returns has seen, in a turn before its deadline, exactly one sidecar with the
  private ready file whose parent is a process that runs exactly the host's binary, and watches that
  process; a start that raises watches nothing, and has ended the opener if the opener can be ended.\<close>

lemma start_watches_or_cleans:
  assumes "start_host sidecar obs turns stops h = (r, h')"
  shows "case r of
      Inr _ \<Rightarrow> \<exists>k p parent. k < turns \<and> identify (host_binary h) sidecar (temporary h) (rows_seen (obs k)) = Some p
        \<and> (p, parent, path_str (host_binary h)) \<in> set (rows_seen (obs k)) \<and> pid_of h' = Some p \<and> monitor h'
    | Inl _ \<Rightarrow> \<not> monitor h' \<and> (stops \<longrightarrow> \<not> opener_live h')"
proof (cases "fst (launch_loop sidecar h obs turns)")
  case (Inr u)
  then have loop: "launch_loop sidecar h obs turns = (Inr u, h')" "r = Inr u"
    using assms by (auto simp: start_host_def on_raise_def prod_eq_iff split: prod.splits)
  show ?thesis
  proof (cases rule: launching.cases_of[of turns sidecar h obs])
    case (found k x)
    then have "launch_turn sidecar h (obs k) = Some (Inr u, h')" using loop by simp
    with found(1) identify_row show ?thesis using launch_turn_ok[of sidecar h "obs k" u h'] loop(2) by fastforce
  qed (use loop in simp)
next
  case (Inl e)
  then show ?thesis
    using assms by (auto simp: start_host_def on_raise_def close_host_def prog_simps split: prod.splits if_splits sum.splits)
qed

text \<open>C29. \<open>wait\<close> returns a code exactly when, no later than its deadline, the kernel's first event is
  the exit of the host's own process with that code, the receipt of it can be written, and the opener
  ended with status 0; then the receipt is on disk. Anything else is an exception.\<close>

theorem wait_reports_exit:
  assumes "code_of h = None" and "monitor h" and "pid_of h = Some p"
  shows "wait_host dumps obs turns opener h = (Inr c, h') \<longleftrightarrow> opener = Inr 0 \<and>
    (\<exists>j status t. j \<le> turns \<and> (\<forall>i < j. obs i = None) \<and> obs j = Some (p, True, status) \<and> wait_code status = Inr c
      \<and> - 126 \<le> c \<and> c \<le> 255
      \<and> write_bytes (receipt_path h) (dumps (exit_receipt h status c) @ nl) (host_files h) = Inr t
      \<and> h' = h\<lparr>code_of := Some c, host_files := t, opener_live := False\<rparr>)"
proof -
  have "wait_host dumps obs turns opener h = (Inr c, h') \<longleftrightarrow> opener = Inr 0
      \<and> (\<exists>s. wait_loop dumps obs 0 turns h = (Inr c, s) \<and> h' = s\<lparr>opener_live := False\<rparr>)"
    by (cases opener) (auto simp: wait_host_def ok_simps)
  also have "\<dots> \<longleftrightarrow> opener = Inr 0 \<and> (\<exists>j status t. j \<le> turns \<and> (\<forall>i < j. obs i = None)
      \<and> obs j = Some (p, True, status) \<and> wait_code status = Inr c
      \<and> write_bytes (receipt_path h) (dumps (exit_receipt h status c) @ nl) (host_files h) = Inr t
      \<and> h' = h\<lparr>code_of := Some c, host_files := t, opener_live := False\<rparr>)"
    unfolding wait_loop_iff[OF assms]
    by (rule conj_cong[OF refl], rule iffI; elim exE conjE; (hypsubst, intro exI conjI; (assumption | rule refl))?)
  finally have run: "wait_host dumps obs turns opener h = (Inr c, h') \<longleftrightarrow> \<dots>" .
  show ?thesis
  proof (cases "- 126 \<le> c \<and> c \<le> 255")
    case True
    then show ?thesis unfolding run by simp
  next
    case False
    then have "wait_code s \<noteq> Inr c" for s using wait_code_range by blast
    then show ?thesis unfolding run by simp
  qed
qed

section \<open>Witnesses\<close>

definition demo_env :: env where
  "demo_env = [(''HOME'', ''/private/h''), (window_smoke, ''ui-export''), (''PATH'', ''/bin'')]"

definition demo_secrets :: env where
  "demo_secrets = (''OPENAI_API_KEY'', ''sk-1'') # (''HTTPS_PROXY'', ''http://p'') # demo_env"

definition demo_app :: path where
  "demo_app = [''A.app'', ''Contents'', ''MacOS'', ''reasonix-tauri'']"

definition demo_bridge :: path where
  "demo_bridge = [''A.app'', ''Contents'', ''MacOS'', ''bridge'']"

lemma demo_agree: "\<forall>n \<in> set launch_names. map_of demo_secrets n = map_of demo_env n"
  by code_simp

theorem ambient_not_forwarded_witness:
  "launch_request demo_app [''r''] demo_secrets None False = launch_request demo_app [''r''] demo_env None False
    \<and> is_ok (launch_request demo_app [''r''] demo_env None False)"
proof
  show "is_ok (launch_request demo_app [''r''] demo_env None False)" by code_simp
qed (rule ambient_not_forwarded[OF demo_agree])

definition demo_host :: native_host where
  "demo_host = \<lparr>host_binary = demo_app, host_phase = ''ui-export'', temporary = [''t''], pid_of = None,
     code_of = None, monitor = False, opener_live = True, killed = [], host_files = [([''t''], Dir)]\<rparr>"

definition demo_glimpse :: "nat \<Rightarrow> glimpse" where
  "demo_glimpse k = \<lparr>rows_seen =
       (if k = 0 then [] else
        [(7, 1, path_str demo_app), (8, 7, path_str demo_bridge @ '' --ready-file '' @ path_str [''t''] @ ''/r.json'')]),
     registers = True, opener_gone = False\<rparr>"

lemma demo_started: "start_host demo_bridge demo_glimpse 5 True demo_host
    = (Inr (), demo_host\<lparr>pid_of := Some 7, monitor := True\<rparr>)"
  by code_simp

lemma start_watches_or_cleans_example:
  "\<exists>k p parent. k < 5 \<and> (p, parent, path_str demo_app) \<in> set (rows_seen (demo_glimpse k)) \<and> p = 7"
  using start_watches_or_cleans[OF demo_started] by (auto simp: demo_host_def)

definition demo_watched :: native_host where
  "demo_watched = demo_host\<lparr>pid_of := Some 7, monitor := True\<rparr>"

definition demo_events :: "nat \<Rightarrow> kevent option" where
  "demo_events k = (if k < 2 then None else Some (7, True, 768))"

theorem wait_reports_exit_witness:
  "\<exists>h'. wait_host (\<lambda>_. ''receipt'') demo_events 4 (Inr 0) demo_watched = (Inr 3, h')"
proof -
  have h: "code_of demo_watched = None" "monitor demo_watched" "pid_of demo_watched = Some 7"
    by (simp_all add: demo_watched_def demo_host_def)
  have "wait_code 768 = Inr 3" by code_simp
  moreover have "is_ok (write_bytes (receipt_path demo_watched) (''receipt'' @ nl) (host_files demo_watched))"
    by code_simp
  then obtain t where "write_bytes (receipt_path demo_watched) (''receipt'' @ nl) (host_files demo_watched) = Inr t"
    by (auto simp: is_ok_def split: sum.splits)
  moreover have "\<forall>i < 2. demo_events i = None" "demo_events 2 = Some (7, True, 768)" by (simp_all add: demo_events_def)
  ultimately have "wait_host (\<lambda>_. ''receipt'') demo_events 4 (Inr 0) demo_watched
      = (Inr 3, demo_watched\<lparr>code_of := Some 3, host_files := t, opener_live := False\<rparr>)"
    by (intro wait_reports_exit[OF h, THEN iffD2] conjI refl exI[of _ 2] exI[of _ 768] exI[of _ t]) simp_all
  then show ?thesis ..
qed

end
