(* ===== verification/PackagedApp.thy ===== *)
theory PackagedApp
  imports HostLaunch Receipts
begin

text \<open>
  The smoke test of a packaged application (\<open>tools/tauri/smoke-packaged-app.py\<close>): the process
  table, the sidecar's readiness file and environment, the private credential profile, and the run
  that starts the host, waits for one ready sidecar, lets the host exit and kills what is left.
  What \<open>ps\<close>, the kernel and the server answer is given to the model; \<open>is_loopback\<close> of an address
  and the reader of property lists are parameters.
\<close>

section \<open>The process table\<close>

text \<open>\<open>s.split(None, n)\<close> and \<open>s.isdigit()\<close> of ASCII text.\<close>

fun split_words :: "nat \<Rightarrow> string \<Rightarrow> string list" where
  "split_words n s =
     (let s = dropWhile ascii_space s in
      if s = [] then []
      else case n of
             0 \<Rightarrow> [s]
           | Suc m \<Rightarrow> takeWhile (\<lambda>c. \<not> ascii_space c) s # split_words m (dropWhile (\<lambda>c. \<not> ascii_space c) s))"

declare split_words.simps [simp del]

definition is_decimal :: "string \<Rightarrow> bool" where
  "is_decimal s = (s \<noteq> [] \<and> list_all (\<lambda>c. c \<in> set ''0123456789'') s)"

definition decimal_value :: "string \<Rightarrow> int" where
  "decimal_value s = fold (\<lambda>c n. 10 * n + of_char c - 48) s 0"

definition process_of :: "string \<Rightarrow> process_row list" where
  "process_of line =
     (case split_words 2 (strip line) of
        [a, b, c] \<Rightarrow> if is_decimal a \<and> is_decimal b then [(decimal_value a, decimal_value b, c)] else []
      | _ \<Rightarrow> [])"

definition processes :: "string \<Rightarrow> process_row list" where
  "processes out = concat (map process_of (split_lines out))"

definition own_sidecars :: "path \<Rightarrow> path \<Rightarrow> process_row list \<Rightarrow> int list" where
  "own_sidecars tmp binary rows =
     map fst (filter (\<lambda>(pid, parent, txt). starts_with (path_str binary) txt
                        \<and> has_sub (''--ready-file '' @ path_str tmp @ ''/'') txt) rows)"

text \<open>\<open>s.partition(p)\<close> and \<open>s.rpartition(c)\<close>: before, whether it is there, after.\<close>

fun partition_at :: "string \<Rightarrow> string \<Rightarrow> string \<times> bool \<times> string" where
  "partition_at p [] = ([], False, [])"
| "partition_at p (c # s) =
     (if starts_with p (c # s) then ([], True, drop (length p) (c # s))
      else case partition_at p s of (a, found, b) \<Rightarrow> (c # a, found, b))"

definition rpartition_char :: "char \<Rightarrow> string \<Rightarrow> string \<times> bool \<times> string" where
  "rpartition_char d s =
     (let after = rev (takeWhile (\<lambda>c. c \<noteq> d) (rev s)) in
      if length after = length s then ([], False, s)
      else (take (length s - length after - 1) s, True, after))"

definition app_marker :: string where
  "app_marker = ''.app/Contents/MacOS/reasonix-tauri''"

text \<open>A property list that cannot be read is passed over; \<open>plist\<close> maps the text of its path to
  what it holds.\<close>

fun matching_package_is_running :: "(string \<Rightarrow> json res) \<Rightarrow> string \<Rightarrow> process_row list \<Rightarrow> bool res" where
  "matching_package_is_running plist identifier [] = Inr False"
| "matching_package_is_running plist identifier ((pid, ppid, command) # rows) =
     (case partition_at app_marker command of
        (prefix, found, suffix) \<Rightarrow>
          if \<not> found \<or> (suffix \<noteq> [] \<and> \<not> starts_with '' '' suffix)
          then matching_package_is_running plist identifier rows
          else case rbind (plist (prefix @ ''.app/Contents/Info.plist'')) (\<lambda>d. jget d ''CFBundleIdentifier'') of
                 Inr v \<Rightarrow> if jeq v (JStr identifier) then Inr True
                          else matching_package_is_running plist identifier rows
               | Inl (OSErr _) \<Rightarrow> matching_package_is_running plist identifier rows
               | Inl (ValueErr _) \<Rightarrow> matching_package_is_running plist identifier rows
               | Inl e \<Rightarrow> Inl e)"

section \<open>Readiness\<close>

definition unbracket :: "string \<Rightarrow> string" where
  "unbracket s =
     (let t = (if starts_with ''['' s then drop 1 s else s) in
      if ends_with '']'' t then take (length t - 1) t else t)"

definition check_ready :: "(string \<Rightarrow> bool res) \<Rightarrow> json \<Rightarrow> (string \<times> int) res" where
  "check_ready loopback payload =
     rbind (jget payload ''protocolVersion'') (\<lambda>version.
     rbind (jget payload ''sidecarInstanceId'') (\<lambda>instance_id.
     rbind (rcheck (jeq version (JInt 1) \<and> truthy instance_id)
              (RuntimeErr ''sidecar published invalid readiness'')) (\<lambda>_.
     rbind (jget_or payload ''address'' (JStr [])) (\<lambda>a.
     rbind (case a of JStr s \<Rightarrow> Inr s | _ \<Rightarrow> Inl (AttributeErr ''rpartition'')) (\<lambda>address.
     case rpartition_char (CHR '':'') address of
       (raw, separator, port) \<Rightarrow>
         let host = unbracket raw in
         rbind (if \<not> separator \<or> \<not> is_decimal port \<or> \<not> (0 < decimal_value port \<and> decimal_value port \<le> 65535)
                then Inr False else loopback host) (\<lambda>ok.
         rbind (rcheck ok (RuntimeErr ''sidecar readiness did not use a loopback address'')) (\<lambda>_.
         Inr (host, decimal_value port))))))))"

definition check_unauthenticated_health :: "int res \<Rightarrow> unit res" where
  "check_unauthenticated_health response =
     rbind response (\<lambda>status.
     rcheck (status = 401) (RuntimeErr ''packaged sidecar accepted an unauthenticated health request''))"

section \<open>The sidecar's environment\<close>

text \<open>The places a pattern that begins with \<open>(?:^|\s)\<close> goes on from, and the two searches.\<close>

fun after_spaces :: "string \<Rightarrow> string list" where
  "after_spaces [] = []"
| "after_spaces (c # s) = (if ascii_space c then s # after_spaces s else after_spaces s)"

definition word_starts :: "string \<Rightarrow> string list" where
  "word_starts out = out # after_spaces out"

definition has_variable :: "string \<Rightarrow> string \<Rightarrow> bool" where
  "has_variable out name = list_ex (starts_with (name @ ''='')) (word_starts out)"

definition variable_equals :: "string \<Rightarrow> string \<Rightarrow> string \<Rightarrow> bool" where
  "variable_equals out name v =
     (let p = name @ ''='' @ v in
      list_ex (\<lambda>s. starts_with p s \<and> (case drop (length p) s of [] \<Rightarrow> True | c # _ \<Rightarrow> ascii_space c)) (word_starts out))"

definition check_sidecar_profile :: "string \<Rightarrow> string \<Rightarrow> bool \<Rightarrow> string \<Rightarrow> unit res" where
  "check_sidecar_profile out expected_home managed cache_home =
     rbind (rcheck (variable_equals out ''REASONIX_HOME'' expected_home)
              (RuntimeErr ''sidecar did not inherit the selected Preview home'')) (\<lambda>_.
     rbind (rcheck (\<not> has_variable out ''REASONIX_STATE_HOME'')
              (RuntimeErr ''sidecar retained an inherited state override'')) (\<lambda>_.
     rbind (rcheck (variable_equals out ''REASONIX_DESKTOP_BRIDGE_TOKEN'' [])
              (RuntimeErr ''sidecar launch environment exposed a bridge token'')) (\<lambda>_.
     if managed
     then rbind (rcheck (\<not> has_variable out ''REASONIX_CACHE_HOME'')
                   (RuntimeErr ''managed sidecar retained an inherited cache override'')) (\<lambda>_.
          rcheck (variable_equals out ''REASONIX_PREVIEW_SQLITE_EVENTS'' ''1'')
            (RuntimeErr ''managed sidecar did not enable Preview event storage''))
     else rcheck (variable_equals out ''REASONIX_CACHE_HOME'' cache_home
                  \<and> \<not> has_variable out ''REASONIX_PREVIEW_SQLITE_EVENTS'')
            (RuntimeErr ''explicit sidecar profile environment is incorrect''))))"

section \<open>The credential profile\<close>

text \<open>\<open>set(d) == {...}\<close> of a decoded value.\<close>

definition keys_are :: "string list \<Rightarrow> json \<Rightarrow> bool res" where
  "keys_are names j =
     (case j of
        JObj kvs \<Rightarrow> Inr (set (map fst kvs) = set names)
      | JStr s \<Rightarrow> Inr (set (map (\<lambda>c. [c]) s) = set names)
      | JList xs \<Rightarrow> rbind (rcheck (list_all hashable xs) (TypeErr ''unhashable'')) (\<lambda>_.
                      Inr (set xs = set (map JStr names)))
      | _ \<Rightarrow> Inl (TypeErr ''not iterable''))"

definition valid_profile_id :: "json \<Rightarrow> bool" where
  "valid_profile_id v = (case v of JStr s \<Rightarrow> length (code_points s) = 32 \<and> list_all hex_digit s | _ \<Rightarrow> False)"

definition check_identity :: "services \<Rightarrow> store \<Rightarrow> path \<Rightarrow> string res" where
  "check_identity sv t p =
     rbind (lstat t p) (\<lambda>metadata.
     rbind (rcheck (is_regular metadata \<and> size_of metadata \<le> 512)
              (RuntimeErr ''credential profile metadata must be a bounded regular file'')) (\<lambda>_.
     rbind (rcheck (n_perm metadata mod 512 = 384)
              (RuntimeErr ''credential profile metadata is not private'')) (\<lambda>_.
     rbind (load_text sv t p) (\<lambda>ident.
     rbind (keys_are [''version'', ''id''] ident) (\<lambda>exact.
     rbind (if exact then rbind (jidx ident ''version'') (\<lambda>v. Inr (jeq v (JInt 1))) else Inr False) (\<lambda>ok.
     rbind (rcheck ok (RuntimeErr ''credential profile metadata contains unexpected attributes'')) (\<lambda>_.
     rbind (jidx ident ''id'') (\<lambda>v.
     rbind (rcheck (valid_profile_id v) (RuntimeErr ''credential profile metadata has an invalid identity'')) (\<lambda>_.
     jstr v)))))))))"

definition profile_files :: "string list" where
  "profile_files = [''tauri-credential-profile.json'', ''tauri-credential-profile.backup.json'']"

definition check_credential_profile :: "services \<Rightarrow> store \<Rightarrow> path \<Rightarrow> string res" where
  "check_credential_profile sv t wh =
     rbind (rmap (\<lambda>name. check_identity sv t (child wh name)) profile_files) (\<lambda>ids.
     rbind (rcheck (ids ! 0 = ids ! 1) (RuntimeErr ''credential profile metadata backup does not match'')) (\<lambda>_.
     Inr (ids ! 0)))"

section \<open>One run\<close>

text \<open>Where a run keeps its files: all below a new temporary folder.\<close>

record layout =
  l_root :: path
  l_identifier :: string
  l_managed :: bool
  l_host :: path
  l_sidecar :: path
  l_pid :: int

definition home_of :: "layout \<Rightarrow> path" where
  "home_of l = child (l_root l) ''home''"

definition temp_of :: "layout \<Rightarrow> path" where
  "temp_of l = child (l_root l) ''tmp''"

definition app_data_of :: "layout \<Rightarrow> path" where
  "app_data_of l = home_of l @ [''Library'', ''Application Support'', l_identifier l]"

definition core_home :: "layout \<Rightarrow> path" where
  "core_home l = (if l_managed l then child (app_data_of l) ''reasonix-core'' else child (l_root l) ''reasonix-home'')"

definition cache_of :: "layout \<Rightarrow> path" where
  "cache_of l = child (l_root l) ''reasonix-cache''"

definition smoke_environment :: "layout \<Rightarrow> env \<Rightarrow> env" where
  "smoke_environment l ambient =
     (let e = fold AList.delete [''REASONIX_TAURI_PROFILE_SMOKE'', window_smoke] ambient;
          e = fold (\<lambda>(n, v). AList.update n v)
                [(''HOME'', path_str (home_of l)), (''TMPDIR'', path_str (temp_of l)),
                 (''REASONIX_TAURI_PACKAGE_SMOKE'', ''1''),
                 (''REASONIX_DESKTOP_BRIDGE_TOKEN'', ''inherited-token-must-be-cleared''),
                 (''REASONIX_DESKTOP_BRIDGE_BIN'', path_str (child (l_root l) ''nonexistent-sidecar''))] e;
          e = AList.delete ''REASONIX_PREVIEW_SQLITE_EVENTS'' e in
      if l_managed l
      then AList.update ''REASONIX_CACHE_HOME'' (path_str (child (l_root l) ''inherited-cache''))
          (AList.update ''REASONIX_STATE_HOME'' (path_str (child (l_root l) ''inherited-state''))
          (AList.delete ''REASONIX_HOME'' e))
      else AList.delete ''REASONIX_STATE_HOME''
          (AList.update ''REASONIX_CACHE_HOME'' (path_str (cache_of l))
          (AList.update ''REASONIX_HOME'' (path_str (core_home l)) e)))"

text \<open>What a turn of the loop sees: the host's exit code, the process table, the files, the
  sidecar's environment as \<open>ps\<close> prints it and the status of its health route.\<close>

record view =
  v_exit :: "int option"
  v_rows :: "process_row list"
  v_store :: store
  v_env :: "string res"
  v_health :: "int res"

definition is_folder :: "store \<Rightarrow> path \<Rightarrow> bool" where
  "is_folder t p = (case map_of t p of None \<Rightarrow> False | Some i \<Rightarrow> n_kind i = Directory)"

text \<open>\<open>temp.glob("reasonix-tauri-bridge-*/ready.json")\<close>.\<close>

definition ready_files :: "store \<Rightarrow> path \<Rightarrow> path list" where
  "ready_files t tmp =
     filter (\<lambda>p. length p = length tmp + 2 \<and> take (length tmp) p = tmp
        \<and> starts_with ''reasonix-tauri-bridge-'' (p ! length tmp) \<and> last p = ''ready.json'') (map fst t)"

definition check_sidecar :: "services \<Rightarrow> (string \<Rightarrow> bool res) \<Rightarrow> layout \<Rightarrow> view \<Rightarrow> path \<Rightarrow> string res" where
  "check_sidecar sv loopback l v ready =
     rbind (rbind (load_text sv (v_store v) ready) (check_ready loopback)) (\<lambda>address.
     rbind (rcheck (is_folder (v_store v) (app_data_of l)) (RuntimeErr ''Tauri app data escaped the temporary HOME'')) (\<lambda>_.
     rbind (rcheck (\<not> l_managed l \<or> is_folder (v_store v) (core_home l))
              (RuntimeErr ''managed Preview home was not created inside app data'')) (\<lambda>_.
     rbind (check_credential_profile sv (v_store v) (core_home l)) (\<lambda>credential.
     rbind (v_env v) (\<lambda>out.
     rbind (check_sidecar_profile out (path_str (core_home l)) (l_managed l) (path_str (cache_of l))) (\<lambda>_.
     rbind (check_unauthenticated_health (v_health v)) (\<lambda>_.
     Inr credential)))))))"

definition smoke_turn ::
    "services \<Rightarrow> (string \<Rightarrow> bool res) \<Rightarrow> layout \<Rightarrow> view \<Rightarrow> (int option \<times> string res) option" where
  "smoke_turn sv loopback l v =
     (if v_exit v \<noteq> None then Some (None, Inl (RuntimeErr ''packaged host exited before readiness''))
      else case (map fst (filter (\<lambda>(pid, pp, txt). pp = l_pid l \<and> starts_with (path_str (l_sidecar l)) txt) (v_rows v)),
                 ready_files (v_store v) (temp_of l)) of
             ([pid], [ready]) \<Rightarrow> Some (Some pid, check_sidecar sv loopback l v ready)
           | _ \<Rightarrow> None)"

definition smoke_loop ::
    "services \<Rightarrow> (string \<Rightarrow> bool res) \<Rightarrow> layout \<Rightarrow> (nat \<Rightarrow> view) \<Rightarrow> nat \<Rightarrow> int option \<times> string res" where
  "smoke_loop sv loopback l obs turns =
     (case poll_until (smoke_turn sv loopback l) obs turns of
        Some x \<Rightarrow> x
      | None \<Rightarrow> (None, Inl (RuntimeErr ''packaged host did not start one ready sidecar'')))"

text \<open>What is seen once the host has been waited for: its exit code unless the wait timed out,
  whether the sidecar is alive when the clean-up time is over, the processes and the files, and the
  window geometry that was asked for and the one saved, where one was asked for.\<close>

record aftermath =
  a_code :: "int option"
  a_alive :: bool
  a_rows :: "process_row list"
  a_store :: store
  a_window :: "(json \<times> json res) option"

definition check_shutdown :: "layout \<Rightarrow> int \<Rightarrow> aftermath \<Rightarrow> unit res" where
  "check_shutdown l pid a =
     rbind (rcheck (a_code a \<noteq> None) (RuntimeErr ''packaged host did not exit through the smoke path'')) (\<lambda>_.
     rbind (rcheck (a_code a = Some 0) (RuntimeErr ''packaged host exited with status'')) (\<lambda>_.
     rbind (rcheck (\<not> a_alive a \<and> pid \<notin> set (own_sidecars (temp_of l) (l_sidecar l) (a_rows a)))
              (RuntimeErr ''packaged sidecar survived host exit'')) (\<lambda>_.
     rbind (rcheck (ready_files (a_store a) (temp_of l) = [])
              (RuntimeErr ''sidecar readiness directory survived host exit'')) (\<lambda>_.
     case a_window a of
       None \<Rightarrow> Inr ()
     | Some (asked, saved) \<Rightarrow> rbind saved (\<lambda>g.
         rcheck (jeq g asked) (RuntimeErr ''packaged window did not retain the requested normal geometry''))))))"

definition permissions :: "string list" where
  "permissions = [''not_determined'', ''denied'', ''granted'', ''provisional'']"

definition check_notification :: "services \<Rightarrow> layout \<Rightarrow> store \<Rightarrow> unit res" where
  "check_notification sv l t =
     rbind (load_text sv t (child (temp_of l) ''reasonix-native-notification-smoke.json'')) (\<lambda>status.
     rbind (jget status ''permission'') (\<lambda>p.
     rbind (rcheck (hashable p) (TypeErr ''unhashable'')) (\<lambda>_.
     rbind (jget status ''clickSupported'') (\<lambda>click.
     rcheck (p \<in> JStr ` set permissions \<and> click = JBool True)
       (RuntimeErr ''packaged native notification permission query failed'')))))"

definition check_workspace :: "services \<Rightarrow> layout \<Rightarrow> store \<Rightarrow> unit res" where
  "check_workspace sv l t =
     (let global = child (core_home l) ''global-workspace'' in
      rbind (load_text sv t (child (temp_of l) ''reasonix-global-workspace-smoke.json'')) (\<lambda>target.
      rbind (jget target ''protocolVersion'') (\<lambda>version.
      rbind (jget target ''sessionId'') (\<lambda>session.
      rbind (jget target ''workspaceRoot'') (\<lambda>wroot.
      rbind (rcheck (jeq version (JInt 1) \<and> session = JStr ''tauri-package-workspace-smoke''
                     \<and> wroot = JStr (path_str (sv_resolve sv global)))
               (RuntimeErr ''packaged Global workspace escaped the current profile'')) (\<lambda>_.
      rcheck (case map_of t global of None \<Rightarrow> False | Some i \<Rightarrow> n_kind i = Directory \<and> n_perm i mod 512 = 448)
        (RuntimeErr ''packaged Global workspace is not a private directory'')))))))"

definition run_smoke ::
    "services \<Rightarrow> (string \<Rightarrow> bool res) \<Rightarrow> layout \<Rightarrow> (nat \<Rightarrow> view) \<Rightarrow> nat \<Rightarrow> aftermath \<Rightarrow> string res" where
  "run_smoke sv loopback l obs turns a =
     (case smoke_loop sv loopback l obs turns of
        (None, r) \<Rightarrow> r
      | (Some pid, r) \<Rightarrow>
          rbind r (\<lambda>credential.
          rbind (check_shutdown l pid a) (\<lambda>_.
          rbind (check_notification sv l (a_store a)) (\<lambda>_.
          rbind (check_workspace sv l (a_store a)) (\<lambda>_.
          Inr credential)))))"

text \<open>The \<open>finally\<close> block: what it sees, and the processes it kills. It stops when the killed host
  does not end.\<close>

record closing =
  c_running :: bool
  c_ends :: bool
  c_alive :: bool
  c_rows :: "process_row list"

definition remaining_sidecars :: "layout \<Rightarrow> int option \<Rightarrow> closing \<Rightarrow> int list" where
  "remaining_sidecars l sidecar_pid c =
     own_sidecars (temp_of l) (l_sidecar l) (c_rows c)
     @ (case sidecar_pid of
          None \<Rightarrow> []
        | Some pid \<Rightarrow>
            if c_alive c
            then map fst (filter (\<lambda>(p, pp, txt). p = pid \<and> starts_with (path_str (l_sidecar l)) txt) (c_rows c))
            else [])"

definition smoke_once ::
    "services \<Rightarrow> (string \<Rightarrow> bool res) \<Rightarrow> layout \<Rightarrow> (nat \<Rightarrow> view) \<Rightarrow> nat \<Rightarrow> aftermath \<Rightarrow> closing
     \<Rightarrow> string res \<times> int list" where
  "smoke_once sv loopback l obs turns a c =
     (let r = run_smoke sv loopback l obs turns a;
          host = (if c_running c then [l_pid l] else []) in
      if c_running c \<and> \<not> c_ends c then (Inl (TimeoutErr ''host''), host)
      else (r, host @ remaining_sidecars l (fst (smoke_loop sv loopback l obs turns)) c))"

section \<open>The smoke test\<close>

record smoke_run =
  r_layout :: layout
  r_obs :: "nat \<Rightarrow> view"
  r_turns :: nat
  r_after :: aftermath
  r_closing :: closing

definition smoke_profile :: "services \<Rightarrow> (string \<Rightarrow> bool res) \<Rightarrow> smoke_run \<Rightarrow> string res" where
  "smoke_profile sv loopback r =
     fst (smoke_once sv loopback (r_layout r) (r_obs r) (r_turns r) (r_after r) (r_closing r))"

text \<open>\<open>smoke\<close>: \<open>present_files\<close> tells whether both binaries are files, \<open>plist\<close> reads property lists, and
  \<open>runs\<close> gives what the run of a profile sees.\<close>

definition smoke ::
    "services \<Rightarrow> (string \<Rightarrow> bool res) \<Rightarrow> (string \<Rightarrow> json res) \<Rightarrow> path \<Rightarrow> bool \<Rightarrow> process_row list
     \<Rightarrow> (string \<Rightarrow> bool \<Rightarrow> smoke_run) \<Rightarrow> unit res" where
  "smoke sv loopback plist app present_files rows runs =
     rbind (rcheck present_files (RuntimeErr ''packaged host or sidecar is missing'')) (\<lambda>_.
     rbind (rbind (plist (path_str (app @ [''Contents'', ''Info.plist'']))) (\<lambda>d. jget d ''CFBundleIdentifier'')) (\<lambda>v.
     rbind (case v of JStr s \<Rightarrow> if s \<noteq> [] then Inr s else Inl (RuntimeErr ''package has no bundle identifier'')
                    | _ \<Rightarrow> Inl (RuntimeErr ''package has no bundle identifier'')) (\<lambda>identifier.
     rbind (matching_package_is_running plist identifier rows) (\<lambda>busy.
     rbind (rcheck (\<not> busy) (RuntimeErr ''a Preview with this bundle identifier is already running; close it before the smoke'')) (\<lambda>_.
     rbind (smoke_profile sv loopback (runs identifier True)) (\<lambda>first.
     rbind (smoke_profile sv loopback (runs identifier False)) (\<lambda>second.
     rcheck (first \<noteq> second) (RuntimeErr ''independently created profiles share a credential identity''))))))))"

end
