(* ===== verification/PackagedProps.thy ===== *)
theory PackagedProps
  imports PackagedApp
begin

text \<open>
  What the smoke test of a package shows: its reading of a process's environment is exact, it kills
  only the processes of the package, and when it passes both profiles were checked.
\<close>

section \<open>Words of a line\<close>

definition one_word :: "string \<Rightarrow> bool" where
  "one_word s = list_all (\<lambda>c. \<not> ascii_space c) s"

lemma space_ascii [simp]: "ascii_space (CHR '' '')"
  by (simp add: ascii_space_def)

lemma one_word_simps [simp]:
  "one_word []" "one_word (c # s) \<longleftrightarrow> \<not> ascii_space c \<and> one_word s"
  "one_word (s @ t) \<longleftrightarrow> one_word s \<and> one_word t"
  by (simp_all add: one_word_def)

lemma join_Cons: "ws \<noteq> [] \<Longrightarrow> join_with sep (w # ws) = w @ sep @ join_with sep ws"
  by (cases ws) (simp_all add: join_with_def)

lemma join_one [simp]: "join_with sep [w] = w"
  by (simp add: join_with_def)

lemma after_spaces_word: "one_word w \<Longrightarrow> after_spaces (w @ s) = after_spaces s"
  by (induction w) auto

lemma space_nl [simp]: "ascii_space (hd nl)" "nl \<noteq> []"
  by (simp_all add: ascii_space_def nl_def)

lemma word_starts_join:
  assumes "one_word w" and "ws \<noteq> []"
  shows "word_starts (join_with '' '' (w # ws) @ t) = (join_with '' '' (w # ws) @ t) # word_starts (join_with '' '' ws @ t)"
  using assms by (simp add: word_starts_def join_Cons after_spaces_word)

text \<open>A prefix without spaces of a joined line lies within the first word.\<close>

lemma starts_with_word:
  assumes "one_word p" and "r = [] \<or> ascii_space (hd r)"
  shows "starts_with p (w @ r) \<longleftrightarrow> starts_with p w"
  using assms(1)
proof (induction p arbitrary: w)
  case (Cons c p)
  show ?case
  proof (cases w)
    case Nil
    then show ?thesis using assms(2) Cons.prems by (cases r) (auto simp: starts_with_def)
  next
    case (Cons d w')
    then show ?thesis using Cons.IH Cons.prems by (auto simp: starts_with_def)
  qed
qed (simp add: starts_with_def)

lemma whole_word:
  assumes "one_word p" and "one_word w" and "r = [] \<or> ascii_space (hd r)"
  shows "starts_with p (w @ r) \<and> (case drop (length p) (w @ r) of [] \<Rightarrow> True | c # _ \<Rightarrow> ascii_space c) \<longleftrightarrow> w = p"
proof
  assume l: "starts_with p (w @ r) \<and> (case drop (length p) (w @ r) of [] \<Rightarrow> True | c # _ \<Rightarrow> ascii_space c)"
  then obtain q where q: "w = p @ q" using starts_with_word[OF assms(1,3), of w] starts_with_iff by blast
  show "w = p"
  proof (cases q)
    case (Cons c q')
    then show ?thesis using l q assms(2) by simp
  qed (use q in simp)
next
  assume "w = p"
  then show "starts_with p (w @ r) \<and> (case drop (length p) (w @ r) of [] \<Rightarrow> True | c # _ \<Rightarrow> ascii_space c)"
    using assms(3) by (cases r) (auto simp: starts_with_def)
qed

lemma join_first:
  assumes "ws \<noteq> []"
  obtains r where "join_with '' '' ws = hd ws @ r" "r = [] \<or> ascii_space (hd r)"
proof (cases ws)
  case (Cons w vs)
  show thesis
    by (rule that[of "concat (map ((@) '' '') vs)"]) (cases vs; simp add: Cons join_with_def)+
qed (use assms in simp)

text \<open>A search that looks at one word, on a line of words that ends in a line feed.\<close>

lemma search_words:
  assumes "ws \<noteq> []" and "\<forall>w \<in> set ws. one_word w" and "\<not> P []"
    and "\<And>w r. one_word w \<Longrightarrow> r = [] \<or> ascii_space (hd r) \<Longrightarrow> P (w @ r) \<longleftrightarrow> Q w"
  shows "list_ex P (word_starts (join_with '' '' ws @ nl)) \<longleftrightarrow> (\<exists>w \<in> set ws. Q w)"
  using assms(1,2)
proof (induction ws)
  case (Cons w ws)
  obtain r where r: "join_with '' '' (w # ws) = w @ r" "r = [] \<or> ascii_space (hd r)"
    using join_first[of "w # ws"] by auto
  show ?case
  proof (cases "ws = []")
    case True
    then show ?thesis using Cons.prems assms(3) assms(4)[of w nl] after_spaces_word[of w nl]
      by (simp add: word_starts_def) (simp add: nl_def ascii_space_def)
  next
    case False
    have "P (join_with '' '' (w # ws) @ nl) \<longleftrightarrow> Q w"
      using r Cons.prems assms(4)[of w "r @ nl"] by (cases r) simp_all
    then show ?thesis using Cons False word_starts_join[of w ws nl] by simp
  qed
qed simp

lemma has_variable_words:
  assumes "ws \<noteq> []" and "\<forall>w \<in> set ws. one_word w" and "one_word name"
  shows "has_variable (join_with '' '' ws @ nl) name \<longleftrightarrow> (\<exists>w \<in> set ws. starts_with (name @ ''='') w)"
  unfolding has_variable_def using assms(1,2)
proof (rule search_words)
  have "one_word (name @ ''='')" using assms(3) by (simp add: ascii_space_def)
  then show "starts_with (name @ ''='') (w @ r) \<longleftrightarrow> starts_with (name @ ''='') w"
    if "r = [] \<or> ascii_space (hd r)" for w r
    using that starts_with_word by blast
qed (simp add: starts_with_def)

lemma variable_equals_words:
  assumes "ws \<noteq> []" and "\<forall>w \<in> set ws. one_word w" and "one_word name" and "one_word v"
  shows "variable_equals (join_with '' '' ws @ nl) name v \<longleftrightarrow> name @ ''='' @ v \<in> set ws"
proof -
  have p: "one_word (name @ ''='' @ v)" using assms(3,4) by (simp add: ascii_space_def)
  have "variable_equals (join_with '' '' ws @ nl) name v \<longleftrightarrow> (\<exists>w \<in> set ws. w = name @ ''='' @ v)"
    unfolding variable_equals_def Let_def using assms(1,2)
    by (rule search_words) (use whole_word[OF p] in \<open>simp add: starts_with_def\<close>, use whole_word[OF p] in blast)
  then show ?thesis by simp
qed

section \<open>The line of a process\<close>

text \<open>The output of \<open>ps eww -o command=\<close>: the words of the command, then the environment,
  on one line.\<close>

definition env_words :: "env \<Rightarrow> string list" where
  "env_words e = map (\<lambda>(n, v). n @ ''='' @ v) e"

definition ps_line :: "string list \<Rightarrow> env \<Rightarrow> string" where
  "ps_line cmd e = join_with '' '' (cmd @ env_words e) @ nl"

definition plain_process :: "string list \<Rightarrow> env \<Rightarrow> bool" where
  "plain_process cmd e =
     (cmd \<noteq> [] \<and> list_all (\<lambda>w. one_word w \<and> CHR ''='' \<notin> set w) cmd \<and> distinct (map fst e)
      \<and> list_all (\<lambda>(n, v). one_word n \<and> CHR ''='' \<notin> set n \<and> one_word v) e)"

lemma plain_words:
  "plain_process cmd e \<Longrightarrow> cmd @ env_words e \<noteq> [] \<and> (\<forall>w \<in> set (cmd @ env_words e). one_word w)"
  by (auto simp: plain_process_def env_words_def list_all_iff ascii_space_def)

lemma name_split:
  assumes "CHR ''='' \<notin> set n" and "CHR ''='' \<notin> set m"
  shows "n @ ''='' @ v = m @ ''='' @ w \<longleftrightarrow> n = m \<and> v = w"
  using assms by (auto simp: append_eq_append_conv2 append_eq_Cons_conv Cons_eq_append_conv)

lemma has_variable_ps:
  assumes plain: "plain_process cmd e" and "one_word name" and name: "CHR ''='' \<notin> set name"
  shows "has_variable (ps_line cmd e) name \<longleftrightarrow> map_of e name \<noteq> None"
proof -
  have "has_variable (ps_line cmd e) name \<longleftrightarrow> (\<exists>w \<in> set (cmd @ env_words e). starts_with (name @ ''='') w)"
    unfolding ps_line_def using has_variable_words plain_words[OF plain] assms(2) by blast
  also have "\<dots> \<longleftrightarrow> (\<exists>(n, v) \<in> set e. starts_with (name @ ''='') (n @ ''='' @ v))"
  proof -
    have "\<not> starts_with (name @ ''='') w" if "w \<in> set cmd" for w
      using plain that by (auto simp: plain_process_def list_all_iff starts_with_iff)
    then show ?thesis by (auto simp: env_words_def)
  qed
  also have "\<dots> \<longleftrightarrow> (\<exists>(n, v) \<in> set e. n = name)"
  proof (rule bex_cong[OF refl], clarify)
    fix n v assume "(n, v) \<in> set e"
    then have n: "CHR ''='' \<notin> set n" using plain by (auto simp: plain_process_def list_all_iff)
    show "starts_with (name @ ''='') (n @ ''='' @ v) = (n = name)"
      using name_split[OF n name, of v] by (auto simp: starts_with_iff)
  qed
  also have "\<dots> \<longleftrightarrow> map_of e name \<noteq> None" by (force simp: map_of_eq_None_iff)
  finally show ?thesis .
qed

lemma variable_equals_ps:
  assumes plain: "plain_process cmd e" and "one_word name" and name: "CHR ''='' \<notin> set name" and "one_word v"
  shows "variable_equals (ps_line cmd e) name v \<longleftrightarrow> map_of e name = Some v"
proof -
  have "variable_equals (ps_line cmd e) name v \<longleftrightarrow> name @ ''='' @ v \<in> set (cmd @ env_words e)"
    unfolding ps_line_def using variable_equals_words plain_words[OF plain] assms(2,4) by blast
  also have "\<dots> \<longleftrightarrow> (\<exists>(n, u) \<in> set e. name @ ''='' @ v = n @ ''='' @ u)"
    using plain by (auto simp: plain_process_def list_all_iff env_words_def)
  also have "\<dots> \<longleftrightarrow> (\<exists>(n, u) \<in> set e. n = name \<and> u = v)"
  proof (rule bex_cong[OF refl], clarify)
    fix n u assume "(n, u) \<in> set e"
    then have "CHR ''='' \<notin> set n" using plain by (auto simp: plain_process_def list_all_iff)
    from name_split[OF name this, of v u] show "(name @ ''='' @ v = n @ ''='' @ u) = (n = name \<and> u = v)" by auto
  qed
  also have "\<dots> \<longleftrightarrow> map_of e name = Some v" using plain by (auto simp: plain_process_def)
  finally show ?thesis .
qed

section \<open>One run\<close>

interpretation ready_sidecar: deadline_poll "smoke_loop sv loopback l" "smoke_turn sv loopback l" id
  "(None, Inl (RuntimeErr ''packaged host did not start one ready sidecar''))" for sv loopback l
proof
  fix k turns :: nat and obs x
  assume "k < turns" "smoke_turn sv loopback l (obs k) = Some x" "\<forall>j < k. smoke_turn sv loopback l (obs j) = None"
  then show "smoke_loop sv loopback l obs turns = id x"
    using poll_until_hit[of k turns "smoke_turn sv loopback l" obs x] by (simp add: smoke_loop_def)
next
  fix turns :: nat and obs
  assume "\<forall>j < turns. smoke_turn sv loopback l (obs j) = None"
  then show "smoke_loop sv loopback l obs turns = (None, Inl (RuntimeErr ''packaged host did not start one ready sidecar''))"
    using poll_until_miss[of turns "smoke_turn sv loopback l" obs] by (simp add: smoke_loop_def)
qed

lemma smoke_turn_ok:
  assumes "smoke_turn sv loopback l v = Some (pid, Inr credential)"
  shows "\<exists>p txt ready. pid = Some p \<and> (p, l_pid l, txt) \<in> set (v_rows v) \<and> starts_with (path_str (l_sidecar l)) txt
    \<and> ready_files (v_store v) (temp_of l) = [ready] \<and> check_sidecar sv loopback l v ready = Inr credential"
proof -
  let ?own = "filter (\<lambda>(pid, pp, txt). pp = l_pid l \<and> starts_with (path_str (l_sidecar l)) txt) (v_rows v)"
  from assms obtain p ready where own: "map fst ?own = [p]" "ready_files (v_store v) (temp_of l) = [ready]"
    "pid = Some p" "check_sidecar sv loopback l v ready = Inr credential"
    by (auto simp: smoke_turn_def split: if_splits list.splits)
  from own(1) obtain row where "?own = [row]" "fst row = p" by auto
  then have "row \<in> set ?own" by simp
  with own \<open>fst row = p\<close> show ?thesis by (cases row) auto
qed

lemma check_identity_ok:
  assumes "check_identity sv t p = Inr ident"
  shows "\<exists>i. map_of t p = Some i \<and> is_regular i \<and> n_perm i mod 512 = 384
    \<and> length (code_points ident) = 32 \<and> list_all hex_digit ident"
  using assms unfolding check_identity_def
  by (auto simp: lstat_def valid_profile_id_def jstr_def split: option.splits json.splits)

lemma credential_ok:
  assumes "check_credential_profile sv t wh = Inr ident"
  shows "\<forall>name \<in> set profile_files. \<exists>i. map_of t (child wh name) = Some i \<and> is_regular i \<and> n_perm i mod 512 = 384"
    and "length (code_points ident) = 32 \<and> list_all hex_digit ident"
proof -
  from assms obtain a b where
    "check_identity sv t (child wh (profile_files ! 0)) = Inr a" "check_identity sv t (child wh (profile_files ! 1)) = Inr b"
    "a = b" "ident = a"
    by (auto simp: check_credential_profile_def profile_files_def)
  then show "\<forall>name \<in> set profile_files. \<exists>i. map_of t (child wh name) = Some i \<and> is_regular i \<and> n_perm i mod 512 = 384"
    and "length (code_points ident) = 32 \<and> list_all hex_digit ident"
    using check_identity_ok[of sv t] by (auto simp: profile_files_def)
qed

lemma check_sidecar_ok:
  assumes "check_sidecar sv loopback l v ready = Inr credential"
  shows "check_credential_profile sv (v_store v) (core_home l) = Inr credential"
    and "\<exists>out. v_env v = Inr out
      \<and> check_sidecar_profile out (path_str (core_home l)) (l_managed l) (path_str (cache_of l)) = Inr ()"
    and "v_health v = Inr 401"
  using assms by (auto simp: check_sidecar_def check_unauthenticated_health_def)

lemma check_shutdown_ok:
  "check_shutdown l pid a = Inr () \<Longrightarrow>
     a_code a = Some 0 \<and> \<not> a_alive a \<and> pid \<notin> set (own_sidecars (temp_of l) (l_sidecar l) (a_rows a))
     \<and> ready_files (a_store a) (temp_of l) = []"
  by (auto simp: check_shutdown_def)

text \<open>What a passed run of one profile establishes.\<close>

definition profile_verified :: "services \<Rightarrow> smoke_run \<Rightarrow> string \<Rightarrow> bool" where
  "profile_verified sv r credential =
     (let l = r_layout r; a = r_after r in
      length (code_points credential) = 32 \<and> list_all hex_digit credential
      \<and> (\<exists>k < r_turns r. \<exists>p txt out. let v = r_obs r k in
           (p, l_pid l, txt) \<in> set (v_rows v) \<and> starts_with (path_str (l_sidecar l)) txt
           \<and> check_credential_profile sv (v_store v) (core_home l) = Inr credential
           \<and> (\<forall>name \<in> set profile_files. \<exists>i. map_of (v_store v) (child (core_home l) name) = Some i
                \<and> is_regular i \<and> n_perm i mod 512 = 384)
           \<and> v_env v = Inr out
           \<and> check_sidecar_profile out (path_str (core_home l)) (l_managed l) (path_str (cache_of l)) = Inr ()
           \<and> v_health v = Inr 401
           \<and> p \<notin> set (own_sidecars (temp_of l) (l_sidecar l) (a_rows a)))
      \<and> a_code a = Some 0 \<and> \<not> a_alive a \<and> ready_files (a_store a) (temp_of l) = [])"

lemma run_smoke_ok:
  assumes "run_smoke sv loopback (r_layout r) (r_obs r) (r_turns r) (r_after r) = Inr credential"
  shows "profile_verified sv r credential"
proof -
  let ?l = "r_layout r" and ?a = "r_after r"
  obtain pid res where loop: "smoke_loop sv loopback ?l (r_obs r) (r_turns r) = (pid, res)" by fastforce
  show ?thesis
  proof (cases rule: ready_sidecar.cases_of[of "r_turns r" sv loopback ?l "r_obs r"])
    case (found k x)
    have "res = Inr credential"
      using assms loop by (auto simp: run_smoke_def split: option.splits)
    then have turn: "smoke_turn sv loopback ?l (r_obs r k) = Some (pid, Inr credential)" using found loop by simp
    from smoke_turn_ok[OF turn] obtain p cmd ready where p: "pid = Some p" "(p, l_pid ?l, cmd) \<in> set (v_rows (r_obs r k))"
      "starts_with (path_str (l_sidecar ?l)) cmd" "check_sidecar sv loopback ?l (r_obs r k) ready = Inr credential" by blast
    have shut: "check_shutdown ?l p ?a = Inr ()"
      using assms loop \<open>res = Inr credential\<close> p(1) by (auto simp: run_smoke_def)
    obtain out where "v_env (r_obs r k) = Inr out"
      "check_sidecar_profile out (path_str (core_home ?l)) (l_managed ?l) (path_str (cache_of ?l)) = Inr ()"
      using check_sidecar_ok(2)[OF p(4)] by blast
    note facts = this p(2,3) found(1) check_sidecar_ok(1,3)[OF p(4)] credential_ok[OF check_sidecar_ok(1)[OF p(4)]]
      check_shutdown_ok[OF shut]
    show ?thesis unfolding profile_verified_def Let_def
      by (intro conjI exI[of _ k] exI[of _ p] exI[of _ cmd] exI[of _ out]) (use facts in simp_all)
  next
    case expired
    then show ?thesis using assms by (simp add: run_smoke_def)
  qed
qed

lemma smoke_profile_ok:
  assumes "smoke_profile sv loopback r = Inr credential"
  shows "profile_verified sv r credential"
proof (rule run_smoke_ok)
  show "run_smoke sv loopback (r_layout r) (r_obs r) (r_turns r) (r_after r) = Inr credential"
    using assms by (auto simp: smoke_profile_def smoke_once_def Let_def split: if_splits)
qed

lemma remaining_rows:
  assumes "p \<in> set (remaining_sidecars l sidecar_pid c)"
  shows "\<exists>pp cmd. (p, pp, cmd) \<in> set (c_rows c) \<and> starts_with (path_str (l_sidecar l)) cmd"
proof -
  consider (own) "p \<in> set (own_sidecars (temp_of l) (l_sidecar l) (c_rows c))"
    | (alive) q where "p \<in> set (map fst (filter (\<lambda>(p, pp, txt). p = q \<and> starts_with (path_str (l_sidecar l)) txt) (c_rows c)))"
    using assms by (auto simp only: remaining_sidecars_def set_append Un_iff list.set empty_iff split: option.splits if_splits)
  then show ?thesis
  proof cases
    case own
    then show ?thesis by (fastforce simp: own_sidecars_def)
  next
    case alive
    then show ?thesis by fastforce
  qed
qed

lemma own_remaining:
  "set (own_sidecars (temp_of l) (l_sidecar l) (c_rows c)) \<subseteq> set (remaining_sidecars l sidecar_pid c)"
  by (simp add: remaining_sidecars_def)

section \<open>Properties\<close>



text \<open>C26. Whatever the outcome, a run kills only the host it launched and processes whose command
  starts with the package's sidecar, and every sidecar of the run that is still there is killed,
  unless the killed host does not end.\<close>

theorem kills_only_package:
  assumes "smoke_once sv loopback l obs turns a c = (r, kills)"
  shows "(\<forall>p \<in> set kills. p = l_pid l
      \<or> (\<exists>pp cmd. (p, pp, cmd) \<in> set (c_rows c) \<and> starts_with (path_str (l_sidecar l)) cmd))
    \<and> (c_ends c \<longrightarrow> set (own_sidecars (temp_of l) (l_sidecar l) (c_rows c)) \<subseteq> set kills)"
proof -
  let ?rem = "remaining_sidecars l (fst (smoke_loop sv loopback l obs turns)) c"
  have kills: "kills = [l_pid l] \<and> \<not> c_ends c \<or> kills = l_pid l # ?rem \<or> kills = ?rem"
    using assms by (auto simp: smoke_once_def Let_def split: if_splits)
  have "\<forall>p \<in> set ?rem. \<exists>pp cmd. (p, pp, cmd) \<in> set (c_rows c) \<and> starts_with (path_str (l_sidecar l)) cmd"
    using remaining_rows by blast
  moreover have "set (own_sidecars (temp_of l) (l_sidecar l) (c_rows c)) \<subseteq> set ?rem" by (rule own_remaining)
  ultimately show ?thesis using kills by (elim disjE) auto
qed

section \<open>Witnesses\<close>

lemma sample_process:
  "plain_process [''/A.app/bridge''] [(''REASONIX_HOME'', ''/h''), (''REASONIX_DESKTOP_BRIDGE_TOKEN'', []),
     (''REASONIX_PREVIEW_SQLITE_EVENTS'', ''1'')]"
  "one_word ''/h''" "one_word ''/c''"
  by code_simp+


end
