(* ===== verification/PackagedWitness.thy ===== *)
theory PackagedWitness
  imports PackagedProps ExportWitness
begin

text \<open>
  A passed smoke test of a small package: the readiness file, the two credential identities and the
  reports the host writes are JSON documents of a table, addressed by the single byte of their file.
\<close>

definition sm_layout :: "string \<Rightarrow> bool \<Rightarrow> layout" where
  "sm_layout ident managed = \<lparr>l_root = [if managed then ''m'' else ''e''], l_identifier = ident, l_managed = managed,
     l_host = [''A.app'', ''host''], l_sidecar = [''A.app'', ''bridge''], l_pid = 10\<rparr>"

definition sm_workspace :: "bool \<Rightarrow> path" where
  "sm_workspace managed = child (core_home (sm_layout ''app'' managed)) ''global-workspace''"

definition sm_target :: "bool \<Rightarrow> json" where
  "sm_target managed = JObj [(''protocolVersion'', JInt 1), (''sessionId'', JStr ''tauri-package-workspace-smoke''),
     (''workspaceRoot'', JStr (path_str (sm_workspace managed)))]"

definition sm_identity :: "char \<Rightarrow> json" where
  "sm_identity c = JObj [(''version'', JInt 1), (''id'', JStr (replicate 32 c))]"

definition sm_docs :: "json list" where
  "sm_docs =
     [JObj [(''protocolVersion'', JInt 1), (''sidecarInstanceId'', JStr ''s''), (''address'', JStr ''127.0.0.1:4000'')],
      sm_identity (CHR ''a''), sm_identity (CHR ''b''),
      JObj [(''permission'', JStr ''granted''), (''clickSupported'', JBool True)], sm_target True, sm_target False]"

definition sm_services :: services where
  "sm_services = table_services sm_docs"

definition sm_file :: "string \<Rightarrow> node_info" where
  "sm_file b = \<lparr>n_kind = Regular b, n_uid = 501, n_perm = 384, n_mtime = 0, n_inode = 1\<rparr>"

definition sm_folder :: node_info where
  "sm_folder = \<lparr>n_kind = Directory, n_uid = 501, n_perm = 448, n_mtime = 0, n_inode = 1\<rparr>"

definition sm_profile :: "layout \<Rightarrow> string \<Rightarrow> store" where
  "sm_profile l ident =
     [(app_data_of l, sm_folder), (core_home l, sm_folder)]
     @ map (\<lambda>name. (child (core_home l) name, sm_file ident)) profile_files"

definition sm_view :: "layout \<Rightarrow> string \<Rightarrow> nat \<Rightarrow> view" where
  "sm_view l ident k =
     \<lparr>v_exit = None, v_rows = (if k = 0 then [] else [(11, 10, path_str (l_sidecar l))]),
      v_store = (child (child (temp_of l) ''reasonix-tauri-bridge-1'') ''ready.json'', sm_file [CHR 0x00]) # sm_profile l ident,
      v_env = Inr (ps_line [path_str (l_sidecar l)]
        ([(''REASONIX_HOME'', path_str (core_home l)), (''REASONIX_DESKTOP_BRIDGE_TOKEN'', [])]
         @ (if l_managed l then [(''REASONIX_PREVIEW_SQLITE_EVENTS'', ''1'')]
            else [(''REASONIX_CACHE_HOME'', path_str (cache_of l))]))),
      v_health = Inr 401\<rparr>"

definition sm_after :: "layout \<Rightarrow> string \<Rightarrow> string \<Rightarrow> aftermath" where
  "sm_after l ident target =
     \<lparr>a_code = Some 0, a_alive = False, a_rows = [],
      a_store = (child (temp_of l) ''reasonix-native-notification-smoke.json'', sm_file [CHR 0x03])
        # (child (temp_of l) ''reasonix-global-workspace-smoke.json'', sm_file target)
        # (child (core_home l) ''global-workspace'', sm_folder) # sm_profile l ident,
      a_window = None\<rparr>"

definition sm_closing :: closing where
  "sm_closing = \<lparr>c_running = False, c_ends = True, c_alive = False, c_rows = [(11, 1, ''/A.app/bridge --ready-file /m/tmp/x'')]\<rparr>"

definition sm_run :: "string \<Rightarrow> bool \<Rightarrow> smoke_run" where
  "sm_run ident managed =
     (let l = sm_layout ident managed; who = (if managed then [CHR 0x01] else [CHR 0x02]) in
      \<lparr>r_layout = l, r_obs = sm_view l who, r_turns = 3,
       r_after = sm_after l who (if managed then [CHR 0x04] else [CHR 0x05]), r_closing = sm_closing\<rparr>)"

definition sm_loopback :: "string \<Rightarrow> bool res" where
  "sm_loopback s = Inr (s = ''127.0.0.1'')"

definition sm_plist :: "string \<Rightarrow> json res" where
  "sm_plist s = Inr (JObj [(''CFBundleIdentifier'', JStr ''app'')])"

lemma sm_managed: "smoke_profile sm_services sm_loopback (sm_run ''app'' True) = Inr (replicate 32 (CHR ''a''))"
  by code_simp

lemma sm_explicit: "smoke_profile sm_services sm_loopback (sm_run ''app'' False) = Inr (replicate 32 (CHR ''b''))"
  by code_simp

lemma sm_passed: "smoke sm_services sm_loopback sm_plist [''A.app''] True [(1, 0, ''/sbin/launchd'')] sm_run = Inr ()"
proof -
  have "matching_package_is_running sm_plist ''app'' [(1, 0, ''/sbin/launchd'')] = Inr False" by code_simp
  moreover have "rbind (sm_plist s) (\<lambda>d. jget d ''CFBundleIdentifier'') = Inr (JStr ''app'')" for s
    by (simp add: sm_plist_def jget_def jget_or_def)
  moreover have "replicate 32 (CHR ''a'') \<noteq> replicate 32 (CHR ''b'')" by (simp add: replicate_eq_replicate)
  ultimately show ?thesis
    by (simp only: smoke_def sm_managed sm_explicit rbind_simps rcheck_simps json.simps list.distinct simp_thms if_True)
qed


definition sm_once :: "string res \<times> int list" where
  "sm_once = smoke_once sm_services sm_loopback (sm_layout ''app'' True) (sm_view (sm_layout ''app'' True) [CHR 0x01]) 3
     (sm_after (sm_layout ''app'' True) [CHR 0x01] [CHR 0x04]) sm_closing"

theorem kills_only_package_witness:
  "set (own_sidecars (temp_of (sm_layout ''app'' True)) (l_sidecar (sm_layout ''app'' True)) (c_rows sm_closing))
    \<subseteq> set (snd sm_once)"
proof -
  have "smoke_once sm_services sm_loopback (sm_layout ''app'' True) (sm_view (sm_layout ''app'' True) [CHR 0x01]) 3
     (sm_after (sm_layout ''app'' True) [CHR 0x01] [CHR 0x04]) sm_closing = (fst sm_once, snd sm_once)"
    by (simp add: sm_once_def)
  from kills_only_package[OF this] show ?thesis by (simp add: sm_closing_def)
qed

end
