(* ===== verification/InstalledGates.thy ===== *)
theory InstalledGates
  imports Dirs Json "HOL-Library.List_Lexorder" "HOL-Library.Char_ord"
begin

text \<open>
  The acceptance of an installed candidate (\<open>tools/tauri/verify-installed-d.py\<close>): gates run one
  after another, each with its evidence, and a summary that is written again at every change. What
  git, \<open>codesign\<close> and a gate's own run answer is a record of parameters; a run may change any file.
\<close>

section \<open>The gates\<close>

definition gate_table :: "(string \<times> string \<times> string list) list" where
  "gate_table =
     [(''inactive-display-state'', ''smoke-inactive-display-window-state.py'', []),
      (''app-data-boundary'', ''smoke-application-data-boundary.py'', []),
      (''boundary'', ''smoke-managed-profile-boundary.py'', []),
      (''explicit-boundary'', ''smoke-explicit-profile-boundary.py'', []),
      (''parent-resolution'', ''smoke-explicit-parent-resolution.py'', []),
      (''identity'', ''smoke-profile-identity-refusal.py'', []),
      (''package'', ''smoke-packaged-app.py'', []),
      (''reload'', ''smoke-native-reload.py'', []),
      (''message-copy'', ''smoke-native-message-copy.py'', []),
      (''selection-send'', ''smoke-native-message-copy.py'', [''--selection-send'']),
      (''fullscreen'', ''smoke-native-fullscreen.py'', []),
      (''appearance'', ''smoke-native-window.py'', [''--appearance-only'']),
      (''profile'', ''smoke-profile-import.py'', []),
      (''startup'', ''smoke-native-startup.py'', []),
      (''failure-exit'', ''probe-launch-services-profile.py'', [''--failure-exit'']),
      (''window'', ''smoke-native-window.py'', [''--focus'', ''--edit'', ''--dialogs'', ''--launch-services'']),
      (''window-direct'', ''smoke-native-window.py'', [''--focus'', ''--edit'', ''--dialogs'']),
      (''dialog-cancel'', ''smoke-native-window.py'', [''--independent'', ''--dialogs'']),
      (''tray-language'', ''smoke-native-window.py'', [''--independent'', ''--tray-language'']),
      (''lifetime'', ''smoke-host-lifetime.py'', []),
      (''displays'', ''smoke-native-displays.py'', [''--straddle'']),
      (''links'', ''smoke-native-links.py'', []),
      (''notifications'', ''smoke-native-notifications.py'', [])]"

definition not_by_default :: "string list" where
  "not_by_default = [''dialog-cancel'', ''tray-language'', ''inactive-display-state'', ''window-direct'']"

definition default_gates :: "string list" where
  "default_gates = filter (\<lambda>n. n \<notin> set not_by_default) (map fst gate_table)"

text \<open>What is outside the script. \<open>p_run\<close> is a gate's run: its exit code and the files after it.\<close>

record probes =
  p_darwin :: bool
  p_verify :: "dirs \<Rightarrow> unit res"
  p_signature :: "dirs \<Rightarrow> string res"
  p_diff :: "string res"
  p_untracked :: "string list"
  p_head :: string
  p_dirty :: bool
  p_digest :: "string \<Rightarrow> string"
  p_run :: "string \<Rightarrow> string list \<Rightarrow> dirs \<Rightarrow> (int res \<times> dirs)"
  p_now :: "dirs \<Rightarrow> string"
  p_dumps :: "json \<Rightarrow> string"
  p_error :: "exc \<Rightarrow> string"

record places =
  pl_repo :: path
  pl_app :: path
  pl_output :: path

definition scripts_of :: "places \<Rightarrow> path" where
  "scripts_of pl = pl_repo pl @ [''tools'', ''tauri'']"

definition artifacts_of :: "places \<Rightarrow> path list" where
  "artifacts_of pl =
     [pl_app pl @ [''Contents'', ''MacOS'', ''reasonix-tauri''],
      pl_app pl @ [''Contents'', ''MacOS'', ''reasonix-desktop-bridge''],
      pl_app pl @ [''Contents'', ''Info.plist'']]"

text \<open>\<open>path.relative_to(d)\<close> of a path below \<open>d\<close>, as text.\<close>

definition relative_text :: "path \<Rightarrow> path \<Rightarrow> string" where
  "relative_text d p = join_with ''/'' (drop (length d) p)"

definition file_digest :: "probes \<Rightarrow> dirs \<Rightarrow> path \<Rightarrow> string res" where
  "file_digest pb t p = rbind (read_bytes t p) (\<lambda>b. Inr (p_digest pb b))"

section \<open>The evidence\<close>

text \<open>The files, and the summary: the fields before and after \<open>gates\<close>, and the entries of the gates.\<close>

type_synonym fields = "(string \<times> json) list"

record evidence =
  ev_files :: dirs
  ev_base :: fields
  ev_gates :: "fields list"
  ev_end :: fields

definition files_step :: "(dirs \<Rightarrow> dirs res) \<Rightarrow> (evidence, unit) prog" where
  "files_step g = (\<lambda>s. case g (ev_files s) of Inl e \<Rightarrow> (Inl e, s) | Inr t \<Rightarrow> (Inr (), s\<lparr>ev_files := t\<rparr>))"

definition look :: "(dirs \<Rightarrow> 'a res) \<Rightarrow> (evidence, 'a) prog" where
  "look g = tries (\<lambda>s. g (ev_files s))"

definition evidence_json :: "evidence \<Rightarrow> json" where
  "evidence_json s = JObj (ev_base s @ [(''gates'', JList (map JObj (ev_gates s)))] @ ev_end s)"

definition result_path :: "places \<Rightarrow> path" where
  "result_path pl = child (pl_output pl) ''result.json''"

definition save :: "probes \<Rightarrow> places \<Rightarrow> (evidence, unit) prog" where
  "save pb pl = (\<lambda>s. files_step (write_bytes (result_path pl) (p_dumps pb (evidence_json s) @ nl)) s)"

definition set_fields :: "nat \<Rightarrow> fields \<Rightarrow> (evidence, unit) prog" where
  "set_fields i fs = modify (\<lambda>s. s\<lparr>ev_gates := (ev_gates s)[i := dict_union (ev_gates s ! i) fs]\<rparr>)"

definition set_now :: "probes \<Rightarrow> nat \<Rightarrow> string \<Rightarrow> (evidence, unit) prog" where
  "set_now pb i k = (\<lambda>s. set_fields i [(k, JStr (p_now pb (ev_files s)))] s)"

text \<open>\<open>mkdir(mode=0o700, parents=False, exist_ok=False)\<close>.\<close>

definition make_dir :: "path \<Rightarrow> dirs \<Rightarrow> dirs res" where
  "make_dir p t =
     (if exists_at t p then Inl (FileExistsErr (path_str p))
      else if \<not> dir_at t (butlast p) then Inl (OSErr (path_str p)) else Inr (AList.update p Dir t))"

definition sources_of :: "places \<Rightarrow> dirs \<Rightarrow> path list" where
  "sources_of pl t = sort (files_in t (scripts_of pl))"

text \<open>\<open>Path.suffix\<close>: from the last dot of the name, unless it is the first or the last character.\<close>

definition suffix_of :: "string \<Rightarrow> string" where
  "suffix_of n =
     (let after = rev (takeWhile (\<lambda>c. c \<noteq> CHR ''.'') (rev n)) in
      if length after = length n \<or> Suc (length after) = length n \<or> after = [] then [] else CHR ''.'' # after)"

definition code_extensions :: "string list" where
  "code_extensions = [''.ts'', ''.tsx'', ''.js'', ''.mjs'', ''.rs'', ''.go'', ''.py'']"

text \<open>A new source file that git does not know is kept below \<open>source-untracked\<close>.\<close>

definition keep_untracked :: "probes \<Rightarrow> places \<Rightarrow> string \<Rightarrow> (evidence, fields list) prog" where
  "keep_untracked pb pl name =
     (let source = path_at (pl_repo pl) name; snapshot = path_at (child (pl_output pl) ''source-untracked'') name in
      pbind (look (\<lambda>t. Inr (file_at t source))) (\<lambda>is_file.
      if source = [] \<or> suffix_of (last source) \<notin> set code_extensions \<or> \<not> is_file then ret []
      else pseq (files_step (make_dirs (butlast snapshot)))
          (pseq (files_step (copy_bytes source snapshot))
          (pbind (look (\<lambda>t. file_digest pb t source)) (\<lambda>d.
           ret [[(''path'', JStr name), (''snapshot'', JStr (relative_text (pl_output pl) snapshot)),
                 (''sha256'', JStr d)]])))))"

fun keep_all_untracked :: "probes \<Rightarrow> places \<Rightarrow> string list \<Rightarrow> (evidence, fields list) prog" where
  "keep_all_untracked pb pl [] = ret []"
| "keep_all_untracked pb pl (n # ns) =
     pbind (keep_untracked pb pl n) (\<lambda>fs. pbind (keep_all_untracked pb pl ns) (\<lambda>rest. ret (fs @ rest)))"

definition digests :: "probes \<Rightarrow> (path \<Rightarrow> string) \<Rightarrow> path list \<Rightarrow> dirs \<Rightarrow> (string \<times> string) list res" where
  "digests pb key ps t = rmap (\<lambda>p. rbind (file_digest pb t p) (\<lambda>d. Inr (key p, d))) ps"

definition digest_json :: "(string \<times> string) list \<Rightarrow> json" where
  "digest_json ds = JObj (map (\<lambda>(k, d). (k, JStr d)) ds)"

text \<open>What the script remembers of the candidate while the gates run.\<close>

record candidate =
  c_artifacts :: "(string \<times> string) list"
  c_scripts :: "(string \<times> string) list"
  c_sources :: "path list"
  c_signature :: string

definition prepare_evidence :: "probes \<Rightarrow> places \<Rightarrow> string list \<Rightarrow> (evidence, candidate) prog" where
  "prepare_evidence pb pl names =
     pbind (look (\<lambda>t. Inr (p_darwin pb \<and> dir_at t (pl_app pl) \<and> list_all (file_at t) (artifacts_of pl)))) (\<lambda>ok.
     pseq (require ok (ValueErr ''a real installed macOS Preview app is required''))
    (pseq (look (p_verify pb))
    (pbind (look (p_signature pb)) (\<lambda>sig.
     pseq (files_step (make_dir (pl_output pl)))
    (pseq (files_step (write_bytes (child (pl_output pl) ''signature.txt'') sig))
    (pbind (look (\<lambda>t. Inr (sources_of pl t))) (\<lambda>sources.
     pseq (files_step (make_dir (child (pl_output pl) ''scripts'')))
    (pseq (for_each (\<lambda>p. files_step (copy_bytes p (child (child (pl_output pl) ''scripts'') (last p)))) sources)
    (pbind (lift (p_diff pb)) (\<lambda>patch.
     pseq (files_step (write_bytes (child (pl_output pl) ''source.patch'') patch))
    (pbind (keep_all_untracked pb pl (sort (filter (\<lambda>n. n \<noteq> []) (p_untracked pb)))) (\<lambda>new_sources.
     pbind (look (digests pb (relative_text (pl_app pl)) (artifacts_of pl))) (\<lambda>arts.
     pbind (look (\<lambda>t. file_digest pb t (child (scripts_of pl) ''verify-installed-d.py''))) (\<lambda>runner.
     pbind (look (digests pb last sources)) (\<lambda>srcs.
     pseq (\<lambda>s. (Inr (), s\<lparr>
        ev_base :=
          [(''startedAt'', JStr (p_now pb (ev_files s))), (''app'', JStr (path_str (pl_app pl))),
           (''sourceHead'', JStr (p_head pb)), (''dirty'', JBool (p_dirty pb)),
           (''sourcePatchSha256'', JStr (p_digest pb patch)),
           (''untrackedCodeSources'', JList (map JObj new_sources)),
           (''artifactSha256'', digest_json arts), (''runnerSha256'', JStr runner),
           (''scriptSha256'', digest_json srcs),
           (''scope'', JStr ''Selected programmatic D gates only; physical UI, historical stability and complete D/E acceptance remain separate.'')],
        ev_gates := map (\<lambda>n. [(''name'', JStr n), (''status'', JStr ''not-run'')]) names, ev_end := []\<rparr>))
    (pseq (save pb pl)
    (ret \<lparr>c_artifacts = arts, c_scripts = srcs, c_sources = sources, c_signature = sig\<rparr>)))))))))))))))))"

section \<open>Running the gates\<close>

text \<open>\<open>any(digest(path) != recorded[key])\<close> stops at the first that differs.\<close>

definition unchanged :: "probes \<Rightarrow> (path \<Rightarrow> string) \<Rightarrow> (string \<times> string) list \<Rightarrow> path list \<Rightarrow> dirs \<Rightarrow> bool res" where
  "unchanged pb key recorded ps t =
     rall (\<lambda>p. rbind (file_digest pb t p) (\<lambda>d.
       case map_of recorded (key p) of None \<Rightarrow> Inl (KeyErr (key p)) | Some r \<Rightarrow> Inr (d = r))) ps"

definition check_unchanged :: "probes \<Rightarrow> places \<Rightarrow> candidate \<Rightarrow> path \<Rightarrow> string \<Rightarrow> (evidence, unit) prog" where
  "check_unchanged pb pl c source source_digest =
     pbind (look (unchanged pb (relative_text (pl_app pl)) (c_artifacts c) (artifacts_of pl))) (\<lambda>same.
     pseq (require same (RuntimeErr ''installed candidate identity changed during acceptance''))
    (pbind (look (\<lambda>t. file_digest pb t source)) (\<lambda>d.
     pseq (require (d = source_digest) (RuntimeErr ''gate script changed during acceptance''))
    (pbind (look (unchanged pb last (c_scripts c) (c_sources c))) (\<lambda>same.
     pseq (require same (RuntimeErr ''verification dependency changed during acceptance''))
    (pseq (look (p_verify pb))
    (pbind (look (p_signature pb)) (\<lambda>sig.
     require (sig = c_signature c) (RuntimeErr ''signed candidate identity changed during acceptance'')))))))))"

definition gate_process :: "probes \<Rightarrow> string \<Rightarrow> string list \<Rightarrow> (evidence, int) prog" where
  "gate_process pb name args = (\<lambda>s. case p_run pb name args (ev_files s) of (r, t) \<Rightarrow> (r, s\<lparr>ev_files := t\<rparr>))"

text \<open>The body of the \<open>try\<close>: the log is opened, the gate runs, and everything is compared again.\<close>

definition run_checked :: "probes \<Rightarrow> places \<Rightarrow> candidate \<Rightarrow> nat \<Rightarrow> string \<Rightarrow> path \<Rightarrow> string \<Rightarrow> string list
     \<Rightarrow> (evidence, bool) prog" where
  "run_checked pb pl c i name source source_digest args =
     pseq (files_step (write_bytes (child (pl_output pl) (name @ ''.log'')) []))
    (pbind (gate_process pb name args) (\<lambda>code.
     pseq (set_fields i [(''exitCode'', JInt code)])
    (pseq (check_unchanged pb pl c source source_digest)
    (pseq (set_fields i [(''status'', JStr (if code = 0 then ''passed'' else ''failed''))])
    (ret (code = 0))))))"

definition record_error :: "probes \<Rightarrow> places \<Rightarrow> nat \<Rightarrow> exc \<Rightarrow> (evidence, unit) prog" where
  "record_error pb pl i e =
     pseq (set_fields i [(''status'', JStr ''failed''), (''error'', JStr (p_error pb e))]) (save pb pl)"

definition start_entry :: "probes \<Rightarrow> nat \<Rightarrow> string \<Rightarrow> string \<Rightarrow> string \<Rightarrow> string list \<Rightarrow> (evidence, unit) prog" where
  "start_entry pb i name script d args =
     pseq (set_fields i [(''status'', JStr ''running''), (''script'', JStr script), (''scriptSha256'', JStr d),
             (''args'', JList (map JStr args))])
    (pseq (set_now pb i ''startedAt'')
    (set_fields i [(''log'', JStr (name @ ''.log''))]))"

definition run_gate :: "probes \<Rightarrow> places \<Rightarrow> candidate \<Rightarrow> nat \<Rightarrow> string \<Rightarrow> (evidence, bool) prog" where
  "run_gate pb pl c i name =
     (case map_of gate_table name of
        None \<Rightarrow> raise (KeyErr name)
      | Some (script, args) \<Rightarrow>
          let source = child (scripts_of pl) script in
          pbind (look (\<lambda>t. file_digest pb t source)) (\<lambda>d.
          pseq (start_entry pb i name script d args)
         (pseq (files_step (copy_bytes source (child (pl_output pl) script)))
         (pseq (save pb pl)
         (pbind (on_raise (run_checked pb pl c i name source d args) (record_error pb pl i)) (\<lambda>passed.
          pseq (set_now pb i ''finishedAt'')
         (pseq (save pb pl)
         (ret passed))))))))"

fun run_gates :: "probes \<Rightarrow> places \<Rightarrow> candidate \<Rightarrow> nat \<Rightarrow> string list \<Rightarrow> (evidence, int) prog" where
  "run_gates pb pl c i [] =
     pseq (\<lambda>s. (Inr (), s\<lparr>ev_end := [(''finishedAt'', JStr (p_now pb (ev_files s)))]\<rparr>))
    (pseq (save pb pl)
    (ret 0))"
| "run_gates pb pl c i (n # ns) =
     pbind (run_gate pb pl c i n) (\<lambda>passed. if passed then run_gates pb pl c (Suc i) ns else ret 1)"

definition verify_installed :: "probes \<Rightarrow> places \<Rightarrow> string list \<Rightarrow> (evidence, int) prog" where
  "verify_installed pb pl names =
     pbind (prepare_evidence pb pl names) (\<lambda>c. run_gates pb pl c 0 names)"

text \<open>The command line: a gate is chosen at most once, and only gates of the table.\<close>

definition gates_command :: "probes \<Rightarrow> places \<Rightarrow> string list option \<Rightarrow> (evidence, int) prog" where
  "gates_command pb pl chosen =
     (let names = (case chosen of None \<Rightarrow> default_gates | Some ns \<Rightarrow> ns) in
      pseq (require (names \<noteq> [] \<and> list_all (\<lambda>n. map_of gate_table n \<noteq> None) names) (ExitErr ''2''))
     (pseq (require (distinct names) (ExitErr ''2''))
     (\<lambda>s. case verify_installed pb pl names s of
            (Inl (ValueErr m), s') \<Rightarrow> (Inl (ExitErr ''2''), s')
          | (Inl (FileExistsErr m), s') \<Rightarrow> (Inl (ExitErr ''2''), s')
          | r \<Rightarrow> r)))"

end
