(* ===== verification/GateProps.thy ===== *)
theory GateProps
  imports InstalledGates
begin

text \<open>
  What the evidence of an acceptance run says: the summary on disk is the summary of the run, its
  gates are passed in order up to the first that failed, and the candidate that passed is the one
  that was recorded.
\<close>

section \<open>Steps\<close>

definition saved :: "probes \<Rightarrow> places \<Rightarrow> evidence \<Rightarrow> bool" where
  "saved pb pl s \<longleftrightarrow> map_of (ev_files s) (result_path pl) = Some (File (p_dumps pb (evidence_json s) @ nl))"

definition same_artifacts :: "probes \<Rightarrow> places \<Rightarrow> (string \<times> string) list \<Rightarrow> dirs \<Rightarrow> bool" where
  "same_artifacts pb pl arts t \<longleftrightarrow>
     (\<forall>p \<in> set (artifacts_of pl). \<exists>b. read_bytes t p = Inr b
        \<and> map_of arts (relative_text (pl_app pl) p) = Some (p_digest pb b))"

lemma evidence_ok [ok_simps]:
  "files_step g s = (Inr u, s') \<longleftrightarrow> (\<exists>t. g (ev_files s) = Inr t \<and> s' = s\<lparr>ev_files := t\<rparr>)"
  "look h s = (Inr x, s') \<longleftrightarrow> h (ev_files s) = Inr x \<and> s' = s"
  "set_fields i fs s = (Inr v, s') \<longleftrightarrow> s' = s\<lparr>ev_gates := (ev_gates s)[i := dict_union (ev_gates s ! i) fs]\<rparr>"
  "set_now pb i k s = (Inr w, s')
    \<longleftrightarrow> s' = s\<lparr>ev_gates := (ev_gates s)[i := dict_union (ev_gates s ! i) [(k, JStr (p_now pb (ev_files s)))]]\<rparr>"
  by (auto simp: files_step_def look_def set_fields_def set_now_def ok_simps split: sum.splits)

lemma gate_process_ok [ok_simps]:
  "gate_process pb name args s = (Inr code, s')
    \<longleftrightarrow> (\<exists>t. p_run pb name args (ev_files s) = (Inr code, t) \<and> s' = s\<lparr>ev_files := t\<rparr>)"
  by (auto simp: gate_process_def split: prod.splits)

lemma artifact_not_result: "p \<in> set (artifacts_of pl) \<Longrightarrow> p \<noteq> result_path pl"
  by (auto simp: artifacts_of_def result_path_def child_def dest: arg_cong[where f = last])

lemma save_ok:
  assumes "save pb pl s = (Inr u, s')"
  shows "saved pb pl s'" and "ev_gates s' = ev_gates s" and "ev_base s' = ev_base s" and "ev_end s' = ev_end s"
    and "same_artifacts pb pl arts (ev_files s) \<Longrightarrow> same_artifacts pb pl arts (ev_files s')"
proof -
  from assms obtain t where t: "write_bytes (result_path pl) (p_dumps pb (evidence_json s) @ nl) (ev_files s) = Inr t"
    "s' = s\<lparr>ev_files := t\<rparr>"
    by (auto simp: save_def ok_simps)
  have m: "map_of t = (map_of (ev_files s))(result_path pl \<mapsto> File (p_dumps pb (evidence_json s) @ nl))"
    by (rule write_bytes_Inr[OF t(1)])
  show "saved pb pl s'" by (simp add: saved_def t(2) m evidence_json_def)
  show "ev_gates s' = ev_gates s" "ev_base s' = ev_base s" "ev_end s' = ev_end s" by (simp_all add: t(2))
  show "same_artifacts pb pl arts (ev_files s')" if "same_artifacts pb pl arts (ev_files s)"
    using that artifact_not_result by (auto simp: same_artifacts_def t(2) m)
qed

lemma unchanged_ok:
  assumes "unchanged pb key recorded ps t = Inr True" and "p \<in> set ps"
  shows "\<exists>b. read_bytes t p = Inr b \<and> map_of recorded (key p) = Some (p_digest pb b)"
proof -
  have "rbind (file_digest pb t p) (\<lambda>d. case map_of recorded (key p) of
      None \<Rightarrow> Inl (KeyErr (key p)) | Some r \<Rightarrow> Inr (d = r)) = Inr True"
    using assms by (simp add: unchanged_def rall_true_iff)
  then show ?thesis by (auto simp: file_digest_def split: option.splits)
qed

lemma check_unchanged_ok:
  assumes "check_unchanged pb pl c source d s = (Inr u, s')"
  shows "s' = s" and "same_artifacts pb pl (c_artifacts c) (ev_files s)"
proof -
  from assms have *: "s' = s" "unchanged pb (relative_text (pl_app pl)) (c_artifacts c) (artifacts_of pl) (ev_files s) = Inr True"
    by (auto simp: check_unchanged_def ok_simps)
  show "s' = s" by (rule *(1))
  show "same_artifacts pb pl (c_artifacts c) (ev_files s)"
    unfolding same_artifacts_def using unchanged_ok[OF *(2)] by blast
qed

text \<open>The fields of an entry when its run is over.\<close>

definition finish_fields :: "int \<Rightarrow> fields \<Rightarrow> fields" where
  "finish_fields code g = dict_union (dict_union g [(''exitCode'', JInt code)])
     [(''status'', JStr (if code = 0 then ''passed'' else ''failed''))]"

lemma run_checked_ok:
  assumes "run_checked pb pl c i name source d args s = (Inr ok, s')" and "i < length (ev_gates s)"
  shows "\<exists>code. ok = (code = 0) \<and> ev_base s' = ev_base s \<and> ev_end s' = ev_end s
    \<and> ev_gates s' = (ev_gates s)[i := finish_fields code (ev_gates s ! i)]
    \<and> same_artifacts pb pl (c_artifacts c) (ev_files s')"
proof -
  from assms(1) obtain t u code where run:
    "check_unchanged pb pl c source d (s\<lparr>ev_files := t,
       ev_gates := (ev_gates s)[i := dict_union (ev_gates s ! i) [(''exitCode'', JInt code)]]\<rparr>) = (Inr (), u)"
    "s' = u\<lparr>ev_gates := (ev_gates u)[i := dict_union (ev_gates u ! i) [(''status'', JStr (if code = 0 then ''passed'' else ''failed''))]]\<rparr>"
    "ok = (code = 0)"
    unfolding run_checked_def by (force simp: ok_simps simp del: dict_union.simps)
  note c = check_unchanged_ok[OF run(1)]
  show ?thesis
    by (rule exI[of _ code]) (use run(2,3) c assms(2) in \<open>simp add: finish_fields_def\<close>)
qed

section \<open>Gates in order\<close>

definition passed_entry :: "string \<Rightarrow> fields \<Rightarrow> bool" where
  "passed_entry n g \<longleftrightarrow> map_of g ''name'' = Some (JStr n) \<and> map_of g ''status'' = Some (JStr ''passed'')
     \<and> map_of g ''exitCode'' = Some (JInt 0)"

definition failed_entry :: "string \<Rightarrow> fields \<Rightarrow> bool" where
  "failed_entry n g \<longleftrightarrow> map_of g ''name'' = Some (JStr n) \<and> map_of g ''status'' = Some (JStr ''failed'')
     \<and> (\<exists>code. code \<noteq> 0 \<and> map_of g ''exitCode'' = Some (JInt code))"

definition waiting_entry :: "string \<Rightarrow> fields" where
  "waiting_entry n = [(''name'', JStr n), (''status'', JStr ''not-run'')]"

lemma finished_entry:
  assumes "map_of g ''name'' = Some (JStr n)"
  shows "if code = 0 then passed_entry n (dict_union (finish_fields code g) [(''finishedAt'', v)])
    else failed_entry n (dict_union (finish_fields code g) [(''finishedAt'', v)])"
  using assms by (auto simp: finish_fields_def passed_entry_def failed_entry_def map_of_dict_union
      simp del: dict_union.simps)

lemma start_entry_ok:
  assumes "start_entry pb i name script d args s = (Inr u, s')" and "i < length (ev_gates s)"
  shows "\<exists>g. s' = s\<lparr>ev_gates := (ev_gates s)[i := g]\<rparr> \<and> map_of g ''name'' = map_of (ev_gates s ! i) ''name''"
  using assms by (auto simp: start_entry_def ok_simps map_of_dict_union simp del: dict_union.simps)

lemma run_gate_ok:
  assumes run: "run_gate pb pl c (length done_gates) n s = (Inr ok, s')"
    and gates: "ev_gates s = done_gates @ waiting_entry n # rest"
  shows "\<exists>g. ev_gates s' = done_gates @ g # rest \<and> (if ok then passed_entry n g else failed_entry n g)
    \<and> ev_base s' = ev_base s \<and> ev_end s' = ev_end s \<and> saved pb pl s'
    \<and> same_artifacts pb pl (c_artifacts c) (ev_files s')"
proof -
  let ?i = "length done_gates"
  from run obtain script args where script: "map_of gate_table n = Some (script, args)"
    by (auto simp: run_gate_def ok_simps split: option.splits)
  from run script obtain d a t b w where
    a: "start_entry pb ?i n script d args s = (Inr (), a)"
    and b: "save pb pl (a\<lparr>ev_files := t\<rparr>) = (Inr (), b)"
    and w: "run_checked pb pl c ?i n (child (scripts_of pl) script) d args b = (Inr ok, w)"
    and s': "save pb pl (w\<lparr>ev_gates := (ev_gates w)[?i := dict_union (ev_gates w ! ?i)
        [(''finishedAt'', JStr (p_now pb (ev_files w)))]]\<rparr>) = (Inr (), s')"
    by (auto simp: run_gate_def ok_simps Let_def simp del: dict_union.simps)
  have len: "?i < length (ev_gates s)" by (simp add: gates)
  obtain g where g: "a = s\<lparr>ev_gates := (ev_gates s)[?i := g]\<rparr>" "map_of g ''name'' = map_of (ev_gates s ! ?i) ''name''"
    using start_entry_ok[OF a len] by blast
  note b = save_ok[OF b]
  have "?i < length (ev_gates b)" using len by (simp add: b(2) g(1))
  from run_checked_ok[OF w this] obtain code where code: "ok = (code = 0)" "ev_base w = ev_base b" "ev_end w = ev_end b"
    "ev_gates w = (ev_gates b)[?i := finish_fields code (ev_gates b ! ?i)]"
    "same_artifacts pb pl (c_artifacts c) (ev_files w)" by blast
  note s' = save_ok[OF s']
  let ?g = "dict_union (finish_fields code g) [(''finishedAt'', JStr (p_now pb (ev_files w)))]"
  have "ev_gates s' = done_gates @ ?g # rest"
    by (simp add: s'(2) code(4) b(2) g(1) gates list_update_append nth_append del: dict_union.simps)
  moreover have "map_of g ''name'' = Some (JStr n)"
    by (simp add: g(2) gates nth_append waiting_entry_def)
  then have "if ok then passed_entry n ?g else failed_entry n ?g"
    unfolding code(1) by (rule finished_entry)
  moreover have "ev_base s' = ev_base s" "ev_end s' = ev_end s"
    by (simp_all add: s'(3,4) code(2,3) b(3,4) g(1))
  ultimately show ?thesis using s'(1,5) code(5) by auto
qed

text \<open>The verdict: all gates passed, or those before the first failed one, which is the last that ran.\<close>

definition verdict :: "int \<Rightarrow> string list \<Rightarrow> fields list \<Rightarrow> bool" where
  "verdict code names gs \<longleftrightarrow>
     code = 0 \<and> list_all2 passed_entry names gs
     \<or> code = 1 \<and> (\<exists>before n after ps g. names = before @ n # after \<and> gs = ps @ g # map waiting_entry after
          \<and> list_all2 passed_entry before ps \<and> failed_entry n g)"

lemma verdict_step: "passed_entry n g \<Longrightarrow> verdict code names gs \<Longrightarrow> verdict code (n # names) (g # gs)"
proof -
  assume g: "passed_entry n g" and v: "verdict code names gs"
  show "verdict code (n # names) (g # gs)"
  proof (cases "code = 0 \<and> list_all2 passed_entry names gs")
    case True
    then show ?thesis using g by (simp add: verdict_def)
  next
    case False
    then obtain before m after ps h where "code = 1" "names = before @ m # after" "gs = ps @ h # map waiting_entry after"
      "list_all2 passed_entry before ps" "failed_entry m h"
      using v unfolding verdict_def by blast
    then have "n # names = (n # before) @ m # after" "g # gs = (g # ps) @ h # map waiting_entry after"
      "list_all2 passed_entry (n # before) (g # ps)" using g by simp_all
    with \<open>code = 1\<close> \<open>failed_entry m h\<close> show ?thesis unfolding verdict_def by blast
  qed
qed

lemma run_gates_ok:
  assumes "run_gates pb pl c (length done_gates) names s = (Inr code, s')"
    and "ev_gates s = done_gates @ map waiting_entry names" and "ev_end s = []"
  shows "\<exists>gs. ev_gates s' = done_gates @ gs \<and> verdict code names gs \<and> ev_base s' = ev_base s \<and> saved pb pl s'
    \<and> (names \<noteq> [] \<or> same_artifacts pb pl (c_artifacts c) (ev_files s)
        \<longrightarrow> same_artifacts pb pl (c_artifacts c) (ev_files s'))"
  using assms
proof (induction names arbitrary: done_gates s)
  case Nil
  then obtain u where "save pb pl u = (Inr (), s')" "ev_gates u = ev_gates s" "ev_base u = ev_base s"
    "ev_files u = ev_files s" "code = 0"
    by (auto simp: ok_simps)
  with save_ok[of pb pl u "()" s'] Nil.prems show ?case by (simp add: verdict_def)
next
  case (Cons n names)
  from Cons.prems(1) obtain ok u where u: "run_gate pb pl c (length done_gates) n s = (Inr ok, u)"
    and rest: "if ok then run_gates pb pl c (Suc (length done_gates)) names u = (Inr code, s') else code = 1 \<and> s' = u"
    by (auto simp: ok_simps split: if_splits)
  from run_gate_ok[OF u] Cons.prems(2) obtain g where g: "ev_gates u = done_gates @ g # map waiting_entry names"
    "if ok then passed_entry n g else failed_entry n g" "ev_base u = ev_base s" "ev_end u = ev_end s" "saved pb pl u"
    "same_artifacts pb pl (c_artifacts c) (ev_files u)" by auto
  show ?case
  proof (cases ok)
    case True
    from Cons.IH[of "done_gates @ [g]" u] True rest g Cons.prems(3) obtain gs where
      "ev_gates s' = (done_gates @ [g]) @ gs" "verdict code names gs" "ev_base s' = ev_base u" "saved pb pl s'"
      "same_artifacts pb pl (c_artifacts c) (ev_files s')" by auto
    with verdict_step[of n g code names gs] g(2,3) True show ?thesis by (intro exI[of _ "g # gs"]) simp
  next
    case False
    then have "verdict code (n # names) (g # map waiting_entry names)"
      using rest g(2) unfolding verdict_def by (intro disjI2 conjI exI[of _ "[]"] exI[of _ n] exI[of _ names] exI[of _ g]) auto
    then show ?thesis using False rest g by (intro exI[of _ "g # map waiting_entry names"]) simp
  qed
qed

section \<open>The evidence\<close>

lemma prepare_evidence_ok:
  assumes "prepare_evidence pb pl names s = (Inr c, s')"
  shows "\<not> exists_at (ev_files s) (pl_output pl)" and "ev_gates s' = map waiting_entry names" and "ev_end s' = []"
    and "saved pb pl s'" and "map_of (ev_base s') ''artifactSha256'' = Some (digest_json (c_artifacts c))"
proof -
  from assms have "\<exists>t. make_dir (pl_output pl) (ev_files s) = Inr t"
    by (auto simp: prepare_evidence_def ok_simps)
  then show "\<not> exists_at (ev_files s) (pl_output pl)" by (auto simp: make_dir_def split: if_splits)
  from assms obtain u v where save: "save pb pl v = (Inr (), s')"
    and v: "ev_gates v = map (\<lambda>n. [(''name'', JStr n), (''status'', JStr ''not-run'')]) names" "ev_end v = []"
    "map_of (ev_base v) ''artifactSha256'' = Some (digest_json (c_artifacts c))"
    by (auto simp: prepare_evidence_def ok_simps)
  note s' = save_ok[OF save]
  show "ev_gates s' = map waiting_entry names" by (simp add: s'(2) v(1) waiting_entry_def)
  show "ev_end s' = []" "saved pb pl s'" "map_of (ev_base s') ''artifactSha256'' = Some (digest_json (c_artifacts c))"
    by (simp_all add: s' v(2,3))
qed


section \<open>A run\<close>

definition d_probes :: probes where
  "d_probes = \<lparr>p_darwin = True, p_verify = (\<lambda>t. Inr ()), p_signature = (\<lambda>t. Inr ''sig''), p_diff = Inr ''diff'',
     p_untracked = [''cmd/new.go'', ''cmd/notes.txt''], p_head = ''abc'', p_dirty = False, p_digest = (\<lambda>b. b),
     p_run = (\<lambda>name args t. (Inr (if name = ''reload'' then 1 else 0), t)), p_now = (\<lambda>t. ''now''),
     p_dumps = (\<lambda>j. ''summary''), p_error = (\<lambda>e. ''error'')\<rparr>"

definition d_places :: places where
  "d_places = \<lparr>pl_repo = [''r''], pl_app = [''A.app''], pl_output = [''o'']\<rparr>"

definition d_files :: dirs where
  "d_files = map (\<lambda>p. (p, File ''x'')) (artifacts_of d_places) @
     [([''A.app''], Dir), ([''r'', ''cmd'', ''new.go''], File ''g''),
      (scripts_of d_places @ [''smoke-packaged-app.py''], File ''p''), (scripts_of d_places @ [''smoke-native-reload.py''], File ''q''),
      (scripts_of d_places @ [''verify-installed-d.py''], File ''v'')]"

definition d_start :: evidence where
  "d_start = \<lparr>ev_files = d_files, ev_base = [], ev_gates = [], ev_end = []\<rparr>"

definition d_run :: "int res \<times> evidence" where
  "d_run = verify_installed d_probes d_places [''package'', ''reload'', ''links''] d_start"

lemma d_run_code: "fst d_run = Inr 1"
  by code_simp


end
