(* ===== verification/PreviewLaunch.thy ===== *)
theory PreviewLaunch
  imports PackagedApp
begin

text \<open>
  Private launches of the installed application (\<open>tools/tauri/probe-launch-services-profile.py\<close>):
  the saved window geometry that may seed a fixture, the options that may be combined, the reuse of a
  completed fixture, and a launch from its first process to its last receipt.
\<close>

section \<open>Window geometry\<close>

definition native_phases :: "string list" where
  "native_phases = [''menu-settings-hidden'', ''menu-settings-minimized'', ''menu-settings-native-minimized'']"

definition geometry_keys :: "string list" where
  "geometry_keys = [''width'', ''height'', ''x'', ''y'', ''scale_factor'', ''maximized'']"

definition int_between :: "int \<Rightarrow> int \<Rightarrow> json \<Rightarrow> bool" where
  "int_between lo hi j = (case j of JInt i \<Rightarrow> lo \<le> i \<and> i \<le> hi | _ \<Rightarrow> False)"

definition valid_scale :: "json \<Rightarrow> bool" where
  "valid_scale j = (case j of JInt i \<Rightarrow> 1 \<le> 2 * i \<and> i \<le> 8 | JFloat r \<Rightarrow> 1 / 2 \<le> r \<and> r \<le> 8 | _ \<Rightarrow> False)"

definition valid_window_state :: "json \<Rightarrow> bool" where
  "valid_window_state state =
     (int_between 900 16384 (field state ''width'') \<and> int_between 620 16384 (field state ''height'')
      \<and> int_between (- (2 ^ 31)) (2 ^ 31 - 1) (field state ''x'')
      \<and> int_between (- (2 ^ 31)) (2 ^ 31 - 1) (field state ''y'')
      \<and> valid_scale (field state ''scale_factor'') \<and> field state ''maximized'' = JBool False)"

definition read_window_state_template :: "services \<Rightarrow> store \<Rightarrow> path \<Rightarrow> json res" where
  "read_window_state_template sv t p =
     rbind (rcheck (case map_of t p of None \<Rightarrow> False | Some i \<Rightarrow> is_regular i \<and> size_of i \<le> 4096)
              (ValueErr ''window template must be a bounded regular JSON file'')) (\<lambda>_.
     rbind (load_text sv t p) (\<lambda>state.
     rbind (rcheck (case state of JObj kvs \<Rightarrow> set (map fst kvs) = set geometry_keys | _ \<Rightarrow> False)
              (ValueErr ''window template must contain only saved geometry'')) (\<lambda>_.
     rbind (rcheck (valid_window_state state)
              (ValueErr ''window template must describe valid normal physical bounds'')) (\<lambda>_.
     Inr state))))"

definition expected_window_geometry :: "json \<Rightarrow> json" where
  "expected_window_geometry state = JObj
     [(''x'', field state ''x''), (''y'', field state ''y''), (''width'', field state ''width''),
      (''height'', field state ''height''), (''scale'', field state ''scale_factor'')]"

definition required_stages :: "string \<Rightarrow> string list" where
  "required_stages ph =
     ''settings-shown'' # (if ph \<noteq> ''menu-settings-hidden'' then [''settings-minimize-ready'', ''settings-minimized''] else [])"

text \<open>One line of the trace; the stages seen so far are the state of the loop.\<close>

definition placement_line :: "services \<Rightarrow> json \<Rightarrow> string list \<Rightarrow> string \<Rightarrow> string set \<Rightarrow> string set res" where
  "placement_line sv expected required line seen =
     rbind (sv_loads sv line) (\<lambda>rec.
     rbind (jget rec ''stage'') (\<lambda>stage.
     rbind (rcheck (hashable stage) (TypeErr ''unhashable'')) (\<lambda>_.
     case stage of
       JStr st \<Rightarrow>
         if st \<notin> set required then Inr seen
         else rbind (rbind (jidx rec ''state'') (\<lambda>state. jidx state ''geometry'')) (\<lambda>g.
              rbind (rcheck (jeq g expected) (RuntimeErr ''Settings native phase escaped requested window geometry'')) (\<lambda>_.
              Inr (insert st seen)))
     | _ \<Rightarrow> Inr seen)))"

definition verify_native_placement :: "services \<Rightarrow> store \<Rightarrow> path \<Rightarrow> json \<Rightarrow> string \<Rightarrow> json res" where
  "verify_native_placement sv t trace state ph =
     (let expected = expected_window_geometry state; required = required_stages ph in
      rbind (read_file t trace) (\<lambda>txt.
      rbind (rfold (placement_line sv expected required) (split_lines txt) {}) (\<lambda>seen.
      rbind (rcheck (seen = set required) (RuntimeErr ''Settings native phase lacks requested placement observations'')) (\<lambda>_.
      Inr expected))))"

text \<open>\<open>seed_window_state\<close>: missing folders are made private, the file must not exist yet.\<close>

definition make_folder :: "services \<Rightarrow> path \<Rightarrow> store \<Rightarrow> store" where
  "make_folder sv p t =
     AList.update p \<lparr>n_kind = Directory, n_uid = sv_uid sv, n_perm = 448, n_mtime = sv_clock sv t,
       n_inode = sv_new_inode sv t\<rparr> t"

definition make_folders :: "services \<Rightarrow> path \<Rightarrow> store \<Rightarrow> store" where
  "make_folders sv p t =
     fold (\<lambda>k t. if present t (take k p) then t else make_folder sv (take k p) t) [1..<Suc (length p)] t"

definition seed_window_state :: "services \<Rightarrow> path \<Rightarrow> json \<Rightarrow> store \<Rightarrow> store res" where
  "seed_window_state sv app_data state t =
     (let t = make_folders sv app_data t; target = child app_data ''window-state.json'' in
      rbind (rcheck (is_folder t app_data) (OSErr (path_str target))) (\<lambda>_.
      rbind (touch_new sv target t) (\<lambda>t.
      overwrite sv target (sv_dumps sv state @ nl) t)))"

section \<open>Options\<close>

record options =
  o_managed :: bool
  o_interactive :: bool
  o_observe :: bool
  o_failure :: bool
  o_existing :: "path option"
  o_phase :: "string option"
  o_window :: "json option"

definition validate_window_template_mode :: "options \<Rightarrow> unit res" where
  "validate_window_template_mode o1 =
     (let interactive_mode = o_interactive o1 \<and> o_observe o1 \<and> o_phase o1 = None;
          native_mode = (case o_phase o1 of None \<Rightarrow> False | Some p \<Rightarrow> p \<in> set native_phases)
            \<and> \<not> o_interactive o1 \<and> \<not> o_observe o1 in
      rcheck (o_existing o1 = None \<and> \<not> o_failure o1 \<and> (interactive_mode \<or> native_mode))
        (ValueErr ''window template requires fresh interactive observation or an isolated Settings native phase''))"

definition check_options :: "options \<Rightarrow> unit res" where
  "check_options o1 =
     rbind (if o_window o1 \<noteq> None then validate_window_template_mode o1 else Inr ()) (\<lambda>_.
     rbind (rcheck (case o_phase o1 of None \<Rightarrow> True
                    | Some p \<Rightarrow> p \<in> set native_phases \<and> \<not> o_interactive o1 \<and> \<not> o_observe o1 \<and> \<not> o_failure o1
                        \<and> o_existing o1 = None)
              (ValueErr ''native phase requires a new isolated noninteractive profile'')) (\<lambda>_.
     rcheck (o_existing o1 = None \<or> \<not> o_managed o1 \<and> o_interactive o1 \<and> o_observe o1 \<and> \<not> o_failure o1)
       (ValueErr ''profile reuse requires explicit interactive observation'')))"

text \<open>The tests of the command line, in their order.\<close>

definition check_command_line :: "options \<Rightarrow> int \<Rightarrow> unit res" where
  "check_command_line o1 wait_seconds =
     rbind (rcheck (o_existing o1 = None \<or> o_interactive o1 \<and> o_observe o1) (ExitErr ''2'')) (\<lambda>_.
     rbind (if o_window o1 \<noteq> None
            then (case validate_window_template_mode o1 of Inl (ValueErr m) \<Rightarrow> Inl (ExitErr ''2'') | r \<Rightarrow> r)
            else Inr ()) (\<lambda>_.
     rbind (rcheck (\<not> o_observe o1 \<or> o_interactive o1) (ExitErr ''2'')) (\<lambda>_.
     rbind (rcheck (\<not> (o_failure o1 \<and> o_interactive o1)) (ExitErr ''2'')) (\<lambda>_.
     rbind (rcheck (o_phase o1 = None \<or> \<not> o_interactive o1 \<and> \<not> o_observe o1 \<and> \<not> o_failure o1 \<and> o_existing o1 = None)
              (ExitErr ''2'')) (\<lambda>_.
     rcheck (1 \<le> wait_seconds \<and> wait_seconds \<le> 900 \<and> (wait_seconds = 300 \<or> o_interactive o1 \<and> o_observe o1))
       (ExitErr ''2''))))))"

section \<open>Reuse of a fixture\<close>

definition document_matches :: "path \<Rightarrow> path \<Rightarrow> string \<Rightarrow> json \<Rightarrow> json \<Rightarrow> bool res" where
  "document_matches app wroot ident previous exited =
     rall (\<lambda>x. x)
       [rbind (jget previous ''app'') (\<lambda>v. Inr (v = JStr (path_str app))),
        rbind (jget previous ''root'') (\<lambda>v. Inr (v = JStr (path_str wroot))),
        rbind (jget previous ''identifier'') (\<lambda>v. Inr (v = JStr ident)),
        rbind (jget previous ''profile'') (\<lambda>v. Inr (v = JStr ''explicit'')),
        rbind (jget exited ''exitCode'') (\<lambda>v. Inr (jeq v (JInt 0))),
        rbind (jget exited ''sidecarRemaining'') (\<lambda>v. Inr (v = JBool False)),
        rbind (jget exited ''readyRemaining'') (\<lambda>v. Inr (v = JBool False))]"

definition check_reuse ::
    "services \<Rightarrow> (string \<Rightarrow> json res) \<Rightarrow> path \<Rightarrow> string \<Rightarrow> path \<Rightarrow> process_row list \<Rightarrow> store \<Rightarrow> string res" where
  "check_reuse sv plist app ident wroot rows t =
     rbind (rcheck (sv_resolve sv wroot = wroot \<and> wroot \<noteq> [] \<and> butlast wroot = [''private'', ''tmp'']
                    \<and> starts_with ''reasonix-launch-services-'' (last wroot))
              (ValueErr ''only an exact private LaunchServices fixture may be reused'')) (\<lambda>_.
     rbind (rcheck (list_all (\<lambda>d. case map_of t d of None \<Rightarrow> False
                      | Some i \<Rightarrow> n_kind i = Directory \<and> n_uid i = sv_uid sv \<and> n_perm i mod 512 = 448)
                    [wroot, child wroot ''home'', child wroot ''tmp''])
              (ValueErr ''reused fixture directories must be owned, private and regular'')) (\<lambda>_.
     rbind (load_text sv t (child wroot ''launch.json'')) (\<lambda>previous.
     rbind (load_text sv t (child wroot ''result.json'')) (\<lambda>exited.
     rbind (document_matches app wroot ident previous exited) (\<lambda>completed.
     rbind (rcheck completed (ValueErr ''fixture lacks a matching completed normal launch'')) (\<lambda>_.
     rbind (matching_package_is_running plist ident rows) (\<lambda>busy.
     rbind (rcheck (\<not> busy \<and> own_sidecars (child wroot ''tmp'') (app @ [''Contents'', ''MacOS'', ''reasonix-desktop-bridge'']) rows = []
                    \<and> ready_files t (child wroot ''tmp'') = [])
              (RuntimeErr ''reused fixture still has a live process or readiness'')) (\<lambda>_.
     check_credential_profile sv t (child wroot ''core'')))))))))"

text \<open>The receipts of the completed launch move to \<open>history\<close>; the two that describe its end go.\<close>

definition kept_receipts :: "string list" where
  "kept_receipts = [''launch.json'', ''launch-control.json'', ''result.json'', ''exit-receipt.json'', ''host.log'']"

definition archive_receipts :: "services \<Rightarrow> path \<Rightarrow> path \<Rightarrow> store \<Rightarrow> store" where
  "archive_receipts sv wroot history t =
     fold AList.delete [child wroot ''result.json'', child wroot ''exit-receipt.json'']
       (fold (\<lambda>name t. case map_of t (child wroot name) of
                None \<Rightarrow> t
              | Some i \<Rightarrow>
                  if is_regular i
                  then AList.update (child history name) (i\<lparr>n_uid := sv_uid sv, n_inode := sv_new_inode sv t\<rparr>) t
                  else t) kept_receipts t)"

end
