(* ===== verification/ProfileLaunch.thy ===== *)
theory ProfileLaunch
  imports PreviewLaunch
begin

text \<open>
  A launch of the installed application in a private profile, from its first process to its last receipt
  (\<open>launch\<close> and the command of \<open>tools/tauri/probe-launch-services-profile.py\<close>). What
  the process table, the kernel and the application show is given; what the application does to the
  files is a function on the store for each stretch of time, and the script's own writes are computed.
\<close>

section \<open>The fixture\<close>

record fixture =
  f_app :: path
  f_identifier :: string
  f_root :: path
  f_managed :: bool

definition fixture_home :: "fixture \<Rightarrow> path" where
  "fixture_home f = child (f_root f) ''home''"

definition fixture_temp :: "fixture \<Rightarrow> path" where
  "fixture_temp f = child (f_root f) ''tmp''"

definition fixture_data :: "fixture \<Rightarrow> path" where
  "fixture_data f = fixture_home f @ [''Library'', ''Application Support'', f_identifier f]"

definition fixture_core :: "fixture \<Rightarrow> path" where
  "fixture_core f = (if f_managed f then child (fixture_data f) ''reasonix-core'' else child (f_root f) ''core'')"

definition host_path :: "path \<Rightarrow> path" where
  "host_path app = app @ [''Contents'', ''MacOS'', ''reasonix-tauri'']"

definition bridge_path :: "path \<Rightarrow> path" where
  "bridge_path app = app @ [''Contents'', ''MacOS'', ''reasonix-desktop-bridge'']"

definition profile_name :: "fixture \<Rightarrow> string" where
  "profile_name f = (if f_managed f then ''managed'' else ''explicit'')"

text \<open>The environment of the application, a dict in its order, and the command and environment of the opener.\<close>

definition probe_environment :: "fixture \<Rightarrow> options \<Rightarrow> env" where
  "probe_environment f o1 =
     (let e = [(''HOME'', path_str (fixture_home f)), (''TMPDIR'', path_str (fixture_temp f)),
               (''REASONIX_HOME'', if f_managed f then [] else path_str (fixture_core f)),
               (''REASONIX_TAURI_PACKAGE_SMOKE'',
                  if o_interactive o1 \<or> o_failure o1 \<or> o_phase o1 \<noteq> None then [] else ''1'')];
          e = (if f_managed f then e else AList.update ''REASONIX_CACHE_HOME'' (path_str (child (f_root f) ''cache'')) e);
          e = (if o_observe o1 then AList.update window_smoke ''interactive-observe'' e else e);
          e = (if o_failure o1 then AList.update window_smoke ''invalid-exit-status-probe'' e else e) in
      case o_phase o1 of None \<Rightarrow> e | Some ph \<Rightarrow> AList.update window_smoke ph e)"

definition opener_command :: "fixture \<Rightarrow> options \<Rightarrow> string list" where
  "opener_command f o1 =
     (let log = path_str (child (f_root f) ''host.log'') in
      [''/usr/bin/open'', ''-n'', ''-W'', path_str (f_app f), ''--stdout'', log, ''--stderr'', log]
      @ concat (map env_option (probe_environment f o1)))"

definition probe_opener_environment :: "env \<Rightarrow> env" where
  "probe_opener_environment e =
     concat (map (\<lambda>n. case map_of e n of Some v \<Rightarrow> [(n, v)] | None \<Rightarrow> [])
       [''PATH'', ''LANG'', ''USER'', ''LOGNAME''])"

section \<open>What the launch sees\<close>

text \<open>A turn of the first loop, and one of the loop that waits for the window.\<close>

record start_view =
  st_rows :: "process_row list"
  st_parents :: "process_row list"
  st_files :: "store \<Rightarrow> store"
  st_opener_gone :: bool
  st_registers :: bool
  st_env :: "string res"
  st_health :: "int res"

record place_view =
  pl_files :: "store \<Rightarrow> store"
  pl_opener_gone :: bool

text \<open>The end: what the \<open>finally\<close> block sees of the host, the opener and the sidecars.\<close>

record close_view =
  k_rows :: "process_row list"
  k_again :: "process_row list"
  k_opener_live :: bool
  k_opener_stops :: bool
  k_left :: "process_row list"

record launch_world =
  w_suffix :: string
  w_history :: string
  w_before :: "process_row list"
  w_opener :: int
  w_turns :: nat
  w_start :: "nat \<Rightarrow> start_view"
  w_place_turns :: nat
  w_place :: "nat \<Rightarrow> place_view"
  w_live :: "store \<Rightarrow> store"
  w_exit :: "kevent option"
  w_open_code :: "int res"
  w_after :: "store \<Rightarrow> store"
  w_after_rows :: "process_row list"
  w_alive :: bool
  w_close :: close_view

text \<open>The script's own state: the files, the signals it sent, what it printed, the host it found and
  whether the host is left running.\<close>

record probe =
  ps_store :: store
  ps_signals :: "(int \<times> nat) list"
  ps_printed :: "json list"
  ps_host :: "int option"
  ps_retained :: bool

definition probe_edit :: "(store \<Rightarrow> store res) \<Rightarrow> (probe, unit) prog" where
  "probe_edit g = (\<lambda>s. case g (ps_store s) of Inl e \<Rightarrow> (Inl e, s) | Inr t \<Rightarrow> (Inr (), s\<lparr>ps_store := t\<rparr>))"

definition probe_files :: "(store \<Rightarrow> store) \<Rightarrow> (probe, unit) prog" where
  "probe_files g = modify (\<lambda>s. s\<lparr>ps_store := g (ps_store s)\<rparr>)"

definition probe_read :: "(store \<Rightarrow> 'a res) \<Rightarrow> (probe, 'a) prog" where
  "probe_read g = tries (\<lambda>s. g (ps_store s))"

definition print_json :: "json \<Rightarrow> (probe, unit) prog" where
  "print_json j = modify (\<lambda>s. s\<lparr>ps_printed := ps_printed s @ [j]\<rparr>)"

definition send_signals :: "(int \<times> nat) list \<Rightarrow> (probe, unit) prog" where
  "send_signals xs = modify (\<lambda>s. s\<lparr>ps_signals := ps_signals s @ xs\<rparr>)"

text \<open>\<open>write_text\<close>: a new file has the permissions of the usual umask.\<close>

definition write_text :: "services \<Rightarrow> path \<Rightarrow> string \<Rightarrow> store \<Rightarrow> store res" where
  "write_text sv p b t =
     (if present t p then overwrite sv p b t
      else if is_folder t (butlast p)
      then Inr (AList.update p \<lparr>n_kind = Regular b, n_uid = sv_uid sv, n_perm = 420, n_mtime = sv_clock sv t,
                  n_inode = sv_new_inode sv t\<rparr> t)
      else Inl (OSErr (path_str p)))"

definition save_json :: "services \<Rightarrow> path \<Rightarrow> json \<Rightarrow> (probe, unit) prog" where
  "save_json sv p j = probe_edit (write_text sv p (sv_dumps sv j @ nl))"

text \<open>\<open>try: m finally: c\<close> where the cleanup can raise.\<close>

definition finally_run :: "('s, 'a) prog \<Rightarrow> ('s, unit) prog \<Rightarrow> ('s, 'a) prog" where
  "finally_run m c = (\<lambda>s. case m s of (r, s') \<Rightarrow>
     (case c s' of (Inl e, s'') \<Rightarrow> (Inl e, s'') | (Inr _, s'') \<Rightarrow> (r, s'')))"

lemma probe_code [code]:
  "probe_edit g s = (case g (ps_store s) of Inl e \<Rightarrow> (Inl e, s) | Inr t \<Rightarrow> (Inr (), s\<lparr>ps_store := t\<rparr>))"
  "probe_files h s = (Inr (), s\<lparr>ps_store := h (ps_store s)\<rparr>)"
  "probe_read k s = (k (ps_store s), s)"
  "finally_run m c s = (case m s of (r, s') \<Rightarrow>
     (case c s' of (Inl e, s'') \<Rightarrow> (Inl e, s'') | (Inr _, s'') \<Rightarrow> (r, s'')))"
  by (simp_all add: probe_edit_def probe_files_def probe_read_def finally_run_def prog_simps)

section \<open>The folders of a launch\<close>

definition fresh_root :: "launch_world \<Rightarrow> path" where
  "fresh_root w = [''private'', ''tmp'', ''reasonix-launch-services-'' @ w_suffix w]"

definition fresh_fixture :: "services \<Rightarrow> launch_world \<Rightarrow> (probe, path \<times> string option) prog" where
  "fresh_fixture sv w =
     (let wroot = fresh_root w in
      pseq (probe_edit (\<lambda>t. rbind (rcheck (is_folder t (butlast wroot) \<and> \<not> present t wroot) (OSErr (path_str wroot))) (\<lambda>_.
              Inr (make_folder sv (child wroot ''tmp'') (make_folder sv (child wroot ''home'') (make_folder sv wroot t))))))
        (ret (wroot, None)))"

definition reuse_fixture ::
    "services \<Rightarrow> (string \<Rightarrow> json res) \<Rightarrow> path \<Rightarrow> string \<Rightarrow> launch_world \<Rightarrow> path \<Rightarrow> (probe, path \<times> string option) prog" where
  "reuse_fixture sv plist app ident w wroot =
     pbind (probe_read (check_reuse sv plist app ident wroot (w_before w))) (\<lambda>previous.
     let history = child wroot (''prior-launch-'' @ w_history w) in
     pseq (probe_edit (\<lambda>t. rbind (rcheck (\<not> present t history) (OSErr (path_str history))) (\<lambda>_.
             Inr (archive_receipts sv wroot history (make_folder sv history t)))))
       (ret (wroot, Some previous)))"

section \<open>The start\<close>

definition confirmed_host :: "process_row list \<Rightarrow> int \<Rightarrow> path \<Rightarrow> bool" where
  "confirmed_host rows pid binary = list_ex (\<lambda>(found, pp, txt). found = pid \<and> txt = path_str binary) rows"

definition launch_children :: "fixture \<Rightarrow> process_row list \<Rightarrow> (int \<times> int) list" where
  "launch_children f rows =
     map (\<lambda>(pid, pp, txt). (pid, pp))
       (filter (\<lambda>(pid, pp, txt). starts_with (path_str (bridge_path (f_app f)) @ '' '') txt
          \<and> has_sub (''--ready-file '' @ path_str (fixture_temp f) @ ''/'') txt) rows)"

definition check_start ::
    "services \<Rightarrow> (string \<Rightarrow> bool res) \<Rightarrow> fixture \<Rightarrow> string option \<Rightarrow> start_view \<Rightarrow> store \<Rightarrow> int \<Rightarrow> path \<Rightarrow> string res" where
  "check_start sv loopback f previous v t host ready =
     rbind (rcheck (confirmed_host (st_parents v) host (host_path (f_app f)))
              (RuntimeErr ''LaunchServices sidecar parent is not the installed host'')) (\<lambda>_.
     rbind (rcheck (st_registers v) (OSErr ''kqueue'')) (\<lambda>_.
     rbind (rbind (load_text sv t ready) (check_ready loopback)) (\<lambda>address.
     rbind (check_unauthenticated_health (st_health v)) (\<lambda>_.
     rbind (st_env v) (\<lambda>out.
     rbind (check_sidecar_profile out (path_str (fixture_core f)) (f_managed f) (path_str (child (f_root f) ''cache''))) (\<lambda>_.
     rbind (check_credential_profile sv t (fixture_core f)) (\<lambda>ident.
     rbind (rcheck (previous = None \<or> previous = Some ident)
              (RuntimeErr ''restarted fixture changed credential identity'')) (\<lambda>_.
     rbind (rcheck (is_folder t (fixture_data f)) (RuntimeErr ''LaunchServices app data escaped private HOME'')) (\<lambda>_.
     Inr ident)))))))))"

text \<open>One turn: the host it found, the files, and the sidecar with the identity.\<close>

definition start_turn ::
    "services \<Rightarrow> (string \<Rightarrow> bool res) \<Rightarrow> fixture \<Rightarrow> string option \<Rightarrow> store \<Rightarrow> start_view
     \<Rightarrow> (int option \<times> store \<times> (int \<times> int \<times> string) res) option" where
  "start_turn sv loopback f previous t0 v =
     (let t = st_files v t0 in
      case (launch_children f (st_rows v), ready_files t (fixture_temp f)) of
        ([(sidecar, host)], [ready]) \<Rightarrow>
          Some (Some host, t, rbind (check_start sv loopback f previous v t host ready) (\<lambda>i. Inr (sidecar, host, i)))
      | _ \<Rightarrow> if st_opener_gone v
             then Some (None, t, Inl (RuntimeErr ''LaunchServices exited before private sidecar readiness'')) else None)"

definition wait_started ::
    "services \<Rightarrow> (string \<Rightarrow> bool res) \<Rightarrow> fixture \<Rightarrow> string option \<Rightarrow> launch_world \<Rightarrow> (probe, int \<times> int \<times> string) prog" where
  "wait_started sv loopback f previous w = (\<lambda>s.
     case poll_until (start_turn sv loopback f previous (ps_store s)) (w_start w) (w_turns w) of
       Some (host, t, r) \<Rightarrow> (r, s\<lparr>ps_store := t, ps_host := host\<rparr>)
     | None \<Rightarrow> (Inl (RuntimeErr ''LaunchServices did not establish one private host/sidecar''),
                s\<lparr>ps_store := (case w_turns w of 0 \<Rightarrow> ps_store s | Suc n \<Rightarrow> st_files (w_start w n) (ps_store s))\<rparr>))"

definition launch_info :: "fixture \<Rightarrow> options \<Rightarrow> launch_world \<Rightarrow> int \<Rightarrow> int \<Rightarrow> json" where
  "launch_info f o1 w host sidecar = JObj
     [(''app'', JStr (path_str (f_app f))), (''root'', JStr (path_str (f_root f))), (''identifier'', JStr (f_identifier f)),
      (''pid'', JInt host), (''sidecarPid'', JInt sidecar), (''openerPid'', JInt (w_opener w)),
      (''profile'', JStr (profile_name f)), (''interactive'', JBool (o_interactive o1))]"

section \<open>The window\<close>

text \<open>The geometry observed; a file that is not there yet or not complete shows none.\<close>

definition observed_geometry :: "services \<Rightarrow> fixture \<Rightarrow> store \<Rightarrow> json option res" where
  "observed_geometry sv f t =
     (case rbind (rbind (load_text sv t (child (fixture_temp f) ''reasonix-native-window-observation.json''))
                   (\<lambda>d. jidx d ''state'')) (\<lambda>st. jidx st ''geometry'') of
        Inr g \<Rightarrow> Inr (Some g)
      | Inl (OSErr _) \<Rightarrow> Inr None
      | Inl (ValueErr _) \<Rightarrow> Inr None
      | Inl (KeyErr _) \<Rightarrow> Inr None
      | Inl e \<Rightarrow> Inl e)"

definition place_turn :: "services \<Rightarrow> fixture \<Rightarrow> json \<Rightarrow> store \<Rightarrow> place_view \<Rightarrow> (store \<times> json res) option" where
  "place_turn sv f expected t0 v =
     (let t = pl_files v t0;
          later = (if pl_opener_gone v
                   then Some (t, Inl (RuntimeErr ''host exited before requested window placement'')) else None) in
      case observed_geometry sv f t of
        Inl e \<Rightarrow> Some (t, Inl e)
      | Inr None \<Rightarrow> later
      | Inr (Some g) \<Rightarrow> if jeq g expected then Some (t, Inr g) else later)"

definition wait_placed :: "services \<Rightarrow> fixture \<Rightarrow> launch_world \<Rightarrow> json \<Rightarrow> (probe, json) prog" where
  "wait_placed sv f w state = (\<lambda>s.
     case poll_until (place_turn sv f (expected_window_geometry state) (ps_store s)) (w_place w) (w_place_turns w) of
       Some (t, r) \<Rightarrow> (r, s\<lparr>ps_store := t\<rparr>)
     | None \<Rightarrow> (Inl (RuntimeErr ''requested window placement not restored; no interactive acceptance started''),
                s\<lparr>ps_store := (case w_place_turns w of 0 \<Rightarrow> ps_store s | Suc n \<Rightarrow> pl_files (w_place w n) (ps_store s))\<rparr>))"

definition place_window :: "services \<Rightarrow> fixture \<Rightarrow> options \<Rightarrow> launch_world \<Rightarrow> json \<Rightarrow> (probe, json) prog" where
  "place_window sv f o1 w info =
     (case o_window o1 of
        Some state \<Rightarrow>
          if o_interactive o1
          then pbind (wait_placed sv f w state) (\<lambda>g. ret (jput ''initialWindowGeometry'' g info)) else ret info
      | None \<Rightarrow> ret info)"

definition announce :: "services \<Rightarrow> fixture \<Rightarrow> json \<Rightarrow> (probe, unit) prog" where
  "announce sv f info = pseq (save_json sv (child (f_root f) ''launch.json'') info) (print_json info)"

definition open_workspace :: "services \<Rightarrow> fixture \<Rightarrow> bool \<Rightarrow> store \<Rightarrow> store res" where
  "open_workspace sv f reused t =
     (let ws = child (f_root f) ''workspace'' in
      rbind (if present t ws then rbind (rcheck (reused \<and> is_folder t ws) (OSErr (path_str ws))) (\<lambda>_. Inr t)
             else Inr (make_folder sv ws t)) (\<lambda>t.
      if reused then Inr t
      else write_text sv (child ws ''canary.txt'') (''Private native dialog acceptance canary'' @ nl) t))"

section \<open>The exit\<close>

definition exit_path :: "fixture \<Rightarrow> path" where
  "exit_path f = child (f_root f) ''exit-receipt.json''"

definition watch_exit :: "services \<Rightarrow> fixture \<Rightarrow> options \<Rightarrow> launch_world \<Rightarrow> int \<Rightarrow> json \<Rightarrow> (probe, json) prog" where
  "watch_exit sv f o1 w host info =
     pseq (probe_files (w_live w))
     (case w_exit w of
        Some (ident, exited, status) \<Rightarrow>
          if ident \<noteq> host \<or> \<not> exited
          then raise (RuntimeErr ''LaunchServices host did not publish an exit receipt'')
          else if \<not> if_exited status
          then pseq (save_json sv (exit_path f)
                  (jput ''signal'' (if if_signaled status then JInt (term_signal status) else JNull)
                    (jput ''signaled'' (JBool (if_signaled status))
                      (jput ''rawKernelStatus'' (JInt (uint status)) info))))
               (raise (RuntimeErr ''LaunchServices host was terminated by a signal''))
          else
            let actual = exit_status status; expected = (if o_failure o1 then 2 else 0) in
            pbind (lift (w_open_code w)) (\<lambda>opened.
            let info = jput ''openExitCode'' (JInt opened)
                         (jput ''expectedExitCode'' (JInt expected) (jput ''exitCode'' (JInt actual) info)) in
            pseq (save_json sv (exit_path f) info)
            (if actual \<noteq> expected \<or> opened \<noteq> 0
             then pseq (print_json info) (raise (RuntimeErr ''LaunchServices host exit code differed from expected status''))
             else ret info))
      | None \<Rightarrow> raise (RuntimeErr ''LaunchServices host did not publish an exit receipt''))"

definition check_gone :: "fixture \<Rightarrow> launch_world \<Rightarrow> int \<Rightarrow> (probe, unit) prog" where
  "check_gone f w host =
     pseq (probe_files (w_after w))
     (probe_read (\<lambda>t. rcheck (\<not> confirmed_host (w_after_rows w) host (host_path (f_app f)) \<and> \<not> w_alive w
                              \<and> ready_files t (fixture_temp f) = [])
        (RuntimeErr ''LaunchServices normal exit left host/sidecar/readiness'')))"

definition phase_result :: "services \<Rightarrow> fixture \<Rightarrow> store \<Rightarrow> string \<Rightarrow> bool \<Rightarrow> string \<Rightarrow> unit res" where
  "phase_result sv f t ph okay msg =
     rbind (load_text sv t (child (fixture_temp f) ''reasonix-native-window-result.json'')) (\<lambda>r.
     rbind (rall (\<lambda>x. x) [rbind (jget r ''phase'') (\<lambda>v. Inr (v = JStr ph)),
                          rbind (jget r ''ok'') (\<lambda>v. Inr (v = JBool okay))]) (\<lambda>good.
     rcheck good (RuntimeErr msg)))"

definition check_smoke_receipts :: "services \<Rightarrow> fixture \<Rightarrow> store \<Rightarrow> unit res" where
  "check_smoke_receipts sv f t =
     rbind (load_text sv t (child (fixture_temp f) ''reasonix-native-notification-smoke.json'')) (\<lambda>notification.
     rbind (load_text sv t (child (fixture_temp f) ''reasonix-global-workspace-smoke.json'')) (\<lambda>workspace.
     rbind (jget notification ''permission'') (\<lambda>p.
     rbind (rcheck (hashable p) (TypeErr ''unhashable'')) (\<lambda>_.
     rbind (if p \<in> JStr ` set permissions
            then rbind (jget notification ''clickSupported'') (\<lambda>c. Inr (c = JBool True)) else Inr False) (\<lambda>allowed.
     rbind (rcheck allowed (RuntimeErr ''LaunchServices native permission receipt failed'')) (\<lambda>_.
     rbind (rall (\<lambda>x. x)
              [rbind (jget workspace ''workspaceRoot'') (\<lambda>v.
                 Inr (v = JStr (path_str (sv_resolve sv (child (fixture_core f) ''global-workspace''))))),
               rbind (jget workspace ''sessionId'') (\<lambda>v. Inr (v = JStr ''tauri-package-workspace-smoke''))]) (\<lambda>private.
     rcheck private (RuntimeErr ''LaunchServices Global workspace escaped private profile''))))))))"

definition check_outcome :: "services \<Rightarrow> fixture \<Rightarrow> options \<Rightarrow> json \<Rightarrow> store \<Rightarrow> json res" where
  "check_outcome sv f o1 info t =
     (if o_failure o1
      then rbind (phase_result sv f t ''invalid-exit-status-probe'' False
                    ''LaunchServices failure exit lacked the deliberate failure marker'') (\<lambda>_. Inr info)
      else case o_phase o1 of
        Some ph \<Rightarrow>
          rbind (phase_result sv f t ph True ''LaunchServices native phase lacked its exact successful receipt'') (\<lambda>_.
          case o_window o1 of
            None \<Rightarrow> Inr info
          | Some state \<Rightarrow>
              rbind (verify_native_placement sv t (child (fixture_temp f) ''reasonix-native-window-trace.jsonl'') state ph)
                (\<lambda>g. Inr (jput ''nativeWindowGeometry'' g info)))
      | None \<Rightarrow>
          if o_interactive o1 then Inr info else rbind (check_smoke_receipts sv f t) (\<lambda>_. Inr info))"

section \<open>The launch\<close>

definition finish_launch ::
    "services \<Rightarrow> fixture \<Rightarrow> options \<Rightarrow> launch_world \<Rightarrow> int \<Rightarrow> string \<Rightarrow> json \<Rightarrow> (probe, string) prog" where
  "finish_launch sv f o1 w host identity info =
     pbind (watch_exit sv f o1 w host info) (\<lambda>info.
     pseq (check_gone f w host)
    (pbind (probe_read (check_outcome sv f o1 info)) (\<lambda>info.
     let info = jput ''readyRemaining'' (JBool False) (jput ''sidecarRemaining'' (JBool False) info) in
     pseq (save_json sv (child (f_root f) ''result.json'') info)
    (pseq (print_json info)
    (ret identity)))))"

definition launch_body ::
    "services \<Rightarrow> (string \<Rightarrow> bool res) \<Rightarrow> fixture \<Rightarrow> options \<Rightarrow> launch_world \<Rightarrow> string option \<Rightarrow> (probe, string) prog" where
  "launch_body sv loopback f o1 w previous =
     pbind (wait_started sv loopback f previous w) (\<lambda>(sidecar, host, identity).
     pbind (place_window sv f o1 w (launch_info f o1 w host sidecar)) (\<lambda>info.
     let info = (case o_phase o1 of None \<Rightarrow> info | Some ph \<Rightarrow> jput ''nativePhase'' (JStr ph) info) in
     pseq (if o_phase o1 \<noteq> None then announce sv f info else ret ())
    (pseq (if o_interactive o1
           then pseq (probe_edit (open_workspace sv f (o_existing o1 \<noteq> None)))
               (pseq (modify (\<lambda>s. s\<lparr>ps_retained := \<not> o_observe o1\<rparr>))
               (announce sv f info))
           else ret ())
    (if o_interactive o1 \<and> \<not> o_observe o1 then ret identity
     else finish_launch sv f o1 w host identity info))))"

definition close_launch :: "fixture \<Rightarrow> launch_world \<Rightarrow> (probe, unit) prog" where
  "close_launch f w =
     (let k = w_close w; binary = host_path (f_app f) in
      pbind (reads (\<lambda>s. (ps_retained s, ps_host s))) (\<lambda>(retained, host).
      if retained then ret ()
      else
        pseq (case host of
                None \<Rightarrow> ret ()
              | Some h \<Rightarrow>
                  if confirmed_host (k_rows k) h binary
                  then send_signals ((h, 15) # (if confirmed_host (k_again k) h binary then [(h, 9)] else []))
                  else ret ())
       (pseq (if k_opener_live k
              then pseq (send_signals [(w_opener w, 15)]) (require (k_opener_stops k) (TimeoutErr ''opener'')) else ret ())
       (send_signals (map (\<lambda>p. (p, 9)) (own_sidecars (fixture_temp f) (bridge_path (f_app f)) (k_left k)))))))"

definition launch_profile ::
    "services \<Rightarrow> (string \<Rightarrow> bool res) \<Rightarrow> (string \<Rightarrow> json res) \<Rightarrow> path \<Rightarrow> string \<Rightarrow> options \<Rightarrow> launch_world \<Rightarrow> (probe, string) prog" where
  "launch_profile sv loopback plist app ident o1 w =
     pseq (lift (check_options o1))
    (pbind (case o_existing o1 of None \<Rightarrow> fresh_fixture sv w | Some wroot \<Rightarrow> reuse_fixture sv plist app ident w wroot)
      (\<lambda>(wroot, previous).
       let f = \<lparr>f_app = app, f_identifier = ident, f_root = wroot, f_managed = o_managed o1\<rparr> in
       pseq (case o_window o1 of None \<Rightarrow> ret () | Some state \<Rightarrow> probe_edit (seed_window_state sv (fixture_data f) state))
      (pseq (save_json sv (child wroot ''launch-control.json'') (JObj
               [(''app'', JStr (path_str app)), (''root'', JStr (path_str wroot)), (''openerPid'', JInt (w_opener w)),
                (''profile'', JStr (profile_name f))]))
      (finally_run (launch_body sv loopback f o1 w previous) (close_launch f w)))))"

section \<open>The command\<close>

text \<open>\<open>codesign\<close> is the outcome of the signature check, \<open>template\<close> the path of a saved geometry. A run has no
  host of an earlier one.\<close>

definition launch_each ::
    "services \<Rightarrow> (string \<Rightarrow> bool res) \<Rightarrow> (string \<Rightarrow> json res) \<Rightarrow> path \<Rightarrow> string \<Rightarrow> options \<Rightarrow> (bool \<Rightarrow> launch_world)
     \<Rightarrow> bool \<Rightarrow> (probe, string) prog" where
  "launch_each sv loopback plist app ident o1 worlds managed =
     pseq (modify (\<lambda>s. s\<lparr>ps_host := None, ps_retained := False\<rparr>))
       (launch_profile sv loopback plist app ident (o1\<lparr>o_managed := managed\<rparr>) (worlds managed))"

definition probe_main ::
    "services \<Rightarrow> (string \<Rightarrow> bool res) \<Rightarrow> (string \<Rightarrow> json res) \<Rightarrow> unit res \<Rightarrow> process_row list \<Rightarrow> options \<Rightarrow> path option
     \<Rightarrow> int \<Rightarrow> path \<Rightarrow> (bool \<Rightarrow> launch_world) \<Rightarrow> (probe, unit) prog" where
  "probe_main sv loopback plist codesign rows o1 template wait_seconds app worlds =
     pseq (lift (check_command_line (o1\<lparr>o_window := map_option (\<lambda>_. JNull) template\<rparr>) wait_seconds))
    (pbind (case template of None \<Rightarrow> ret None
            | Some p \<Rightarrow> pbind (probe_read (\<lambda>t. read_window_state_template sv t p)) (\<lambda>state. ret (Some state))) (\<lambda>window.
     let o1 = o1\<lparr>o_window := window\<rparr> in
     pseq (lift codesign)
    (pbind (lift (rbind (plist (path_str (app @ [''Contents'', ''Info.plist'']))) (\<lambda>d.
              rbind (jidx d ''CFBundleIdentifier'') jstr))) (\<lambda>ident.
     pbind (lift (matching_package_is_running plist ident rows)) (\<lambda>busy.
     pseq (require (\<not> busy) (ExitErr ''another Preview is running; no LaunchServices probe started''))
    (if o_interactive o1
     then pbind (launch_each sv loopback plist app ident o1 worlds False) (\<lambda>_. ret ())
     else pbind (launch_each sv loopback plist app ident o1 worlds True) (\<lambda>first.
          pbind (launch_each sv loopback plist app ident o1 worlds False) (\<lambda>second.
          require (first \<noteq> second) (ExitErr ''LaunchServices profiles shared credential identity'')))))))))"

end
