(* ===== verification/LaunchProps.thy ===== *)
theory LaunchProps
  imports ProfileLaunch
begin

text \<open>
  A completed launch leaves a fixture that can be restarted: what its receipts say is what the next launch
  tests, and the credential identity is the same.
\<close>

lemma probe_ok [ok_simps]:
  "probe_edit g s = (Inr u, s') \<longleftrightarrow> (\<exists>t. g (ps_store s) = Inr t \<and> s' = s\<lparr>ps_store := t\<rparr>)"
  "probe_files h s = (Inr u, s') \<longleftrightarrow> s' = s\<lparr>ps_store := h (ps_store s)\<rparr>"
  "probe_read k s = (Inr x, s') \<longleftrightarrow> k (ps_store s) = Inr x \<and> s' = s"
  "print_json j s = (Inr u, s') \<longleftrightarrow> s' = s\<lparr>ps_printed := ps_printed s @ [j]\<rparr>"
  "send_signals xs s = (Inr u, s') \<longleftrightarrow> s' = s\<lparr>ps_signals := ps_signals s @ xs\<rparr>"
  by (auto simp: probe_edit_def probe_files_def probe_read_def print_json_def send_signals_def ok_simps split: sum.splits)

lemma finally_run_ok [ok_simps]:
  "finally_run m c s = (Inr x, s') \<longleftrightarrow> (\<exists>u. m s = (Inr x, u) \<and> c u = (Inr (), s'))"
  by (auto simp: finally_run_def split: prod.splits sum.splits)

section \<open>Files\<close>

text \<open>A path that is absent or can be read by its owner; writing it then leaves the text to be read.\<close>

definition readable :: "store \<Rightarrow> path \<Rightarrow> bool" where
  "readable t p \<longleftrightarrow> (case map_of t p of None \<Rightarrow> True | Some i \<Rightarrow> odd (n_perm i div 256))"

lemma write_text_effect:
  assumes "write_text sv p b t = Inr t'"
  shows "q \<noteq> p \<Longrightarrow> map_of t' q = map_of t q"
    and "readable t p \<Longrightarrow> read_file t' p = Inr b"
    and "set (map fst t') \<subseteq> insert p (set (map fst t))"
proof -
  show "q \<noteq> p \<Longrightarrow> map_of t' q = map_of t q"
    using assms by (auto simp: write_text_def update_conv' dest: overwrite_effect(1) split: if_splits)
  show "readable t p \<Longrightarrow> read_file t' p = Inr b"
    using assms overwrite_effect(2)[of sv p b t t']
    by (auto simp: write_text_def readable_def present_def read_file_def lstat_def update_conv' split: if_splits option.splits)
  have up: "set (map fst (AList.update p i t)) \<subseteq> insert p (set (map fst t))" for i
    unfolding update_keys by auto
  from assms obtain i where "t' = AList.update p i t"
    by (auto simp: write_text_def overwrite_def split: if_splits)
  then show "set (map fst t') \<subseteq> insert p (set (map fst t))" using up by simp
qed

lemma ready_files_mono:
  assumes "set (map fst t') \<subseteq> insert p (set (map fst t))" and "length p \<noteq> length tmp + 2" and "ready_files t tmp = []"
  shows "ready_files t' tmp = []"
  using assms unfolding ready_files_def filter_empty_conv by blast

lemma saved_text:
  assumes "write_text sv p (sv_dumps sv j @ nl) t = Inr t'" and "readable t p"
    and "\<And>j. sv_loads sv (sv_dumps sv j @ nl) = Inr j"
  shows "load_text sv t' p = Inr j"
  using write_text_effect(2)[OF assms(1,2)] assms(3) by (simp add: load_text_def)

lemma load_text_same: "map_of t' p = map_of t p \<Longrightarrow> load_text sv t' p = load_text sv t p"
  by (simp add: load_text_def read_file_def lstat_def)

lemma identity_same:
  assumes "\<And>n. n \<in> set profile_files \<Longrightarrow> map_of t' (child wh n) = map_of t (child wh n)"
  shows "check_credential_profile sv t' wh = check_credential_profile sv t wh"
proof -
  have "check_identity sv t' (child wh n) = check_identity sv t (child wh n)" if "n \<in> set profile_files" for n
    using assms[OF that] by (simp add: check_identity_def lstat_def load_text_same[of t' _ t])
  then have "rmap (\<lambda>name. check_identity sv t' (child wh name)) profile_files
      = rmap (\<lambda>name. check_identity sv t (child wh name)) profile_files"
    by (simp add: profile_files_def)
  then show ?thesis by (simp add: check_credential_profile_def)
qed

lemma make_folders_keeps:
  assumes "present t q \<or> \<not> below q p"
  shows "map_of (make_folders sv p t) q = map_of t q"
proof -
  have "present u q \<or> \<not> below q p \<Longrightarrow> map_of u q = map_of t q
      \<Longrightarrow> map_of (fold (\<lambda>k t. if present t (take k p) then t else make_folder sv (take k p) t) ks u) q = map_of t q"
    for ks u
  proof (induction ks arbitrary: u)
    case (Cons k ks)
    have "below (take k p) p" by (simp add: below_def min_def)
    then have "present u (take k p) \<or> q \<noteq> take k p" using Cons.prems(1) by auto
    then have "map_of (if present u (take k p) then u else make_folder sv (take k p) u) q = map_of t q"
      using Cons.prems(2) by (auto simp: make_folder_def update_conv')
    then show ?case using Cons by (simp add: present_def)
  qed simp
  from this[of t "[1..<Suc (length p)]"] assms show ?thesis by (simp add: make_folders_def)
qed

section \<open>What the application leaves alone\<close>

definition fixture_records :: "path \<Rightarrow> path list" where
  "fixture_records wroot = [wroot, child wroot ''home'', child wroot ''tmp'', child wroot ''launch.json'', child wroot ''result.json'']"

definition identity_records :: "path \<Rightarrow> path list" where
  "identity_records wroot = map (child (child wroot ''core'')) profile_files"

definition keeps_nodes :: "path list \<Rightarrow> (store \<Rightarrow> store) \<Rightarrow> bool" where
  "keeps_nodes ps g \<longleftrightarrow> (\<forall>t. list_all (\<lambda>p. map_of (g t) p = map_of t p) ps)"

text \<open>The application keeps to its own folders, and keeps its credential identity once it has started.\<close>

definition app_stays :: "path \<Rightarrow> launch_world \<Rightarrow> bool" where
  "app_stays wroot w \<longleftrightarrow> (\<forall>k. keeps_nodes (fixture_records wroot) (st_files (w_start w k)))
     \<and> (\<forall>k. keeps_nodes (fixture_records wroot @ identity_records wroot) (pl_files (w_place w k)))
     \<and> keeps_nodes (fixture_records wroot @ identity_records wroot) (w_live w)
     \<and> keeps_nodes (fixture_records wroot @ identity_records wroot) (w_after w)"

lemma keeps_nodesD: "keeps_nodes ps g \<Longrightarrow> p \<in> set ps \<Longrightarrow> map_of (g t) p = map_of t p"
  by (simp add: keeps_nodes_def list_all_iff)

lemma app_staysD:
  assumes "app_stays wroot w"
  shows "p \<in> set (fixture_records wroot) \<Longrightarrow> map_of (st_files (w_start w k) t) p = map_of t p"
    and "p \<in> set (fixture_records wroot @ identity_records wroot) \<Longrightarrow> map_of (pl_files (w_place w k) t) p = map_of t p"
    and "p \<in> set (fixture_records wroot @ identity_records wroot) \<Longrightarrow> map_of (w_live w t) p = map_of t p"
    and "p \<in> set (fixture_records wroot @ identity_records wroot) \<Longrightarrow> map_of (w_after w t) p = map_of t p"
  using assms keeps_nodesD unfolding app_stays_def by blast+

section \<open>Steps of a launch\<close>

lemma wait_started_ok:
  assumes "wait_started sv loopback f previous w s = (Inr (sidecar, host, identity), s')"
  shows "\<exists>k. ps_store s' = st_files (w_start w k) (ps_store s)
    \<and> check_credential_profile sv (ps_store s') (fixture_core f) = Inr identity
    \<and> (previous = None \<or> previous = Some identity)"
proof -
  from assms obtain h t where hit: "poll_until (start_turn sv loopback f previous (ps_store s)) (w_start w) (w_turns w)
      = Some (h, t, Inr (sidecar, host, identity))" and s': "s' = s\<lparr>ps_store := t, ps_host := h\<rparr>"
    by (auto simp: wait_started_def split: option.splits prod.splits)
  from poll_until_Some[OF hit] obtain k where
    "start_turn sv loopback f previous (ps_store s) (w_start w k) = Some (h, t, Inr (sidecar, host, identity))" by blast
  then show ?thesis unfolding s'
    by (intro exI[of _ k])
      (auto simp: start_turn_def Let_def check_start_def split: list.splits prod.splits if_splits)
qed

lemma place_window_ok:
  assumes "place_window sv f o1 w info s = (Inr info', s')"
  shows "(ps_store s' = ps_store s \<or> (\<exists>k. ps_store s' = pl_files (w_place w k) (ps_store s)))
    \<and> (info' = info \<or> (\<exists>g. info' = jput ''initialWindowGeometry'' g info))"
proof (cases "\<exists>state. o_window o1 = Some state \<and> o_interactive o1")
  case True
  then obtain state g where g: "wait_placed sv f w state s = (Inr g, s')" "info' = jput ''initialWindowGeometry'' g info"
    using assms by (auto simp: place_window_def ok_simps)
  then obtain t where hit: "poll_until (place_turn sv f (expected_window_geometry state) (ps_store s)) (w_place w) (w_place_turns w)
      = Some (t, Inr g)" and s': "s' = s\<lparr>ps_store := t\<rparr>"
    by (auto simp: wait_placed_def split: option.splits prod.splits)
  from poll_until_Some[OF hit] obtain k where
    "place_turn sv f (expected_window_geometry state) (ps_store s) (w_place w k) = Some (t, Inr g)" by blast
  then have "t = pl_files (w_place w k) (ps_store s)"
    by (auto simp: place_turn_def Let_def split: sum.splits option.splits if_splits)
  then show ?thesis using g(2) s' by auto
qed (use assms in \<open>auto simp: place_window_def ok_simps split: option.splits if_splits\<close>)

lemma open_workspace_keeps:
  assumes "open_workspace sv f reused t = Inr t'" and "\<not> below (child (f_root f) ''workspace'') q"
  shows "map_of t' q = map_of t q"
proof -
  have "q \<noteq> child (f_root f) ''workspace''" "q \<noteq> child (child (f_root f) ''workspace'') ''canary.txt''"
    using assms(2) by (auto simp: below_child)
  then show ?thesis using assms(1)
    by (auto simp: open_workspace_def Let_def make_folder_def update_conv' write_text_effect(1) split: if_splits)
qed

lemma watch_exit_ok:
  assumes "watch_exit sv f o1 w host info s = (Inr info', s')" and "\<not> o_failure o1"
  shows "\<exists>t. write_text sv (exit_path f) t (w_live w (ps_store s)) = Inr (ps_store s')"
    and "\<exists>opened. info' = jput ''openExitCode'' opened (jput ''expectedExitCode'' (JInt 0) (jput ''exitCode'' (JInt 0) info))"
  using assms
  by (auto simp: watch_exit_def save_json_def ok_simps Let_def split: option.splits prod.splits if_splits)

lemma close_launch_store: "close_launch f w s = (Inr (), s') \<Longrightarrow> ps_store s' = ps_store s"
  by (auto simp: close_launch_def Let_def ok_simps split: prod.splits option.splits if_splits)

text \<open>What a completed observation leaves, as far as a restart looks.\<close>

definition completed_files :: "services \<Rightarrow> fixture \<Rightarrow> string \<Rightarrow> store \<Rightarrow> store \<Rightarrow> bool" where
  "completed_files sv f identity t t' \<longleftrightarrow>
     list_all (\<lambda>p. map_of t' p = map_of t p) [f_root f, fixture_home f, fixture_temp f]
     \<and> ready_files t' (fixture_temp f) = []
     \<and> check_credential_profile sv t' (fixture_core f) = Inr identity
     \<and> (\<exists>previous exited. load_text sv t' (child (f_root f) ''launch.json'') = Inr previous
          \<and> load_text sv t' (child (f_root f) ''result.json'') = Inr exited
          \<and> document_matches (f_app f) (f_root f) (f_identifier f) previous exited = Inr True)"

lemma finish_launch_ok:
  assumes run: "finish_launch sv f o1 w host identity info s = (Inr i, s')" and "\<not> o_failure o1" and "o_phase o1 = None"
    and inter: "o_interactive o1" and "app_stays (f_root f) w" and "\<not> f_managed f"
    and texts: "\<And>j. sv_loads sv (sv_dumps sv j @ nl) = Inr j"
    and readable: "readable (ps_store s) (child (f_root f) ''result.json'')"
  shows "list_all (\<lambda>p. map_of (ps_store s') p = map_of (ps_store s) p)
      ([f_root f, fixture_home f, fixture_temp f, child (f_root f) ''launch.json''] @ identity_records (f_root f))
    \<and> ready_files (ps_store s') (fixture_temp f) = [] \<and> i = identity
    \<and> (\<exists>opened. load_text sv (ps_store s') (child (f_root f) ''result.json'')
        = Inr (jput ''readyRemaining'' (JBool False) (jput ''sidecarRemaining'' (JBool False)
            (jput ''openExitCode'' opened (jput ''expectedExitCode'' (JInt 0) (jput ''exitCode'' (JInt 0) info))))))"
proof -
  let ?keep = "[f_root f, fixture_home f, fixture_temp f, child (f_root f) ''launch.json''] @ identity_records (f_root f)"
  let ?res = "child (f_root f) ''result.json''"
  from run obtain info1 s1 s2 where watch: "watch_exit sv f o1 w host info s = (Inr info1, s1)"
    and gone: "check_gone f w host s1 = (Inr (), s2)"
    and out: "check_outcome sv f o1 info1 (ps_store s2) = Inr info1"
    and w: "write_text sv ?res (sv_dumps sv (jput ''readyRemaining'' (JBool False) (jput ''sidecarRemaining'' (JBool False) info1)) @ nl)
        (ps_store s2) = Inr (ps_store s')" and i: "i = identity"
    using assms(2-4) by (auto simp: finish_launch_def ok_simps save_json_def Let_def check_outcome_def)
  obtain b where b: "write_text sv (exit_path f) b (w_live w (ps_store s)) = Inr (ps_store s1)"
    using watch_exit_ok(1)[OF watch assms(2)] by blast
  obtain opened where info1: "info1 = jput ''openExitCode'' opened (jput ''expectedExitCode'' (JInt 0) (jput ''exitCode'' (JInt 0) info))"
    using watch_exit_ok(2)[OF watch assms(2)] by blast
  have s2: "ps_store s2 = w_after w (ps_store s1)" and none: "ready_files (ps_store s2) (fixture_temp f) = []"
    using gone by (auto simp: check_gone_def ok_simps)
  have inside: "set ?keep \<union> {?res} \<subseteq> set (fixture_records (f_root f) @ identity_records (f_root f))"
    by (auto simp: fixture_records_def fixture_home_def fixture_temp_def)
  have app: "map_of (w_live w t) p = map_of t p" "map_of (w_after w t) p = map_of t p" if "p \<in> set ?keep \<union> {?res}" for p t
    using app_staysD(3,4)[OF assms(5)] inside that by blast+
  have apart: "p \<noteq> exit_path f \<and> p \<noteq> ?res" if "p \<in> set ?keep" for p
    using that by (auto simp: exit_path_def fixture_home_def fixture_temp_def identity_records_def profile_files_def
        dest: arg_cong[where f = length])
  have "map_of (ps_store s') p = map_of (ps_store s) p" if p: "p \<in> set ?keep" for p
  proof -
    have "map_of (ps_store s') p = map_of (ps_store s2) p" using write_text_effect(1)[OF w] apart[OF p] by simp
    also have "\<dots> = map_of (ps_store s1) p" using app(2) p unfolding s2 by blast
    also have "\<dots> = map_of (ps_store s) p" using write_text_effect(1)[OF b] apart[OF p] app(1) p by simp
    finally show ?thesis .
  qed
  moreover have "readable (ps_store s2) ?res"
  proof -
    have "?res \<noteq> exit_path f" by (simp add: exit_path_def)
    then have "map_of (ps_store s2) ?res = map_of (ps_store s) ?res"
      unfolding s2 using app[of ?res] write_text_effect(1)[OF b] by simp
    then show ?thesis using readable by (simp add: readable_def)
  qed
  moreover have "ready_files (ps_store s') (fixture_temp f) = []"
    by (rule ready_files_mono[OF write_text_effect(3)[OF w] _ none]) (simp add: fixture_temp_def)
  ultimately show ?thesis
    using saved_text[OF w _ texts] i info1 by (auto simp: list_all_iff)
qed

text \<open>The receipts of a completed launch match.\<close>

lemma receipts_match:
  assumes "previous = launch_info f o1 w host sidecar
      \<or> (\<exists>g. previous = jput ''initialWindowGeometry'' g (launch_info f o1 w host sidecar))"
    and "exited = jput ''readyRemaining'' (JBool False) (jput ''sidecarRemaining'' (JBool False)
            (jput ''openExitCode'' opened (jput ''expectedExitCode'' (JInt 0) (jput ''exitCode'' (JInt 0) previous))))"
    and "\<not> f_managed f"
  shows "document_matches (f_app f) (f_root f) (f_identifier f) previous exited = Inr True"
proof -
  have li: "is_dict (launch_info f o1 w host sidecar)" by (simp add: launch_info_def)
  then have d: "is_dict previous" "is_dict exited"
    using assms(1,2) by (auto simp: is_dict_jput simp del: is_dict_def)
  have "field (launch_info f o1 w host sidecar) ''app'' = JStr (path_str (f_app f))"
    "field (launch_info f o1 w host sidecar) ''root'' = JStr (path_str (f_root f))"
    "field (launch_info f o1 w host sidecar) ''identifier'' = JStr (f_identifier f)"
    "field (launch_info f o1 w host sidecar) ''profile'' = JStr ''explicit''"
    using assms(3) by (simp_all add: launch_info_def profile_name_def field_def)
  then have "field previous ''app'' = JStr (path_str (f_app f))" "field previous ''root'' = JStr (path_str (f_root f))"
    "field previous ''identifier'' = JStr (f_identifier f)" "field previous ''profile'' = JStr ''explicit''"
    using assms(1) li by (auto simp del: is_dict_def)
  moreover have "field exited ''exitCode'' = JInt 0" "field exited ''sidecarRemaining'' = JBool False"
    "field exited ''readyRemaining'' = JBool False"
    using d(1) by (simp_all add: assms(2) is_dict_jput del: is_dict_def)
  ultimately show ?thesis using d by (simp add: document_matches_def jget_field del: is_dict_def)
qed

lemma launch_body_ok:
  assumes run: "launch_body sv loopback f o1 w previous s = (Inr identity, s')"
    and opts: "o_interactive o1" "o_observe o1" "\<not> o_failure o1" "o_phase o1 = None"
    and stays: "app_stays (f_root f) w" and explicit: "\<not> f_managed f"
    and texts: "\<And>j. sv_loads sv (sv_dumps sv j @ nl) = Inr j"
    and readable: "readable (ps_store s) (child (f_root f) ''launch.json'')" "readable (ps_store s) (child (f_root f) ''result.json'')"
  shows "completed_files sv f identity (ps_store s) (ps_store s') \<and> (previous = None \<or> previous = Some identity)"
proof -
  let ?dirs = "[f_root f, fixture_home f, fixture_temp f]"
  let ?launch = "child (f_root f) ''launch.json''" and ?res = "child (f_root f) ''result.json''"
  from run obtain sidecar host i info s1 s2 t3 t4 s4 where start: "wait_started sv loopback f previous w s = (Inr (sidecar, host, i), s1)"
    and place: "place_window sv f o1 w (launch_info f o1 w host sidecar) s1 = (Inr info, s2)"
    and ws: "open_workspace sv f (o_existing o1 \<noteq> None) (ps_store s2) = Inr t3"
    and fin: "finish_launch sv f o1 w host i info s4 = (Inr identity, s')"
    and lj: "write_text sv ?launch (sv_dumps sv info @ nl) t3 = Inr t4" "ps_store s4 = t4"
    using opts by (auto simp: launch_body_def ok_simps announce_def save_json_def split: prod.splits)
  note lj = lj(1)[folded lj(2)]
  obtain k where s1: "ps_store s1 = st_files (w_start w k) (ps_store s)"
    and id1: "check_credential_profile sv (ps_store s1) (fixture_core f) = Inr i" and prev: "previous = None \<or> previous = Some i"
    using wait_started_ok[OF start] by blast
  note info = place_window_ok[OF place]
  have recs: "set ?dirs \<union> {?launch, ?res} \<subseteq> set (fixture_records (f_root f))"
    by (auto simp: fixture_records_def fixture_home_def fixture_temp_def)
  have st: "map_of (ps_store s1) p = map_of (ps_store s) p" if "p \<in> set ?dirs \<union> {?launch, ?res}" for p
    unfolding s1 using app_staysD(1)[OF stays] recs that by blast
  have pl: "map_of (ps_store s2) p = map_of (ps_store s1) p" if "p \<in> set (fixture_records (f_root f) @ identity_records (f_root f))" for p
    using info app_staysD(2)[OF stays that] by auto
  have outside: "\<not> below (child (f_root f) ''workspace'') p" if "p \<in> set ?dirs \<union> {?launch, ?res} \<union> set (identity_records (f_root f))" for p
    using that by (auto simp: fixture_home_def fixture_temp_def identity_records_def profile_files_def below_def child_def)
  have wj: "map_of (ps_store s4) p = map_of (ps_store s2) p"
    if "p \<in> set ?dirs \<union> {?res} \<union> set (identity_records (f_root f))" for p
  proof -
    have "p \<noteq> ?launch" using that
      by (auto simp: fixture_home_def fixture_temp_def identity_records_def profile_files_def dest: arg_cong[where f = length])
    then show ?thesis using write_text_effect(1)[OF lj] open_workspace_keeps[OF ws outside] that by auto
  qed
  have upto4: "map_of (ps_store s4) p = map_of (ps_store s) p" if "p \<in> set ?dirs \<union> {?res}" for p
    using wj[of p] pl[of p] st[of p] recs that by auto
  have r3: "readable t3 ?launch"
    using open_workspace_keeps[OF ws outside, of ?launch] pl[of ?launch] st[of ?launch] recs readable(1)
    by (auto simp: readable_def)
  have launch4: "load_text sv (ps_store s4) ?launch = Inr info" by (rule saved_text[OF lj r3 texts])
  have "readable (ps_store s4) ?res" using upto4[of ?res] readable(2) by (simp add: readable_def)
  from finish_launch_ok[OF fin opts(3,4,1) stays explicit texts this]
  obtain opened where kept: "list_all (\<lambda>p. map_of (ps_store s') p = map_of (ps_store s4) p) (?dirs @ [?launch] @ identity_records (f_root f))"
    and ready: "ready_files (ps_store s') (fixture_temp f) = []" and i: "identity = i"
    and res: "load_text sv (ps_store s') ?res = Inr (jput ''readyRemaining'' (JBool False) (jput ''sidecarRemaining'' (JBool False)
            (jput ''openExitCode'' opened (jput ''expectedExitCode'' (JInt 0) (jput ''exitCode'' (JInt 0) info)))))"
    by auto
  have "load_text sv (ps_store s') ?launch = Inr info"
    using load_text_same[of "ps_store s'" ?launch "ps_store s4" sv] kept launch4 by simp
  moreover have "document_matches (f_app f) (f_root f) (f_identifier f) info
      (jput ''readyRemaining'' (JBool False) (jput ''sidecarRemaining'' (JBool False)
            (jput ''openExitCode'' opened (jput ''expectedExitCode'' (JInt 0) (jput ''exitCode'' (JInt 0) info))))) = Inr True"
    by (rule receipts_match[OF _ refl explicit]) (use info in blast)
  moreover have "check_credential_profile sv (ps_store s') (fixture_core f) = Inr identity"
  proof -
    have core: "fixture_core f = child (f_root f) ''core''" using explicit by (simp add: fixture_core_def)
    have "map_of (ps_store s') (child (fixture_core f) n) = map_of (ps_store s1) (child (fixture_core f) n)" if "n \<in> set profile_files" for n
    proof -
      have m: "child (fixture_core f) n \<in> set (identity_records (f_root f))" using that by (simp add: core identity_records_def)
      then show ?thesis using kept wj[of "child (fixture_core f) n"] pl[of "child (fixture_core f) n"] by (auto simp: list_all_iff)
    qed
    then have "check_credential_profile sv (ps_store s') (fixture_core f) = check_credential_profile sv (ps_store s1) (fixture_core f)"
      by (rule identity_same)
    then show ?thesis using id1 i by simp
  qed
  moreover have "list_all (\<lambda>p. map_of (ps_store s') p = map_of (ps_store s) p) ?dirs"
    using kept upto4 by (simp add: list_all_iff)
  ultimately have "completed_files sv f identity (ps_store s) (ps_store s')"
    using ready res unfolding completed_files_def by blast
  then show ?thesis using prev i by simp
qed

section \<open>The folders of a launch\<close>

definition private_dirs :: "services \<Rightarrow> path \<Rightarrow> store \<Rightarrow> bool" where
  "private_dirs sv wroot t \<longleftrightarrow> list_all (\<lambda>d. case map_of t d of None \<Rightarrow> False
     | Some i \<Rightarrow> n_kind i = Directory \<and> n_uid i = sv_uid sv \<and> n_perm i mod 512 = 448) [wroot, child wroot ''home'', child wroot ''tmp'']"

lemma private_dirs_same:
  "private_dirs sv wroot t \<Longrightarrow> list_all (\<lambda>p. map_of t' p = map_of t p) [wroot, child wroot ''home'', child wroot ''tmp'']
    \<Longrightarrow> private_dirs sv wroot t'"
  by (simp add: private_dirs_def)

lemma fresh_fixture_ok:
  assumes "fresh_fixture sv w s = (Inr (wroot, previous), s')"
  shows "wroot = fresh_root w \<and> previous = None \<and> private_dirs sv wroot (ps_store s')
    \<and> (\<forall>n. n \<noteq> ''home'' \<longrightarrow> n \<noteq> ''tmp'' \<longrightarrow> map_of (ps_store s') (child wroot n) = map_of (ps_store s) (child wroot n))"
  using assms by (auto simp: fresh_fixture_def Let_def ok_simps private_dirs_def make_folder_def update_conv')

lemma archive_keeps:
  assumes "q \<noteq> child wroot ''result.json''" and "q \<noteq> child wroot ''exit-receipt.json''" and "\<not> below history q"
  shows "map_of (archive_receipts sv wroot history t) q = map_of t q"
proof -
  have "map_of (fold (\<lambda>name t. case map_of t (child wroot name) of None \<Rightarrow> t
              | Some i \<Rightarrow> if is_regular i
                  then AList.update (child history name) (i\<lparr>n_uid := sv_uid sv, n_inode := sv_new_inode sv t\<rparr>) t
                  else t) ns u) q = map_of u q" for ns u
  proof (induction ns arbitrary: u)
    case (Cons n ns)
    have "q \<noteq> child history n" using assms(3) by (auto simp: below_child)
    then show ?case using Cons.IH by (auto simp: update_conv' split: option.split)
  qed simp
  then show ?thesis using assms(1,2) by (simp add: archive_receipts_def delete_conv')
qed

lemma archive_clears: "map_of (archive_receipts sv wroot history t) (child wroot ''result.json'') = None"
  by (simp add: archive_receipts_def delete_conv')

lemma check_reuse_ok:
  assumes "check_reuse sv plist app ident wroot rows t = Inr identity"
  shows "sv_resolve sv wroot = wroot \<and> wroot \<noteq> [] \<and> butlast wroot = [''private'', ''tmp'']
      \<and> starts_with ''reasonix-launch-services-'' (last wroot)"
    and "private_dirs sv wroot t" and "readable t (child wroot ''launch.json'')"
  using assms
  by (auto simp: check_reuse_def private_dirs_def readable_def load_text_def read_file_def lstat_def
      split: option.splits kind.splits if_splits)

lemma reuse_fixture_ok:
  assumes "reuse_fixture sv plist app ident w wroot s = (Inr (wr, previous), s')"
  shows "wr = wroot \<and> (\<exists>i. previous = Some i \<and> check_reuse sv plist app ident wroot (w_before w) (ps_store s) = Inr i)
    \<and> private_dirs sv wroot (ps_store s') \<and> readable (ps_store s') (child wroot ''launch.json'')
    \<and> readable (ps_store s') (child wroot ''result.json'')"
proof -
  let ?h = "child wroot (''prior-launch-'' @ w_history w)"
  from assms obtain i where i: "check_reuse sv plist app ident wroot (w_before w) (ps_store s) = Inr i"
    "wr = wroot" "previous = Some i" and s': "ps_store s' = archive_receipts sv wroot ?h (make_folder sv ?h (ps_store s))"
    by (auto simp: reuse_fixture_def Let_def ok_simps)
  have keep: "map_of (ps_store s') q = map_of (ps_store s) q"
    if "q \<in> {wroot, child wroot ''home'', child wroot ''tmp'', child wroot ''launch.json''}" for q
  proof -
    have "\<not> below ?h q" using that by (auto simp: below_def child_def)
    moreover have "q \<noteq> ?h" using calculation by auto
    ultimately show ?thesis using that unfolding s' by (subst archive_keeps) (auto simp: make_folder_def update_conv')
  qed
  have "private_dirs sv wroot (ps_store s')"
    by (rule private_dirs_same[OF check_reuse_ok(2)[OF i(1)]]) (simp add: keep)
  moreover have "readable (ps_store s') (child wroot ''launch.json'')"
    using check_reuse_ok(3)[OF i(1)] keep[of "child wroot ''launch.json''"] by (simp add: readable_def)
  moreover have "readable (ps_store s') (child wroot ''result.json'')"
    by (simp add: readable_def s' archive_clears)
  ultimately show ?thesis using i by blast
qed

text \<open>Seeding a window state and writing the control file leave the folders and receipts alone.\<close>

lemma seed_keeps:
  assumes "seed_window_state sv (fixture_data f) state t = Inr t'"
    and "present t q \<or> \<not> below q (fixture_data f)" and "\<not> below (fixture_data f) q"
  shows "map_of t' q = map_of t q"
proof -
  have "q \<noteq> child (fixture_data f) ''window-state.json''" using assms(3) by (auto simp: below_child)
  then show ?thesis using assms(1) make_folders_keeps[OF assms(2)]
    by (auto simp: seed_window_state_def Let_def dest!: touch_effect(1) overwrite_effect(1))
qed


lemma check_options_ok:
  assumes "check_options o1 = Inr ()" and "o_interactive o1"
  shows "o_phase o1 = None" and "o_window o1 \<noteq> None \<Longrightarrow> o_existing o1 = None"
  using assms by (auto simp: check_options_def validate_window_template_mode_def split: option.splits if_splits)

text \<open>Preparing a launch: the window state and the control file leave the folders and the receipts alone.\<close>

lemma prepared_keeps:
  assumes "(case o_window o1 of None \<Rightarrow> ret () | Some state \<Rightarrow> probe_edit (seed_window_state sv (fixture_data f) state)) s = (Inr (), s1)"
    and "save_json sv (child (f_root f) ''launch-control.json'') j s1 = (Inr (), s2)"
    and "present (ps_store s) q \<or> \<not> below q (fixture_data f)" and "\<not> below (fixture_data f) q"
    and "q \<noteq> child (f_root f) ''launch-control.json''"
  shows "map_of (ps_store s2) q = map_of (ps_store s) q"
proof -
  have "map_of (ps_store s1) q = map_of (ps_store s) q"
    using assms(1) seed_keeps[OF _ assms(3,4)] by (auto simp: ok_simps split: option.splits)
  moreover have "map_of (ps_store s2) q = map_of (ps_store s1) q"
    using assms(2) write_text_effect(1)[OF _ assms(5)] by (auto simp: save_json_def ok_simps)
  ultimately show ?thesis by simp
qed

definition ready_fixture :: "services \<Rightarrow> path \<Rightarrow> store \<Rightarrow> bool" where
  "ready_fixture sv wroot t \<longleftrightarrow> private_dirs sv wroot t \<and> readable t (child wroot ''launch.json'')
     \<and> readable t (child wroot ''result.json'')"

lemma prepared_ready:
  assumes run: "(case o_window o1 of None \<Rightarrow> ret () | Some state \<Rightarrow> probe_edit (seed_window_state sv (fixture_data f) state)) s = (Inr (), s1)"
    "save_json sv (child (f_root f) ''launch-control.json'') j s1 = (Inr (), s2)"
    and ready: "ready_fixture sv (f_root f) (ps_store s)"
  shows "ready_fixture sv (f_root f) (ps_store s2)"
proof -
  let ?dirs = "[f_root f, child (f_root f) ''home'', child (f_root f) ''tmp'']"
  have far: "\<not> below (fixture_data f) p" if "p \<in> set ?dirs \<union> {child (f_root f) ''launch.json'', child (f_root f) ''result.json''}" for p
    using that by (auto simp: below_def fixture_data_def fixture_home_def child_def)
  have "present (ps_store s) p" if "p \<in> set ?dirs" for p
    using ready that by (auto simp: ready_fixture_def private_dirs_def present_def lstat_def split: option.splits)
  then have "list_all (\<lambda>p. map_of (ps_store s2) p = map_of (ps_store s) p) ?dirs"
    unfolding list_all_iff using prepared_keeps[OF run _ far] by (auto dest: arg_cong[where f = length])
  moreover have "map_of (ps_store s2) (child (f_root f) n) = map_of (ps_store s) (child (f_root f) n)"
    if "n = ''launch.json'' \<or> n = ''result.json''" for n
  proof (rule prepared_keeps[OF run])
    show "present (ps_store s) (child (f_root f) n) \<or> \<not> below (child (f_root f) n) (fixture_data f)"
      using that by (auto simp: below_def fixture_data_def fixture_home_def child_def)
    show "\<not> below (fixture_data f) (child (f_root f) n)" using that far by auto
    show "child (f_root f) n \<noteq> child (f_root f) ''launch-control.json''" using that by auto
  qed
  ultimately show ?thesis using ready private_dirs_same[of sv "f_root f" "ps_store s" "ps_store s2"]
    by (simp add: ready_fixture_def readable_def)
qed

lemma fixture_of_ok:
  assumes "(case o_existing o1 of None \<Rightarrow> fresh_fixture sv w | Some r \<Rightarrow> reuse_fixture sv plist app ident w r) s
      = (Inr (wr, previous), s1)"
    and "wroot = (case o_existing o1 of None \<Rightarrow> fresh_root w | Some r \<Rightarrow> r)"
    and "o_existing o1 \<noteq> None \<or> \<not> present (ps_store s) (child wroot ''launch.json'') \<and> \<not> present (ps_store s) (child wroot ''result.json'')"
  shows "wr = wroot \<and> ready_fixture sv wroot (ps_store s1)"
    and "\<And>r. o_existing o1 = Some r \<Longrightarrow> \<exists>i. previous = Some i \<and> check_reuse sv plist app ident r (w_before w) (ps_store s) = Inr i"
proof -
  have reused: "wr = r \<and> (\<exists>i. previous = Some i \<and> check_reuse sv plist app ident r (w_before w) (ps_store s) = Inr i)
      \<and> ready_fixture sv r (ps_store s1)" if r: "o_existing o1 = Some r" for r
  proof -
    have "reuse_fixture sv plist app ident w r s = (Inr (wr, previous), s1)" using assms(1) r by simp
    from reuse_fixture_ok[OF this] show ?thesis unfolding ready_fixture_def by blast
  qed
  show "wr = wroot \<and> ready_fixture sv wroot (ps_store s1)"
  proof (cases "o_existing o1")
    case None
    have new: "fresh_fixture sv w s = (Inr (wr, previous), s1)" using assms(1) None by simp
    have wr: "wr = wroot" using fresh_fixture_ok[OF new] assms(2) None by simp
    have absent: "\<not> present (ps_store s) (child wr ''launch.json'')" "\<not> present (ps_store s) (child wr ''result.json'')"
      using assms(3) None wr by auto
    have dirs: "private_dirs sv wr (ps_store s1)"
      and same: "\<And>n. n \<noteq> ''home'' \<Longrightarrow> n \<noteq> ''tmp'' \<Longrightarrow> map_of (ps_store s1) (child wr n) = map_of (ps_store s) (child wr n)"
      using fresh_fixture_ok[OF new] by blast+
    have "readable (ps_store s1) (child wr n)" if "n = ''launch.json'' \<or> n = ''result.json''" for n
      using same[of n] that absent by (auto simp: readable_def present_def lstat_def)
    then show ?thesis using dirs wr by (simp add: ready_fixture_def)
  next
    case (Some r)
    then show ?thesis using reused[OF Some] assms(2) by simp
  qed
  show "\<exists>i. previous = Some i \<and> check_reuse sv plist app ident r (w_before w) (ps_store s) = Inr i" if "o_existing o1 = Some r" for r
    using reused[OF that] by blast
qed

lemma completed_reuse:
  assumes "completed_files sv f identity t t'" and "private_dirs sv (f_root f) t" and "\<not> f_managed f"
    and "sv_resolve sv (f_root f) = f_root f \<and> butlast (f_root f) = [''private'', ''tmp''] \<and> f_root f \<noteq> []
      \<and> starts_with ''reasonix-launch-services-'' (last (f_root f))"
    and "matching_package_is_running plist (f_identifier f) rows = Inr False"
    and "own_sidecars (fixture_temp f) (bridge_path (f_app f)) rows = []"
  shows "check_reuse sv plist (f_app f) (f_identifier f) (f_root f) rows t' = Inr identity"
proof -
  have "private_dirs sv (f_root f) t'"
    using assms(1) by (intro private_dirs_same[OF assms(2)]) (simp add: completed_files_def fixture_home_def fixture_temp_def)
  then show ?thesis using assms
    by (auto simp: check_reuse_def completed_files_def private_dirs_def fixture_temp_def bridge_path_def fixture_core_def)
qed

text \<open>The states of a launch that returns: after the fixture, the seeded window, the control file and the body.\<close>

definition launch_steps ::
    "services \<Rightarrow> (string \<Rightarrow> bool res) \<Rightarrow> fixture \<Rightarrow> options \<Rightarrow> launch_world \<Rightarrow> string option \<Rightarrow> json \<Rightarrow> string
     \<Rightarrow> probe \<Rightarrow> probe \<Rightarrow> probe \<Rightarrow> probe \<Rightarrow> probe \<Rightarrow> bool" where
  "launch_steps sv loopback f o1 w previous j identity s1 s2 s3 s4 s' \<longleftrightarrow>
     (case o_window o1 of None \<Rightarrow> ret () | Some state \<Rightarrow> probe_edit (seed_window_state sv (fixture_data f) state)) s1 = (Inr (), s2)
     \<and> save_json sv (child (f_root f) ''launch-control.json'') j s2 = (Inr (), s3)
     \<and> launch_body sv loopback f o1 w previous s3 = (Inr identity, s4) \<and> close_launch f w s4 = (Inr (), s')"

lemma launch_profile_ok:
  assumes "launch_profile sv loopback plist app ident o1 w s = (Inr identity, s')" and "\<not> o_managed o1"
  shows "\<exists>wr previous s1 s2 s3 s4 j. check_options o1 = Inr ()
    \<and> (case o_existing o1 of None \<Rightarrow> fresh_fixture sv w | Some r \<Rightarrow> reuse_fixture sv plist app ident w r) s
        = (Inr (wr, previous), s1)
    \<and> launch_steps sv loopback \<lparr>f_app = app, f_identifier = ident, f_root = wr, f_managed = False\<rparr> o1 w previous
        j identity s1 s2 s3 s4 s'"
proof -
  have managed: "o_managed o1 = False" using assms(2) by simp
  show ?thesis
    using assms(1) unfolding launch_profile_def Let_def managed ok_simps launch_steps_def split_paired_Ex prod.case
    by (elim exE conjE) (intro exI conjI; (assumption | simp))
qed

text \<open>
  C33. A launch for observation that returns leaves a fixture the next launch accepts. The launch may be
  fresh or a restart; the application keeps to its own folders and does not change its credential identity
  once it has started. When no host of the package and no sidecar of the fixture is left, the test that
  guards a restart passes on the files the launch left, and finds the identity the launch returned.
  A restart therefore returns the identity its own test found, so a chain of restarts keeps the first one.
\<close>
theorem completed_launch_reusable:
  assumes run: "launch_profile sv loopback plist app ident o1 w s = (Inr identity, s')"
    and opts: "o_interactive o1" "o_observe o1" "\<not> o_managed o1" "\<not> o_failure o1"
    and wroot: "wroot = (case o_existing o1 of None \<Rightarrow> fresh_root w | Some r \<Rightarrow> r)"
    and stays: "app_stays wroot w"
    and texts: "\<And>j. sv_loads sv (sv_dumps sv j @ nl) = Inr j"
    and fresh: "o_existing o1 = None \<Longrightarrow> sv_resolve sv wroot = wroot
        \<and> \<not> present (ps_store s) (child wroot ''launch.json'') \<and> \<not> present (ps_store s) (child wroot ''result.json'')"
    and gone: "matching_package_is_running plist ident rows = Inr False"
      "own_sidecars (child wroot ''tmp'') (bridge_path app) rows = []"
  shows "check_reuse sv plist app ident wroot rows (ps_store s') = Inr identity
    \<and> (o_existing o1 \<noteq> None \<longrightarrow> check_reuse sv plist app ident wroot (w_before w) (ps_store s) = Inr identity)"
proof -
  define f where "f = \<lparr>f_app = app, f_identifier = ident, f_root = wroot, f_managed = False\<rparr>"
  have [simp]: "f_app f = app" "f_identifier f = ident" "f_root f = wroot" "\<not> f_managed f" by (simp_all add: f_def)
  from launch_profile_ok[OF run opts(3)] obtain wr previous s1 s2 s3 s4 j where check: "check_options o1 = Inr ()"
    and fix1: "(case o_existing o1 of None \<Rightarrow> fresh_fixture sv w | Some r \<Rightarrow> reuse_fixture sv plist app ident w r) s
        = (Inr (wr, previous), s1)"
    and rest: "launch_steps sv loopback \<lparr>f_app = app, f_identifier = ident, f_root = wr, f_managed = False\<rparr> o1 w previous
        j identity s1 s2 s3 s4 s'"
    by blast
  have absent: "o_existing o1 \<noteq> None \<or> \<not> present (ps_store s) (child wroot ''launch.json'') \<and> \<not> present (ps_store s) (child wroot ''result.json'')"
    using fresh by blast
  note fixture = fixture_of_ok[OF fix1 wroot absent]
  from fixture(1) have wr: "wr = wroot" and ready1: "ready_fixture sv (f_root f) (ps_store s1)" by auto
  note rest = rest[unfolded wr, folded f_def, unfolded launch_steps_def]
  note prep = rest[THEN conjunct1] rest[THEN conjunct2, THEN conjunct1]
  from rest have body: "launch_body sv loopback f o1 w previous s3 = (Inr identity, s4)" and close: "close_launch f w s4 = (Inr (), s')"
    by auto
  have ready3: "ready_fixture sv wroot (ps_store s3)" using prepared_ready[OF prep ready1] by simp
  have done4: "completed_files sv f identity (ps_store s3) (ps_store s4) \<and> (previous = None \<or> previous = Some identity)"
    using ready3 stays by (intro launch_body_ok[OF body opts(1,2,4) check_options_ok(1)[OF check opts(1)]])
      (simp_all add: texts ready_fixture_def)
  have place: "sv_resolve sv wroot = wroot \<and> butlast wroot = [''private'', ''tmp''] \<and> wroot \<noteq> []
      \<and> starts_with ''reasonix-launch-services-'' (last wroot)"
  proof (cases "o_existing o1")
    case None
    then show ?thesis using fresh wroot by (simp add: fresh_root_def starts_with_def)
  next
    case (Some r)
    then show ?thesis using fixture(2)[OF Some] check_reuse_ok(1) wroot by fastforce
  qed
  have "check_reuse sv plist (f_app f) (f_identifier f) (f_root f) rows (ps_store s') = Inr identity"
    using done4 ready3 place gone close_launch_store[OF close]
    by (intro completed_reuse[of sv f identity "ps_store s3"]) (simp_all add: ready_fixture_def fixture_temp_def)
  moreover have "check_reuse sv plist app ident wroot (w_before w) (ps_store s) = Inr identity" if "o_existing o1 = Some r" for r
    using fixture(2)[OF that] done4 wroot that by auto
  ultimately show ?thesis by auto
qed

end
