(* ===== verification/LaunchWitness.thy ===== *)
theory LaunchWitness
  imports LaunchProps PackagedWitness
begin

text \<open>
  A launch for observation and a restart of its fixture. The application makes its data folder, its two credential
  files and, while it runs, the readiness file; the documents of the run are a table, each text the byte of
  its index and a line end.
\<close>

definition lw_app :: path where
  "lw_app = [''A.app'']"

definition lw_root :: path where
  "lw_root = [''private'', ''tmp'', ''reasonix-launch-services-1'']"

definition lw_options :: "path option \<Rightarrow> options" where
  "lw_options existing = \<lparr>o_managed = False, o_interactive = True, o_observe = True, o_failure = False,
     o_existing = existing, o_phase = None, o_window = None\<rparr>"

definition lw_fixture :: fixture where
  "lw_fixture = \<lparr>f_app = lw_app, f_identifier = ''app'', f_root = lw_root, f_managed = False\<rparr>"

definition lw_ready :: path where
  "lw_ready = lw_root @ [''tmp'', ''reasonix-tauri-bridge-1'', ''ready.json'']"

definition lw_files :: store where
  "lw_files = (lw_ready, sm_file ([CHR 0x00] @ nl)) # (fixture_data lw_fixture, sm_folder)
     # map (\<lambda>name. (child (fixture_core lw_fixture) name, sm_file ([CHR 0x01] @ nl))) profile_files"

definition lw_start :: "nat \<Rightarrow> start_view" where
  "lw_start k = \<lparr>
     st_rows = (if k = 0 then [] else [(11, 10, path_str (bridge_path lw_app) @ '' --ready-file '' @ path_str (fixture_temp lw_fixture) @ ''/x'')]),
     st_parents = [(10, 5, path_str (host_path lw_app))],
     st_files = (\<lambda>t. lw_files @ t), st_opener_gone = False, st_registers = True,
     st_env = Inr (ps_line [path_str (bridge_path lw_app)]
        [(''REASONIX_HOME'', path_str (fixture_core lw_fixture)), (''REASONIX_DESKTOP_BRIDGE_TOKEN'', []),
         (''REASONIX_CACHE_HOME'', path_str (child lw_root ''cache''))]),
     st_health = Inr 401\<rparr>"

definition lw_world :: launch_world where
  "lw_world = \<lparr>w_suffix = ''1'', w_history = ''h'', w_before = [], w_opener = 5, w_turns = 3, w_start = lw_start,
     w_place_turns = 0, w_place = (\<lambda>k. \<lparr>pl_files = (\<lambda>t. t), pl_opener_gone = False\<rparr>), w_live = (\<lambda>t. t),
     w_exit = Some (10, True, 0), w_open_code = Inr 0, w_after = filter (\<lambda>(p, i). p \<noteq> lw_ready), w_after_rows = [],
     w_alive = False,
     w_close = \<lparr>k_rows = [], k_again = [], k_opener_live = False, k_opener_stops = True, k_left = []\<rparr>\<rparr>"

definition lw_info :: json where
  "lw_info = launch_info lw_fixture (lw_options None) lw_world 10 11"

definition lw_exit :: json where
  "lw_exit = jput ''openExitCode'' (JInt 0) (jput ''expectedExitCode'' (JInt 0) (jput ''exitCode'' (JInt 0) lw_info))"

definition lw_docs :: "json list" where
  "lw_docs =
     [JObj [(''protocolVersion'', JInt 1), (''sidecarInstanceId'', JStr ''s''), (''address'', JStr ''127.0.0.1:4000'')],
      sm_identity (CHR ''a''),
      JObj [(''app'', JStr (path_str lw_app)), (''root'', JStr (path_str lw_root)), (''openerPid'', JInt 5), (''profile'', JStr ''explicit'')],
      lw_info, lw_exit, jput ''readyRemaining'' (JBool False) (jput ''sidecarRemaining'' (JBool False) lw_exit)]"

definition lw_services :: services where
  "lw_services = (table_services lw_docs)\<lparr>sv_loads := (\<lambda>s. table_loads lw_docs (butlast s))\<rparr>"

definition lw_state :: probe where
  "lw_state = \<lparr>ps_store = [([''private''], sm_folder), ([''private'', ''tmp''], sm_folder)], ps_signals = [], ps_printed = [],
     ps_host = None, ps_retained = False\<rparr>"

definition lw_launch :: "path option \<Rightarrow> probe \<Rightarrow> string res \<times> probe" where
  "lw_launch existing = launch_profile lw_services sm_loopback sm_plist lw_app ''app'' (lw_options existing) lw_world"

definition lw_first :: "string res \<times> probe" where
  "lw_first = lw_launch None lw_state"

text \<open>A completed fixture, and the state after its receipts are kept.\<close>

definition lw_completed :: probe where
  "lw_completed = lw_state\<lparr>ps_store :=
     map (\<lambda>p. (p, sm_folder)) [lw_root, child lw_root ''home'', child lw_root ''tmp'', child lw_root ''workspace'']
     @ [(child lw_root ''launch.json'', sm_file ([CHR 0x03] @ nl)), (child lw_root ''result.json'', sm_file ([CHR 0x05] @ nl))]
     @ tl lw_files\<rparr>"

definition lw_history :: path where
  "lw_history = child lw_root ''prior-launch-h''"

definition lw_reused :: probe where
  "lw_reused = lw_completed\<lparr>ps_store := archive_receipts lw_services lw_root lw_history
     (make_folder lw_services lw_history (ps_store lw_completed))\<rparr>"

definition lw_second :: "string res \<times> probe" where
  "lw_second = lw_launch (Some lw_root) lw_completed"

lemma lw_first_ok: "fst lw_first = Inr (replicate 32 CHR ''a'')"
  by code_simp

lemma lw_reuse: "reuse_fixture lw_services sm_plist lw_app ''app'' lw_world lw_root lw_completed
    = (Inr (lw_root, Some (replicate 32 CHR ''a'')), lw_reused)"
proof -
  have "check_reuse lw_services sm_plist lw_app ''app'' lw_root (w_before lw_world) (ps_store lw_completed)
      = Inr (replicate 32 CHR ''a'')" by code_simp
  moreover have "\<not> present (ps_store lw_completed) lw_history" by code_simp
  ultimately show ?thesis
    by (simp add: reuse_fixture_def Let_def ok_simps lw_reused_def lw_history_def lw_world_def del: replicate.simps)
qed

lemma lw_second_ok: "fst lw_second = Inr (replicate 32 CHR ''a'')"
proof -
  have o: "o_existing (lw_options (Some lw_root)) = Some lw_root" "o_window (lw_options (Some lw_root)) = None"
      "o_managed (lw_options (Some lw_root)) = False" "check_options (lw_options (Some lw_root)) = Inr ()"
      and w: "w_opener lw_world = 5"
    by (simp_all add: lw_options_def check_options_def lw_world_def)
  have second: "lw_second = pseq (save_json lw_services (child lw_root ''launch-control.json'') (lw_docs ! 2))
      (finally_run (launch_body lw_services sm_loopback lw_fixture (lw_options (Some lw_root)) lw_world
        (Some (replicate 32 CHR ''a''))) (close_launch lw_fixture lw_world)) lw_reused"
    using lw_reuse
    by (simp add: lw_second_def lw_launch_def launch_profile_def o w pseq_def pbind_def lift_def Let_def
        ret_def lw_docs_def lw_fixture_def profile_name_def del: replicate.simps)
  show ?thesis unfolding second by code_simp
qed

lemma map_of_without: "p \<noteq> q \<Longrightarrow> map_of (filter (\<lambda>(a, i). a \<noteq> q) t) p = map_of t p"
  by (induction t) auto

lemma lw_stays: "app_stays lw_root lw_world"
proof -
  have "lw_ready \<notin> set (fixture_records lw_root @ identity_records lw_root)" by code_simp
  then have after: "map_of (filter (\<lambda>(a, i). a \<noteq> lw_ready) t) p = map_of t p"
    if "p \<in> set (fixture_records lw_root @ identity_records lw_root)" for p t
    using map_of_without that by metis
  have "list_all (\<lambda>p. map_of lw_files p = None) (fixture_records lw_root)" by code_simp
  then have "map_of (lw_files @ t) p = map_of t p" if "p \<in> set (fixture_records lw_root)" for p t
    using that by (auto simp: list_all_iff map_add_def)
  then show ?thesis using after
    by (auto simp: app_stays_def keeps_nodes_def list_all_iff lw_world_def lw_start_def)
qed

lemma lw_texts: "sv_loads lw_services (sv_dumps lw_services j @ nl) = Inr j"
  using table_texts[of lw_docs j] by (simp add: lw_services_def table_services_def nl_def lw_docs_def)

lemma lw_gone: "matching_package_is_running sm_plist ''app'' [] = Inr False"
  "own_sidecars (child lw_root ''tmp'') (bridge_path lw_app) [] = []"
  by code_simp+

lemma lw_fresh: "sv_resolve lw_services lw_root = lw_root \<and> \<not> present (ps_store lw_state) (child lw_root ''launch.json'')
    \<and> \<not> present (ps_store lw_state) (child lw_root ''result.json'')"
  by code_simp

theorem completed_launch_reusable_witness:
  "check_reuse lw_services sm_plist lw_app ''app'' lw_root [] (ps_store (snd lw_first)) = Inr (replicate 32 CHR ''a'')
    \<and> check_reuse lw_services sm_plist lw_app ''app'' lw_root [] (ps_store (snd lw_second)) = Inr (replicate 32 CHR ''a'')"
proof -
  have runs: "launch_profile lw_services sm_loopback sm_plist lw_app ''app'' (lw_options None) lw_world lw_state
      = (Inr (replicate 32 CHR ''a''), snd lw_first)"
    "launch_profile lw_services sm_loopback sm_plist lw_app ''app'' (lw_options (Some lw_root)) lw_world lw_completed
      = (Inr (replicate 32 CHR ''a''), snd lw_second)"
    using lw_first_ok lw_second_ok by (simp_all add: lw_first_def lw_second_def lw_launch_def prod_eq_iff)
  note opts = lw_options_def[of None] lw_options_def[of "Some lw_root"]
  have root: "lw_root = fresh_root lw_world" by (simp add: lw_root_def fresh_root_def lw_world_def)
  have "check_reuse lw_services sm_plist lw_app ''app'' lw_root [] (ps_store (snd lw_first)) = Inr (replicate 32 CHR ''a'')"
    using completed_launch_reusable[OF runs(1) _ _ _ _ _ lw_stays lw_texts lw_fresh lw_gone] root by (simp add: opts)
  moreover have "check_reuse lw_services sm_plist lw_app ''app'' lw_root [] (ps_store (snd lw_second)) = Inr (replicate 32 CHR ''a'')"
    using completed_launch_reusable[OF runs(2) _ _ _ _ _ lw_stays lw_texts _ lw_gone] by (simp add: opts)
  ultimately show ?thesis by blast
qed

end
