(* ===== verification/DocumentProvider.thy ===== *)
theory DocumentProvider
  imports UiExport PackagedApp
begin

text \<open>
  The loopback provider of \<open>tools/tauri/native-document-provider.py\<close>: it answers one fixed prompt
  once, with links to the prepared documents. A request is what the handler reads of it; a handler
  that raises leaves an error in the provider, which nothing clears.
\<close>

definition document_prompt :: string where
  "document_prompt = ''Show the two prepared local document links.''"

text \<open>\<open>int(s)\<close> of a header: blanks around it, a sign, and digits with single underscores.\<close>

definition header_space :: "char \<Rightarrow> bool" where
  "header_space c = (ascii_space c \<or> c \<in> {CHR 0x85, CHR 0xA0})"

definition header_int :: "string \<Rightarrow> int res" where
  "header_int s =
     (let s = rev (dropWhile header_space (rev (dropWhile header_space s)));
          u = (if starts_with ''-'' s \<or> starts_with ''+'' s then tl s else s) in
      if list_all is_decimal (split_char CHR ''_'' u)
      then Inr ((if starts_with ''-'' s then -1 else 1) * decimal_value (concat (split_char CHR ''_'' u)))
      else Inl (ValueErr ''invalid literal for int()''))"

record doc_request =
  dq_path :: string
  dq_length :: "string option"
  dq_read :: "int \<Rightarrow> string res"

record doc_provider =
  dp_requests :: nat
  dp_error :: "string option"
  dp_sent :: "string list"

definition fresh_provider :: doc_provider where
  "fresh_provider = \<lparr>dp_requests = 0, dp_error = None, dp_sent = []\<rparr>"

section \<open>The reply\<close>

text \<open>\<open>path.as_uri()\<close>: every byte but the unreserved ones and the slash is percent-encoded.\<close>

definition uri_safe :: "char \<Rightarrow> bool" where
  "uri_safe c = (let n = (of_char c :: nat) in
     48 \<le> n \<and> n \<le> 57 \<or> 65 \<le> n \<and> n \<le> 90 \<or> 97 \<le> n \<and> n \<le> 122 \<or> c \<in> set ''_.-~/'')"

definition hex_upper :: "nat \<Rightarrow> char" where
  "hex_upper n = ''0123456789ABCDEF'' ! n"

definition uri_byte :: "char \<Rightarrow> string" where
  "uri_byte c = (if uri_safe c then [c]
     else let n = (of_char c :: nat) in [CHR ''%'', hex_upper (n div 16), hex_upper (n mod 16)])"

definition as_uri :: "path \<Rightarrow> string" where
  "as_uri p = ''file://'' @ concat (map uri_byte (path_str p))"

definition missing_name :: string where
  "missing_name = [CHR 0xE4, CHR 0xB8, CHR 0x8D, CHR 0xE5, CHR 0xAD, CHR 0x98, CHR 0xE5, CHR 0x9C, CHR 0xA8] @ ''.md''"

definition document_links :: "path list \<Rightarrow> bool \<Rightarrow> string" where
  "document_links sources errors =
     join_with (nl @ nl) (map (\<lambda>(letter, p). ''[Original '' @ letter @ '']('' @ as_uri p @ '')'') (zip [''A'', ''B''] sources))
     @ (if errors then nl @ nl @ ''[Missing source]('' @ as_uri (child (butlast (sources ! 0)) missing_name) @ '')'' else [])"

definition reply_event :: "services \<Rightarrow> json \<times> json \<Rightarrow> string" where
  "reply_event sv df =
     ''data: '' @ sv_dumps sv (JObj [(''choices'',
        JList [JObj [(''index'', JInt 0), (''delta'', fst df), (''finish_reason'', snd df)]])]) @ nl @ nl"

definition document_reply :: "services \<Rightarrow> path list \<Rightarrow> bool \<Rightarrow> string list" where
  "document_reply sv sources errors =
     map (reply_event sv)
       [(JObj [(''role'', JStr ''assistant''), (''content'', JStr (document_links sources errors))], JNull),
        (JObj [], JStr ''stop'')]
     @ [''data: [DONE]'' @ nl @ nl]"

section \<open>A request\<close>

definition read_request :: "services \<Rightarrow> doc_request \<Rightarrow> json res" where
  "read_request sv rq =
     rbind (header_int (case dq_length rq of None \<Rightarrow> ''0'' | Some s \<Rightarrow> s)) (\<lambda>len.
     rbind (rcheck (dq_path rq = ''/v1/chat/completions'' \<and> 0 < len \<and> len \<le> 2097152)
              (RuntimeErr ''unexpected request'')) (\<lambda>_.
     rbind (dq_read rq len) (sv_loads sv)))"

definition asks_prompt :: "json \<Rightarrow> bool res" where
  "asks_prompt data =
     rand (rbind (jget data ''model'') (\<lambda>m. Inr (jeq m (JStr ''alpha''))))
    (rand (rbind (jget data ''stream'') (\<lambda>s. Inr (s = JBool True)))
    (rbind (rbind (jget_or data ''messages'' (JList [])) jiter) (\<lambda>messages.
     Inr (list_ex (\<lambda>m. jeq (field m ''role'') (JStr ''user'') \<and> jeq (field m ''content'') (JStr document_prompt))
           (filter is_dict messages)))))"

text \<open>\<open>do_POST\<close>: a request that can be read is counted before it is looked at.\<close>

definition answer_request :: "services \<Rightarrow> path list \<Rightarrow> bool \<Rightarrow> doc_request \<Rightarrow> (doc_provider, unit) prog" where
  "answer_request sv sources errors rq =
     pbind (lift (read_request sv rq)) (\<lambda>data.
     pseq (modify (\<lambda>s. s\<lparr>dp_requests := dp_requests s + 1\<rparr>))
    (pbind (tries (\<lambda>s. if dp_requests s = 1 then asks_prompt data else Inr False)) (\<lambda>ok.
     pseq (require ok (RuntimeErr ''unexpected prompt/retry''))
     (modify (\<lambda>s. s\<lparr>dp_sent := dp_sent s @ document_reply sv sources errors\<rparr>)))))"

definition document_post :: "services \<Rightarrow> path list \<Rightarrow> bool \<Rightarrow> doc_request \<Rightarrow> doc_provider \<Rightarrow> doc_provider" where
  "document_post sv sources errors rq s =
     (case answer_request sv sources errors rq s of
        (Inr _, s') \<Rightarrow> s'
      | (Inl e, s') \<Rightarrow> s'\<lparr>dp_error := Some ''Bounded document provider failed''\<rparr>)"

definition provider_after :: "services \<Rightarrow> path list \<Rightarrow> bool \<Rightarrow> doc_request list \<Rightarrow> doc_provider" where
  "provider_after sv sources errors rqs = fold (document_post sv sources errors) rqs fresh_provider"

text \<open>The configuration that sends the application to the provider.\<close>

definition provider_config :: "int \<Rightarrow> string" where
  "provider_config port =
     ''default_model = '' @ quoted ''local/alpha'' @ nl @ nl @ ''[desktop]'' @ nl @ ''provider_access = ['' @ quoted ''local'' @ '']'' @ nl @ nl
     @ ''[[providers]]'' @ nl @ ''name = '' @ quoted ''local'' @ nl @ ''kind = '' @ quoted ''openai'' @ nl
     @ ''base_url = '' @ quoted (''http://127.0.0.1:'' @ int_text port @ ''/v1'') @ nl
     @ ''models = ['' @ quoted ''alpha'' @ '']'' @ nl @ ''default = '' @ quoted ''alpha'' @ nl"

definition configure_provider :: "services \<Rightarrow> path \<Rightarrow> int \<Rightarrow> store \<Rightarrow> store res" where
  "configure_provider sv core port t =
     rbind (touch_new sv (child core ''config.toml'') t) (overwrite sv (child core ''config.toml'') (provider_config port))"

section \<open>One request, one answer\<close>

lemma document_post_cases:
  "(\<exists>data. read_request sv rq = Inr data \<and> dp_requests s = 0 \<and> asks_prompt data = Inr True
      \<and> document_post sv sources errors rq s
        = s\<lparr>dp_requests := 1, dp_sent := dp_sent s @ document_reply sv sources errors\<rparr>)
    \<or> (\<nexists>data. read_request sv rq = Inr data \<and> dp_requests s = 0 \<and> asks_prompt data = Inr True)
      \<and> dp_error (document_post sv sources errors rq s) \<noteq> None"
proof (cases "\<exists>data. read_request sv rq = Inr data \<and> dp_requests s = 0 \<and> asks_prompt data = Inr True")
  case True
  then show ?thesis by (auto simp: document_post_def answer_request_def prog_simps)
next
  case False
  then show ?thesis
    by (auto simp: document_post_def answer_request_def prog_simps split: sum.splits prod.splits)
qed

lemma error_stays:
  "dp_error s \<noteq> None \<Longrightarrow> dp_error (fold (document_post sv sources errors) rqs s) \<noteq> None"
proof (induction rqs arbitrary: s)
  case (Cons rq rqs)
  have "dp_error (document_post sv sources errors rq s) \<noteq> None"
    using document_post_cases[of sv rq s sources errors] Cons.prems by auto
  then show ?case using Cons.IH by simp
qed simp

lemma counted_fails:
  assumes "dp_requests s = 1" and "rqs \<noteq> []"
  shows "dp_error (fold (document_post sv sources errors) rqs s) \<noteq> None"
proof -
  obtain rq rest where rqs: "rqs = rq # rest" using assms(2) by (cases rqs) auto
  have "dp_error (document_post sv sources errors rq s) \<noteq> None"
    using document_post_cases[of sv rq s sources errors] assms(1) by auto
  then show ?thesis using error_stays rqs by simp
qed

lemma one_request:
  "(dp_requests (provider_after sv sources errors rqs) = 1 \<and> dp_error (provider_after sv sources errors rqs) = None)
    = (\<exists>rq data. rqs = [rq] \<and> read_request sv rq = Inr data \<and> asks_prompt data = Inr True
        \<and> dp_sent (provider_after sv sources errors rqs) = document_reply sv sources errors)"
proof (cases rqs)
  case Nil
  then show ?thesis by (simp add: provider_after_def fresh_provider_def)
next
  case (Cons rq rest)
  show ?thesis
  proof (cases "\<exists>data. read_request sv rq = Inr data \<and> asks_prompt data = Inr True")
    case True
    then have step: "document_post sv sources errors rq fresh_provider
        = fresh_provider\<lparr>dp_requests := 1, dp_sent := document_reply sv sources errors\<rparr>"
      using document_post_cases[of sv rq fresh_provider sources errors] by (auto simp: fresh_provider_def)
    have "dp_error (provider_after sv sources errors rqs) \<noteq> None" if "rest \<noteq> []"
      unfolding provider_after_def Cons by (simp add: step counted_fails[OF _ that])
    then show ?thesis using True step
      by (cases "rest = []") (auto simp: provider_after_def Cons fresh_provider_def)
  next
    case False
    then have "dp_error (document_post sv sources errors rq fresh_provider) \<noteq> None"
      using document_post_cases[of sv rq fresh_provider sources errors] by (auto simp: fresh_provider_def)
    then have "dp_error (provider_after sv sources errors rqs) \<noteq> None"
      unfolding provider_after_def Cons by (simp add: error_stays)
    then show ?thesis using False Cons by auto
  qed
qed


end
