(* ===== verification/UiRun.thy ===== *)
theory UiRun
  imports DocumentProvider UiThemeImport ProfileLaunch
begin

text \<open>
  What the two acceptances of the ordinary user interface share (\<open>smoke\<close> of
  \<open>tools/tauri/smoke-native-ui-export.py\<close> and \<open>smoke-native-ui-theme-import.py\<close>): the command's tests,
  the private folders, the host they start themselves, the wait for one sidecar, the quit and the
  clean-up. As for a launch through LaunchServices, what the system and the application show is given, and what the
  application and the recorder do to the files is a function on the store for each stretch of time.
\<close>

section \<open>The state of a run\<close>

record runner =
  ru_store :: store
  ru_launched :: "(path \<times> env) list"
  ru_killed :: "int list"
  ru_said :: "string list"

definition run_edit :: "(store \<Rightarrow> store res) \<Rightarrow> (runner, unit) prog" where
  "run_edit g = (\<lambda>s. case g (ru_store s) of Inl e \<Rightarrow> (Inl e, s) | Inr t \<Rightarrow> (Inr (), s\<lparr>ru_store := t\<rparr>))"

definition run_files :: "(store \<Rightarrow> store) \<Rightarrow> (runner, unit) prog" where
  "run_files g = modify (\<lambda>s. s\<lparr>ru_store := g (ru_store s)\<rparr>)"

definition run_read :: "(store \<Rightarrow> 'a res) \<Rightarrow> (runner, 'a) prog" where
  "run_read g = tries (\<lambda>s. g (ru_store s))"

definition run_say :: "string \<Rightarrow> (runner, unit) prog" where
  "run_say l = modify (\<lambda>s. s\<lparr>ru_said := ru_said s @ [l]\<rparr>)"

definition run_kill :: "int list \<Rightarrow> (runner, unit) prog" where
  "run_kill ps = modify (\<lambda>s. s\<lparr>ru_killed := ru_killed s @ ps\<rparr>)"

definition run_launch :: "unit res \<Rightarrow> path \<Rightarrow> env \<Rightarrow> (runner, unit) prog" where
  "run_launch spawned binary e = pseq (lift spawned) (modify (\<lambda>s. s\<lparr>ru_launched := ru_launched s @ [(binary, e)]\<rparr>))"

lemma run_code [code]:
  "run_edit g s = (case g (ru_store s) of Inl e \<Rightarrow> (Inl e, s) | Inr t \<Rightarrow> (Inr (), s\<lparr>ru_store := t\<rparr>))"
  "run_files h s = (Inr (), s\<lparr>ru_store := h (ru_store s)\<rparr>)"
  "run_read k s = (k (ru_store s), s)"
  by (simp_all add: run_edit_def run_files_def run_read_def prog_simps)

lemma run_ok [ok_simps]:
  "run_edit g s = (Inr u, s') \<longleftrightarrow> (\<exists>t. g (ru_store s) = Inr t \<and> s' = s\<lparr>ru_store := t\<rparr>)"
  "run_files h s = (Inr u, s') \<longleftrightarrow> s' = s\<lparr>ru_store := h (ru_store s)\<rparr>"
  "run_read k s = (Inr x, s') \<longleftrightarrow> k (ru_store s) = Inr x \<and> s' = s"
  "run_say l s = (Inr u, s') \<longleftrightarrow> s' = s\<lparr>ru_said := ru_said s @ [l]\<rparr>"
  "run_kill ps s = (Inr u, s') \<longleftrightarrow> s' = s\<lparr>ru_killed := ru_killed s @ ps\<rparr>"
  "run_launch sp b e s = (Inr u, s') \<longleftrightarrow> sp = Inr () \<and> s' = s\<lparr>ru_launched := ru_launched s @ [(b, e)]\<rparr>"
  by (auto simp: run_edit_def run_files_def run_read_def run_say_def run_kill_def run_launch_def ok_simps split: sum.splits)

section \<open>Files\<close>

definition mkdir_private :: "services \<Rightarrow> path \<Rightarrow> store \<Rightarrow> store res" where
  "mkdir_private sv p t =
     rbind (rcheck (is_folder t (butlast p) \<and> \<not> present t p) (OSErr (path_str p))) (\<lambda>_. Inr (make_folder sv p t))"

text \<open>\<open>mkdir(parents=True, mode=0o700)\<close>: the missing parents get the usual permissions.\<close>

definition mkdir_parents :: "services \<Rightarrow> path \<Rightarrow> store \<Rightarrow> store res" where
  "mkdir_parents sv p t =
     rbind (rfold (\<lambda>k t.
              let q = take k p in
              if is_folder t q then Inr t
              else if present t q then Inl (OSErr (path_str q))
              else Inr (AList.update q \<lparr>n_kind = Directory, n_uid = sv_uid sv, n_perm = 493, n_mtime = sv_clock sv t,
                          n_inode = sv_new_inode sv t\<rparr> t)) [1..<length p] t)
       (mkdir_private sv p)"

text \<open>\<open>touch(mode=0o600, exist_ok=True)\<close> and \<open>chmod\<close>.\<close>

definition touch_any :: "services \<Rightarrow> path \<Rightarrow> store \<Rightarrow> store res" where
  "touch_any sv p t =
     (case map_of t p of
        None \<Rightarrow> touch_new sv p t
      | Some i \<Rightarrow> Inr (AList.update p (i\<lparr>n_mtime := sv_clock sv t\<rparr>) t))"

definition chmod :: "path \<Rightarrow> nat \<Rightarrow> store \<Rightarrow> store res" where
  "chmod p perm t = rbind (lstat t p) (\<lambda>i. Inr (AList.update p (i\<lparr>n_perm := perm\<rparr>) t))"

text \<open>\<open>shutil.rmtree\<close> stops at a folder with entries its owner may not change.\<close>

definition remove_tree_at :: "path \<Rightarrow> store \<Rightarrow> store res" where
  "remove_tree_at p t =
     rbind (rcheck (is_folder t p \<and> list_all (\<lambda>(q, i). \<not> (below p q \<and> n_kind i = Directory \<and> entries t q \<noteq> [])
                       \<or> n_perm i div 64 mod 8 = 7) t) (OSErr (path_str p))) (\<lambda>_.
     Inr (filter (\<lambda>(q, i). \<not> below p q) t))"

definition original_of :: "store \<Rightarrow> path \<Rightarrow> (string \<times> int \<times> int \<times> int) res" where
  "original_of t p = rbind (lstat t p) (\<lambda>i. rbind (read_file t p) (\<lambda>b. Inr (b, stat_mode i, n_mtime i, n_inode i)))"

section \<open>The command\<close>

definition profile_modes :: "string \<Rightarrow> bool list" where
  "profile_modes profile = (if profile = ''both'' then [True, False] else [profile = ''managed''])"

definition check_profile :: "string \<Rightarrow> string \<Rightarrow> int \<Rightarrow> unit res" where
  "check_profile msg profile seconds =
     rcheck (profile \<in> set [''managed'', ''explicit'', ''both''] \<and> 60 \<le> seconds \<and> seconds \<le> 900) (ValueErr msg)"

definition check_control :: "services \<Rightarrow> string \<Rightarrow> path \<Rightarrow> unit res" where
  "check_control sv msg control =
     rcheck (control \<noteq> [] \<and> butlast control = [''private'', ''tmp''] \<and> sv_resolve sv (butlast control) = butlast control)
       (ValueErr msg)"

definition preview_identifier :: string where
  "preview_identifier = ''io.reasonix.desktop.preview''"

text \<open>Only the Preview, and no copy of it running.\<close>

definition check_preview :: "(string \<Rightarrow> json res) \<Rightarrow> path \<Rightarrow> process_row list \<Rightarrow> unit res" where
  "check_preview plist app rows =
     rbind (rbind (plist (path_str (app @ [''Contents'', ''Info.plist'']))) (\<lambda>d. jidx d ''CFBundleIdentifier'')) (\<lambda>v.
     rbind (if jeq v (JStr preview_identifier) then matching_package_is_running plist preview_identifier rows
            else Inr True) (\<lambda>bad.
     rcheck (\<not> bad) (RuntimeErr ''Preview missing or already running'')))"

definition ui_variables :: "string list" where
  "ui_variables = [''PATH'', ''USER'', ''LOGNAME'', ''LANG'', ''LC_ALL'', ''__CF_USER_TEXT_ENCODING'']"

definition ui_environment :: "fixture \<Rightarrow> env \<Rightarrow> env" where
  "ui_environment f ambient =
     (let e = dict_union (filter (\<lambda>(n, v). n \<in> set ui_variables) ambient)
                [(''HOME'', path_str (fixture_home f)), (''TMPDIR'', path_str (fixture_temp f))] in
      if f_managed f then e
      else dict_union e [(''REASONIX_HOME'', path_str (fixture_core f)),
                         (''REASONIX_CACHE_HOME'', path_str (child (f_root f) ''cache''))])"

section \<open>A host\<close>

record ui_view =
  uv_exited :: bool
  uv_files :: "store \<Rightarrow> store"
  uv_rows :: "process_row list"
  uv_env :: "string res"
  uv_health :: "int res"

text \<open>What a run sees of one host: its start, what happens to the files until it is gone, its exit, and the
  processes after it and at the clean-up.\<close>

record ui_world =
  uw_host :: int
  uw_spawned :: "unit res"
  uw_turns :: nat
  uw_start :: "nat \<Rightarrow> ui_view"
  uw_live :: "store \<Rightarrow> store"
  uw_code :: "int res"
  uw_alive :: bool
  uw_rows :: "process_row list"
  uw_closing :: closing

definition ui_turn ::
    "services \<Rightarrow> (string \<Rightarrow> bool res) \<Rightarrow> string \<Rightarrow> fixture \<Rightarrow> store \<Rightarrow> ui_view \<Rightarrow> (store \<times> (int \<times> string) res) option" where
  "ui_turn sv loopback late f t0 v =
     (let t = uv_files v t0 in
      if uv_exited v then Some (t, Inl (RuntimeErr late))
      else case (ready_files t (fixture_temp f), own_sidecars (fixture_temp f) (bridge_path (f_app f)) (uv_rows v)) of
             ([ready], [sidecar]) \<Rightarrow>
               Some (t, rbind (rbind (load_text sv t ready) (check_ready loopback)) (\<lambda>address.
                        rbind (check_unauthenticated_health (uv_health v)) (\<lambda>_.
                        rbind (uv_env v) (\<lambda>out.
                        rbind (check_sidecar_profile out (path_str (fixture_core f)) (f_managed f)
                                 (path_str (child (f_root f) ''cache''))) (\<lambda>_.
                        rbind (check_credential_profile sv t (fixture_core f)) (\<lambda>identity.
                        Inr (sidecar, identity)))))))
           | _ \<Rightarrow> None)"

definition wait_ui ::
    "services \<Rightarrow> (string \<Rightarrow> bool res) \<Rightarrow> string \<Rightarrow> fixture \<Rightarrow> ui_world \<Rightarrow> (runner, int \<times> string) prog" where
  "wait_ui sv loopback late f w = (\<lambda>s.
     case poll_until (ui_turn sv loopback late f (ru_store s)) (uw_start w) (uw_turns w) of
       Some (t, r) \<Rightarrow> (r, s\<lparr>ru_store := t\<rparr>)
     | None \<Rightarrow> (Inl (RuntimeErr late),
                s\<lparr>ru_store := (case uw_turns w of 0 \<Rightarrow> ru_store s | Suc n \<Rightarrow> uv_files (uw_start w n) (ru_store s))\<rparr>))"

lemma wait_ui_code [code]:
  "wait_ui sv loopback late f w s =
     (case poll_until (ui_turn sv loopback late f (ru_store s)) (uw_start w) (uw_turns w) of
       Some (t, r) \<Rightarrow> (r, s\<lparr>ru_store := t\<rparr>)
     | None \<Rightarrow> (Inl (RuntimeErr late),
                s\<lparr>ru_store := (case uw_turns w of 0 \<Rightarrow> ru_store s | Suc n \<Rightarrow> uv_files (uw_start w n) (ru_store s))\<rparr>))"
  by (simp add: wait_ui_def)

definition bridge_folders :: "store \<Rightarrow> path \<Rightarrow> path list" where
  "bridge_folders t tmp = filter (\<lambda>p. starts_with ''reasonix-tauri-bridge-'' (last p)) (entries t tmp)"

text \<open>The user interface is used and the host is quit: \<open>host.wait\<close>, and nothing of it may be left.\<close>

definition quit_ui :: "string \<Rightarrow> string \<Rightarrow> fixture \<Rightarrow> ui_world \<Rightarrow> (runner, unit) prog" where
  "quit_ui abnormal left f w =
     pseq (run_files (uw_live w))
    (pbind (lift (uw_code w)) (\<lambda>code.
     pseq (require (code = 0) (RuntimeErr abnormal))
     (run_read (\<lambda>t. rcheck (\<not> uw_alive w \<and> own_sidecars (fixture_temp f) (bridge_path (f_app f)) (uw_rows w) = []
                             \<and> bridge_folders t (fixture_temp f) = []) (RuntimeErr left)))))"

text \<open>The \<open>finally\<close> block; there is a host when one was launched since \<open>n\<close> of them were.\<close>

definition close_ui :: "fixture \<Rightarrow> ui_world \<Rightarrow> nat \<Rightarrow> (runner, unit) prog" where
  "close_ui f w n =
     (let c = uw_closing w in
      pbind (reads (\<lambda>s. n < length (ru_launched s))) (\<lambda>started.
      pseq (if started \<and> c_running c
            then pseq (run_kill [uw_host w]) (require (c_ends c) (TimeoutErr ''host'')) else ret ())
      (run_kill (own_sidecars (fixture_temp f) (bridge_path (f_app f)) (c_rows c)))))"

lemma close_ui_store: "close_ui f w n s = (Inr (), s') \<Longrightarrow> ru_store s' = ru_store s"
  by (auto simp: close_ui_def Let_def ok_simps split: if_splits)

lemma wait_ui_ok:
  assumes "wait_ui sv loopback late f w s = (Inr (sidecar, identity), s')"
  shows "\<exists>k. ru_store s' = uv_files (uw_start w k) (ru_store s)
    \<and> check_credential_profile sv (ru_store s') (fixture_core f) = Inr identity"
proof -
  from assms obtain t where hit: "poll_until (ui_turn sv loopback late f (ru_store s)) (uw_start w) (uw_turns w)
      = Some (t, Inr (sidecar, identity))" and s': "s' = s\<lparr>ru_store := t\<rparr>"
    by (auto simp: wait_ui_def split: option.splits prod.splits)
  from poll_until_Some[OF hit] obtain k where
    "ui_turn sv loopback late f (ru_store s) (uw_start w k) = Some (t, Inr (sidecar, identity))" by blast
  then show ?thesis unfolding s'
    by (intro exI[of _ k]) (auto simp: ui_turn_def Let_def split: list.splits if_splits)
qed

lemma quit_ui_ok:
  "quit_ui abnormal left f w s = (Inr (), s') \<longleftrightarrow> ru_store s' = uw_live w (ru_store s) \<and> s' = s\<lparr>ru_store := ru_store s'\<rparr>
    \<and> uw_code w = Inr 0 \<and> \<not> uw_alive w \<and> own_sidecars (fixture_temp f) (bridge_path (f_app f)) (uw_rows w) = []
    \<and> bridge_folders (ru_store s') (fixture_temp f) = []"
  by (auto simp: quit_ui_def ok_simps)

text \<open>The end of a command: the fixture goes when it succeeded and stays when it did not.\<close>

definition keep_failed :: "(runner, unit) prog \<Rightarrow> path \<Rightarrow> path \<Rightarrow> string \<Rightarrow> (runner, unit) prog" where
  "keep_failed m control wroot what = (\<lambda>s. case m s of
       (Inl e, s') \<Rightarrow> (Inl e, snd (run_say (''Private failed '' @ what @ '' fixture retained: '' @ path_str wroot) s'))
     | (Inr _, s') \<Rightarrow>
         pseq (run_edit (\<lambda>t. Inr (AList.delete control t))) (run_edit (remove_tree_at wroot)) s')"

lemma keep_failed_ok [ok_simps]:
  "keep_failed m control wroot what s = (Inr u, s') \<longleftrightarrow>
    (\<exists>v. m s = (Inr (), v) \<and> pseq (run_edit (\<lambda>t. Inr (AList.delete control t))) (run_edit (remove_tree_at wroot)) v = (Inr u, s'))"
  by (auto simp: keep_failed_def run_say_def prog_simps split: prod.splits sum.splits)

end
