(* ===== verification/ExportLaunch.thy ===== *)
theory ExportLaunch
  imports UiRun
begin

text \<open>
  The launches of the export acceptance (\<open>smoke\<close> of \<open>tools/tauri/smoke-native-ui-export.py\<close>): a
  private fixture for each profile, the prepared documents and their protection, the control file the recorder
  reads, and the checks after the host has been quit.
\<close>

section \<open>The fixture of a profile\<close>

definition export_fixture :: "path \<Rightarrow> path \<Rightarrow> bool \<Rightarrow> fixture" where
  "export_fixture app wroot managed =
     \<lparr>f_app = app, f_identifier = preview_identifier,
      f_root = child wroot (if managed then ''managed'' else ''explicit''), f_managed = managed\<rparr>"

definition export_canary :: "fixture \<Rightarrow> path" where
  "export_canary f = child (fixture_core f) ''ui-export-original.canary''"

definition export_folders :: "services \<Rightarrow> fixture \<Rightarrow> store \<Rightarrow> store res" where
  "export_folders sv f t =
     rbind (mkdir_private sv (f_root f) t) (\<lambda>t.
     rbind (rfold (\<lambda>name t. mkdir_private sv (child (f_root f) name) t) [''home'', ''tmp'', output_dir] t) (\<lambda>t.
     rbind (mkdir_parents sv (fixture_core f) t) (\<lambda>t.
     rbind (touch_any sv (export_canary f) t) (\<lambda>t.
     overwrite sv (export_canary f) (''private export original'' @ nl) t))))"

text \<open>\<open>superuser\<close>: the runner can open what its permissions forbid.\<close>

definition prepare_documents :: "services \<Rightarrow> bool \<Rightarrow> fixture \<Rightarrow> string \<Rightarrow> (runner, json) prog" where
  "prepare_documents sv superuser f scenario =
     (let mode = f_root f; sources = document_sources mode in
      if scenario \<notin> set document_scenarios then ret (JList [])
      else
        pseq (run_edit (mkdir_private sv (child mode source_dir)))
       (pseq (for_each (\<lambda>(p, b). pseq (run_edit (touch_new sv p)) (run_edit (overwrite sv p b))) (zip sources contents))
       (pseq (if scenario = ''document-permissions''
              then pseq (run_edit (chmod (sources ! 0) 0))
                     (require (\<not> superuser) (RuntimeErr ''Runner bypasses source permissions; no host launched''))
              else ret ())
       (run_read (\<lambda>t. document_fingerprints sv t mode scenario)))))"

definition deny_destination :: "services \<Rightarrow> bool \<Rightarrow> fixture \<Rightarrow> string \<Rightarrow> (runner, unit) prog" where
  "deny_destination sv superuser f scenario =
     (let output = child (f_root f) output_dir in
      if scenario \<noteq> ''document-write-denied'' then ret ()
      else
        pseq (run_edit (chmod output 320))
        (if superuser
         then pseq (run_edit (write_text sv (child output ''write-permission-probe'') []))
                (raise (RuntimeErr ''Runner bypasses destination permissions; no host launched''))
         else ret ()))"

definition prepare_export ::
    "services \<Rightarrow> bool \<Rightarrow> fixture \<Rightarrow> string \<Rightarrow> (runner, (string \<times> int \<times> int \<times> int) \<times> json) prog" where
  "prepare_export sv superuser f scenario =
     pseq (run_edit (export_folders sv f))
    (pbind (run_read (\<lambda>t. original_of t (export_canary f))) (\<lambda>before.
     pbind (prepare_documents sv superuser f scenario) (\<lambda>prints.
     pseq (deny_destination sv superuser f scenario)
     (ret (before, prints)))))"

section \<open>One profile\<close>

text \<open>Beside the host: the provider's port and the requests it got, and what a descriptor opened on the first
  source before its permissions were taken away reads at the end.\<close>

record export_world =
  ew_ui :: ui_world
  ew_port :: int
  ew_posts :: "doc_request list"
  ew_held :: string

definition export_control ::
    "services \<Rightarrow> fixture \<Rightarrow> string \<Rightarrow> int \<Rightarrow> int \<Rightarrow> json \<Rightarrow> store \<Rightarrow> json res" where
  "export_control sv f scenario host sidecar prints t =
     (let mode = f_root f; documents = scenario \<in> set document_scenarios in
      rbind (if scenario = ''document-write-denied'' then destination_metadata sv t (child mode output_dir) else Inr JNull) (\<lambda>d.
      rbind (output_name scenario) (\<lambda>name.
      Inr (JObj
        [(''root'', JStr (path_str (butlast mode))), (''managed'', JBool (f_managed f)), (''hostPid'', JInt host),
         (''sidecarPid'', JInt sidecar), (''phase'', JStr (scenario_steps scenario ! 0)), (''scenario'', JStr scenario),
         (''destinationMetadata'', d),
         (''sourceFiles'', JList (if documents then map (\<lambda>p. JStr (path_str p)) (document_sources mode) else [])),
         (''sourceFingerprints'', prints),
         (''prompt'', JStr (if documents then document_prompt else [])),
         (''themeNames'', JList (if scenario = ''theme'' then map JStr theme_names else [])),
         (''outputFile'', JStr (path_str (child (child mode output_dir) name)))]))))"

text \<open>After the quit: the receipt, the output, and what must not have changed.\<close>

definition check_outputs :: "services \<Rightarrow> fixture \<Rightarrow> string \<Rightarrow> store \<Rightarrow> unit res" where
  "check_outputs sv f scenario t =
     (let mode = f_root f; output = child mode output_dir; steps = scenario_steps scenario in
      rbind (private_file sv t (export_receipt mode) 8192) (\<lambda>_.
      rbind (load_text sv t (export_receipt mode)) (\<lambda>state.
      rbind (steps_in_order steps (length steps) state) (\<lambda>complete.
      rbind (rcheck complete (RuntimeErr ''Export UI steps were incomplete'')) (\<lambda>_.
      if scenario \<in> set [''document-errors'', ''document-permissions'', ''document-write-denied'']
      then rbind (list_dir t output) (\<lambda>es.
           rbind (if es \<noteq> [] then Inr False
                  else rbind (list_dir t (child mode source_dir)) (\<lambda>fs. Inr (same_set fs (document_sources mode)))) (\<lambda>ok.
           rcheck ok (RuntimeErr ''Rejected document action wrote unexpected files'')))
      else rbind (output_name scenario) (\<lambda>name.
           rbind (report sv t (child output name) scenario) (\<lambda>identifier.
           rbind (jidx state ''firstId'') (\<lambda>first.
           rcheck (\<not> jeq (JStr identifier) first) (RuntimeErr ''Export UI replacement was incomplete'')))))))))"

definition check_originals ::
    "services \<Rightarrow> fixture \<Rightarrow> string \<times> int \<times> int \<times> int \<Rightarrow> string \<Rightarrow> store \<Rightarrow> unit res" where
  "check_originals sv f before identity t =
     rbind (original_of t (export_canary f)) (\<lambda>now.
     rbind (if now = before then rbind (check_credential_profile sv t (fixture_core f)) (\<lambda>i. Inr (i = identity))
            else Inr False) (\<lambda>ok.
     rcheck ok (RuntimeErr ''Export UI changed its protected original/profile identity'')))"

definition check_provider :: "services \<Rightarrow> fixture \<Rightarrow> string \<Rightarrow> json \<Rightarrow> export_world \<Rightarrow> store \<Rightarrow> unit res" where
  "check_provider sv f scenario prints w t =
     (let p = provider_after sv (document_sources (f_root f)) (scenario = ''document-errors'') (ew_posts w) in
      if scenario \<notin> set document_scenarios then Inr ()
      else rbind (if dp_requests p = 1 \<and> dp_error p = None
                  then rbind (document_fingerprints sv t (f_root f) scenario) (\<lambda>now. Inr (jeq now prints)) else Inr False) (\<lambda>ok.
           rcheck ok (RuntimeErr ''Document provider or source protection did not pass'')))"

definition release_destination :: "services \<Rightarrow> fixture \<Rightarrow> string \<Rightarrow> path \<Rightarrow> (runner, unit) prog" where
  "release_destination sv f scenario control =
     (let output = child (f_root f) output_dir in
      if scenario \<noteq> ''document-write-denied'' then ret ()
      else
        pseq (run_read (\<lambda>t. rbind (load_text sv t control) (\<lambda>initial.
                rbind (destination_metadata sv t output) (\<lambda>now.
                rbind (jidx initial ''destinationMetadata'') (\<lambda>saved.
                rcheck (jeq now saved) (RuntimeErr ''Destination denial permissions changed''))))))
        (run_edit (chmod output 448)))"

text \<open>The provider and the host are started; the control is handed over; the run is verified.\<close>

definition open_export ::
    "services \<Rightarrow> (string \<Rightarrow> bool res) \<Rightarrow> env \<Rightarrow> fixture \<Rightarrow> string \<Rightarrow> export_world \<Rightarrow> (runner, int \<times> string) prog" where
  "open_export sv loopback ambient f scenario w =
     pseq (if scenario \<in> set document_scenarios then run_edit (configure_provider sv (fixture_core f) (ew_port w)) else ret ())
    (pseq (run_launch (uw_spawned (ew_ui w)) (host_path (f_app f)) (ui_environment f ambient))
    (wait_ui sv loopback ''Ordinary export UI host did not start'' f (ew_ui w)))"

definition hand_over_export ::
    "services \<Rightarrow> path \<Rightarrow> fixture \<Rightarrow> string \<Rightarrow> export_world \<Rightarrow> int \<Rightarrow> json \<Rightarrow> (runner, unit) prog" where
  "hand_over_export sv control f scenario w sidecar prints =
     pbind (run_read (export_control sv f scenario (uw_host (ew_ui w)) sidecar prints)) (\<lambda>state.
     pseq (run_edit (write_text sv control (sv_dumps sv state)))
    (pseq (run_edit (chmod control 384))
     (run_say (''Ordinary '' @ profile_name f @ '' export UI ready''))))"

definition verify_export ::
    "services \<Rightarrow> path \<Rightarrow> fixture \<Rightarrow> string \<Rightarrow> export_world \<Rightarrow> string \<times> int \<times> int \<times> int \<Rightarrow> json \<Rightarrow> string \<Rightarrow> (runner, unit) prog" where
  "verify_export sv control f scenario w before prints identity =
     pseq (run_read (check_outputs sv f scenario))
    (pseq (run_read (check_originals sv f before identity))
    (pseq (run_read (check_provider sv f scenario prints w))
    (pseq (require (scenario \<noteq> ''document-permissions'' \<or> ew_held w = contents ! 0)
             (RuntimeErr ''Unreadable source contents changed''))
    (pseq (release_destination sv f scenario control)
     (run_say (int_text (int (length (scenario_steps scenario)))
       @ '' actual output checks, original/identity protection and normal quit cleanup passed''))))))"

definition export_session ::
    "services \<Rightarrow> (string \<Rightarrow> bool res) \<Rightarrow> env \<Rightarrow> path \<Rightarrow> fixture \<Rightarrow> string \<Rightarrow> export_world
     \<Rightarrow> string \<times> int \<times> int \<times> int \<Rightarrow> json \<Rightarrow> (runner, unit) prog" where
  "export_session sv loopback ambient control f scenario w before prints =
     pbind (open_export sv loopback ambient f scenario w) (\<lambda>(sidecar, identity).
     pseq (hand_over_export sv control f scenario w sidecar prints)
    (pseq (quit_ui ''Export UI host did not quit normally'' ''Export UI quit left sidecar/readiness'' f (ew_ui w))
     (verify_export sv control f scenario w before prints identity)))"

definition export_profile ::
    "services \<Rightarrow> (string \<Rightarrow> bool res) \<Rightarrow> bool \<Rightarrow> env \<Rightarrow> path \<Rightarrow> string \<Rightarrow> fixture \<Rightarrow> export_world \<Rightarrow> (runner, unit) prog" where
  "export_profile sv loopback superuser ambient control scenario f w =
     pbind (prepare_export sv superuser f scenario) (\<lambda>(before, prints).
     pbind (reads (\<lambda>s. length (ru_launched s))) (\<lambda>n.
     finally_run (export_session sv loopback ambient control f scenario w before prints) (close_ui f (ew_ui w) n)))"

section \<open>The command\<close>

definition export_smoke ::
    "services \<Rightarrow> (string \<Rightarrow> bool res) \<Rightarrow> (string \<Rightarrow> json res) \<Rightarrow> unit res \<Rightarrow> bool \<Rightarrow> env \<Rightarrow> process_row list \<Rightarrow> path
     \<Rightarrow> string \<Rightarrow> path \<Rightarrow> int \<Rightarrow> string \<Rightarrow> string \<Rightarrow> (bool \<Rightarrow> export_world) \<Rightarrow> (runner, unit) prog" where
  "export_smoke sv loopback plist codesign superuser ambient rows app suffix control seconds profile scenario worlds =
     (let wroot = [''private'', ''tmp'', export_root_name @ suffix]; modes = profile_modes profile in
      pseq (lift (check_profile ''Invalid export UI profile/duration'' profile seconds))
     (pseq (require (scenario \<in> set scenarios) (ValueErr ''Invalid export UI scenario''))
     (pseq (lift (check_control sv ''Export UI control must be directly inside /private/tmp'' control))
     (pseq (lift (check_preview plist app rows))
     (pseq (lift codesign)
     (pseq (run_edit (mkdir_private sv wroot))
     (keep_failed
       (pseq (run_edit (touch_new sv control))
       (pseq (for_each (\<lambda>managed. export_profile sv loopback superuser ambient control scenario
                 (export_fixture app wroot managed) (worlds managed)) modes)
       (run_say (int_text (int (length modes)) @ '' ordinary export UI lifecycles passed; native panel/UI evidence is separate''))))
       control wroot ''export'')))))))"

end
