(* ===== verification/UiRunProps.thy ===== *)
theory UiRunProps
  imports UiRun LaunchProps
begin

text \<open>What the steps of a run change in the files, and what a complete receipt holds.\<close>

lemma complete_receipt:
  assumes "steps_in_order steps (length steps) state = Inr True" and "load_text sv t receipt = Inr state"
    and "store x = t"
  shows "receipt_steps sv receipt x = steps"
  using assms
  by (auto simp: steps_in_order_def receipt_steps_def jeq_strings field_def jidx_def strings_back
      simp del: map_map jeq.simps split: json.splits option.splits)

definition ru_holds :: "path \<Rightarrow> node_info option \<Rightarrow> runner \<Rightarrow> bool" where
  "ru_holds q x s \<longleftrightarrow> map_of (ru_store s) q = x"

lemma ru_keeps: "keeps (ru_holds q x) m \<Longrightarrow> m s = (r, s') \<Longrightarrow> map_of (ru_store s) q = x \<Longrightarrow> map_of (ru_store s') q = x"
  unfolding keeps_def ru_holds_def by (metis snd_conv)

lemma keeps_run_edit: "(\<And>t t'. g t = Inr t' \<Longrightarrow> map_of t' q = map_of t q) \<Longrightarrow> keeps (ru_holds q x) (run_edit g)"
  by (auto simp: keeps_def ru_holds_def run_edit_def split: sum.splits)

lemma keeps_run_read [intro]: "keeps (ru_holds q x) (run_read k)" "keeps (ru_holds q x) (run_say l)"
  by (auto simp: keeps_def ru_holds_def run_read_def run_say_def prog_simps)

lemma mkdir_private_effect: "mkdir_private sv p t = Inr t' \<Longrightarrow> q \<noteq> p \<Longrightarrow> map_of t' q = map_of t q"
  by (auto simp: mkdir_private_def make_folder_def update_conv')

lemma mkdir_parents_effect:
  assumes "mkdir_parents sv p t = Inr t'" and "\<not> below q p"
  shows "map_of t' q = map_of t q"
proof -
  have "below (take k p) p" for k by (simp add: below_def min_def)
  then have far: "q \<noteq> take k p" for k using assms(2) by auto
  from assms(1) obtain u where u: "rfold (\<lambda>k t. let q = take k p in if is_folder t q then Inr t
        else if present t q then Inl (OSErr (path_str q))
        else Inr (AList.update q \<lparr>n_kind = Directory, n_uid = sv_uid sv, n_perm = 493, n_mtime = sv_clock sv t,
                    n_inode = sv_new_inode sv t\<rparr> t)) [1..<length p] t = Inr u" and last: "mkdir_private sv p u = Inr t'"
    by (auto simp: mkdir_parents_def)
  have "map_of u q = map_of t q"
    by (rule rfold_invariant[OF u]) (auto simp: Let_def update_conv' far split: if_splits)
  then show ?thesis using mkdir_private_effect[OF last] assms(2) by (cases "q = p") auto
qed

lemma touch_any_effect: "touch_any sv p t = Inr t' \<Longrightarrow> q \<noteq> p \<Longrightarrow> map_of t' q = map_of t q"
  by (auto simp: touch_any_def update_conv' touch_effect(1) split: option.splits)

lemma rfold_mkdir_effect:
  "rfold (\<lambda>name t. mkdir_private sv (child m name) t) ns t = Inr t' \<Longrightarrow> (\<And>n. n \<in> set ns \<Longrightarrow> q \<noteq> child m n)
    \<Longrightarrow> map_of t' q = map_of t q"
  by (induction ns arbitrary: t) (auto simp: mkdir_private_effect)

lemma chmod_effect: "chmod p m t = Inr t' \<Longrightarrow> q \<noteq> p \<Longrightarrow> map_of t' q = map_of t q"
  by (auto simp: chmod_def update_conv')

lemma chmod_entries: "chmod p m t = Inr t' \<Longrightarrow> entries t' d = entries t d"
proof -
  have entries: "entries u d = filter (\<lambda>q. q \<noteq> [] \<and> butlast q = d) (map fst u)" for u
    by (simp add: entries_def filter_map comp_def)
  assume "chmod p m t = Inr t'"
  then obtain i j where "map_of t p = Some i" "t' = AList.update p j t"
    by (auto simp: chmod_def lstat_def split: option.splits)
  then have "p \<in> set (map fst t)" by (metis map_of_eq_None_iff option.distinct(1) set_map)
  then have "map fst t' = map fst t" using \<open>t' = _\<close> by (simp only: update_keys if_True)
  then show ?thesis by (simp add: entries)
qed

lemma keeps_steps:
  assumes "q \<noteq> p"
  shows "keeps (ru_holds q x) (run_edit (mkdir_private sv p))" "keeps (ru_holds q x) (run_edit (touch_new sv p))"
    "keeps (ru_holds q x) (run_edit (overwrite sv p b))" "keeps (ru_holds q x) (run_edit (chmod p m))"
    "keeps (ru_holds q x) (run_edit (write_text sv p b))"
  by (rule keeps_run_edit; use assms in \<open>auto intro: mkdir_private_effect touch_effect(1) overwrite_effect(1)
      chmod_effect write_text_effect(1)\<close>)+

end
