(* ===== verification/ExportLaunchProps.thy ===== *)
theory ExportLaunchProps
  imports ExportLaunch UiRunProps
begin

text \<open>
  A profile of the export acceptance that passes: the steps recorded while its host ran are all the steps
  of its scenario, and what must not change did not.
\<close>

lemma check_outputs_ok:
  assumes "check_outputs sv f scenario t = Inr ()"
  shows "\<exists>state. load_text sv t (export_receipt (f_root f)) = Inr state
      \<and> steps_in_order (scenario_steps scenario) (length (scenario_steps scenario)) state = Inr True"
    and "scenario \<in> set [''document-errors'', ''document-permissions'', ''document-write-denied'']
      \<Longrightarrow> entries t (child (f_root f) output_dir) = []"
  using assms by (auto simp: check_outputs_def Let_def list_dir_def split: if_splits)

lemma check_originals_ok:
  assumes "check_originals sv f before identity t = Inr ()"
  shows "original_of t (export_canary f) = Inr before" and "check_credential_profile sv t (fixture_core f) = Inr identity"
  using assms by (auto simp: check_originals_def split: if_splits)

lemma check_provider_ok:
  assumes "check_provider sv f scenario prints w t = Inr ()" and "scenario \<in> set document_scenarios"
  shows "\<exists>rq data. ew_posts w = [rq] \<and> read_request sv rq = Inr data \<and> asks_prompt data = Inr True"
proof -
  let ?p = "provider_after sv (document_sources (f_root f)) (scenario = ''document-errors'') (ew_posts w)"
  have "dp_requests ?p = 1 \<and> dp_error ?p = None"
    using assms by (auto simp: check_provider_def Let_def split: if_splits)
  then show ?thesis unfolding one_request by blast
qed

lemma open_export_ok:
  assumes "open_export sv loopback ambient f scenario w s = (Inr (sidecar, identity), s')"
  shows "\<exists>t k. (if scenario \<in> set document_scenarios then configure_provider sv (fixture_core f) (ew_port w) (ru_store s) = Inr t
      else t = ru_store s)
    \<and> ru_store s' = uv_files (uw_start (ew_ui w) k) t
    \<and> check_credential_profile sv (ru_store s') (fixture_core f) = Inr identity"
  using assms by (auto simp: open_export_def ok_simps split: if_splits dest!: wait_ui_ok)

lemma hand_over_export_ok:
  assumes "hand_over_export sv control f scenario w sidecar prints s = (Inr (), s')" and "q \<noteq> control"
  shows "map_of (ru_store s') q = map_of (ru_store s) q"
  using assms by (auto simp: hand_over_export_def ok_simps chmod_def update_conv' write_text_effect(1))

lemma verify_export_ok:
  assumes "verify_export sv control f scenario w before prints identity s = (Inr (), s')"
  shows "check_outputs sv f scenario (ru_store s) = Inr ()" and "check_originals sv f before identity (ru_store s) = Inr ()"
    and "check_provider sv f scenario prints w (ru_store s) = Inr ()"
    and "q \<noteq> child (f_root f) output_dir \<Longrightarrow> map_of (ru_store s') q = map_of (ru_store s) q"
    and "entries (ru_store s') d = entries (ru_store s) d"
  using assms
  by (auto simp: verify_export_def release_destination_def Let_def ok_simps chmod_effect chmod_entries split: if_splits)

section \<open>Paths the preparation leaves alone\<close>

lemma export_folders_effect:
  assumes "export_folders sv f t = Inr t'" and "q = export_receipt (f_root f)"
  shows "map_of t' q = map_of t q"
proof -
  have "q \<noteq> f_root f" "q \<noteq> export_canary f" "\<not> below q (fixture_core f)"
    "\<And>n. n \<in> set [''home'', ''tmp'', output_dir] \<Longrightarrow> q \<noteq> child (f_root f) n"
    using assms(2) by (auto simp: export_receipt_def export_canary_def fixture_core_def fixture_data_def fixture_home_def
        below_def child_def output_dir_def)
  note away = this
  from assms(1) obtain t1 t2 t3 t4 where s: "mkdir_private sv (f_root f) t = Inr t1"
    "rfold (\<lambda>name t. mkdir_private sv (child (f_root f) name) t) [''home'', ''tmp'', output_dir] t1 = Inr t2"
    "mkdir_parents sv (fixture_core f) t2 = Inr t3" "touch_any sv (export_canary f) t3 = Inr t4"
    "overwrite sv (export_canary f) (''private export original'' @ nl) t4 = Inr t'"
    unfolding export_folders_def by (elim rbind_InrE)
  show ?thesis
    using mkdir_private_effect[OF s(1) away(1)] rfold_mkdir_effect[OF s(2) away(4)] mkdir_parents_effect[OF s(3) away(3)]
      touch_any_effect[OF s(4) away(2)] overwrite_effect(1)[OF s(5) away(2)] by simp
qed

lemma prepare_documents_keeps:
  assumes "q \<notin> set (child (f_root f) source_dir # document_sources (f_root f))"
  shows "keeps (ru_holds q x) (prepare_documents sv superuser f scenario)"
proof -
  have dirs: "q \<noteq> child (f_root f) source_dir" "q \<noteq> document_sources (f_root f) ! 0"
    using assms by (auto simp: document_sources_def)
  have each: "keeps (ru_holds q x) (case pb of (p, b) \<Rightarrow> pseq (run_edit (touch_new sv p)) (run_edit (overwrite sv p b)))"
    if "pb \<in> set (zip (document_sources (f_root f)) contents)" for pb
  proof (cases pb)
    case (Pair p b)
    have "q \<noteq> p" using that assms unfolding Pair by (auto dest: set_zip_leftD)
    then show ?thesis unfolding Pair prod.case by (intro keeps_pseq keeps_steps)
  qed
  show ?thesis unfolding prepare_documents_def Let_def
    by (intro keeps_if keeps_basic keeps_pseq keeps_for_each keeps_steps keeps_run_read each dirs)
qed

lemma deny_destination_keeps:
  assumes "q \<noteq> child (f_root f) output_dir" and "q \<noteq> child (child (f_root f) output_dir) ''write-permission-probe''"
  shows "keeps (ru_holds q x) (deny_destination sv superuser f scenario)"
  unfolding deny_destination_def Let_def using assms by (intro keeps_if keeps_basic keeps_pseq keeps_steps)

lemma prepare_export_ok:
  assumes "prepare_export sv superuser f scenario s = (Inr (before, prints), s')"
  shows "\<exists>t0. export_folders sv f (ru_store s) = Inr t0 \<and> original_of t0 (export_canary f) = Inr before"
    and "map_of (ru_store s') (export_receipt (f_root f)) = map_of (ru_store s) (export_receipt (f_root f))"
proof -
  let ?q = "export_receipt (f_root f)"
  from assms obtain t1 s2 where folders: "export_folders sv f (ru_store s) = Inr t1"
    and before: "original_of t1 (export_canary f) = Inr before"
    and docs: "prepare_documents sv superuser f scenario (s\<lparr>ru_store := t1\<rparr>) = (Inr prints, s2)"
    and deny: "deny_destination sv superuser f scenario s2 = (Inr (), s')"
    by (auto simp: prepare_export_def ok_simps)
  show "\<exists>t0. export_folders sv f (ru_store s) = Inr t0 \<and> original_of t0 (export_canary f) = Inr before"
    using folders before by blast
  have away: "?q \<notin> set (child (f_root f) source_dir # document_sources (f_root f))"
    "?q \<noteq> child (f_root f) output_dir" "?q \<noteq> child (child (f_root f) output_dir) ''write-permission-probe''"
    by (auto simp: export_receipt_def source_dir_def original_word_def output_dir_def document_sources_def child_def)
  have "map_of (ru_store s2) ?q = map_of t1 ?q" by (rule ru_keeps[OF prepare_documents_keeps[OF away(1)] docs]) simp
  then have "map_of (ru_store s') ?q = map_of t1 ?q" by (rule ru_keeps[OF deny_destination_keeps[OF away(2,3)] deny])
  then show "map_of (ru_store s') ?q = map_of (ru_store s) ?q"
    using export_folders_effect[OF folders refl] by simp
qed

section \<open>A passed profile\<close>

text \<open>The steps recorded between two states of the files.\<close>

definition recorded_between :: "services \<Rightarrow> path \<Rightarrow> path \<Rightarrow> string \<Rightarrow> string list \<Rightarrow> store \<Rightarrow> store \<Rightarrow> bool" where
  "recorded_between sv control mode scenario ss t t' \<longleftrightarrow>
     (\<exists>x x'. store x = t \<and> store x' = t'
        \<and> recordings (receipt_steps sv (export_receipt mode)) (export_recording sv control mode scenario) ss x x')"

lemma recorded_all:
  assumes "recorded_between sv control mode scenario ss t t'" and "\<not> present t (export_receipt mode)"
    and "load_text sv t' (export_receipt mode) = Inr state"
    and "steps_in_order (scenario_steps scenario) (length (scenario_steps scenario)) state = Inr True"
  shows "ss = scenario_steps scenario"
proof -
  from assms(1) obtain x x' where x: "store x = t" "store x' = t'"
    and rec: "recordings (receipt_steps sv (export_receipt mode)) (export_recording sv control mode scenario) ss x x'"
    by (auto simp: recorded_between_def)
  have "receipt_steps sv (export_receipt mode) x = []"
    using assms(2) x(1) by (simp add: receipt_steps_def load_text_def read_file_def lstat_def present_def)
  from export.prefix_only[OF rec this] have "receipt_steps sv (export_receipt mode) x' = ss" by simp
  then show ?thesis using complete_receipt[OF assms(4,3) x(2)] by simp
qed


end
