(* ===== verification/ImportLaunch.thy ===== *)
theory ImportLaunch
  imports UiRun
begin

text \<open>
  The launches of the theme import acceptance (\<open>prepare_source\<close> and \<open>smoke\<close> of
  \<open>tools/tauri/smoke-native-ui-theme-import.py\<close>): the archives made from two official themes, and for each
  profile a first launch and a restart that must keep what was imported. \<open>archive\<close> gives the bytes of an
  archive with the members it is given.
\<close>

section \<open>The prepared themes\<close>

definition import_name :: string where
  "import_name = ''Imported UI Theme''"

text \<open>The decimals are the floats Python reads them as.\<close>

definition import_changes :: "(string \<times> json) list" where
  "import_changes =
     [(''schemaVersion'', JInt 2), (''id'', JStr ''ui-import''), (''name'', JStr import_name),
      (''recipes'', JObj [(''density'', JStr ''compact''), (''corners'', JStr ''round'')]),
      (''background'', JObj [(''image'', JStr ''home.webp''), (''focusX'', JFloat (1 / 2)), (''focusY'', JFloat (1 / 2)),
         (''safeArea'', JStr ''center''), (''homeOpacity'', JInt 1),
         (''taskOpacity'', JFloat (1261007895663739 / 4503599627370496)),
         (''overlayStrength'', JFloat (3602879701896397 / 36028797018963968)), (''paneOpacity'', JFloat (1 / 2))]),
      (''taskBackground'', JObj [(''image'', JStr ''task.webp''), (''focusX'', JFloat (1 / 2)), (''focusY'', JFloat (1 / 2)),
         (''safeArea'', JStr ''center''), (''opacity'', JInt 1),
         (''overlayStrength'', JFloat (3602879701896397 / 36028797018963968)), (''paneOpacity'', JFloat (1 / 2))])]"

definition dict_or :: "json \<Rightarrow> (string \<times> json) list \<Rightarrow> json res" where
  "dict_or d e = (case d of JObj kvs \<Rightarrow> Inr (JObj (dict_union kvs e)) | _ \<Rightarrow> Inl (TypeErr ''unsupported operand''))"

definition source_images :: "(string \<times> string) list" where
  "source_images = [(''home.webp'', ''official-crimson-horizon''), (''task.webp'', ''official-sage-breeze'')]"

text \<open>The bytes of an image, an archive and the fingerprints of the sources are written to files that were just made.\<close>

definition copy_image :: "services \<Rightarrow> path \<Rightarrow> path \<Rightarrow> string \<times> string \<Rightarrow> store \<Rightarrow> store res" where
  "copy_image sv official source io t =
     rbind (read_file t (official @ [snd io, ''background.webp''])) (\<lambda>b. overwrite sv (child source (fst io)) b t)"

definition pack_theme ::
    "services \<Rightarrow> ((string \<times> string) list \<Rightarrow> string) \<Rightarrow> path \<Rightarrow> json \<Rightarrow> string \<times> int \<Rightarrow> store \<Rightarrow> store res" where
  "pack_theme sv archive source manifest ns t =
     rbind (dict_or manifest [(''schemaVersion'', JInt (snd ns))]) (\<lambda>m.
     rbind (rmap (\<lambda>name. rbind (read_file t (child source name)) (\<lambda>b. Inr (name, b))) [''home.webp'', ''task.webp'']) (\<lambda>images.
     overwrite sv (child source (fst ns)) (archive ((''theme.json'', sv_dumps sv m) # images)) t))"

definition save_prints :: "services \<Rightarrow> path \<Rightarrow> path \<Rightarrow> store \<Rightarrow> store res" where
  "save_prints sv source snapshot t =
     rbind (rmap (\<lambda>n. rbind (file_print sv t (child source n) False) (\<lambda>p. Inr (n, p))) source_names) (\<lambda>prints.
     overwrite sv snapshot (sv_dumps sv (JObj prints)) t)"

definition prepare_source ::
    "services \<Rightarrow> ((string \<times> string) list \<Rightarrow> string) \<Rightarrow> path \<Rightarrow> path \<Rightarrow> (runner, unit) prog" where
  "prepare_source sv archive official mode =
     (let source = child mode import_dir; expected = child source ''expected-manifest.json'';
          snapshot = child source ''originals.json'' in
      pseq (run_edit (mkdir_private sv source))
     (pbind (run_read (\<lambda>t. load_text sv t (official @ [''official-crimson-horizon'', ''theme.json'']))) (\<lambda>base.
      pbind (lift (dict_or base import_changes)) (\<lambda>manifest.
      pseq (for_each (\<lambda>io. pseq (run_edit (touch_new sv (child source (fst io)))) (run_edit (copy_image sv official source io)))
              source_images)
     (pseq (run_edit (touch_new sv expected))
     (pseq (run_edit (overwrite sv expected (sv_dumps sv manifest)))
     (pseq (for_each (\<lambda>ns. pseq (run_edit (touch_new sv (child source (fst ns)))) (run_edit (pack_theme sv archive source manifest ns)))
              [(source_file, 2), (invalid_file, 99)])
     (pseq (run_edit (touch_new sv snapshot))
     (run_edit (save_prints sv source snapshot))))))))))"

section \<open>One profile\<close>

definition import_fixture :: "path \<Rightarrow> path \<Rightarrow> bool \<Rightarrow> fixture" where
  "import_fixture app wroot managed =
     \<lparr>f_app = app, f_identifier = preview_identifier,
      f_root = child wroot (if managed then ''managed'' else ''explicit''), f_managed = managed\<rparr>"

definition import_canary :: "fixture \<Rightarrow> path" where
  "import_canary f = child (fixture_core f) ''ui-theme-import-original.canary''"

definition prepare_import ::
    "services \<Rightarrow> ((string \<times> string) list \<Rightarrow> string) \<Rightarrow> path \<Rightarrow> fixture \<Rightarrow> (runner, json) prog" where
  "prepare_import sv archive official f =
     pseq (for_each (\<lambda>p. run_edit (mkdir_private sv p)) [f_root f, fixture_home f, fixture_temp f])
    (pseq (run_edit (mkdir_parents sv (fixture_core f)))
    (pseq (run_edit (touch_new sv (import_canary f)))
    (pseq (run_edit (overwrite sv (import_canary f) (''private theme import original'' @ nl)))
    (pbind (run_read (\<lambda>t. file_print sv t (import_canary f) False)) (\<lambda>before.
     pseq (prepare_source sv archive official (f_root f)) (ret before))))))"

definition import_control :: "fixture \<Rightarrow> string \<Rightarrow> int \<Rightarrow> int \<Rightarrow> json" where
  "import_control f phase host sidecar = JObj
     [(''root'', JStr (path_str (butlast (f_root f)))), (''managed'', JBool (f_managed f)), (''phase'', JStr phase),
      (''hostPid'', JInt host), (''sidecarPid'', JInt sidecar),
      (''sourceFile'', JStr (path_str (child (child (f_root f) import_dir) source_file))),
      (''invalidFile'', JStr (path_str (child (child (f_root f) import_dir) invalid_file)))]"

definition phase_steps :: "string \<Rightarrow> string list" where
  "phase_steps phase = (if phase = ''cancel'' then take 4 import_steps else import_steps)"

definition verify_import :: "services \<Rightarrow> fixture \<Rightarrow> string \<Rightarrow> json \<Rightarrow> string \<Rightarrow> store \<Rightarrow> unit res" where
  "verify_import sv f phase before identity t =
     rbind (private_file sv t (import_receipt (f_root f)) 8192) (\<lambda>_.
     rbind (load_text sv t (import_receipt (f_root f))) (\<lambda>state.
     rbind (steps_in_order (phase_steps phase) (length (phase_steps phase)) state) (\<lambda>complete.
     rbind (rcheck complete (RuntimeErr ''Actual import UI steps were incomplete'')) (\<lambda>_.
     rbind (check_themes sv t (f_root f) 2) (\<lambda>_.
     rbind (file_print sv t (import_canary f) False) (\<lambda>now.
     rbind (if jeq now before then rbind (check_credential_profile sv t (fixture_core f)) (\<lambda>i. Inr (i = identity))
            else Inr False) (\<lambda>ok.
     rcheck ok (RuntimeErr ''Theme import changed protected original/identity''))))))))"

text \<open>The identity a phase finds must be that of the phase before it.\<close>

definition open_import ::
    "services \<Rightarrow> (string \<Rightarrow> bool res) \<Rightarrow> fixture \<Rightarrow> ui_world \<Rightarrow> string option \<Rightarrow> (runner, int \<times> string) prog" where
  "open_import sv loopback f w identity =
     pbind (wait_ui sv loopback ''Ordinary import UI host did not start'' f w) (\<lambda>(sidecar, current).
     pseq (require (identity = None \<or> identity = Some current) (RuntimeErr ''Theme restart changed profile identity''))
     (ret (sidecar, current)))"

definition hand_over_import :: "services \<Rightarrow> path \<Rightarrow> fixture \<Rightarrow> string \<Rightarrow> ui_world \<Rightarrow> int \<Rightarrow> (runner, unit) prog" where
  "hand_over_import sv control f phase w sidecar =
     pseq (run_edit (write_text sv control (sv_dumps sv (import_control f phase (uw_host w) sidecar))))
     (run_say (''Ordinary '' @ profile_name f @ '' theme '' @ phase @ '' UI ready''))"

definition import_session ::
    "services \<Rightarrow> (string \<Rightarrow> bool res) \<Rightarrow> path \<Rightarrow> fixture \<Rightarrow> ui_world \<Rightarrow> json \<Rightarrow> string \<Rightarrow> string option \<Rightarrow> (runner, string) prog" where
  "import_session sv loopback control f w before phase identity =
     pbind (open_import sv loopback f w identity) (\<lambda>(sidecar, current).
     pseq (hand_over_import sv control f phase w sidecar)
    (pseq (quit_ui ''Theme import host did not quit normally'' ''Theme import quit left sidecar/readiness'' f w)
    (pseq (run_read (verify_import sv f phase before current))
    (pseq (run_say ''Actual disk steps, sources, identity/original and normal quit cleanup passed'')
    (ret current)))))"

definition import_phase ::
    "services \<Rightarrow> (string \<Rightarrow> bool res) \<Rightarrow> env \<Rightarrow> path \<Rightarrow> fixture \<Rightarrow> ui_world \<Rightarrow> json \<Rightarrow> string \<Rightarrow> string option \<Rightarrow> (runner, string) prog" where
  "import_phase sv loopback ambient control f w before phase identity =
     pbind (reads (\<lambda>s. length (ru_launched s))) (\<lambda>n.
     pseq (run_launch (uw_spawned w) (host_path (f_app f)) (ui_environment f ambient))
     (finally_run (import_session sv loopback control f w before phase identity) (close_ui f w n)))"

definition import_profile ::
    "services \<Rightarrow> (string \<Rightarrow> bool res) \<Rightarrow> ((string \<times> string) list \<Rightarrow> string) \<Rightarrow> path \<Rightarrow> env \<Rightarrow> path \<Rightarrow> fixture
     \<Rightarrow> (string \<Rightarrow> ui_world) \<Rightarrow> (runner, string) prog" where
  "import_profile sv loopback archive official ambient control f w =
     pbind (prepare_import sv archive official f) (\<lambda>before.
     pbind (import_phase sv loopback ambient control f (w ''cancel'') before ''cancel'' None) (\<lambda>identity.
     import_phase sv loopback ambient control f (w ''restart'') before ''restart'' (Some identity)))"

section \<open>The command\<close>

definition import_smoke ::
    "services \<Rightarrow> (string \<Rightarrow> bool res) \<Rightarrow> (string \<Rightarrow> json res) \<Rightarrow> ((string \<times> string) list \<Rightarrow> string) \<Rightarrow> unit res \<Rightarrow> env
     \<Rightarrow> process_row list \<Rightarrow> path \<Rightarrow> path \<Rightarrow> string \<Rightarrow> path \<Rightarrow> int \<Rightarrow> string \<Rightarrow> (bool \<Rightarrow> string \<Rightarrow> ui_world) \<Rightarrow> (runner, unit) prog" where
  "import_smoke sv loopback plist archive codesign ambient rows official app suffix control seconds profile worlds =
     (let wroot = [''private'', ''tmp'', import_root_name @ suffix]; modes = profile_modes profile in
      pseq (lift (check_profile ''Invalid import UI profile/duration'' profile seconds))
     (pseq (lift (check_control sv ''Import control must be directly inside /private/tmp'' control))
     (pseq (lift (check_preview plist app rows))
     (pseq (lift codesign)
     (pseq (run_edit (mkdir_private sv wroot))
     (keep_failed
       (pseq (run_edit (touch_new sv control))
       (pseq (for_each (\<lambda>managed. pbind (import_profile sv loopback archive official ambient control
                 (import_fixture app wroot managed) (worlds managed)) (\<lambda>_. ret ())) modes)
       (run_say (int_text (2 * int (length modes))
         @ '' ordinary import/restart UI lifecycles passed; actual UI evidence is separate''))))
       control wroot ''theme import''))))))"

section \<open>A passed profile\<close>

lemma verify_import_ok:
  assumes "verify_import sv f phase before identity t = Inr ()"
  shows "\<exists>state. load_text sv t (import_receipt (f_root f)) = Inr state
      \<and> steps_in_order (phase_steps phase) (length (phase_steps phase)) state = Inr True"
    and "\<exists>themes. check_themes sv t (f_root f) 2 = Inr themes"
    and "\<exists>now. file_print sv t (import_canary f) False = Inr now \<and> jeq now before"
    and "check_credential_profile sv t (fixture_core f) = Inr identity"
  using assms by (auto simp: verify_import_def split: if_splits)

end
