(* ===== verification/ImportLaunchProps.thy ===== *)
theory ImportLaunchProps
  imports ImportLaunch UiRunProps
begin

text \<open>
  A profile of the theme import acceptance that passes: the first launch recorded the first four steps,
  the restart the fifth, under one identity.
\<close>

section \<open>Paths the preparation leaves alone\<close>

lemma prepare_source_keeps:
  assumes "\<not> below (child mode import_dir) q"
  shows "keeps (ru_holds q x) (prepare_source sv archive official mode)"
proof -
  have dir: "q \<noteq> child mode import_dir" and inside: "q \<noteq> child (child mode import_dir) n" for n
    using assms below_child[of "child mode import_dir" "child mode import_dir"] by auto
  have edits: "keeps (ru_holds q x) (run_edit (copy_image sv official (child mode import_dir) io))"
    "keeps (ru_holds q x) (run_edit (pack_theme sv archive (child mode import_dir) manifest ns))"
    "keeps (ru_holds q x) (run_edit (save_prints sv (child mode import_dir) (child (child mode import_dir) n)))"
    for io manifest ns n
    by (rule keeps_run_edit; auto simp: copy_image_def pack_theme_def save_prints_def dest: overwrite_effect(1)[OF _ inside])+
  show ?thesis unfolding prepare_source_def Let_def
    by (intro keeps_pseq keeps_pbind keeps_basic keeps_for_each keeps_run_read keeps_steps dir inside edits)
qed

lemma prepare_import_keeps:
  assumes "q = import_receipt (f_root f)"
  shows "keeps (ru_holds q x) (prepare_import sv archive official f)"
proof -
  have away: "\<not> below (child (f_root f) import_dir) q" "q \<noteq> import_canary f" "\<not> below q (fixture_core f)"
    "\<And>p. p \<in> set [f_root f, fixture_home f, fixture_temp f] \<Longrightarrow> q \<noteq> p"
    using assms by (auto simp: import_receipt_def import_canary_def fixture_core_def fixture_data_def fixture_home_def
        fixture_temp_def import_dir_def original_word_def below_def child_def)
  have parents: "keeps (ru_holds q x) (run_edit (mkdir_parents sv (fixture_core f)))"
    by (rule keeps_run_edit) (rule mkdir_parents_effect[OF _ away(3)])
  show ?thesis unfolding prepare_import_def
    by (intro keeps_pseq keeps_pbind keeps_basic keeps_for_each keeps_run_read parents prepare_source_keeps keeps_steps away)
qed

section \<open>One phase\<close>

lemma open_import_ok:
  assumes "open_import sv loopback f w identity s = (Inr (sidecar, current), s')"
  shows "\<exists>k. ru_store s' = uv_files (uw_start w k) (ru_store s)" and "identity = None \<or> identity = Some current"
  using assms by (auto simp: open_import_def ok_simps dest!: wait_ui_ok)

lemma hand_over_import_ok:
  assumes "hand_over_import sv control f phase w sidecar s = (Inr (), s')" and "q \<noteq> control"
  shows "map_of (ru_store s') q = map_of (ru_store s) q"
  using assms by (auto simp: hand_over_import_def ok_simps write_text_effect(1))

lemma import_session_ok:
  assumes "import_session sv loopback control f w before phase identity s = (Inr current, s')"
  shows "\<exists>sidecar s2 s3. open_import sv loopback f w identity s = (Inr (sidecar, current), s2)
    \<and> hand_over_import sv control f phase w sidecar s2 = (Inr (), s3)
    \<and> ru_store s' = uw_live w (ru_store s3) \<and> verify_import sv f phase before current (ru_store s') = Inr ()"
  using assms unfolding import_session_def ok_simps split_paired_Ex prod.case quit_ui_ok by force

text \<open>The moment the control is handed over, and what the phase verified when its host was gone.\<close>

lemma import_phase_ok:
  assumes run: "import_phase sv loopback ambient control f w before phase identity s = (Inr current, s')"
    and start: "\<And>k t. map_of (uv_files (uw_start w k) t) (import_receipt (f_root f)) = map_of t (import_receipt (f_root f))"
    and control: "control \<noteq> import_receipt (f_root f)"
  shows "\<exists>t. map_of t (import_receipt (f_root f)) = map_of (ru_store s) (import_receipt (f_root f))
    \<and> ru_store s' = uw_live w t \<and> verify_import sv f phase before current (ru_store s') = Inr ()
    \<and> (identity = None \<or> identity = Some current)"
proof -
  let ?q = "import_receipt (f_root f)"
  from run obtain l u where sess: "import_session sv loopback control f w before phase identity (s\<lparr>ru_launched := l\<rparr>) = (Inr current, u)"
    and close: "ru_store s' = ru_store u"
    by (auto simp: import_phase_def ok_simps dest!: close_ui_store)
  obtain sidecar s2 s3 where open1: "open_import sv loopback f w identity (s\<lparr>ru_launched := l\<rparr>) = (Inr (sidecar, current), s2)"
    and hand: "hand_over_import sv control f phase w sidecar s2 = (Inr (), s3)"
    and quit: "ru_store u = uw_live w (ru_store s3)" and ver: "verify_import sv f phase before current (ru_store u) = Inr ()"
    using import_session_ok[OF sess] by blast
  have "map_of (ru_store s3) ?q = map_of (ru_store s) ?q"
    using hand_over_import_ok[OF hand control[symmetric]] open_import_ok(1)[OF open1] start by auto
  then show ?thesis using quit ver close open_import_ok(2)[OF open1] by auto
qed

section \<open>A passed profile\<close>

text \<open>The steps recorded between two states of the files.\<close>

definition imported_between :: "services \<Rightarrow> path \<Rightarrow> path \<Rightarrow> string list \<Rightarrow> store \<Rightarrow> store \<Rightarrow> bool" where
  "imported_between sv control mode ss t t' \<longleftrightarrow>
     (\<exists>x x'. store x = t \<and> store x' = t'
        \<and> recordings (receipt_steps sv (import_receipt mode)) (import_recording sv control mode) ss x x')"

lemma verified_steps:
  assumes "verify_import sv f phase before identity t = Inr ()" and "store x = t"
  shows "receipt_steps sv (import_receipt (f_root f)) x = phase_steps phase"
proof -
  obtain state where "load_text sv t (import_receipt (f_root f)) = Inr state"
    "steps_in_order (phase_steps phase) (length (phase_steps phase)) state = Inr True"
    using verify_import_ok(1)[OF assms(1)] by blast
  from complete_receipt[OF this(2,1) assms(2)] show ?thesis .
qed

lemma receipt_steps_same:
  "map_of (store x) receipt = map_of (store y) receipt \<Longrightarrow> receipt_steps sv receipt x = receipt_steps sv receipt y"
  by (simp add: receipt_steps_def load_text_def read_file_def lstat_def)

text \<open>The steps recorded in a phase are those between the receipt it found and the receipt it left.\<close>

lemma imported_rest:
  assumes "imported_between sv control (f_root f) ss t t'"
    and "\<And>x. store x = t \<Longrightarrow> receipt_steps sv (import_receipt (f_root f)) x = take n import_steps" and "n \<le> 5"
    and "verify_import sv f phase before identity t' = Inr ()"
  shows "ss = drop n (phase_steps phase)"
proof -
  from assms(1) obtain x x' where x: "store x = t" "store x' = t'"
    and rec: "recordings (receipt_steps sv (import_receipt (f_root f))) (import_recording sv control (f_root f)) ss x x'"
    by (auto simp: imported_between_def)
  have "n \<le> length import_steps" using assms(3) by (simp add: import_steps_def)
  from theme_import.grows_in_order[OF rec assms(2)[OF x(1)] this]
  have grown: "receipt_steps sv (import_receipt (f_root f)) x' = take (n + length ss) import_steps"
    "n + length ss \<le> length import_steps" "ss = take (length ss) (drop n import_steps)"
    by auto
  have left: "take (n + length ss) import_steps = phase_steps phase" using verified_steps[OF assms(4) x(2)] grown(1) by simp
  have "ss = drop n (take (n + length ss) import_steps)" using grown(3) by (simp add: drop_take)
  then show ?thesis using left by simp
qed


end
