(* ===== verification/UiWitness.thy ===== *)
theory UiWitness
  imports ExportLaunchProps ImportLaunchProps PackagedWitness
begin

text \<open>
  Runs of the two acceptances that pass, in an explicit profile. Documents are the texts of a table; what the
  application and the recorder leave is put into the files when the host quits.
\<close>

section \<open>A host\<close>

definition ux_fixture :: fixture where
  "ux_fixture = \<lparr>f_app = [''A.app''], f_identifier = preview_identifier, f_root = [''r'', ''e''], f_managed = False\<rparr>"

definition ux_bridge :: path where
  "ux_bridge = [''r'', ''e'', ''tmp'', ''reasonix-tauri-bridge-1'']"

definition ux_files :: store where
  "ux_files = (child ux_bridge ''ready.json'', sm_file [CHR 0x00]) # (ux_bridge, sm_folder)
     # map (\<lambda>name. (child (fixture_core ux_fixture) name, sm_file [CHR 0x01])) profile_files"

definition ux_view :: "nat \<Rightarrow> ui_view" where
  "ux_view k = \<lparr>uv_exited = False, uv_files = (\<lambda>t. ux_files @ t),
     uv_rows = (if k = 0 then []
       else [(11, 10, path_str (bridge_path [''A.app'']) @ '' --ready-file '' @ path_str (fixture_temp ux_fixture) @ ''/x'')]),
     uv_env = Inr (ps_line [path_str (bridge_path [''A.app''])]
        [(''REASONIX_HOME'', path_str (fixture_core ux_fixture)), (''REASONIX_DESKTOP_BRIDGE_TOKEN'', []),
         (''REASONIX_CACHE_HOME'', ''/r/e/cache'')]),
     uv_health = Inr 401\<rparr>"

definition ux_world :: "store \<Rightarrow> ui_world" where
  "ux_world left = \<lparr>uw_host = 10, uw_spawned = Inr (), uw_turns = 3, uw_start = ux_view,
     uw_live = (\<lambda>t. left @ filter (\<lambda>(p, i). \<not> below ux_bridge p) t), uw_code = Inr 0, uw_alive = False, uw_rows = [],
     uw_closing = \<lparr>c_running = False, c_ends = True, c_alive = False, c_rows = []\<rparr>\<rparr>"

definition ux_ready :: json where
  "ux_ready = JObj [(''protocolVersion'', JInt 1), (''sidecarInstanceId'', JStr ''s''), (''address'', JStr ''127.0.0.1:4000'')]"

definition ux_state :: "store \<Rightarrow> runner" where
  "ux_state t = \<lparr>ru_store = ([''r''], sm_folder) # t, ru_launched = [], ru_killed = [], ru_said = []\<rparr>"

lemma ux_other: "map_of ux_files q = None \<Longrightarrow> map_of (uv_files (ux_view k) t) q = map_of t q"
  by (simp add: ux_view_def map_add_def)

section \<open>An export\<close>

definition ex_target :: path where
  "ex_target = [''r'', ''e'', output_dir] @ [case output_name ''diagnostics'' of Inr n \<Rightarrow> n | Inl _ \<Rightarrow> []]"

definition ex_control :: json where
  "ex_control = JObj
     [(''root'', JStr ''/r''), (''managed'', JBool False), (''hostPid'', JInt 10), (''sidecarPid'', JInt 11),
      (''phase'', JStr ''cancel''), (''scenario'', JStr ''diagnostics''), (''destinationMetadata'', JNull),
      (''sourceFiles'', JList []), (''sourceFingerprints'', JList []), (''prompt'', JStr []), (''themeNames'', JList []),
      (''outputFile'', JStr (path_str ex_target))]"

definition ex_services :: services where
  "ex_services = table_services
     [ux_ready, sm_identity CHR ''a'', ex_control,
      JObj [(''steps'', JList (map JStr plain_steps)), (''firstId'', JStr ''first'')],
      JObj [(''schemaVersion'', JInt 2), (''manifest'', JObj [(''reportId'', JStr ''second'')]),
            (''events'', JList [JObj [(''type'', JStr ''marker'')]])]]"

definition ex_world :: export_world where
  "ex_world = \<lparr>ew_ui = ux_world [(export_receipt [''r'', ''e''], sm_file [CHR 0x03]), (ex_target, sm_file [CHR 0x04])],
     ew_port = 4001, ew_posts = [], ew_held = []\<rparr>"

definition ex_run :: "unit res \<times> runner" where
  "ex_run = export_profile ex_services sm_loopback False [] [''r'', ''c''] ''diagnostics'' ux_fixture ex_world (ux_state [])"

lemma ex_run_ok: "fst ex_run = Inr ()"
  by code_simp


section \<open>An import\<close>

definition im_base :: json where
  "im_base = JObj [(''author'', JStr ''a''), (''description'', JStr ''d''), (''license'', JStr ''l''),
     (''baseStyle'', JStr ''graphite''), (''tokens'', JObj [(''light'', JObj [(''bg'', JStr ''#FFF'')])])]"

definition im_manifest :: json where
  "im_manifest = (case dict_or im_base import_changes of Inr m \<Rightarrow> m | Inl _ \<Rightarrow> JNull)"

definition im_theme :: "string \<Rightarrow> json" where
  "im_theme ident = JObj
     [(''id'', JStr ident), (''name'', JStr import_name), (''author'', JStr ''a''), (''description'', JStr ''d''),
      (''license'', JStr ''l''), (''baseStyle'', JStr ''graphite''),
      (''tokens'', JObj [(''light'', JObj [(''bg'', JStr ''#fff'')])]), (''density'', JStr ''compact''), (''corners'', JStr ''round''),
      (''background'', jput ''image'' (JStr ''background.webp'') (field im_manifest ''background'')),
      (''taskBackground'', jput ''image'' (JStr ''background-task.webp'') (field im_manifest ''taskBackground''))]"

definition im_archive :: "(string \<times> string) list \<Rightarrow> string" where
  "im_archive members = concat (map snd members)"

definition im_print :: "string \<Rightarrow> int \<Rightarrow> json" where
  "im_print b inode = JList [JStr b, JInt 33152, JInt 0, JInt inode]"

text \<open>The documents of the run as texts of one letter.\<close>

definition im_dumps :: "json \<Rightarrow> string" where
  "im_dumps j = (if has_field j ''hostPid'' then ''c'' else if has_field j ''home.webp'' then ''p''
     else if field j ''schemaVersion'' = JInt 99 then ''z'' else ''m'')"

definition im_loads :: "string \<Rightarrow> json res" where
  "im_loads s =
     (if s = [CHR 0x00] then Inr ux_ready else if s = [CHR 0x01] then Inr (sm_identity CHR ''a'')
      else if s = ''b'' then Inr im_base else if s = ''m'' then Inr im_manifest
      else if s = ''p'' then Inr (JObj (zip source_names
        [im_print ''h'' 10, im_print ''t'' 11, im_print ''m'' 12, im_print ''mht'' 13, im_print ''zht'' 14]))
      else if s = ''4'' then Inr (JObj [(''steps'', JList (map JStr (take 4 import_steps)))])
      else if s = ''5'' then Inr (JObj [(''steps'', JList (map JStr import_steps))])
      else if s = ''u'' then Inr (JObj [(''userThemes'', JList (map im_theme import_ids))])
      else Inl (ValueErr s))"

definition im_services :: services where
  "im_services = (table_services [])\<lparr>sv_loads := im_loads, sv_dumps := im_dumps\<rparr>"

definition im_official :: store where
  "im_official = [([''o'', ''official-crimson-horizon'', ''theme.json''], sm_file ''b''),
     ([''o'', ''official-crimson-horizon'', ''background.webp''], sm_file ''h''),
     ([''o'', ''official-sage-breeze'', ''background.webp''], sm_file ''t'')]"

definition im_assets :: store where
  "im_assets =
     (let p = preferences_path [''r'', ''e'']; assets = with_name p ''theme-assets'' in
      [(p, sm_file ''u''), (assets, sm_folder)]
      @ concat (map (\<lambda>i. [(child assets i, sm_folder), (child (child assets i) ''background.webp'', sm_file ''h''),
                          (child (child assets i) ''background-task.webp'', sm_file ''t'')]) import_ids))"

definition im_world :: "string \<Rightarrow> ui_world" where
  "im_world phase =
     (if phase = ''cancel'' then ux_world ((import_receipt [''r'', ''e''], sm_file ''4'') # im_assets)
      else ux_world [(import_receipt [''r'', ''e''], sm_file ''5'')])"

definition im_run :: "string res \<times> runner" where
  "im_run = import_profile im_services sm_loopback im_archive [''o''] [] [''r'', ''c''] ux_fixture im_world (ux_state im_official)"

lemma im_run_ok: "fst im_run = Inr (replicate 32 CHR ''a'')"
  by code_simp


end
