(* ===== verification/Spec2Isabelle.thy ===== *)
theory Spec2Isabelle
  imports MigrationWitnesses CuaWitnesses FixtureModel NativeTask ExportWitness ImportWitness
    MoneyProps SubsetSelection ThemeManifests ThemeRatio ThemeWitness
    HostProps PackagedWitness GateProps LaunchWitness UiWitness
begin

text \<open>
  A verification library for the Python programs of this repository: the tools that migrate
  profiles, build the pinned Cua runtime, drive the acceptance of the packaged desktop
  application, choose and check benchmarks, and make the official themes. The application itself (Go, Rust and TypeScript) is not Python and is not
  modelled; where a script relies on it, it is the environment of the model.

  \<^bold>\<open>Reading the model.\<close> A Python function that can raise is a function to \<open>res\<close>
  (\<open>Inl\<close> an exception of the type \<open>exc\<close>, \<open>Inr\<close> its value); one that also changes files
  or attributes is a \<open>prog\<close>, a function from the state to a result and the next state, so that the
  state a raise leaves behind is there to be reasoned about (theory Prelude). Decoded JSON is the
  datatype \<open>json\<close> of theory Json, with Python's truth, equality and \<open>get\<close>; an integer is
  unbounded as in Python, a JSON number with a fraction is rational. Everything the scripts take from outside
  themselves (the JSON texts, SHA-256, the clock, git and cargo, the operating system's process
  table) is a field of a record of parameters or an argument.

  \<^bold>\<open>Topic migration\<close> (\<open>scripts/preview_topic_migration.py\<close>). Theory Files has the profile
  tree: a map from paths to decoded documents and databases. TopicMigration reads the stable
  profile and matches sessions to topics (\<open>topic_records\<close>, \<open>mapped_topic\<close>, \<open>proposed_folders\<close>);
  MigrationRun has \<open>backup_preview\<close>, \<open>sync_host_catalog\<close>, \<open>apply\<close> and \<open>rollback\<close>. The SQL
  transactions are instances of the locales of CasTx: \<open>cas_update\<close> (a transaction of guarded
  updates is all or nothing, and what it did row by row) and \<open>cas_pair\<close> (a second transaction undoes the
  first). MigrationFacts, MigrationEffects, MigrationProps and MigrationGuards prove that a
  rollback restores what a migration changed, that a dry run and the stable profile stay
  untouched, and what a lost race does; MigrationWitnesses runs them. A topic's title column is
  text, so the test \<open>isinstance(title, str)\<close> holds; \<open>iso_ms\<close> (the ISO
  reader) and the time stamp of the backup folder are parameters.

  \<^bold>\<open>Cua runtime build\<close> (\<open>desktop/cua-runtime/scripts/build.py\<close>). Dirs has a tree of
  directories and byte files, Texts the string operations. CuaBuild follows the script from
  \<open>prepare\<close> and \<open>apply_backports\<close> to \<open>notices\<close> and \<open>main\<close>; a \<open>host\<close> gives the effect of
  an external command on the tree. CuaProps and CuaWitnesses: only reviewed inputs are
  patched and only reviewed outputs installed, the scope of the changes, the notice inventory,
  and the pins tested before anything is built. Paths are without symbolic links, so
  \<open>resolve\<close> only removes \<open>..\<close>; commands run where the script starts them.

  \<^bold>\<open>Acceptance fixtures.\<close> FixtureModel is the deterministic model of
  \<open>desktop/qa/computeruse/provider.py\<close>: a state machine with bounded retries. Polling has the
  locale \<open>deadline_poll\<close> for loops that wait until a deadline, with the observations a parameter;
  NativeTask is the streaming provider of \<open>tools/tauri/native-task-provider.py\<close>, its threads
  interleaved turn by turn, with an invariant over all reachable states.

  \<^bold>\<open>Recorded acceptance steps.\<close> Receipts has files with owners, permissions, times and inodes, and
  the locale \<open>ordered_receipt\<close>: a ledger to which only the next step of an order can be
  added. UiExport and UiThemeImport model \<open>record\<close> of
  \<open>tools/tauri/smoke-native-ui-export.py\<close> and \<open>smoke-native-ui-theme-import.py\<close>;
  ExportWitness and ImportWitness run them. The \<open>smoke\<close> functions of the two scripts are UiRun (what they share),
  ExportLaunch and ImportLaunch, with the loopback provider of \<open>native-document-provider.py\<close> in
  DocumentProvider. A \<open>ui_world\<close> holds what one host shows: the processes of each turn of the wait, and what the
  application and the recorder do to the files until the quit, a function on the store. ExportLaunchProps and
  ImportLaunchProps join the two halves: when a launch passes, whatever was recorded during it is
  exactly the list of its steps; UiWitness has a run of each.

  \<^bold>\<open>Packaged application.\<close> HostLaunch is \<open>tools/tauri/launch-services-host.py\<close>: the
  command and environment of a launch, the identification of the one native process, and the
  exit the kernel reports (a wait status is a 32-bit word). HostProps: no variable outside a fixed
  list of names influences a launch, what a start leaves behind, and exactly when \<open>wait\<close> returns.
  PackagedApp is \<open>smoke-packaged-app.py\<close> with the observations of each turn given; PackagedProps
  shows that the regular expressions read an environment exactly as long as values have no white space,
  which processes a run kills, and what a passed test has verified; PackagedWitness runs it.
  InstalledGates is \<open>verify-installed-d.py\<close>, which runs the acceptance gates on an installed candidate and
  records them; GateProps shows that the evidence on disk says what ran. PreviewLaunch and ProfileLaunch
  are \<open>probe-launch-services-profile.py\<close>: the saved window geometry, the options, the reuse of a
  fixture, and \<open>launch\<close> with its two waiting loops, its exit receipt and its clean-up. A \<open>launch_world\<close>
  holds what the process table, the kernel and the application show; the loops are bounded by the turns
  it gives, because the script's loops are bounded by a clock. LaunchProps shows that a
  completed launch leaves a fixture that a restart accepts, with the same credential identity.

  \<^bold>\<open>Benchmarks.\<close> SubsetSelection is \<open>benchmarks/swebench/select_subset.py\<close>: largest-remainder
  apportionment and evenly spaced picks, with exact rational quotas where the script has floats.
  MoneyTask, MoneyPackages and MoneyProps are the task \<open>migrate-signature-3packages\<close> of \<open>benchmarks/e2e\<close>:
  \<open>fmt_amount\<close>, the modules of the three packages and \<open>check.py\<close>.

  \<^bold>\<open>Official themes\<close> (\<open>scripts/official-theme-art\<close>). ThemePalettes has the palettes and the contrast gate
  over the reals, ThemeContrast the certified bounds that decide the gate for the shipped palettes,
  ThemeManifests the written manifests, ThemeRatio the range of a contrast. ThemeBuild is the build of the images within
  their budgets, ThemeLedger the two documents that record their digests, ThemeWitness a run of both.
  The drawing itself is in the theories named Art. ArtKit is \<open>artkit.py\<close>: colours, the gradient and the shapes, with a picture
  as the layers of marks put on a ground; ArtFigures is \<open>figures.py\<close>; ArtScenes and ArtScenesTwo are
  \<open>scenes.py\<close>, each scene a program of the state monad over the random generator, its draws in the order of
  the code. The generator and the canvas of a rotated image are fields of the record \<open>studio\<close>; \<open>fair\<close> are the
  documented ranges of the first. ArtFacts and ArtType: every mark is well formed. ArtLayout and ArtQuiet: a curve
  stays in every half plane of its control points, and what that gives for the layout contract of the
  themes. ArtProps has the properties of the scenes, ArtBuild carries the drawn scenes through the build and the ledger.

  \<^bold>\<open>Bounds.\<close> Every recursion of the model is over finite data. A loop that waits for a deadline is
  given the number of turns it can make; the theorems about it hold for every number.

  \<^bold>\<open>Not modelled.\<close> Argument parsing beyond the commands it yields; sockets and HTTP framing;
  the pixels of a drawing: rasterising, blurring, rotating and encoding are Pillow's, and the noise of
  \<open>add_grain\<close> (which no scene uses) and of \<open>paper_texture\<close> is numpy's;
  the tests; the scripts of \<open>tools/tauri\<close> that press the windows of the application and compare what it shows; \<open>docs/tauri/evidence\<close>, which keeps copies of the
  scripts of \<open>tools/tauri\<close> beside recorded runs.
\<close>

end
